(* ===== verification/JsPrelude.thy ===== *)
theory JsPrelude
  imports Complex_Main "HOL-Library.Char_ord"
begin

text \<open>
  The JavaScript runtime as far as the TypeScript sources use it: exceptions as values,
  strings as lists of code units, the string methods the code calls
  (\<open>startsWith\<close>, \<open>includes\<close>, \<open>split\<close>, \<open>trim\<close>, \<open>toLowerCase\<close>), and fallible state passing.

  A code unit is a HOL \<open>char\<close> (0 to 255): the sources handle ASCII identifiers, hex
  strings and paths. \<open>number\<close>s that the code uses as integers (block numbers, counts,
  timestamps) are \<open>int\<close>; \<open>bigint\<close>s are \<open>int\<close>.
\<close>

section \<open>Exceptions\<close>

text \<open>
  A thrown \<open>Error\<close>: its class name (\<open>error.name\<close>) and its message. A call that may
  throw returns a \<open>res\<close>; a call that also changes state before it throws returns the
  state it left behind beside the result.
\<close>

datatype js_error = JsError (err_class: string) (err_message: string)

type_synonym 'a res = "js_error + 'a"

definition throw_error :: "string \<Rightarrow> 'a res" where
  "throw_error msg = Inl (JsError ''Error'' msg)"

text \<open>\<open>String(error)\<close>, what a template literal prints.\<close>

definition show_error :: "js_error \<Rightarrow> string" where
  "show_error e =
     (if err_class e = [] then err_message e
      else if err_message e = [] then err_class e
      else err_class e @ '': '' @ err_message e)"

definition res_bind :: "'a res \<Rightarrow> ('a \<Rightarrow> 'b res) \<Rightarrow> 'b res" where
  "res_bind r f = (case r of Inl e \<Rightarrow> Inl e | Inr a \<Rightarrow> f a)"

fun traverse :: "('a \<Rightarrow> 'b res) \<Rightarrow> 'a list \<Rightarrow> 'b list res" where
  "traverse f [] = Inr []"
| "traverse f (x # xs) =
     (case f x of Inl e \<Rightarrow> Inl e
      | Inr y \<Rightarrow> (case traverse f xs of Inl e \<Rightarrow> Inl e | Inr ys \<Rightarrow> Inr (y # ys)))"

type_synonym ('s, 'a) action = "'s \<Rightarrow> 'a res \<times> 's"

definition act_return :: "'a \<Rightarrow> ('s, 'a) action" where
  "act_return a s = (Inr a, s)"

definition act_lift :: "'a res \<Rightarrow> ('s, 'a) action" where
  "act_lift r s = (r, s)"

definition act_bind :: "('s, 'a) action \<Rightarrow> ('a \<Rightarrow> ('s, 'b) action) \<Rightarrow> ('s, 'b) action" where
  "act_bind m f s = (case m s of (Inl e, s') \<Rightarrow> (Inl e, s') | (Inr a, s') \<Rightarrow> f a s')"

named_theorems action_simps \<open>unfolding of the exception and state plumbing\<close>

declare res_bind_def [action_simps] act_return_def [action_simps]
  act_lift_def [action_simps] act_bind_def [action_simps]

lemma res_bind_Inr_iff: "res_bind r f = Inr b \<longleftrightarrow> (\<exists>a. r = Inr a \<and> f a = Inr b)"
  by (cases r) (auto simp: res_bind_def)

lemma res_bind_Inr [simp]: "res_bind (Inr a) f = f a"
  by (simp add: res_bind_def)

lemma res_bind_Inl [simp]: "res_bind (Inl e) f = Inl e"
  by (simp add: res_bind_def)

lemma traverse_Inr_iff: "traverse f xs = Inr ys \<longleftrightarrow> list_all2 (\<lambda>x y. f x = Inr y) xs ys"
proof (induction xs arbitrary: ys)
  case Nil
  show ?case by auto
next
  case (Cons x xs)
  show ?case
  proof (cases "f x")
    case (Inl e)
    then show ?thesis by (auto simp: list_all2_Cons1)
  next
    case (Inr y)
    with Cons show ?thesis
      by (cases "traverse f xs") (auto simp: list_all2_Cons1)
  qed
qed

lemma traverse_length: "traverse f xs = Inr ys \<Longrightarrow> length ys = length xs"
  by (auto simp: traverse_Inr_iff dest: list_all2_lengthD)

lemma traverse_result_of:
  assumes "traverse f xs = Inr ys" "x \<in> set xs"
  shows "\<exists>y \<in> set ys. f x = Inr y"
proof -
  from assms(2) obtain i where "i < length xs" "x = xs ! i" by (auto simp: in_set_conv_nth)
  with assms(1) show ?thesis by (auto simp: traverse_Inr_iff list_all2_conv_all_nth)
qed

lemma traverse_source_of:
  assumes "traverse f xs = Inr ys" "y \<in> set ys"
  shows "\<exists>x \<in> set xs. f x = Inr y"
proof -
  from assms(2) obtain i where "i < length ys" "y = ys ! i" by (auto simp: in_set_conv_nth)
  with assms(1) have "i < length xs" "f (xs ! i) = Inr y"
    by (auto simp: traverse_Inr_iff list_all2_conv_all_nth)
  then show ?thesis using nth_mem by blast
qed

lemma traverse_ok_iff: "(\<exists>ys. traverse f xs = Inr ys) \<longleftrightarrow> (\<forall>x \<in> set xs. \<exists>y. f x = Inr y)"
  by (induction xs) (auto split: sum.splits)

lemma traverse_cong:
  "(\<And>x. x \<in> set xs \<Longrightarrow> f x = g x) \<Longrightarrow> traverse f xs = traverse g xs"
  by (induction xs) (auto split: sum.splits)

lemma traverse_map:
  "(\<And>x. x \<in> set xs \<Longrightarrow> f x = Inr (g x)) \<Longrightarrow> traverse f xs = Inr (map g xs)"
  by (induction xs) auto

lemma traverse_Inl_iff:
  "(\<exists>e. traverse f xs = Inl e) \<longleftrightarrow> (\<exists>x \<in> set xs. \<exists>e. f x = Inl e)"
  by (induction xs) (auto split: sum.splits)

lemma act_bind_lift:
  "act_bind (act_lift r) f s = (case r of Inl e \<Rightarrow> (Inl e, s) | Inr a \<Rightarrow> f a s)"
  by (simp add: act_bind_def act_lift_def split: sum.split)

text \<open>An action keeps a property of the state whether it returns or throws.\<close>

definition preserves :: "('s \<Rightarrow> bool) \<Rightarrow> ('s, 'a) action \<Rightarrow> bool" where
  "preserves P m \<longleftrightarrow> (\<forall>s. P s \<longrightarrow> P (snd (m s)))"

lemma preservesI: "(\<And>s r s'. P s \<Longrightarrow> m s = (r, s') \<Longrightarrow> P s') \<Longrightarrow> preserves P m"
  unfolding preserves_def by (metis prod.collapse)

lemma preservesD: "preserves P m \<Longrightarrow> P s \<Longrightarrow> P (snd (m s))"
  by (simp add: preserves_def)

lemma preserves_return [intro]: "preserves P (act_return a)"
  by (simp add: preserves_def act_return_def)

lemma preserves_lift [intro]: "preserves P (act_lift r)"
  by (simp add: preserves_def act_lift_def)

lemma preserves_bind [intro]:
  assumes "preserves P m" "\<And>a. preserves P (f a)"
  shows "preserves P (act_bind m f)"
proof (rule preservesI)
  fix s r s'
  assume s: "P s" and run: "act_bind m f s = (r, s')"
  obtain q t where m: "m s = (q, t)" by (cases "m s")
  with preservesD [OF assms(1) s] have "P t" by simp
  show "P s'"
  proof (cases q)
    case (Inl e)
    with run m \<open>P t\<close> show ?thesis by (simp add: act_bind_def)
  next
    case (Inr a)
    with run m have "s' = snd (f a t)" by (simp add: act_bind_def)
    with preservesD [OF assms(2) \<open>P t\<close>] show ?thesis by simp
  qed
qed

section \<open>Code units and strings\<close>

definition code_unit :: "char \<Rightarrow> nat" where
  "code_unit c = of_char c"

definition is_ws :: "char \<Rightarrow> bool" where
  "is_ws c \<longleftrightarrow> code_unit c \<in> {9, 10, 11, 12, 13, 32, 160}"

definition is_digit :: "char \<Rightarrow> bool" where
  "is_digit c \<longleftrightarrow> 48 \<le> code_unit c \<and> code_unit c \<le> 57"

definition is_upper :: "char \<Rightarrow> bool" where
  "is_upper c \<longleftrightarrow> 65 \<le> code_unit c \<and> code_unit c \<le> 90"

definition is_lower :: "char \<Rightarrow> bool" where
  "is_lower c \<longleftrightarrow> 97 \<le> code_unit c \<and> code_unit c \<le> 122"

definition is_hex_lower :: "char \<Rightarrow> bool" where
  "is_hex_lower c \<longleftrightarrow> is_digit c \<or> (97 \<le> code_unit c \<and> code_unit c \<le> 102)"

definition is_hex :: "char \<Rightarrow> bool" where
  "is_hex c \<longleftrightarrow> is_hex_lower c \<or> (65 \<le> code_unit c \<and> code_unit c \<le> 70)"

definition is_word_char :: "char \<Rightarrow> bool" where
  "is_word_char c \<longleftrightarrow> is_digit c \<or> is_upper c \<or> is_lower c \<or> c = CHR ''_''"

definition lower_char :: "char \<Rightarrow> char" where
  "lower_char c = (if is_upper c then char_of (code_unit c + 32) else c)"

definition to_lower :: "string \<Rightarrow> string" where
  "to_lower s = map lower_char s"

lemma code_unit_eq_iff: "code_unit c = code_unit d \<longleftrightarrow> c = d"
  by (simp add: code_unit_def)

lemma code_unit_less: "code_unit c < 256"
  by (simp add: code_unit_def)

lemma lower_char_idem [simp]: "lower_char (lower_char c) = lower_char c"
proof (cases "is_upper c")
  case True
  then have "code_unit (char_of (code_unit c + 32)) = code_unit c + 32"
    by (simp add: code_unit_def is_upper_def of_char_of)
  with True have "\<not> is_upper (char_of (code_unit c + 32))"
    by (simp add: is_upper_def)
  with True show ?thesis by (simp add: lower_char_def)
qed (simp add: lower_char_def)

lemma to_lower_idem [simp]: "to_lower (to_lower s) = to_lower s"
  by (simp add: to_lower_def)

lemma length_to_lower [simp]: "length (to_lower s) = length s"
  by (simp add: to_lower_def)

lemma is_hex_not_ws: "is_hex c \<Longrightarrow> \<not> is_ws c"
  by (auto simp: is_hex_def is_hex_lower_def is_digit_def is_ws_def)

definition starts_with :: "string \<Rightarrow> string \<Rightarrow> bool" where
  "starts_with p s \<longleftrightarrow> take (length p) s = p"

definition ends_with :: "string \<Rightarrow> string \<Rightarrow> bool" where
  "ends_with p s \<longleftrightarrow> length p \<le> length s \<and> drop (length s - length p) s = p"

fun includes_str :: "string \<Rightarrow> string \<Rightarrow> bool" where
  "includes_str p [] = (p = [])"
| "includes_str p (c # s) = (starts_with p (c # s) \<or> includes_str p s)"

definition trim_start :: "string \<Rightarrow> string" where
  "trim_start s = dropWhile is_ws s"

definition trim :: "string \<Rightarrow> string" where
  "trim s = rev (dropWhile is_ws (rev (dropWhile is_ws s)))"

lemma starts_with_iff: "starts_with p s \<longleftrightarrow> (\<exists>t. s = p @ t)"
  unfolding starts_with_def by (metis append_eq_conv_conj append_take_drop_id)

lemma includes_str_iff: "includes_str p s \<longleftrightarrow> (\<exists>a b. s = a @ p @ b)"
proof (induction s)
  case Nil
  show ?case by simp
next
  case (Cons c s)
  have "includes_str p (c # s) \<longleftrightarrow> (\<exists>t. c # s = p @ t) \<or> (\<exists>a b. s = a @ p @ b)"
    using Cons by (simp add: starts_with_iff)
  also have "\<dots> \<longleftrightarrow> (\<exists>a b. c # s = a @ p @ b)"
    by (metis append_Cons append_Nil list.exhaust_sel list.sel(3))
  finally show ?case .
qed

text \<open>\<open>s.split(c)\<close> on a single code unit and \<open>xs.join(c)\<close>.\<close>

fun split_on :: "char \<Rightarrow> string \<Rightarrow> string list" where
  "split_on c [] = [[]]"
| "split_on c (x # s) =
     (if x = c then [] # split_on c s
      else (case split_on c s of [] \<Rightarrow> [[x]] | w # ws \<Rightarrow> (x # w) # ws))"

fun join_with :: "string \<Rightarrow> string list \<Rightarrow> string" where
  "join_with sep [] = []"
| "join_with sep [x] = x"
| "join_with sep (x # y # xs) = x @ sep @ join_with sep (y # xs)"

lemma split_on_nonempty [simp]: "split_on c s \<noteq> []"
  by (cases s) (auto split: list.splits)

lemma join_split_on: "join_with [c] (split_on c s) = s"
proof (induction s)
  case Nil
  show ?case by simp
next
  case (Cons x s)
  obtain w ws where ws: "split_on c s = w # ws"
    by (metis list.exhaust split_on_nonempty)
  show ?case
    using Cons ws by (cases ws) auto
qed

lemma split_on_no_sep: "w \<in> set (split_on c s) \<Longrightarrow> c \<notin> set w"
proof (induction s arbitrary: w)
  case Nil
  then show ?case by simp
next
  case (Cons x s)
  obtain v vs where vs: "split_on c s = v # vs"
    by (metis list.exhaust split_on_nonempty)
  with Cons show ?case by (auto split: if_splits)
qed

end
