(* ===== verification/JsNumber.thy ===== *)
theory JsNumber
  imports JsPrelude
begin

text \<open>
  Numerals: \<open>String(n)\<close>, \<open>BigInt.prototype.toString(16)\<close>, \<open>padStart\<close>, \<open>parseInt(s, 10)\<close>,
  \<open>BigInt(s)\<close> and \<open>Number(s)\<close>, as ECMA-262 defines them on code units below 256.
  A \<open>number\<close> is NaN, an infinity or an exact rational: rounding to a double is not modelled.
\<close>

section \<open>Printing and reading in a radix\<close>

definition digit_char :: "nat \<Rightarrow> char" where
  "digit_char d = (if d < 10 then char_of (48 + d) else char_of (87 + d))"

definition digit_val :: "char \<Rightarrow> nat" where
  "digit_val c = (if is_digit c then code_unit c - 48
     else if 97 \<le> code_unit c then code_unit c - 87 else code_unit c - 55)"

fun show_radix :: "nat \<Rightarrow> nat \<Rightarrow> string" where
  "show_radix b n =
     (if b < 2 \<or> n < b then [digit_char n] else show_radix b (n div b) @ [digit_char (n mod b)])"

declare show_radix.simps [simp del]

definition radix_val :: "nat \<Rightarrow> string \<Rightarrow> nat" where
  "radix_val b s = foldl (\<lambda>acc c. acc * b + digit_val c) 0 s"

definition show_nat :: "nat \<Rightarrow> string" where
  "show_nat n = show_radix 10 n"

definition show_int :: "int \<Rightarrow> string" where
  "show_int i = (if i < 0 then ''-'' @ show_nat (nat (- i)) else show_nat (nat i))"

definition show_hex :: "nat \<Rightarrow> string" where
  "show_hex n = show_radix 16 n"

definition pad_start :: "nat \<Rightarrow> char \<Rightarrow> string \<Rightarrow> string" where
  "pad_start n c s = replicate (n - length s) c @ s"

lemma code_unit_digit_char:
  "d < 16 \<Longrightarrow> code_unit (digit_char d) = (if d < 10 then 48 + d else 87 + d)"
  by (simp add: code_unit_def digit_char_def of_char_of)

lemma digit_val_char [simp]: "d < 16 \<Longrightarrow> digit_val (digit_char d) = d"
  by (auto simp: digit_val_def is_digit_def code_unit_digit_char)

lemma is_hex_lower_digit_char [simp]: "d < 16 \<Longrightarrow> is_hex_lower (digit_char d)"
  by (auto simp: is_hex_lower_def is_digit_def code_unit_digit_char)

lemma is_digit_digit_char [simp]: "d < 10 \<Longrightarrow> is_digit (digit_char d)"
  by (auto simp: is_digit_def code_unit_digit_char)

lemma radix_val_snoc: "radix_val b (s @ [c]) = radix_val b s * b + digit_val c"
  by (simp add: radix_val_def)

lemma radix_val_Nil [simp]: "radix_val b [] = 0"
  by (simp add: radix_val_def)

lemma radix_val_show:
  assumes "2 \<le> b" "b \<le> 16"
  shows "radix_val b (show_radix b n) = n"
proof (induction n rule: less_induct)
  case (less n)
  show ?case
  proof (cases "n < b")
    case True
    then have "show_radix b n = [] @ [digit_char n]" by (simp add: show_radix.simps)
    with True assms show ?thesis by (simp only: radix_val_snoc) simp
  next
    case False
    with assms have "n div b < n" by simp
    from less [OF this] have "radix_val b (show_radix b (n div b)) = n div b" .
    moreover have "n mod b < 16"
      using assms by (meson less_le_trans mod_less_divisor order_less_le_trans pos2)
    moreover have "show_radix b n = show_radix b (n div b) @ [digit_char (n mod b)]"
      using False assms by (subst show_radix.simps) simp
    ultimately show ?thesis by (simp add: radix_val_snoc)
  qed
qed

lemma show_radix_digits:
  assumes "2 \<le> b" "b \<le> 16" "c \<in> set (show_radix b n)"
  shows "\<exists>d < b. c = digit_char d"
  using assms(3)
proof (induction n rule: less_induct)
  case (less n)
  show ?case
  proof (cases "n < b")
    case True
    with less.prems show ?thesis by (auto simp: show_radix.simps)
  next
    case False
    with assms have "n div b < n" by simp
    moreover from False assms less.prems
    have "c \<in> set (show_radix b (n div b)) \<or> c = digit_char (n mod b)"
      by (subst (asm) show_radix.simps) auto
    moreover have "n mod b < b" using assms by simp
    ultimately show ?thesis using less.IH by blast
  qed
qed

lemma show_radix_nonempty [simp]: "show_radix b n \<noteq> []"
  by (subst show_radix.simps) simp

lemma radix_val_show_nat [simp]: "radix_val 10 (show_nat n) = n"
  by (simp add: show_nat_def radix_val_show)

lemma radix_val_show_hex [simp]: "radix_val 16 (show_hex n) = n"
  by (simp add: show_hex_def radix_val_show)

lemma show_nat_inj [simp]: "show_nat m = show_nat n \<longleftrightarrow> m = n"
  using radix_val_show_nat by metis

lemma show_nat_digits: "c \<in> set (show_nat n) \<Longrightarrow> is_digit c"
  using show_radix_digits [of 10 c n] by (auto simp: show_nat_def)

lemma show_nat_nonempty [simp]: "show_nat n \<noteq> []"
  by (simp add: show_nat_def)

lemma show_hex_digits: "c \<in> set (show_hex n) \<Longrightarrow> is_hex_lower c"
  using show_radix_digits [of 16 c n] by (auto simp: show_hex_def)

lemma radix_val_replicate_zero:
  "radix_val b (replicate k (CHR ''0'') @ s) = radix_val b s"
proof (induction s rule: rev_induct)
  case Nil
  have "digit_val (CHR ''0'') = 0" by (simp add: digit_val_def is_digit_def code_unit_def)
  then have "radix_val b (replicate k (CHR ''0'')) = 0"
    by (induction k) (simp_all add: radix_val_snoc flip: replicate_append_same)
  then show ?case by simp
next
  case (snoc c s)
  then show ?case by (simp add: radix_val_snoc flip: append_assoc)
qed

lemma show_radix_length_bound:
  assumes "2 \<le> b" "n < b ^ k" "0 < k"
  shows "length (show_radix b n) \<le> k"
  using assms(2,3)
proof (induction k arbitrary: n)
  case 0
  then show ?case by simp
next
  case (Suc k)
  show ?case
  proof (cases "n < b")
    case True
    then show ?thesis by (simp add: show_radix.simps)
  next
    case False
    with Suc.prems assms(1) have "0 < k" by (cases k) auto
    moreover have "n div b < b ^ k"
      using Suc.prems assms(1) by (simp add: div_less_iff_less_mult mult.commute)
    ultimately have "length (show_radix b (n div b)) \<le> k"
      by (intro Suc.IH)
    with False show ?thesis by (subst show_radix.simps) simp
  qed
qed

section \<open>Reading numbers\<close>

text \<open>\<open>parseInt(s, 10)\<close>: the value of the longest numeric prefix, \<open>None\<close> for NaN.\<close>

definition split_sign :: "string \<Rightarrow> int \<times> string" where
  "split_sign s = (case s of c # r \<Rightarrow>
       if c = CHR ''-'' then (-1, r) else if c = CHR ''+'' then (1, r) else (1, s)
     | [] \<Rightarrow> (1, s))"

definition parse_int10 :: "string \<Rightarrow> int option" where
  "parse_int10 s = (let (sg, r) = split_sign (trim_start s); ds = takeWhile is_digit r
     in if ds = [] then None else Some (sg * int (radix_val 10 ds)))"

text \<open>\<open>BigInt(s)\<close> on a string: \<open>None\<close> stands for the \<open>SyntaxError\<close>.\<close>

definition parse_prefixed :: "string \<Rightarrow> nat option" where
  "parse_prefixed s = (case s of z # x # r \<Rightarrow>
       if z \<noteq> CHR ''0'' \<or> r = [] then None
       else if x \<in> {CHR ''x'', CHR ''X''} \<and> list_all is_hex r then Some (radix_val 16 r)
       else if x \<in> {CHR ''o'', CHR ''O''} \<and> list_all (\<lambda>c. is_digit c \<and> digit_val c < 8) r
         then Some (radix_val 8 r)
       else if x \<in> {CHR ''b'', CHR ''B''} \<and> list_all (\<lambda>c. is_digit c \<and> digit_val c < 2) r
         then Some (radix_val 2 r)
       else None
     | _ \<Rightarrow> None)"

definition parse_bigint :: "string \<Rightarrow> int option" where
  "parse_bigint s = (let t = trim s in
     if t = [] then Some 0
     else case parse_prefixed t of Some n \<Rightarrow> Some (int n)
     | None \<Rightarrow> (let (sg, ds) = split_sign t in
         if ds \<noteq> [] \<and> list_all is_digit ds then Some (sg * int (radix_val 10 ds)) else None))"

datatype js_num = NaN | PosInfinity | NegInfinity | Fin rat

definition pow10 :: "int \<Rightarrow> rat" where
  "pow10 e = (if 0 \<le> e then 10 ^ nat e else 1 / 10 ^ nat (- e))"

definition parse_exponent :: "string \<Rightarrow> int option" where
  "parse_exponent s = (case s of [] \<Rightarrow> Some 0
     | c # r \<Rightarrow> if c \<in> {CHR ''e'', CHR ''E''}
         then (let (sg, ds) = split_sign r in
           if ds \<noteq> [] \<and> list_all is_digit ds then Some (sg * int (radix_val 10 ds)) else None)
         else None)"

definition parse_decimal :: "string \<Rightarrow> rat option" where
  "parse_decimal s = (let ip = takeWhile is_digit s; r1 = dropWhile is_digit s;
      (fp, r2) = (case r1 of c # r \<Rightarrow> if c = CHR ''.''
          then (takeWhile is_digit r, dropWhile is_digit r) else ([], r1) | [] \<Rightarrow> ([], r1))
    in if ip = [] \<and> fp = [] then None
       else map_option (\<lambda>e. of_nat (radix_val 10 (ip @ fp)) * pow10 (e - int (length fp)))
              (parse_exponent r2))"

definition js_Number :: "string \<Rightarrow> js_num" where
  "js_Number s = (let t = trim s in
     if t = [] then Fin 0
     else case parse_prefixed t of Some n \<Rightarrow> Fin (of_nat n)
     | None \<Rightarrow> (let (sg, r) = split_sign t in
         if r = ''Infinity'' then (if sg = 1 then PosInfinity else NegInfinity)
         else case parse_decimal r of None \<Rightarrow> NaN | Some q \<Rightarrow> Fin (of_int sg * q)))"

lemma prefix_letters_no_digit:
  "\<not> is_digit (CHR ''x'')" "\<not> is_digit (CHR ''X'')" "\<not> is_digit (CHR ''o'')"
  "\<not> is_digit (CHR ''O'')" "\<not> is_digit (CHR ''b'')" "\<not> is_digit (CHR ''B'')"
  "\<not> is_digit (CHR ''-'')" "\<not> is_digit (CHR ''+'')" "\<not> is_digit (CHR '':'')"
  by (simp_all add: is_digit_def code_unit_def)

lemma parse_prefixed_digits:
  assumes "list_all is_digit s"
  shows "parse_prefixed s = None"
proof (cases s rule: list.exhaust)
  case Nil
  then show ?thesis by (simp add: parse_prefixed_def)
next
  case (Cons z r)
  show ?thesis
  proof (cases r)
    case Nil
    with Cons show ?thesis by (simp add: parse_prefixed_def)
  next
    case (Cons x r')
    with \<open>s = z # r\<close> assms have "is_digit x" by simp
    then have "x \<notin> {CHR ''x'', CHR ''X''}" "x \<notin> {CHR ''o'', CHR ''O''}" "x \<notin> {CHR ''b'', CHR ''B''}"
      using prefix_letters_no_digit by blast+
    with \<open>s = z # r\<close> Cons show ?thesis by (simp add: parse_prefixed_def)
  qed
qed

lemma dropWhile_not_ws: "list_all (\<lambda>c. \<not> is_ws c) s \<Longrightarrow> dropWhile is_ws s = s"
  by (cases s) auto

lemma trim_not_ws: "list_all (\<lambda>c. \<not> is_ws c) s \<Longrightarrow> trim s = s"
  by (simp add: trim_def dropWhile_not_ws list_all_iff)

lemma is_digit_not_ws: "is_digit c \<Longrightarrow> \<not> is_ws c"
  by (auto simp: is_digit_def is_ws_def)

lemma split_sign_digits: "list_all is_digit s \<Longrightarrow> split_sign s = (1, s)"
  using prefix_letters_no_digit by (cases s) (auto simp: split_sign_def)

lemma show_nat_all_digits: "list_all is_digit (show_nat n)"
  by (auto simp: list_all_iff dest: show_nat_digits)

text \<open>\<open>BigInt(String(n))\<close> gives \<open>n\<close> back, and so does \<open>parseInt\<close>.\<close>

lemma parse_bigint_show_nat: "parse_bigint (show_nat n) = Some (int n)"
proof -
  have "trim (show_nat n) = show_nat n"
    by (rule trim_not_ws)
      (use show_nat_all_digits [of n] is_digit_not_ws in \<open>auto simp: list_all_iff\<close>)
  then show ?thesis
    by (simp add: parse_bigint_def parse_prefixed_digits split_sign_digits show_nat_all_digits)
qed

lemma takeWhile_all: "list_all P s \<Longrightarrow> takeWhile P s = s"
  by (simp add: list_all_iff)

lemma parse_int10_show_nat: "parse_int10 (show_nat n) = Some (int n)"
proof -
  have "trim_start (show_nat n) = show_nat n"
    unfolding trim_start_def
    by (rule dropWhile_not_ws)
      (use show_nat_all_digits [of n] is_digit_not_ws in \<open>auto simp: list_all_iff\<close>)
  then show ?thesis
    by (simp add: parse_int10_def split_sign_digits show_nat_all_digits takeWhile_all)
qed

end
