(* ===== verification/JsCollections.thy ===== *)
theory JsCollections
  imports JsNumber "HOL-Library.Multiset"
begin

text \<open>
  The collections of the JavaScript standard library that the sources use: the stable
  \<open>Array.prototype.sort\<close> (with a comparator and with the default code-unit order),
  \<open>Map\<close> and object property lists in insertion order, "first one wins" deduplication, and
  JSON values.
\<close>

section \<open>Stable sorting\<close>

fun insert_by :: "('a \<Rightarrow> 'a \<Rightarrow> bool) \<Rightarrow> 'a \<Rightarrow> 'a list \<Rightarrow> 'a list" where
  "insert_by le x [] = [x]"
| "insert_by le x (y # ys) = (if le x y then x # y # ys else y # insert_by le x ys)"

definition sort_by :: "('a \<Rightarrow> 'a \<Rightarrow> bool) \<Rightarrow> 'a list \<Rightarrow> 'a list" where
  "sort_by le xs = foldr (insert_by le) xs []"

definition total_preorder :: "('a \<Rightarrow> 'a \<Rightarrow> bool) \<Rightarrow> bool" where
  "total_preorder le \<longleftrightarrow> (\<forall>x y. le x y \<or> le y x) \<and> (\<forall>x y z. le x y \<longrightarrow> le y z \<longrightarrow> le x z)"

lemma mset_insert_by [simp]: "mset (insert_by le x ys) = add_mset x (mset ys)"
  by (induction ys) auto

lemma mset_sort_by [simp]: "mset (sort_by le xs) = mset xs"
  by (induction xs) (auto simp: sort_by_def)

lemma set_sort_by [simp]: "set (sort_by le xs) = set xs"
  by (metis mset_sort_by set_mset_mset)

lemma length_sort_by [simp]: "length (sort_by le xs) = length xs"
  by (metis mset_sort_by size_mset)

lemma distinct_sort_by [simp]: "distinct (sort_by le xs) = distinct xs"
  by (rule mset_eq_imp_distinct_iff) simp

lemma sort_by_Nil [simp]: "sort_by le [] = []"
  by (simp add: sort_by_def)

lemma sort_by_Cons: "sort_by le (x # xs) = insert_by le x (sort_by le xs)"
  by (simp add: sort_by_def)

lemma set_insert_by [simp]: "set (insert_by le x ys) = insert x (set ys)"
  by (induction ys) auto

lemma sorted_insert_by:
  assumes "total_preorder le" "sorted_wrt le ys"
  shows "sorted_wrt le (insert_by le x ys)"
  using assms(2)
proof (induction ys)
  case Nil
  show ?case by simp
next
  case (Cons y ys)
  from assms(1) have tot: "le x y \<or> le y x" and
    trans: "\<And>a b c. le a b \<Longrightarrow> le b c \<Longrightarrow> le a c"
    by (auto simp: total_preorder_def)
  with Cons show ?case by (auto intro: trans)
qed

lemma sorted_sort_by: "total_preorder le \<Longrightarrow> sorted_wrt le (sort_by le xs)"
  by (induction xs) (auto simp: sort_by_Cons sorted_insert_by)

lemma sort_by_sorted: "sorted_wrt le xs \<Longrightarrow> sort_by le xs = xs"
proof (induction xs)
  case (Cons x xs)
  then show ?case by (cases xs) (auto simp: sort_by_Cons)
qed simp

lemma sort_by_idem: "total_preorder le \<Longrightarrow> sort_by le (sort_by le xs) = sort_by le xs"
  by (simp add: sort_by_sorted sorted_sort_by)

text \<open>Where the order is antisymmetric on the elements, the sorted list depends on the
  multiset alone, whatever the input order.\<close>

lemma sorted_wrt_unique:
  assumes "sorted_wrt le xs" "sorted_wrt le ys" "mset xs = mset ys"
    and "\<And>x y. x \<in> set xs \<Longrightarrow> y \<in> set xs \<Longrightarrow> le x y \<Longrightarrow> le y x \<Longrightarrow> x = y"
  shows "xs = ys"
  using assms
proof (induction xs arbitrary: ys)
  case Nil
  then show ?case by simp
next
  case (Cons x xs)
  then obtain y ys' where ys: "ys = y # ys'" by (cases ys) auto
  have sets: "set (x # xs) = set ys" using Cons.prems(3) by (metis set_mset_mset)
  have "x = y"
  proof (rule ccontr)
    assume neq: "x \<noteq> y"
    with sets ys have "y \<in> set xs" "x \<in> set ys'" by auto
    with Cons.prems(1,2) ys have "le x y" "le y x" by auto
    with Cons.prems(4) \<open>y \<in> set xs\<close> neq show False by auto
  qed
  with Cons ys show ?case by auto
qed

lemma sort_by_mset_cong:
  assumes "total_preorder le" "mset xs = mset ys"
    and "\<And>x y. x \<in> set xs \<Longrightarrow> y \<in> set xs \<Longrightarrow> le x y \<Longrightarrow> le y x \<Longrightarrow> x = y"
  shows "sort_by le xs = sort_by le ys"
  by (rule sorted_wrt_unique [of le]) (use assms in \<open>auto simp: sorted_sort_by\<close>)

text \<open>The default comparator: lexicographic order of code units.\<close>

fun str_le :: "string \<Rightarrow> string \<Rightarrow> bool" where
  "str_le [] t = True"
| "str_le (c # s) [] = False"
| "str_le (c # s) (d # t) = (code_unit c < code_unit d \<or> (c = d \<and> str_le s t))"

lemma str_le_refl [simp]: "str_le s s"
  by (induction s) auto

lemma str_le_total: "str_le s t \<or> str_le t s"
  by (induction s t rule: str_le.induct)
     (auto simp: code_unit_eq_iff [symmetric] less_le_not_le)

lemma str_le_Nil_right [simp]: "str_le s [] \<longleftrightarrow> s = []"
  by (cases s) auto

lemma str_le_antisym: "str_le s t \<Longrightarrow> str_le t s \<Longrightarrow> s = t"
  by (induction s t rule: str_le.induct) auto

lemma str_le_trans: "str_le s t \<Longrightarrow> str_le t u \<Longrightarrow> str_le s u"
proof (induction s t arbitrary: u rule: str_le.induct)
  case (3 c s d t)
  then show ?case by (cases u) auto
qed auto

lemma str_le_total_preorder [simp]: "total_preorder str_le"
  unfolding total_preorder_def using str_le_total str_le_trans by blast

lemma key_total_preorder: "total_preorder le \<Longrightarrow> total_preorder (\<lambda>x y. le (f x) (f y))"
  unfolding total_preorder_def by blast

definition sort_strings :: "string list \<Rightarrow> string list" where
  "sort_strings xs = sort_by str_le xs"

lemma sort_strings_perm: "mset xs = mset ys \<Longrightarrow> sort_strings xs = sort_strings ys"
  unfolding sort_strings_def by (rule sort_by_mset_cong) (auto intro: str_le_antisym)

lemma set_sort_strings [simp]: "set (sort_strings xs) = set xs"
  by (simp add: sort_strings_def)

lemma distinct_sort_strings [simp]: "distinct (sort_strings xs) = distinct xs"
  by (simp add: sort_strings_def)

section \<open>Maps in insertion order\<close>

text \<open>
  A \<open>Map\<close> or an object: its entries in insertion order, at most one per key. \<open>kv_set\<close> is
  \<open>m.set(k, v)\<close> (and \<open>m[k] = v\<close>): an existing key keeps its position.
\<close>

fun kv_set :: "'k \<Rightarrow> 'v \<Rightarrow> ('k \<times> 'v) list \<Rightarrow> ('k \<times> 'v) list" where
  "kv_set k v [] = [(k, v)]"
| "kv_set k v ((k', v') # m) = (if k' = k then (k, v) # m else (k', v') # kv_set k v m)"

definition kv_has :: "'k \<Rightarrow> ('k \<times> 'v) list \<Rightarrow> bool" where
  "kv_has k m \<longleftrightarrow> k \<in> fst ` set m"

lemma map_of_kv_set [simp]: "map_of (kv_set k v m) = (map_of m)(k \<mapsto> v)"
  by (induction k v m rule: kv_set.induct) (auto simp: fun_upd_twist)

lemma keys_kv_set: "fst ` set (kv_set k v m) = insert k (fst ` set m)"
  by (induction k v m rule: kv_set.induct) auto

lemma distinct_keys_kv_set:
  "distinct (map fst m) \<Longrightarrow> distinct (map fst (kv_set k v m))"
proof (induction k v m rule: kv_set.induct)
  case (2 k v k' v' m)
  have "set (map fst (kv_set k v m)) = insert k (set (map fst m))"
    using keys_kv_set [of k v m] by simp
  with 2 show ?case by auto
qed simp

lemma kv_has_iff: "kv_has k m \<longleftrightarrow> map_of m k \<noteq> None"
  by (simp add: kv_has_def map_of_eq_None_iff)

text \<open>\<open>new Map(entries)\<close>: later entries overwrite earlier ones in place.\<close>

definition kv_of_list :: "('k \<times> 'v) list \<Rightarrow> ('k \<times> 'v) list" where
  "kv_of_list xs = foldl (\<lambda>m (k, v). kv_set k v m) [] xs"

lemma foldl_kv_set_map_of:
  "map_of (foldl (\<lambda>m (k, v). kv_set k v m) m xs) = map_of m ++ map_of (rev xs)"
  by (induction xs arbitrary: m) auto

lemma map_of_kv_of_list: "map_of (kv_of_list xs) = map_of (rev xs)"
  by (simp add: kv_of_list_def foldl_kv_set_map_of)

lemma foldl_kv_set_distinct:
  "distinct (map fst m) \<Longrightarrow> distinct (map fst (foldl (\<lambda>m (k, v). kv_set k v m) m xs))"
  by (induction xs arbitrary: m) (auto simp: distinct_keys_kv_set)

lemma distinct_kv_of_list: "distinct (map fst (kv_of_list xs))"
  by (simp add: kv_of_list_def foldl_kv_set_distinct)

section \<open>First one wins\<close>

fun dedupe_on :: "('a \<Rightarrow> 'k) \<Rightarrow> 'k set \<Rightarrow> 'a list \<Rightarrow> 'a list" where
  "dedupe_on f seen [] = []"
| "dedupe_on f seen (x # xs) =
     (if f x \<in> seen then dedupe_on f seen xs else x # dedupe_on f (insert (f x) seen) xs)"

lemma dedupe_on_keys: "f ` set (dedupe_on f seen xs) = f ` set xs - seen"
  by (induction xs arbitrary: seen) auto

lemma dedupe_on_subset: "set (dedupe_on f seen xs) \<subseteq> set xs"
  by (induction xs arbitrary: seen) auto

lemma dedupe_on_distinct: "distinct (map f (dedupe_on f seen xs))"
proof (induction xs arbitrary: seen)
  case (Cons x xs)
  have "f x \<notin> f ` set (dedupe_on f (insert (f x) seen) xs)"
    by (simp add: dedupe_on_keys)
  with Cons show ?case by simp
qed simp

lemma dedupe_on_id:
  "distinct (map f xs) \<Longrightarrow> f ` set xs \<inter> seen = {} \<Longrightarrow> dedupe_on f seen xs = xs"
  by (induction xs arbitrary: seen) auto

lemma dedupe_on_first:
  assumes "k \<in> f ` set xs" "k \<notin> seen"
  shows "find (\<lambda>x. f x = k) (dedupe_on f seen xs) = find (\<lambda>x. f x = k) xs"
  using assms by (induction xs arbitrary: seen) auto

section \<open>JSON values\<close>

datatype json = JNull | JUndefined | JBool bool | JNum int | JStr string
  | JArr "json list" | JObj "(string \<times> json) list"

definition json_get :: "string \<Rightarrow> json \<Rightarrow> json" where
  "json_get k j = (case j of JObj kvs \<Rightarrow> (case map_of kvs k of None \<Rightarrow> JUndefined | Some v \<Rightarrow> v)
     | _ \<Rightarrow> JUndefined)"

text \<open>JavaScript truthiness, for \<open>||\<close>, \<open>!\<close> and conditions.\<close>

definition truthy_str :: "string option \<Rightarrow> bool" where
  "truthy_str s = (case s of None \<Rightarrow> False | Some t \<Rightarrow> t \<noteq> [])"

definition or_str :: "string option \<Rightarrow> string \<Rightarrow> string" where
  "or_str s d = (case s of None \<Rightarrow> d | Some t \<Rightarrow> if t = [] then d else t)"

lemma truthy_str_iff: "truthy_str s \<longleftrightarrow> (\<exists>t. s = Some t \<and> t \<noteq> [])"
  by (cases s) (auto simp: truthy_str_def)

end
