(* ===== verification/FilePaths.thy ===== *)
theory FilePaths
  imports JsCollections
begin

text \<open>
  POSIX paths and directory trees of Node. An absolute normalised path is the list of its segments;
  \<open>path_resolve\<close> and \<open>path_normalize\<close> are \<open>path.resolve\<close> and \<open>path.normalize\<close>, \<open>relative_path\<close> is
  \<open>path.relative\<close>. A directory lists its entries in the order of \<open>readdir\<close>; a file has its content, and
  whatever is neither (a symbolic link) is \<open>FsOther\<close>.
\<close>

section \<open>Paths\<close>

text \<open>\<open>path.normalize\<close> of a relative path and \<open>path.resolve\<close> of a path below a directory, on segments.\<close>

definition normalize_step :: "string list \<Rightarrow> string \<Rightarrow> string list" where
  "normalize_step acc seg =
     (if seg = [] \<or> seg = ''.'' then acc
      else if seg = ''..'' \<and> acc \<noteq> [] \<and> last acc \<noteq> ''..'' then butlast acc
      else acc @ [seg])"

definition path_normalize :: "string list \<Rightarrow> string list" where
  "path_normalize segs = foldl normalize_step [] segs"

definition resolve_step :: "string list \<Rightarrow> string \<Rightarrow> string list" where
  "resolve_step acc seg =
     (if seg = [] \<or> seg = ''.'' then acc else if seg = ''..'' then butlast acc else acc @ [seg])"

definition path_resolve :: "string list \<Rightarrow> string list \<Rightarrow> string list" where
  "path_resolve dir segs = foldl resolve_step dir segs"

fun relative_path :: "string list \<Rightarrow> string list \<Rightarrow> string list" where
  "relative_path [] goal = goal"
| "relative_path base [] = replicate (length base) ''..''"
| "relative_path (x # base) (y # goal) =
     (if x = y then relative_path base goal else replicate (Suc (length base)) ''..'' @ y # goal)"

text \<open>\<open>!rel.startsWith("..") && !isAbsolute(rel)\<close>.\<close>

definition confined :: "string list \<Rightarrow> string list \<Rightarrow> bool" where
  "confined base goal = (case relative_path base goal of [] \<Rightarrow> True | seg # segs \<Rightarrow> \<not> starts_with ''..'' seg)"

lemma normalize_plain:
  "''..'' \<notin> set segs \<Longrightarrow> foldl normalize_step acc segs = acc @ filter (\<lambda>seg. seg \<noteq> [] \<and> seg \<noteq> ''.'') segs"
  by (induction segs arbitrary: acc) (auto simp: normalize_step_def)

lemma resolve_plain:
  "''..'' \<notin> set segs \<Longrightarrow> path_resolve dir segs = dir @ filter (\<lambda>seg. seg \<noteq> [] \<and> seg \<noteq> ''.'') segs"
  unfolding path_resolve_def by (induction segs arbitrary: dir) (auto simp: resolve_step_def)

lemma resolve_normalize:
  "''..'' \<notin> set segs \<Longrightarrow> path_resolve dir (path_normalize segs) = path_resolve dir segs"
  by (simp add: path_normalize_def normalize_plain resolve_plain)

text \<open>A target is confined iff it lies below the root, unless its first segment there has a name that
  begins with two dots.\<close>

lemma confined_iff:
  "confined base goal \<longleftrightarrow> (\<exists>rest. goal = base @ rest \<and> (rest = [] \<or> \<not> starts_with ''..'' (hd rest)))"
proof (induction base goal rule: relative_path.induct)
  case (1 goal)
  show ?case by (cases goal) (auto simp: confined_def)
next
  case (2 x base)
  show ?case by (simp add: confined_def starts_with_def)
next
  case (3 x base y goal)
  then show ?case by (auto simp: confined_def starts_with_def)
qed

section \<open>Directory trees\<close>

datatype fs_entry = FsFile string string | FsDir string "fs_entry list" | FsOther string

definition entry_name :: "fs_entry \<Rightarrow> string" where
  "entry_name e = (case e of FsFile n c \<Rightarrow> n | FsDir n es \<Rightarrow> n | FsOther n \<Rightarrow> n)"

text \<open>The entry at a path below a directory.\<close>

fun fs_lookup :: "fs_entry \<Rightarrow> string list \<Rightarrow> fs_entry option" where
  "fs_lookup e [] = Some e"
| "fs_lookup (FsDir n es) (seg # segs) = (case find (\<lambda>e. entry_name e = seg) es of
     None \<Rightarrow> None | Some e \<Rightarrow> fs_lookup e segs)"
| "fs_lookup e (seg # segs) = None"

end
