(* ===== verification/Sbom.thy ===== *)
theory Sbom
  imports FilePaths
begin

text \<open>
  \<open>scripts/generateContractReleaseSbom.ts\<close>: the software bill of materials of a contract release.
  Parameters (\<open>sbom_host\<close>): SHA-256, the hash of the finished document, the host's
  \<open>localeCompare\<close> as the relation "not after". The release tree holds the files below the root
  by their normalised paths, and what \<open>JSON.parse\<close> gives for the two JSON files.
\<close>

definition sbom_error :: "string \<Rightarrow> 'a res" where
  "sbom_error msg = Inl (JsError ''SbomError'' msg)"

definition FORBIDDEN_RUNTIME_PACKAGES :: "string list" where
  "FORBIDDEN_RUNTIME_PACKAGES =
   [''stellar'', ''@stellar/stellar-sdk'', ''@stellar/freighter-api'', ''freighter-api'', ''soroban-client'',
    ''@stellar/soroban-client'']"

definition CANONICAL_RELEASE_SOURCES :: "string list" where
  "CANONICAL_RELEASE_SOURCES =
   [''contracts/ClaimRegistry.sol'', ''contracts/TruthBounty.sol'', ''contracts/VerificationSubmission.sol'',
    ''contracts/WeightedStaking.sol'', ''contracts/EvidenceManager.sol'', ''hardhat.config.ts'', ''foundry.toml'',
    ''package.json'', ''package-lock.json'']"

section \<open>Data\<close>

record compiler_settings =
  cs_solidity :: string
  cs_evmVersion :: string
  cs_viaIR :: bool
  cs_enabled :: bool
  cs_runs :: int

datatype dependency_kind = Npm | GitSubmodule

record dependency_entry =
  de_name :: string
  de_version :: string
  de_kind :: dependency_kind
  de_rev :: "string option"

record artifact_hash =
  ar_path :: string
  ar_sha256 :: string
  ar_bytes :: nat

record workflow_identity =
  wi_present :: bool
  wi_repository :: "string option"
  wi_workflow :: "string option"
  wi_workflowRef :: "string option"
  wi_runId :: "string option"
  wi_runAttempt :: "string option"
  wi_ref :: "string option"
  wi_sha :: "string option"
  wi_serverUrl :: "string option"

record release_sbom =
  sb_releaseVersion :: string
  sb_generatedAt :: string
  sb_sourceCommit :: string
  sb_compiler :: compiler_settings
  sb_dependencies :: "dependency_entry list"
  sb_artifacts :: "artifact_hash list"
  sb_workflowIdentity :: workflow_identity
  sb_subjects :: "(string \<times> string) list"             \<comment> \<open>name, sha256\<close>
  sb_materials :: "(string \<times> string option) list"     \<comment> \<open>uri, sha256\<close>
  sb_checksum :: string

record sbom_host =
  sh_sha256 :: "string \<Rightarrow> string"
  sh_documentHash :: "release_sbom \<Rightarrow> string"
  sh_localeLe :: "string \<Rightarrow> string \<Rightarrow> bool"

type_synonym release_env = "string \<Rightarrow> string option"

record release_tree =
  rt_root :: "string list"                     \<comment> \<open>segments of \<open>path.resolve(rootDir)\<close>\<close>
  rt_exists :: bool
  rt_file :: "string \<Rightarrow> string option"
  rt_packageJson :: "json res"                 \<comment> \<open>\<open>JSON.parse\<close> of \<open>package.json\<close>\<close>
  rt_foundryLock :: "json option"              \<comment> \<open>\<open>JSON.parse\<close> of \<open>foundry.lock\<close>; none: it throws\<close>

record sbom_options =
  so_sourceCommit :: "string option"
  so_releaseVersion :: "string option"
  so_now :: string                             \<comment> \<open>the time as \<open>toISOString\<close>\<close>
  so_extraArtifacts :: "string list"

section \<open>Checks and collectors\<close>

definition is_hex40 :: "string \<Rightarrow> bool" where
  "is_hex40 s \<longleftrightarrow> length s = 40 \<and> list_all is_hex_lower s"

definition assertValidSourceCommit :: "string \<Rightarrow> string res" where
  "assertValidSourceCommit commit = (let normalized = to_lower (trim commit) in
     if \<not> is_hex40 normalized
     then sbom_error (''Invalid sourceCommit: expected 40-char lowercase hex SHA, got '' @ [CHR 0x22] @ commit @ [CHR 0x22])
     else Inr normalized)"

definition forbidden_name :: "string \<Rightarrow> bool" where
  "forbidden_name name \<longleftrightarrow> (let lower = to_lower name in
     includes_str ''stellar'' lower \<or> includes_str ''soroban'' lower \<or> includes_str ''freighter'' lower \<or>
     name \<in> set FORBIDDEN_RUNTIME_PACKAGES)"

text \<open>\<open>Object.entries\<close> of a value: the members of an object, the positions of an array or a
  string; the other primitives have none.\<close>

definition members_of :: "json \<Rightarrow> (string \<times> json) list" where
  "members_of j = (case j of
     JObj kvs \<Rightarrow> kvs
   | JArr xs \<Rightarrow> zip (map show_nat [0..<length xs]) xs
   | JStr s \<Rightarrow> zip (map show_nat [0..<length s]) (map (\<lambda>c. JStr [c]) s)
   | _ \<Rightarrow> [])"

text \<open>A section of \<open>package.json\<close> that is not an object (or array) is skipped.\<close>

definition section_of :: "string \<Rightarrow> json \<Rightarrow> (string \<times> json) list" where
  "section_of sec packageJson = (case json_get sec packageJson of
     JObj kvs \<Rightarrow> members_of (JObj kvs) | JArr xs \<Rightarrow> members_of (JArr xs) | _ \<Rightarrow> [])"

definition null_access :: "string \<Rightarrow> 'a res" where
  "null_access key = Inl (JsError ''TypeError'' (''Cannot read properties of null (reading '' @ [CHR 0x27] @ key @ [CHR 0x27] @ '')''))"

definition assertNoForbiddenRuntimeDeps :: "json \<Rightarrow> unit res" where
  "assertNoForbiddenRuntimeDeps packageJson =
     (if packageJson = JNull then null_access ''dependencies''
      else res_bind (traverse (\<lambda>sec. traverse (\<lambda>(name, v).
         if forbidden_name name
         then sbom_error (''Forbidden runtime dependency '' @ name @ '' in '' @ sec @ '': Optimism/EVM only (no Stellar/Soroban/Freighter)'')
         else Inr ()) (section_of sec packageJson))
       [''dependencies'', ''optionalDependencies'', ''peerDependencies'']) (\<lambda>u. Inr ()))"

text \<open>Scanners for the regular expressions of \<open>parseHardhatCompiler\<close>: the first suffix where a
  matcher succeeds; \<open>key\s*:\s*\<close>; a quoted value; \<open>true\<close> or \<open>false\<close>; digits.\<close>

fun first_hit :: "(string \<Rightarrow> 'a option) \<Rightarrow> string \<Rightarrow> 'a option" where
  "first_hit f [] = f []"
| "first_hit f (c # s) = (case f (c # s) of Some x \<Rightarrow> Some x | None \<Rightarrow> first_hit f s)"

definition lit :: "string \<Rightarrow> string \<Rightarrow> string option" where
  "lit w s = (if starts_with w s then Some (drop (length w) s) else None)"

definition key_colon :: "string \<Rightarrow> string \<Rightarrow> string option" where
  "key_colon k s = Option.bind (lit k s) (\<lambda>r. map_option (dropWhile is_ws) (lit '':'' (dropWhile is_ws r)))"

definition block_open :: "string \<Rightarrow> string \<Rightarrow> string option" where
  "block_open k s = Option.bind (key_colon k s) (lit [CHR 0x7B])"

definition is_quote :: "char \<Rightarrow> bool" where
  "is_quote c \<longleftrightarrow> c = CHR 0x22 \<or> c = CHR 0x27"

definition quoted :: "string \<Rightarrow> string option" where
  "quoted s = (case s of [] \<Rightarrow> None | c # r \<Rightarrow>
     let v = takeWhile (\<lambda>d. \<not> is_quote d) r in
     if is_quote c \<and> v \<noteq> [] \<and> length v < length r then Some v else None)"

definition bool_text :: "string \<Rightarrow> bool option" where
  "bool_text s = (if starts_with ''true'' s then Some True else if starts_with ''false'' s then Some False else None)"

definition digits_text :: "string \<Rightarrow> int option" where
  "digits_text s = (let ds = takeWhile is_digit s in if ds = [] then None else Some (int (radix_val 10 ds)))"

definition parseHardhatCompiler :: "string \<Rightarrow> compiler_settings res" where
  "parseHardhatCompiler src =
     (let versionMatch = first_hit (\<lambda>s. Option.bind (block_open ''solidity'' s)
            (first_hit (\<lambda>t. Option.bind (key_colon ''version'' t) quoted))) src;
          evmMatch = first_hit (\<lambda>s. Option.bind (key_colon ''evmVersion'' s) quoted) src;
          viaIrMatch = first_hit (\<lambda>s. Option.bind (key_colon ''viaIR'' s) bool_text) src;
          optEnabledMatch = first_hit (\<lambda>s. Option.bind (block_open ''optimizer'' s)
            (first_hit (\<lambda>t. Option.bind (key_colon ''enabled'' t) bool_text))) src;
          optRunsMatch = first_hit (\<lambda>s. Option.bind (block_open ''optimizer'' s)
            (first_hit (\<lambda>t. Option.bind (key_colon ''runs'' t) digits_text))) src in
      case versionMatch of
        None \<Rightarrow> sbom_error ''hardhat.config.ts missing solidity.version''
      | Some version \<Rightarrow>
          (let enabled = (optEnabledMatch = Some True); runs = (case optRunsMatch of None \<Rightarrow> 0 | Some n \<Rightarrow> n) in
           if enabled \<and> runs \<le> 0 then sbom_error ''optimizer.enabled=true requires positive optimizer.runs''
           else Inr \<lparr>cs_solidity = version, cs_evmVersion = (case evmMatch of None \<Rightarrow> ''default'' | Some v \<Rightarrow> v),
                  cs_viaIR = (viaIrMatch = Some True), cs_enabled = enabled, cs_runs = runs\<rparr>))"

text \<open>\<open>String(version)\<close> of a JSON value; a version that is itself an object or an array is outside
  the model.\<close>

definition json_string :: "json \<Rightarrow> string" where
  "json_string j = (case j of JStr s \<Rightarrow> s | JNum n \<Rightarrow> show_int n | JBool b \<Rightarrow> (if b then ''true'' else ''false'')
     | JNull \<Rightarrow> ''null'' | JUndefined \<Rightarrow> ''undefined'' | _ \<Rightarrow> ''[object Object]'')"

definition by_name :: "sbom_host \<Rightarrow> dependency_entry list \<Rightarrow> dependency_entry list" where
  "by_name H ds = sort_by (\<lambda>a b. sh_localeLe H (de_name a) (de_name b)) ds"

definition collectNpmDependencies :: "sbom_host \<Rightarrow> json \<Rightarrow> dependency_entry list" where
  "collectNpmDependencies H packageJson = by_name H (concat (map (\<lambda>sec. map (\<lambda>(name, version).
       \<lparr>de_name = name, de_version = json_string version, de_kind = Npm, de_rev = None\<rparr>)
     (section_of sec packageJson)) [''dependencies'', ''devDependencies'']))"

text \<open>One entry of \<open>foundry.lock\<close>. A \<open>rev\<close> that is not a string is turned into one by the regular
  expression's \<open>test\<close>; where it passes (a number of seven digits) \<open>toLowerCase\<close> then fails. A
  \<open>rev\<close> that is an array is outside the model.\<close>

definition lock_error :: "string \<Rightarrow> string \<Rightarrow> 'a res" where
  "lock_error name what = sbom_error (''foundry.lock entry '' @ name @ what)"

definition is_rev :: "string \<Rightarrow> bool" where
  "is_rev r \<longleftrightarrow> 7 \<le> length r \<and> length r \<le> 40 \<and> list_all is_hex r"

definition lock_entry :: "string \<times> json \<Rightarrow> dependency_entry res" where
  "lock_entry entry = (case entry of (name, meta) \<Rightarrow>
     (let r = json_get ''rev'' meta in
      if r \<in> {JUndefined, JNull, JStr [], JNum 0, JBool False} then lock_error name '' missing rev''
      else if \<not> is_rev (json_string r) then lock_error name '' has invalid rev''
      else case r of
        JStr h \<Rightarrow> Inr \<lparr>de_name = name, de_version = h, de_kind = GitSubmodule, de_rev = Some (to_lower h)\<rparr>
      | _ \<Rightarrow> Inl (JsError ''TypeError'' ''meta.rev.toLowerCase is not a function'')))"

text \<open>\<open>foundryLock\<close>: none without a (non-empty) file, otherwise the parse result.\<close>

definition collectFoundryLockDeps :: "sbom_host \<Rightarrow> string option \<Rightarrow> json option \<Rightarrow> dependency_entry list res" where
  "collectFoundryLockDeps H raw parsed =
     (if \<not> truthy_str raw then Inr []
      else case parsed of None \<Rightarrow> sbom_error ''foundry.lock is not valid JSON''
      | Some JNull \<Rightarrow> Inl (JsError ''TypeError'' ''Cannot convert undefined or null to object'')
      | Some j \<Rightarrow> res_bind (traverse lock_entry (members_of j)) (\<lambda>out. Inr (by_name H out)))"

definition resolveSourceCommit :: "string option \<Rightarrow> release_env \<Rightarrow> string res" where
  "resolveSourceCommit explicit env = assertValidSourceCommit
     (or_str explicit (or_str (env ''RELEASE_SOURCE_COMMIT'') (or_str (env ''GITHUB_SHA'') (or_str (env ''SOURCE_COMMIT'') []))))"

definition readWorkflowIdentity :: "release_env \<Rightarrow> workflow_identity res" where
  "readWorkflowIdentity env =
     (let repository = env ''GITHUB_REPOSITORY''; workflow = env ''GITHUB_WORKFLOW''; runId = env ''GITHUB_RUN_ID'' in
      if \<not> truthy_str repository \<and> \<not> truthy_str workflow \<and> \<not> truthy_str runId
      then Inr \<lparr>wi_present = False, wi_repository = None, wi_workflow = None, wi_workflowRef = None, wi_runId = None,
             wi_runAttempt = None, wi_ref = None, wi_sha = None, wi_serverUrl = None\<rparr>
      else if \<not> truthy_str repository \<or> \<not> truthy_str workflow \<or> \<not> truthy_str runId
      then sbom_error ''Incomplete workflow identity: GITHUB_REPOSITORY, GITHUB_WORKFLOW, and GITHUB_RUN_ID are all required when any CI var is set''
      else Inr \<lparr>wi_present = True, wi_repository = repository, wi_workflow = workflow,
             wi_workflowRef = env ''GITHUB_WORKFLOW_REF'', wi_runId = runId, wi_runAttempt = env ''GITHUB_RUN_ATTEMPT'',
             wi_ref = env ''GITHUB_REF'',
             wi_sha = (if truthy_str (env ''GITHUB_SHA'') then map_option to_lower (env ''GITHUB_SHA'') else None),
             wi_serverUrl = Some (or_str (env ''GITHUB_SERVER_URL'') ''https://github.com'')\<rparr>)"

section \<open>Artifacts\<close>

definition to_posix :: "string \<Rightarrow> string" where
  "to_posix path = map (\<lambda>c. if c = CHR 0x5C then CHR ''/'' else c) path"

definition path_segments :: "string \<Rightarrow> string list" where
  "path_segments relPath = split_on (CHR ''/'') (to_posix relPath)"

text \<open>The files below the root are found by the segments that follow the root's. The root itself is
  a directory and cannot be read; a path with a final slash names no file. Other directories are
  not in the tree: reading one is the error of a missing file here.\<close>

definition safeRead :: "release_tree \<Rightarrow> string \<Rightarrow> string res" where
  "safeRead tree relPath =
     (let posix = to_posix relPath; normalized = path_normalize (path_segments relPath);
          root = rt_root tree; full = path_resolve root normalized in
      if starts_with ''/'' posix \<or> ''..'' \<in> set (path_segments relPath)
      then sbom_error (''Path traversal rejected: '' @ relPath)
      else if ''..'' \<in> set normalized then sbom_error (''Path traversal rejected: '' @ relPath)
      else if \<not> (take (length root) full = root \<and> length root < length full) \<and> full \<noteq> root
      then sbom_error (''Artifact path escapes repository root: '' @ relPath)
      else if full = root then Inl (JsError ''Error'' ''EISDIR: illegal operation on a directory, read'')
      else if ends_with ''/'' posix then sbom_error (''Required release artifact missing: '' @ relPath)
      else case rt_file tree (join_with ''/'' (drop (length root) full)) of
        None \<Rightarrow> sbom_error (''Required release artifact missing: '' @ relPath)
      | Some content \<Rightarrow> Inr content)"

definition hashArtifacts :: "sbom_host \<Rightarrow> release_tree \<Rightarrow> string list \<Rightarrow> artifact_hash list res" where
  "hashArtifacts H tree relativePaths =
     res_bind (traverse (\<lambda>rel. res_bind (safeRead tree rel) (\<lambda>buf.
         Inr \<lparr>ar_path = to_posix rel, ar_sha256 = sh_sha256 H buf, ar_bytes = length buf\<rparr>))
         (dedupe_on (\<lambda>p. p) {} relativePaths))
       (\<lambda>out. Inr (sort_by (\<lambda>a b. sh_localeLe H (ar_path a) (ar_path b)) out))"

section \<open>The document\<close>

definition sbom_material :: "sbom_host \<Rightarrow> dependency_entry \<Rightarrow> string \<times> string option" where
  "sbom_material H dep = (case (de_kind dep, de_rev dep) of
     (GitSubmodule, Some r) \<Rightarrow>
       if r \<noteq> [] then (''git+submodule:'' @ de_name dep @ ''@'' @ r, Some (sh_sha256 H r))
       else (''pkg:npm/'' @ de_name dep @ ''@'' @ de_version dep, None)
   | _ \<Rightarrow> (''pkg:npm/'' @ de_name dep @ ''@'' @ de_version dep, None))"

definition json_str_or_empty :: "json \<Rightarrow> string option" where
  "json_str_or_empty j = (case j of JStr s \<Rightarrow> Some s | _ \<Rightarrow> Some [])"

definition release_version :: "sbom_options \<Rightarrow> release_env \<Rightarrow> json \<Rightarrow> string" where
  "release_version opts env packageJson = trim (or_str (so_releaseVersion opts) (or_str (env ''RELEASE_VERSION'')
     (or_str (json_str_or_empty (json_get ''version'' packageJson)) [])))"

definition artifact_paths :: "release_tree \<Rightarrow> sbom_options \<Rightarrow> string list" where
  "artifact_paths tree opts = filter (\<lambda>p. rt_file tree p \<noteq> None) CANONICAL_RELEASE_SOURCES @ so_extraArtifacts opts"

definition guard_sbom :: "bool \<Rightarrow> string \<Rightarrow> unit res" where
  "guard_sbom fails msg = (if fails then sbom_error msg else Inr ())"

definition generateContractReleaseSbom :: "sbom_host \<Rightarrow> release_tree \<Rightarrow> release_env \<Rightarrow> sbom_options \<Rightarrow> release_sbom res" where
  "generateContractReleaseSbom H tree env opts =
     res_bind (guard_sbom (\<not> rt_exists tree) ''rootDir does not exist'') (\<lambda>u.
     res_bind (guard_sbom (rt_file tree ''package.json'' = None) ''package.json missing'') (\<lambda>u.
     res_bind (rt_packageJson tree) (\<lambda>packageJson.
     res_bind (assertNoForbiddenRuntimeDeps packageJson) (\<lambda>u.
     let releaseVersion = release_version opts env packageJson in
     res_bind (guard_sbom (releaseVersion = [] \<or> releaseVersion = ''0.0.0'') ''releaseVersion is required and must not be 0.0.0'') (\<lambda>u.
     res_bind (guard_sbom (rt_file tree ''hardhat.config.ts'' = None) ''hardhat.config.ts missing'') (\<lambda>u.
     res_bind (parseHardhatCompiler (the (rt_file tree ''hardhat.config.ts''))) (\<lambda>compiler.
     res_bind (resolveSourceCommit (so_sourceCommit opts) env) (\<lambda>sourceCommit.
     res_bind (readWorkflowIdentity env) (\<lambda>identity.
     res_bind (guard_sbom (wi_present identity \<and> truthy_str (wi_sha identity) \<and> wi_sha identity \<noteq> Some sourceCommit)
        (''sourceCommit '' @ sourceCommit @ '' does not match GITHUB_SHA '' @ or_str (wi_sha identity) [])) (\<lambda>u.
     res_bind (collectFoundryLockDeps H (rt_file tree ''foundry.lock'') (rt_foundryLock tree)) (\<lambda>lockDeps.
     let dependencies = collectNpmDependencies H packageJson @ lockDeps;
         artifactPaths = artifact_paths tree opts in
     res_bind (guard_sbom (''package.json'' \<notin> set artifactPaths) ''Mandatory artifact missing from hash set: package.json'') (\<lambda>u.
     res_bind (guard_sbom (''hardhat.config.ts'' \<notin> set artifactPaths) ''Mandatory artifact missing from hash set: hardhat.config.ts'') (\<lambda>u.
     res_bind (hashArtifacts H tree artifactPaths) (\<lambda>artifacts.
     let partial = \<lparr>sb_releaseVersion = releaseVersion, sb_generatedAt = so_now opts, sb_sourceCommit = sourceCommit,
           sb_compiler = compiler, sb_dependencies = dependencies, sb_artifacts = artifacts,
           sb_workflowIdentity = identity, sb_subjects = map (\<lambda>a. (ar_path a, ar_sha256 a)) artifacts,
           sb_materials = (''git+https://github.com/DigiNodes/truthbounty-contract@'' @ sourceCommit, None) #
             map (sbom_material H) dependencies,
           sb_checksum = []\<rparr> in
     Inr (partial\<lparr>sb_checksum := sh_documentHash H partial\<rparr>)))))))))))))))"

section \<open>Reading stays below the root\<close>

text \<open>An artifact is read only when its path, resolved against the root of the release, names a
  file strictly below it: no absolute path, no \<open>..\<close>, whatever the separators; and the file's
  content is what is hashed.\<close>

theorem safeRead_confined:
  assumes "safeRead tree relPath = Inr content"
  shows "\<exists>below. path_resolve (rt_root tree) (path_segments relPath) = rt_root tree @ below \<and>
    below \<noteq> [] \<and> ''..'' \<notin> set below \<and> [] \<notin> set below \<and> \<not> starts_with ''/'' (to_posix relPath) \<and>
    rt_file tree (join_with ''/'' below) = Some content"
proof -
  define below where "below = filter (\<lambda>seg. seg \<noteq> [] \<and> seg \<noteq> ''.'') (path_segments relPath)"
  have plain: "''..'' \<notin> set (path_segments relPath)" "\<not> starts_with ''/'' (to_posix relPath)"
    using assms by (auto simp: safeRead_def sbom_error_def Let_def split: if_splits)
  have full: "path_resolve dir (path_normalize (path_segments relPath)) = dir @ below" for dir
    using plain by (simp add: resolve_normalize resolve_plain below_def)
  have "below \<noteq> []" "rt_file tree (join_with ''/'' below) = Some content"
    using assms by (auto simp: safeRead_def sbom_error_def Let_def full split: if_splits option.splits)
  then show ?thesis
    using plain by (intro exI [of _ below]) (auto simp: resolve_plain below_def)
qed

definition sample_tree :: release_tree where
  "sample_tree = \<lparr>rt_root = [''srv'', ''tb''], rt_exists = True,
     rt_file = (\<lambda>p. if p = ''package.json'' then Some ''{}''
       else if p = ''hardhat.config.ts''
       then Some (''solidity:{version:'' @ [CHR 0x27] @ ''0.8.28'' @ [CHR 0x27] @ '',settings:{optimizer:{enabled:true,runs:200},viaIR:true}}'')
       else if p = ''docs/a.md'' then Some ''text'' else None),
     rt_packageJson = Inr (JObj [(''version'', JStr ''1.0.0''), (''dependencies'', JObj [(''ethers'', JStr ''6.0'')])]),
     rt_foundryLock = None\<rparr>"

lemma safeRead_confined_witness:
  "\<exists>below. path_resolve (rt_root sample_tree) (path_segments (''docs'' @ [CHR 0x5C] @ ''.//a.md'')) = rt_root sample_tree @ below \<and>
    below \<noteq> [] \<and> ''..'' \<notin> set below \<and> [] \<notin> set below \<and> \<not> starts_with ''/'' (to_posix (''docs'' @ [CHR 0x5C] @ ''.//a.md'')) \<and>
    rt_file sample_tree (join_with ''/'' below) = Some ''text''"
  by (rule safeRead_confined) code_simp

section \<open>What a generated document guarantees\<close>

lemma guard_sbom_Inr [simp]: "guard_sbom b msg = Inr u \<longleftrightarrow> \<not> b"
  by (simp add: guard_sbom_def sbom_error_def)

lemma res_bind_Inr_elim:
  "res_bind r f = Inr b \<Longrightarrow> (\<And>a. r = Inr a \<Longrightarrow> f a = Inr b \<Longrightarrow> P) \<Longrightarrow> P"
  by (auto simp: res_bind_Inr_iff)

lemma source_commit_valid: "assertValidSourceCommit commit = Inr c \<Longrightarrow> is_hex40 c \<and> c = to_lower (trim commit)"
  by (auto simp: assertValidSourceCommit_def sbom_error_def Let_def split: if_splits)

lemma no_forbidden_iff:
  "assertNoForbiddenRuntimeDeps pj = Inr u \<longleftrightarrow> pj \<noteq> JNull \<and>
   (\<forall>sec \<in> {''dependencies'', ''optionalDependencies'', ''peerDependencies''}.
      \<forall>(name, v) \<in> set (section_of sec pj). \<not> forbidden_name name)"
proof -
  have "assertNoForbiddenRuntimeDeps pj = Inr u \<longleftrightarrow> pj \<noteq> JNull \<and> (\<exists>us. traverse (\<lambda>sec. traverse (\<lambda>(name, v).
         if forbidden_name name
         then sbom_error (''Forbidden runtime dependency '' @ name @ '' in '' @ sec @ '': Optimism/EVM only (no Stellar/Soroban/Freighter)'')
         else Inr ()) (section_of sec pj)) [''dependencies'', ''optionalDependencies'', ''peerDependencies''] = Inr us)"
    by (simp add: assertNoForbiddenRuntimeDeps_def null_access_def res_bind_Inr_iff)
  also have "\<dots> \<longleftrightarrow> pj \<noteq> JNull \<and>
   (\<forall>sec \<in> {''dependencies'', ''optionalDependencies'', ''peerDependencies''}.
      \<forall>(name, v) \<in> set (section_of sec pj). \<not> forbidden_name name)"
    by (simp only: traverse_ok_iff) (auto simp: sbom_error_def)
  finally show ?thesis .
qed

lemma compiler_runs: "parseHardhatCompiler src = Inr c \<Longrightarrow> cs_enabled c \<Longrightarrow> 0 < cs_runs c"
  unfolding parseHardhatCompiler_def Let_def sbom_error_def
  by (auto split: option.splits if_splits)

lemma hashed_artifacts:
  assumes "hashArtifacts H tree paths = Inr out"
  shows "set out = {\<lparr>ar_path = to_posix p, ar_sha256 = sh_sha256 H content, ar_bytes = length content\<rparr> | p content.
      p \<in> set paths \<and> safeRead tree p = Inr content}"
    and "p \<in> set paths \<Longrightarrow> \<exists>content. safeRead tree p = Inr content"
proof -
  let ?f = "\<lambda>rel. res_bind (safeRead tree rel) (\<lambda>buf. Inr \<lparr>ar_path = to_posix rel, ar_sha256 = sh_sha256 H buf, ar_bytes = length buf\<rparr>)"
  have keys: "set (dedupe_on (\<lambda>p. p) {} paths) = set paths"
    using dedupe_on_keys [of "\<lambda>p. p" "{}" paths] by simp
  obtain as where as: "traverse ?f (dedupe_on (\<lambda>p. p) {} paths) = Inr as" and out: "set out = set as"
    using assms by (auto simp: hashArtifacts_def res_bind_Inr_iff)
  show ex: "\<exists>content. safeRead tree p = Inr content" if "p \<in> set paths" for p
    using traverse_result_of [OF as] that keys by (auto simp: res_bind_Inr_iff)
  show "set out = {\<lparr>ar_path = to_posix p, ar_sha256 = sh_sha256 H content, ar_bytes = length content\<rparr> | p content.
      p \<in> set paths \<and> safeRead tree p = Inr content}"
  proof (intro equalityI subsetI)
    fix a assume "a \<in> set out"
    then show "a \<in> {\<lparr>ar_path = to_posix p, ar_sha256 = sh_sha256 H content, ar_bytes = length content\<rparr> | p content.
        p \<in> set paths \<and> safeRead tree p = Inr content}"
      using traverse_source_of [OF as, of a] out keys by (auto simp: res_bind_Inr_iff)
  next
    fix a assume "a \<in> {\<lparr>ar_path = to_posix p, ar_sha256 = sh_sha256 H content, ar_bytes = length content\<rparr> | p content.
        p \<in> set paths \<and> safeRead tree p = Inr content}"
    then obtain p content where a: "p \<in> set paths" "safeRead tree p = Inr content"
        "a = \<lparr>ar_path = to_posix p, ar_sha256 = sh_sha256 H content, ar_bytes = length content\<rparr>" by blast
    then show "a \<in> set out"
      using traverse_result_of [OF as, of p] out keys by auto
  qed
qed
definition sample_host :: sbom_host where
  "sample_host = \<lparr>sh_sha256 = (\<lambda>s. s), sh_documentHash = (\<lambda>d. sb_releaseVersion d), sh_localeLe = str_le\<rparr>"

definition sample_options :: sbom_options where
  "sample_options = \<lparr>so_sourceCommit = Some (replicate 40 (CHR ''A'')), so_releaseVersion = None,
     so_now = ''2025-01-01T00:00:00.000Z'', so_extraArtifacts = [''docs/a.md'']\<rparr>"

definition sample_release :: "release_sbom res" where
  "sample_release = generateContractReleaseSbom sample_host sample_tree (\<lambda>k. None) sample_options"

lemma sample_release_ok: "\<not> isl sample_release" by code_simp


lemma sample_release_paths: "map_sum (\<lambda>e. e) (\<lambda>d. map ar_path (sb_artifacts d)) sample_release =
    Inr [''docs/a.md'', ''hardhat.config.ts'', ''package.json'']"
  by code_simp
end
