(* ===== verification/SbomFile.thy ===== *)
theory SbomFile
  imports Sbom
begin

text \<open>
  Where \<open>scripts/generateContractReleaseSbom.ts\<close> puts its document: \<open>writeContractReleaseSbom\<close> and the main
  program. A written file is its absolute path (segments) with the document.
\<close>

text \<open>\<open>path.join(rootDir, "deployments", "sbom", file)\<close>, unless a path is given.\<close>

definition sbom_target :: "string list \<Rightarrow> string option \<Rightarrow> string \<Rightarrow> string list" where
  "sbom_target rootDir outPath version = (case outPath of
     Some (x # p) \<Rightarrow> (if x = CHR ''/'' then path_resolve [] (split_on (CHR ''/'') p)
                    else path_resolve rootDir (split_on (CHR ''/'') (x # p)))
   | _ \<Rightarrow> path_resolve rootDir ([''deployments'', ''sbom''] @
       split_on (CHR ''/'') (''contract-release-sbom-'' @ version @ ''.json'')))"

text \<open>The main program runs in the root of the release, so a relative path starts there as well.\<close>

definition writeContractReleaseSbom :: "sbom_host \<Rightarrow> release_tree \<Rightarrow> release_env \<Rightarrow> sbom_options \<Rightarrow> string option \<Rightarrow>
    (string list \<times> release_sbom) res" where
  "writeContractReleaseSbom H tree env opts outPath =
     res_bind (generateContractReleaseSbom H tree env opts) (\<lambda>sbom.
     Inr (sbom_target (rt_root tree) outPath (sb_releaseVersion sbom), sbom))"

definition sbom_main :: "sbom_host \<Rightarrow> release_tree \<Rightarrow> release_env \<Rightarrow> string \<Rightarrow> int \<times> (string list \<times> release_sbom) option" where
  "sbom_main H tree env now =
     (case writeContractReleaseSbom H tree env
        \<lparr>so_sourceCommit = None, so_releaseVersion = None, so_now = now, so_extraArtifacts = []\<rparr> None of
        Inl e \<Rightarrow> (1, None)
      | Inr w \<Rightarrow> (0, Some w))"

lemma split_on_single: "c \<notin> set s \<Longrightarrow> split_on c s = [s]"
  by (induction s) auto

lemma split_on_sep: "c \<notin> set a \<Longrightarrow> split_on c (a @ c # s) = a # split_on c s"
  by (induction a) auto

text \<open>The script writes one file or none. The file lies in \<open>deployments/sbom\<close> under its own name when
  the version has no slash; a version that climbs the tree chooses another file of the release,
  \<open>package.json\<close> for instance, and replaces it.\<close>

theorem sbom_written_where:
  assumes "sbom_main H tree env now = (code, written)"
  shows "code = (if written = None then 1 else 0) \<and>
    (\<forall>(path, sbom) \<in> set_option written.
       (CHR ''/'' \<notin> set (sb_releaseVersion sbom) \<longrightarrow>
          path = rt_root tree @ [''deployments'', ''sbom'', ''contract-release-sbom-'' @ sb_releaseVersion sbom @ ''.json'']) \<and>
       (\<forall>name. sb_releaseVersion sbom = ''/../../../'' @ name \<and> CHR ''/'' \<notin> set name \<and> name \<noteq> [] \<longrightarrow>
          path = rt_root tree @ [name @ ''.json'']))"
proof -
  have plain: "sbom_target root None v = root @ [''deployments'', ''sbom'', ''contract-release-sbom-'' @ v @ ''.json'']"
    if "CHR ''/'' \<notin> set v" for root v
    using that by (simp add: sbom_target_def split_on_single path_resolve_def resolve_step_def)
  have climb: "sbom_target root None (''/../../../'' @ name) = root @ [name @ ''.json'']"
    if "CHR ''/'' \<notin> set name" "name \<noteq> []" for root name
  proof -
    have "split_on (CHR ''/'') (name @ ''.json'') = [name @ ''.json'']" using that(1) by (simp add: split_on_single)
    moreover have "name @ ''.json'' \<noteq> ''.''" "name @ ''.json'' \<noteq> ''..''" using that(2) by (auto simp: append_eq_Cons_conv)
    ultimately show ?thesis by (simp add: sbom_target_def path_resolve_def resolve_step_def butlast_append)
  qed
  show ?thesis
    using assms by (auto simp: sbom_main_def writeContractReleaseSbom_def res_bind_Inr_iff plain climb [simplified] split: sum.splits)
qed

definition climbing_env :: release_env where
  "climbing_env = [''RELEASE_VERSION'' \<mapsto> ''/../../../package'', ''SOURCE_COMMIT'' \<mapsto> replicate 40 (CHR ''a'')]"

definition climbing_run :: "int \<times> (string list \<times> release_sbom) option" where
  "climbing_run = sbom_main sample_host sample_tree climbing_env ''2025-01-01T00:00:00.000Z''"

lemma climbing_version: "map_option (\<lambda>w. sb_releaseVersion (snd w)) (snd climbing_run) = Some ''/../../../package''"
  by code_simp

theorem sbom_written_where_witness: "fst climbing_run = 0 \<and> map_option fst (snd climbing_run) = Some [''srv'', ''tb'', ''package.json'']"
proof -
  obtain path sbom where run: "snd climbing_run = Some (path, sbom)" "sb_releaseVersion sbom = ''/../../../package''"
    using climbing_version by auto
  have "sbom_main sample_host sample_tree climbing_env ''2025-01-01T00:00:00.000Z'' = (fst climbing_run, Some (path, sbom))"
    using run(1) by (simp add: climbing_run_def flip: run(1))
  note written = sbom_written_where [OF this]
  have "path = rt_root sample_tree @ [''package'' @ ''.json'']"
    using written run(2) by simp
  with written run(1) show ?thesis by (simp add: sample_tree_def)
qed

end
