(* ===== verification/AbiText.thy ===== *)
theory AbiText
  imports JsCollections
begin

text \<open>
  The text level of \<open>scripts/exportVersionedAbiArtifacts.ts\<close>: comments, bracket groups,
  top-level splitting and the declarations of a Solidity interface. Each regular expression is
  a scanner with the same leftmost match; the index arithmetic is the source's.
\<close>

definition abi_error :: "string \<Rightarrow> 'a res" where
  "abi_error msg = Inl (JsError ''AbiArtifactError'' msg)"

section \<open>Scanners\<close>

text \<open>\<open>/\/\*[\s\S]*?\*\//g\<close> and \<open>/\/\/[^\n]*/g\<close>, each match replaced by a space.\<close>

fun after_close :: "string \<Rightarrow> string option" where
  "after_close [] = None"
| "after_close [c] = None"
| "after_close (c # d # s) = (if c = CHR ''*'' \<and> d = CHR ''/'' then Some s else after_close (d # s))"

lemma after_close_length: "after_close s = Some r \<Longrightarrow> length r < length s"
  by (induction s rule: after_close.induct) (auto split: if_splits)

function strip_block :: "string \<Rightarrow> string" where
  "strip_block [] = []"
| "strip_block [c] = [c]"
| "strip_block (c # d # s) =
     (if c = CHR ''/'' \<and> d = CHR ''*'' then
        (case after_close s of None \<Rightarrow> c # strip_block (d # s) | Some r \<Rightarrow> CHR '' '' # strip_block r)
      else c # strip_block (d # s))"
  by pat_completeness auto
termination by (relation "measure length") (auto dest: after_close_length)

function strip_line :: "string \<Rightarrow> string" where
  "strip_line [] = []"
| "strip_line [c] = [c]"
| "strip_line (c # d # s) =
     (if c = CHR ''/'' \<and> d = CHR ''/'' then CHR '' '' # strip_line (dropWhile (\<lambda>x. code_unit x \<noteq> 10) s)
      else c # strip_line (d # s))"
  by pat_completeness auto
termination by (relation "measure length") (auto intro: le_less_trans [OF length_dropWhile_le])

definition stripComments :: "string \<Rightarrow> string" where
  "stripComments source = strip_line (strip_block source)"

text \<open>\<open>replace(/\s+/g, " ")\<close>\<close>

function collapse_ws :: "string \<Rightarrow> string" where
  "collapse_ws [] = []"
| "collapse_ws (c # s) = (if is_ws c then CHR '' '' # collapse_ws (dropWhile is_ws s) else c # collapse_ws s)"
  by pat_completeness auto
termination by (relation "measure length") (auto intro: le_less_trans [OF length_dropWhile_le])

text \<open>\<open>readGroup\<close>: the scan from the opening bracket, with the depth and the current index.\<close>

fun group_scan :: "char \<Rightarrow> char \<Rightarrow> int \<Rightarrow> nat \<Rightarrow> string \<Rightarrow> nat option" where
  "group_scan op cl depth i [] = None"
| "group_scan op cl depth i (c # s) =
     (if c = op then group_scan op cl (depth + 1) (Suc i) s
      else if c = cl then (if depth - 1 = 0 then Some i else group_scan op cl (depth - 1) (Suc i) s)
      else group_scan op cl depth (Suc i) s)"

definition readGroup :: "string \<Rightarrow> nat \<Rightarrow> char \<Rightarrow> char \<Rightarrow> (string \<times> nat) res" where
  "readGroup text openIndex op cl =
     (case group_scan op cl 0 openIndex (drop openIndex text) of
        None \<Rightarrow> abi_error (''Unbalanced '' @ [op, cl] @ '' group'')
      | Some i \<Rightarrow> Inr (take (i - Suc openIndex) (drop (Suc openIndex) text), i))"

fun split_loop :: "char \<Rightarrow> int \<Rightarrow> string \<Rightarrow> string list \<Rightarrow> string \<Rightarrow> string list" where
  "split_loop sep depth current parts [] =
     (if trim current \<noteq> [] then parts @ [current] else parts)"
| "split_loop sep depth current parts (c # s) =
     (let depth = (if c = CHR ''('' \<or> c = CHR ''['' then depth + 1 else depth);
          depth = (if c = CHR '')'' \<or> c = CHR '']'' then depth - 1 else depth) in
      if c = sep \<and> depth = 0 then split_loop sep depth [] (parts @ [current]) s
      else split_loop sep depth (current @ [c]) parts s)"

definition splitTopLevel :: "char \<Rightarrow> string \<Rightarrow> string list" where
  "splitTopLevel sep text = split_loop sep 0 [] [] text"

section \<open>Types and parameters\<close>

text \<open>\<open>(\[[0-9]*\])*$\<close>: the bracket groups that make up the whole rest, if they do.\<close>

function array_groups :: "string \<Rightarrow> string list option" where
  "array_groups s = (case s of [] \<Rightarrow> Some []
     | c # r \<Rightarrow> if c \<noteq> CHR ''['' then None
         else (case dropWhile is_digit r of [] \<Rightarrow> None
           | d # r' \<Rightarrow> if d \<noteq> CHR '']'' then None
               else map_option (\<lambda>gs. (c # takeWhile is_digit r @ [d]) # gs) (array_groups r')))"
  by pat_completeness auto
termination
proof (relation "measure length")
  fix s c r d r'
  assume "s = c # r" "dropWhile is_digit r = d # r'"
  then have "length (d # r') \<le> length r" by (metis length_dropWhile_le)
  with \<open>s = c # r\<close> show "(r', s) \<in> measure length" by simp
qed simp

declare array_groups.simps [simp del]

text \<open>\<open>raw.match(/^(uint|int)(\[[0-9]*\])*$/)\<close>: a repeated group captures its last iteration.\<close>

definition baseElementaryType :: "string \<Rightarrow> string" where
  "baseElementaryType raw =
     (let alias = (\<lambda>p. if starts_with p raw then array_groups (drop (length p) raw) else None);
          expand = (\<lambda>p gs. p @ ''256'' @ (if gs = [] then [] else last gs)) in
      case alias ''uint'' of Some gs \<Rightarrow> expand ''uint'' gs
      | None \<Rightarrow> (case alias ''int'' of Some gs \<Rightarrow> expand ''int'' gs | None \<Rightarrow> raw))"

record raw_parameter =
  rp_name :: string
  rp_type :: string
  rp_indexed :: bool

text \<open>The loop over the tokens of one parameter: \<open>indexed\<close>, the type, the name.\<close>

definition param_token :: "bool \<times> string option \<times> string \<Rightarrow> string \<Rightarrow> bool \<times> string option \<times> string" where
  "param_token st token = (case st of (indexed, type, name) \<Rightarrow>
     if token = ''indexed'' then (True, type, name)
     else if token \<in> {''memory'', ''calldata'', ''storage'', ''payable''} then st
     else case type of None \<Rightarrow> (indexed, Some token, name) | Some t \<Rightarrow> (indexed, type, token))"

definition parse_parameter :: "string \<Rightarrow> raw_parameter list" where
  "parse_parameter chunk =
     (let trimmed = trim (collapse_ws chunk) in
      if trimmed = [] then []
      else case foldl param_token (False, None, []) (split_on (CHR '' '') trimmed) of
        (indexed, None, name) \<Rightarrow> []
      | (indexed, Some ty, name) \<Rightarrow>
          [\<lparr>rp_name = name, rp_type = baseElementaryType ty, rp_indexed = indexed\<rparr>])"

definition parseParameters :: "string \<Rightarrow> raw_parameter list" where
  "parseParameters raw = concat (map parse_parameter (splitTopLevel (CHR '','') raw))"

section \<open>Declarations\<close>

datatype entry_kind = KFunction | KError | KEvent

definition kind_text :: "entry_kind \<Rightarrow> string" where
  "kind_text k = (case k of KFunction \<Rightarrow> ''function'' | KError \<Rightarrow> ''error'' | KEvent \<Rightarrow> ''event'')"

record raw_entry =
  re_kind :: entry_kind
  re_name :: string
  re_inputs :: "raw_parameter list"
  re_outputs :: "raw_parameter list"
  re_stateMutability :: string

text \<open>An identifier at the front of a string, \<open>[A-Za-z_][A-Za-z0-9_]*\<close>, possibly empty here.\<close>

definition ident_prefix :: "string \<Rightarrow> string" where
  "ident_prefix s = (let w = takeWhile is_word_char s in
     if w \<noteq> [] \<and> is_digit (hd w) then [] else w)"

text \<open>\<open>/\bword\b/.test(s)\<close>, with the code unit before the front of \<open>s\<close>.\<close>

fun has_word :: "string \<Rightarrow> char option \<Rightarrow> string \<Rightarrow> bool" where
  "has_word w prev [] = False"
| "has_word w prev (c # s) =
     ((case prev of None \<Rightarrow> True | Some p \<Rightarrow> \<not> is_word_char p) \<and> starts_with w (c # s) \<and>
        (case drop (length w) (c # s) of [] \<Rightarrow> True | d # r \<Rightarrow> \<not> is_word_char d) \<or>
      has_word w (Some c) s)"

definition stateMutabilityOf :: "string \<Rightarrow> string" where
  "stateMutabilityOf tail =
     (if has_word ''pure'' None tail then ''pure''
      else if has_word ''view'' None tail then ''view''
      else if has_word ''payable'' None tail then ''payable''
      else ''nonpayable'')"

text \<open>\<open>s.indexOf(c, i)\<close>, and the bracket of the first match of \<open>/returns\s*\(/\<close>.\<close>

fun index_from :: "char \<Rightarrow> nat \<Rightarrow> string \<Rightarrow> nat option" where
  "index_from c i [] = None"
| "index_from c i (d # s) = (if d = c then Some i else index_from c (Suc i) s)"

definition index_of :: "char \<Rightarrow> nat \<Rightarrow> string \<Rightarrow> nat option" where
  "index_of c i s = index_from c i (drop i s)"

fun find_returns :: "nat \<Rightarrow> string \<Rightarrow> nat option" where
  "find_returns i [] = None"
| "find_returns i (c # s) =
     (let r = drop 7 (c # s); ws = takeWhile is_ws r in
      if starts_with ''returns'' (c # s) \<and> starts_with ''('' (drop (length ws) r)
      then Some (i + 7 + length ws) else find_returns (Suc i) s)"

definition parseEntry :: "string \<Rightarrow> entry_kind \<Rightarrow> string \<Rightarrow> raw_entry res" where
  "parseEntry declaration kind declaredIn =
     (let after = drop (length (kind_text kind)) declaration;
          ws = takeWhile is_ws after;
          name = ident_prefix (drop (length ws) after);
          ws' = takeWhile is_ws (drop (length ws + length name) after);
          headLength = length (kind_text kind) + length ws + length name + length ws' in
      if \<not> starts_with (kind_text kind) declaration \<or> ws = [] \<or> name = []
      then abi_error (''Malformed '' @ kind_text kind @ '' declaration in '' @ declaredIn @ '': '' @ declaration)
      else case index_of (CHR ''('') (headLength - 1) declaration of
        None \<Rightarrow> abi_error ''Unbalanced () group''
      | Some openIndex \<Rightarrow>
          res_bind (readGroup declaration openIndex (CHR ''('') (CHR '')'')) (\<lambda>(inner, endIndex).
            let tail = drop (Suc endIndex) declaration;
                entry = \<lparr>re_kind = kind, re_name = name, re_inputs = parseParameters inner, re_outputs = [],
                         re_stateMutability = (if kind = KFunction then stateMutabilityOf tail else [])\<rparr> in
            if kind \<noteq> KFunction then Inr entry
            else case find_returns 0 tail of
              None \<Rightarrow> Inr entry
            | Some returnsOpen \<Rightarrow> res_bind (readGroup tail returnsOpen (CHR ''('') (CHR '')''))
                (\<lambda>(outs, e). Inr (entry\<lparr>re_outputs := parseParameters outs\<rparr>))))"

text \<open>\<open>/\bkw\s+NAME\s*\{/g\<close>: match index, name and index of the brace of every match; the next
  search starts behind the brace.\<close>

definition kw_match :: "string \<Rightarrow> string \<Rightarrow> (string \<times> nat) option" where
  "kw_match kw s =
     (let r1 = drop (length kw) s; ws = takeWhile is_ws r1; r2 = drop (length ws) r1;
          name = ident_prefix r2; r3 = drop (length name) r2; ws' = takeWhile is_ws r3 in
      if starts_with kw s \<and> ws \<noteq> [] \<and> name \<noteq> [] \<and> starts_with ''{'' (drop (length ws') r3)
      then Some (name, length kw + length ws + length name + length ws')
      else None)"

function kw_scan :: "string \<Rightarrow> char option \<Rightarrow> nat \<Rightarrow> string \<Rightarrow> (nat \<times> string \<times> nat) list" where
  "kw_scan kw prev i [] = []"
| "kw_scan kw prev i (c # s) =
     (if (case prev of None \<Rightarrow> True | Some p \<Rightarrow> \<not> is_word_char p)
      then (case kw_match kw (c # s) of
              None \<Rightarrow> kw_scan kw (Some c) (Suc i) s
            | Some (name, n) \<Rightarrow> (i, name, i + n) # kw_scan kw (Some (CHR ''{'')) (Suc (i + n)) (drop n s))
      else kw_scan kw (Some c) (Suc i) s)"
  by pat_completeness auto
termination by (relation "measure (\<lambda>(kw, prev, i, s). length s)") auto

text \<open>The first interface (if allowed) or contract declaration. After \<open>\n\<close> or at the front: optional \<open>abstract\<close>, the
  keyword, a name, optional \<open>is\<close> and its list up to the brace. A name that ends in \<open>is\<close> gives
  characters back when the rest does not match otherwise: \<open>decl_names\<close> lists the splits from
  the longest name on. Result: name, inheritance text, index of the brace from the front.\<close>

definition decl_tail :: "string \<Rightarrow> (string \<times> nat) option" where
  "decl_tail s =
     (let ws = takeWhile is_ws s; r = drop (length ws) s;
          list = takeWhile (\<lambda>c. c \<noteq> CHR ''{'') (drop 2 r) in
      if starts_with ''is'' r \<and> 2 \<le> length list \<and> is_ws (hd list) \<and> length list < length (drop 2 r)
      then Some (trim list, length ws + 2 + length list)
      else if starts_with ''{'' r then Some ([], length ws) else None)"

definition decl_names :: "string \<Rightarrow> (string \<times> string \<times> nat) option" where
  "decl_names s = (let name = ident_prefix s in
     case filter (\<lambda>k. decl_tail (drop k s) \<noteq> None) (rev [1..<Suc (length name)]) of
       [] \<Rightarrow> None
     | k # ks \<Rightarrow> (case decl_tail (drop k s) of None \<Rightarrow> None
         | Some (inherits, b) \<Rightarrow> Some (take k s, inherits, k + b)))"

definition decl_at :: "bool \<Rightarrow> string \<Rightarrow> (string \<times> string \<times> nat) option" where
  "decl_at allowInterface s =
     (let n0 = length (takeWhile is_ws s); r0 = drop n0 s;
          n1 = (if starts_with ''abstract'' r0 \<and> takeWhile is_ws (drop 8 r0) \<noteq> []
                then 8 + length (takeWhile is_ws (drop 8 r0)) else 0);
          r1 = drop n1 r0;
          n2 = (if allowInterface \<and> starts_with ''interface'' r1 then 9 else if starts_with ''contract'' r1 then 8 else 0);
          n3 = length (takeWhile is_ws (drop n2 r1)) in
      if n2 = 0 \<or> n3 = 0 then None
      else map_option (\<lambda>(name, inherits, b). (name, inherits, n0 + n1 + n2 + n3 + b))
             (decl_names (drop (n2 + n3) r1)))"

fun decl_scan :: "bool \<Rightarrow> nat \<Rightarrow> string \<Rightarrow> (string \<times> string \<times> nat) option" where
  "decl_scan allowInterface i [] = None"
| "decl_scan allowInterface i (c # s) =
     (let here = (if i = 0 \<or> code_unit c = 10
                  then map_option (\<lambda>(name, inherits, b). (name, inherits, i + b)) (decl_at allowInterface (c # s)) else None) in
      case here of Some d \<Rightarrow> Some d | None \<Rightarrow> decl_scan allowInterface (Suc i) s)"

section \<open>Interfaces\<close>

record parsed_interface =
  pi_name :: string
  pi_source :: string
  pi_inherits :: "string list"
  pi_functions :: "raw_entry list"
  pi_errors :: "raw_entry list"
  pi_events :: "raw_entry list"
  pi_structs :: "(string \<times> raw_parameter list) list"
  pi_enums :: "string list"

text \<open>\<open>entry.replace(/\(.*\)$/, "")\<close>: from the first bracket after which no line ends before a final
  bracket.\<close>

fun drop_args :: "string \<Rightarrow> string" where
  "drop_args [] = []"
| "drop_args (c # s) =
     (if c = CHR ''('' \<and> s \<noteq> [] \<and> last s = CHR '')'' \<and> list_all (\<lambda>d. code_unit d \<notin> {10, 13}) s
      then [] else c # drop_args s)"

definition inherit_list :: "string \<Rightarrow> string list" where
  "inherit_list text = filter (\<lambda>e. e \<noteq> []) (map (\<lambda>e. trim (drop_args e)) (split_on (CHR '','') text))"

definition blank_range :: "string \<Rightarrow> nat \<times> nat \<Rightarrow> string" where
  "blank_range body r = (case r of (a, b) \<Rightarrow>
     take a body @ replicate (b - a + 1) (CHR '' '') @ drop (b + 1) body)"

definition parse_members :: "string \<Rightarrow> string \<Rightarrow> raw_entry list res" where
  "parse_members body name =
     res_bind (traverse (\<lambda>chunk. let declaration = trim (collapse_ws chunk) in
         if starts_with ''function '' declaration then res_bind (parseEntry declaration KFunction name) (\<lambda>e. Inr [e])
         else if starts_with ''error '' declaration then res_bind (parseEntry declaration KError name) (\<lambda>e. Inr [e])
         else if starts_with ''event '' declaration then res_bind (parseEntry declaration KEvent name) (\<lambda>e. Inr [e])
         else Inr []) (split_on (CHR '';'') body))
       (\<lambda>found. Inr (concat found))"

definition parseInterfaceSource :: "(string \<Rightarrow> string \<Rightarrow> bool) \<Rightarrow> string \<Rightarrow> string \<Rightarrow> parsed_interface res" where
  "parseInterfaceSource localeLe source sourcePath =
     (let cleaned = stripComments source in
      case decl_scan True 0 cleaned of
        None \<Rightarrow> abi_error (''No interface or contract declaration found in '' @ sourcePath)
      | Some (name, inherits, bodyStart) \<Rightarrow>
          res_bind (readGroup cleaned bodyStart (CHR ''{'') (CHR ''}'')) (\<lambda>(body, e).
          res_bind (traverse (\<lambda>(startIndex, sname, openIndex).
              res_bind (readGroup body openIndex (CHR ''{'') (CHR ''}'')) (\<lambda>(inner, endIndex).
                Inr ((sname, parseParameters (join_with '','' (splitTopLevel (CHR '';'') inner))), (startIndex, endIndex))))
              (kw_scan ''struct'' None 0 body)) (\<lambda>structs.
          res_bind (traverse (\<lambda>(startIndex, ename, openIndex).
              res_bind (readGroup body openIndex (CHR ''{'') (CHR ''}'')) (\<lambda>(inner, endIndex).
                Inr (ename, (startIndex, endIndex)))) (kw_scan ''enum'' None 0 body)) (\<lambda>enums.
          let ranges = sort_by (\<lambda>a b. fst b \<le> fst a) (map snd structs @ map snd enums);
              byName = sort_by (\<lambda>a b. localeLe (re_name a) (re_name b)) in
          res_bind (parse_members (foldl blank_range body ranges) name) (\<lambda>es.
            Inr \<lparr>pi_name = name, pi_source = sourcePath, pi_inherits = inherit_list inherits,
              pi_functions = byName (filter (\<lambda>e. re_kind e = KFunction) es),
              pi_errors = byName (filter (\<lambda>e. re_kind e = KError) es),
              pi_events = byName (filter (\<lambda>e. re_kind e = KEvent) es),
              pi_structs = map fst structs, pi_enums = map fst enums\<rparr>)))))"

section \<open>Bracket groups\<close>

text \<open>Opening minus closing brackets.\<close>

definition nesting :: "char \<Rightarrow> char \<Rightarrow> string \<Rightarrow> int" where
  "nesting op cl s = int (count_list s op) - int (count_list s cl)"

lemma nesting_simps [simp]:
  "nesting op cl [] = 0"
  "op \<noteq> cl \<Longrightarrow> nesting op cl (c # s) = (if c = op then 1 else if c = cl then -1 else 0) + nesting op cl s"
  by (auto simp: nesting_def)

lemma group_scan_Some:
  assumes "group_scan op cl d i s = Some e" "op \<noteq> cl" "0 < d"
  shows "\<exists>inner rest. s = inner @ cl # rest \<and> e = i + length inner \<and> d + nesting op cl inner = 1 \<and>
    (\<forall>k \<le> length inner. 0 < d + nesting op cl (take k inner))"
  using assms
proof (induction op cl d i s rule: group_scan.induct)
  case (2 op cl d i c s)
  show ?case
  proof (cases "c = cl \<and> d = 1")
    case True
    with 2(4,5) have "e = i" by auto
    with True show ?thesis by (intro exI [of _ "[]"] exI [of _ s]) simp
  next
    case False
    define d' where "d' = (if c = op then d + 1 else if c = cl then d - 1 else d)"
    have pos: "0 < d'" using False 2(6) 2(5) by (auto simp: d'_def)
    have scan: "group_scan op cl d' (Suc i) s = Some e"
      using 2(4,5) False by (auto simp: d'_def split: if_splits)
    have "\<exists>inner rest. s = inner @ cl # rest \<and> e = Suc i + length inner \<and> d' + nesting op cl inner = 1 \<and>
        (\<forall>k \<le> length inner. 0 < d' + nesting op cl (take k inner))"
    proof (cases "c = op")
      case True
      then show ?thesis using 2(1) [OF True _ 2(5)] scan pos by (simp add: d'_def)
    next
      case other: False
      show ?thesis
      proof (cases "c = cl")
        case True
        with False other have "d - 1 \<noteq> 0" by simp
        from 2(2) [OF other True this _ 2(5)] scan pos True other show ?thesis by (simp add: d'_def)
      next
        case False
        from 2(3) [OF other False _ 2(5)] scan pos False other show ?thesis by (simp add: d'_def)
      qed
    qed
    then obtain inner rest where IH: "s = inner @ cl # rest" "e = Suc i + length inner"
      "d' + nesting op cl inner = 1"
      "\<forall>k \<le> length inner. 0 < d' + nesting op cl (take k inner)"
      by blast
    have step: "d + nesting op cl (c # t) = d' + nesting op cl t" for t
      using 2(5) by (simp add: d'_def)
    have "0 < d + nesting op cl (take k (c # inner))" if "k \<le> Suc (length inner)" for k
    proof (cases k)
      case 0
      with 2(6) show ?thesis by simp
    next
      case (Suc m)
      with that IH(4) step [of "take m inner"] show ?thesis by simp
    qed
    with IH(1-3) step [of inner] show ?thesis
      by (intro exI [of _ "c # inner"] exI [of _ rest])
        (simp del: nesting_simps take_Suc_Cons)
  qed
qed simp

text \<open>A group that \<open>readGroup\<close> returns is the text between an opening bracket and the bracket that
  closes it: inside, the brackets balance and none closes the group earlier.\<close>

theorem readGroup_balanced:
  assumes "readGroup text i op cl = Inr (inner, e)" "i < length text" "text ! i = op" "op \<noteq> cl"
  shows "text = take i text @ [op] @ inner @ [cl] @ drop (Suc e) text \<and> nesting op cl inner = 0 \<and>
    \<not> (\<exists>k \<le> length inner. nesting op cl (take k inner) < 0)"
proof -
  from assms(2,3) have tx: "drop i text = op # drop (Suc i) text"
    using Cons_nth_drop_Suc by metis
  from assms(1) have scan: "group_scan op cl 0 i (drop i text) = Some e"
    and out: "inner = take (e - Suc i) (drop (Suc i) text)"
    by (simp_all add: readGroup_def abi_error_def split: option.splits)
  from scan have "group_scan op cl 1 (Suc i) (drop (Suc i) text) = Some e"
    by (simp only: tx group_scan.simps simp_thms if_True add_0)
  from group_scan_Some [OF this assms(4)] obtain t rest where
    t: "drop (Suc i) text = t @ cl # rest" "e = Suc i + length t" "nesting op cl t = 0"
    "\<forall>k \<le> length t. 0 < 1 + nesting op cl (take k t)"
    by auto
  have inner: "inner = t" unfolding out t(1) t(2) by simp
  have "drop (Suc e) text = rest"
  proof -
    have "drop (Suc (length t)) (drop (Suc i) text) = rest" by (simp only: t(1)) simp
    then show ?thesis by (simp only: t(2) drop_drop add_Suc add_Suc_right add.commute)
  qed
  moreover have "take i text @ op # inner @ cl # rest = text"
    using append_take_drop_id [of i "text"] by (simp only: tx t(1) inner)
  ultimately have "text = take i text @ [op] @ inner @ [cl] @ drop (Suc e) text" by simp
  moreover have "\<not> (\<exists>k \<le> length inner. nesting op cl (take k inner) < 0)"
    using t(4) inner by fastforce
  ultimately show ?thesis using t(3) inner by blast
qed

theorem readGroup_balanced_witness:
  "readGroup ''f(a(b),c) view'' 1 (CHR ''('') (CHR '')'') = Inr (''a(b),c'', 8) \<and>
   nesting (CHR ''('') (CHR '')'') ''a(b),c'' = 0"
proof -
  have run: "readGroup ''f(a(b),c) view'' 1 (CHR ''('') (CHR '')'') = Inr (''a(b),c'', 8)" by code_simp
  from readGroup_balanced [OF run] run show ?thesis by simp
qed

section \<open>Splitting\<close>

lemma join_with_snoc: "join_with sep (xs @ [y]) = (if xs = [] then y else join_with sep xs @ sep @ y)"
  by (induction sep xs rule: join_with.induct) auto

lemma split_loop_lossless:
  "\<exists>blank. trim blank = [] \<and>
     (join_with [sep] (split_loop sep d current parts s @ [blank]) = join_with [sep] (parts @ [current @ s]) \<or>
      join_with [sep] (split_loop sep d current parts s) = join_with [sep] (parts @ [current @ s]))"
proof (induction sep d current parts s rule: split_loop.induct)
  case (1 sep d current parts)
  have "trim [] = []" by (simp add: trim_def)
  then show ?case by (cases "trim current = []") auto
next
  case (2 sep d current parts c s)
  define d2 where "d2 = (if c = CHR '')'' \<or> c = CHR '']''
    then (if c = CHR ''('' \<or> c = CHR ''['' then d + 1 else d) - 1
    else (if c = CHR ''('' \<or> c = CHR ''['' then d + 1 else d))"
  have step: "split_loop sep d current parts (c # s) =
      (if c = sep \<and> d2 = 0 then split_loop sep d2 [] (parts @ [current]) s
       else split_loop sep d2 (current @ [c]) parts s)"
    by (simp only: split_loop.simps d2_def Let_def)
  show ?case
  proof (cases "c = sep \<and> d2 = 0")
    case True
    have IH: "\<exists>blank. trim blank = [] \<and>
        (join_with [sep] (split_loop sep d2 [] (parts @ [current]) s @ [blank]) = join_with [sep] ((parts @ [current]) @ [[] @ s]) \<or>
         join_with [sep] (split_loop sep d2 [] (parts @ [current]) s) = join_with [sep] ((parts @ [current]) @ [[] @ s]))"
      by (rule 2(1) [OF refl refl, folded d2_def, OF True])
    have "join_with [sep] (parts @ [current @ c # s]) = join_with [sep] ((parts @ [current]) @ [[] @ s])"
      using True by (simp only: join_with_snoc) simp
    moreover have "split_loop sep d current parts (c # s) = split_loop sep d2 [] (parts @ [current]) s"
      unfolding step by (rule if_P [OF True])
    ultimately show ?thesis using IH by (simp only:)
  next
    case False
    have "\<exists>blank. trim blank = [] \<and>
        (join_with [sep] (split_loop sep d2 (current @ [c]) parts s @ [blank]) = join_with [sep] (parts @ [(current @ [c]) @ s]) \<or>
         join_with [sep] (split_loop sep d2 (current @ [c]) parts s) = join_with [sep] (parts @ [(current @ [c]) @ s]))"
      by (rule 2(2) [OF refl refl, folded d2_def, OF False])
    moreover have "split_loop sep d current parts (c # s) = split_loop sep d2 (current @ [c]) parts s"
      unfolding step by (rule if_not_P [OF False])
    ultimately show ?thesis by (simp only: append_assoc append_Cons append_Nil)
  qed
qed

lemma splitTopLevel_lossless:
  "\<exists>blank. trim blank = [] \<and> (join_with [sep] (splitTopLevel sep text @ [blank]) = text \<or>
     join_with [sep] (splitTopLevel sep text) = text)"
  using split_loop_lossless [of sep 0 "[]" "[]" "text"] by (simp add: splitTopLevel_def)

section \<open>The \<open>uint\<close> and \<open>int\<close> aliases\<close>

lemma array_groups_Nil [simp]: "array_groups [] = Some []"
  by (subst array_groups.simps) simp

lemma dropWhile_digits: "list_all is_digit n \<Longrightarrow> \<not> is_digit c \<Longrightarrow> dropWhile is_digit (n @ c # r) = c # r"
  by (induction n) auto

lemma takeWhile_digits: "list_all is_digit n \<Longrightarrow> \<not> is_digit c \<Longrightarrow> takeWhile is_digit (n @ c # r) = n"
  by (induction n) auto

lemma array_groups_Cons:
  assumes "list_all is_digit n"
  shows "array_groups (''['' @ n @ '']'' @ r) = map_option (\<lambda>gs. (''['' @ n @ '']'') # gs) (array_groups r)"
proof -
  have "\<not> is_digit (CHR '']'')" by (simp add: is_digit_def code_unit_def)
  with assms show ?thesis
    by (subst array_groups.simps) (simp add: dropWhile_digits takeWhile_digits)
qed

lemma array_groups_concat:
  "list_all (list_all is_digit) ns \<Longrightarrow>
     array_groups (concat (map (\<lambda>n. ''['' @ n @ '']'') ns)) = Some (map (\<lambda>n. ''['' @ n @ '']'') ns)"
proof (induction ns)
  case (Cons n ns)
  then show ?case using array_groups_Cons [of n] by simp
qed simp

text \<open>The alias \<open>uint\<close> (and \<open>int\<close>) expands to 256 bits, but only the last array dimension survives:
  a repeated group of a regular expression captures its last iteration, so \<open>uint[2][3]\<close> becomes
  \<open>uint256[3]\<close> and a signature built from it is wrong.\<close>

theorem alias_keeps_last_dimension:
  assumes "list_all (list_all is_digit) (ns @ [n])"
  shows "baseElementaryType (''uint'' @ concat (map (\<lambda>n. ''['' @ n @ '']'') (ns @ [n]))) = ''uint256['' @ n @ '']''"
  using array_groups_concat [OF assms]
  by (simp add: baseElementaryType_def starts_with_def)

theorem alias_keeps_last_dimension_witness:
  "baseElementaryType ''uint[2][3]'' = ''uint256[3]''"
  using alias_keeps_last_dimension [of "[''2'']" "''3''"] by (simp add: is_digit_def code_unit_def)

end
