(* ===== verification/AbiExport.thy ===== *)
theory AbiExport
  imports AbiText "HOL-Library.Word"
begin

unbundle bit_operations_syntax

text \<open>
  \<open>scripts/exportVersionedAbiArtifacts.ts\<close> above the text level: canonical types, selectors and
  interface ids, the export bundle and the comparison with a committed freeze. Parameters
  (\<open>abi_host\<close>): the host's \<open>localeCompare\<close> as the relation "not after", the Keccak hash \<open>id\<close> of
  \<open>ethers\<close> (a \<open>0x\<close> string), the depth of the call stack. A file system maps the paths below the
  root to texts.
\<close>

record abi_host =
  ah_localeLe :: "string \<Rightarrow> string \<Rightarrow> bool"
  ah_id :: "string \<Rightarrow> string"
  ah_stack :: nat

section \<open>Constants\<close>

definition CANONICAL_MODULE_SOURCES :: "(string \<times> string) list" where
  "CANONICAL_MODULE_SOURCES =
   [(''IConfiguration'', ''contracts/v2/interfaces/IConfiguration.sol''),
    (''IModuleRegistry'', ''contracts/v2/interfaces/IModuleRegistry.sol''),
    (''IClaims'', ''contracts/v2/interfaces/IClaims.sol''),
    (''IEvidence'', ''contracts/v2/interfaces/IEvidence.sol''),
    (''IStakeCustody'', ''contracts/v2/interfaces/IStakeCustody.sol''),
    (''IVerification'', ''contracts/v2/interfaces/IVerification.sol''),
    (''IAggregation'', ''contracts/v2/interfaces/IAggregation.sol''),
    (''ISettlement'', ''contracts/v2/interfaces/ISettlement.sol''),
    (''IDisputes'', ''contracts/v2/interfaces/IDisputes.sol''),
    (''IRewards'', ''contracts/v2/interfaces/IRewards.sol''),
    (''ISlashing'', ''contracts/v2/interfaces/ISlashing.sol''),
    (''ITreasury'', ''contracts/v2/interfaces/ITreasury.sol''),
    (''IReputationRoots'', ''contracts/v2/interfaces/IReputationRoots.sol''),
    (''IGovernanceHooks'', ''contracts/v2/interfaces/IGovernanceHooks.sol''),
    (''IEmergencyControls'', ''contracts/v2/interfaces/IEmergencyControls.sol''),
    (''IFinalRewardAllocator'', ''contracts/v2/interfaces/IFinalRewardAllocator.sol'')]"

definition CANONICAL_IMPLEMENTATION_SOURCES :: "string list" where
  "CANONICAL_IMPLEMENTATION_SOURCES =
   [''contracts/v2/Aggregation.sol'',
    ''contracts/v2/EvidenceRegistry.sol'',
    ''contracts/v2/StakeVault.sol'',
    ''contracts/v2/FinalRewardAllocator.sol'',
    ''contracts/v2/EmergencyGatekeeper.sol'']"

definition ADDRESS_MANIFEST_NETWORKS :: "(string \<times> int \<times> string) list" where
  "ADDRESS_MANIFEST_NETWORKS =
   [(''optimism-mainnet'', 10, ''deployments/config/mainnet.json''),
    (''optimism-sepolia'', 11155420, ''deployments/config/testnet.json''),
    (''local'', 31337, ''deployments/config/local.json'')]"

definition ELEMENTARY_TYPES :: "string list" where
  "ELEMENTARY_TYPES =
   [''bool'', ''string'', ''bytes'', ''address'', ''uint8'', ''uint16'', ''uint32'', ''uint64'', ''uint128'', ''uint256'', ''int8'', ''int16'', ''int32'', ''int64'', ''int128'', ''int256'', ''bytes1'', ''bytes2'', ''bytes4'', ''bytes8'', ''bytes16'', ''bytes20'', ''bytes32'']"

section \<open>Types\<close>

record type_registry =
  tr_enums :: "string list"
  tr_structs :: "(string \<times> raw_parameter list) list"

definition register_one :: "type_registry \<Rightarrow> parsed_interface \<Rightarrow> type_registry" where
  "register_one R entry =
     R\<lparr>tr_enums := foldl (\<lambda>es e. es @ [e, pi_name entry @ ''.'' @ e]) (tr_enums R) (pi_enums entry),
       tr_structs := foldl (\<lambda>m (n, fs). kv_set (pi_name entry @ ''.'' @ n) fs (kv_set n fs m))
         (tr_structs R) (pi_structs entry)\<rparr>"

definition registerTypes :: "parsed_interface list \<Rightarrow> type_registry \<Rightarrow> type_registry" where
  "registerTypes parsed R = foldl register_one R parsed"

text \<open>\<open>normalized.match(/(\[[0-9]*\])+$/)\<close>: the leftmost suffix made of bracket groups.\<close>

fun array_suffix :: "string \<Rightarrow> string" where
  "array_suffix [] = []"
| "array_suffix (c # s) = (if array_groups (c # s) \<noteq> None then c # s else array_suffix s)"

definition type_base :: "string \<Rightarrow> string" where
  "type_base raw = (let normalized = baseElementaryType raw in
     take (length normalized - length (array_suffix normalized)) normalized)"

definition type_suffix :: "string \<Rightarrow> string" where
  "type_suffix raw = array_suffix (baseElementaryType raw)"

text \<open>The first argument is the remaining call stack: a struct that contains itself exhausts it.\<close>

fun canonicalizeType :: "nat \<Rightarrow> type_registry \<Rightarrow> string \<Rightarrow> string res" where
  "canonicalizeType 0 R raw = Inl (JsError ''RangeError'' ''Maximum call stack size exceeded'')"
| "canonicalizeType (Suc k) R raw =
     (let base = type_base raw; suffix = type_suffix raw in
      if base \<in> set ELEMENTARY_TYPES then Inr (base @ suffix)
      else if base \<in> set (tr_enums R) then Inr (''uint8'' @ suffix)
      else case map_of (tr_structs R) base of
        Some fs \<Rightarrow> res_bind (traverse (\<lambda>f. canonicalizeType k R (rp_type f)) fs)
          (\<lambda>components. Inr (''('' @ join_with '','' components @ '')'' @ suffix))
      | None \<Rightarrow> abi_error (''Unknown ABI type: '' @ raw))"

section \<open>Fragments\<close>

record abi_parameter =
  ap_name :: string
  ap_type :: string
  ap_indexed :: bool

record abi_fragment =
  af_type :: entry_kind
  af_name :: string
  af_signature :: string
  af_inputs :: "abi_parameter list"
  af_outputs :: "abi_parameter list option"
  af_stateMutability :: "string option"

definition parameterJson :: "abi_host \<Rightarrow> type_registry \<Rightarrow> raw_parameter \<Rightarrow> abi_parameter res" where
  "parameterJson H R p = res_bind (canonicalizeType (ah_stack H) R (rp_type p)) (\<lambda>ty.
     Inr \<lparr>ap_name = rp_name p, ap_type = ty, ap_indexed = rp_indexed p\<rparr>)"

definition resolveEntry :: "abi_host \<Rightarrow> type_registry \<Rightarrow> raw_entry \<Rightarrow> abi_fragment res" where
  "resolveEntry H R entry =
     res_bind (traverse (parameterJson H R) (re_inputs entry)) (\<lambda>inputs.
       let fragment = \<lparr>af_type = re_kind entry, af_name = re_name entry,
             af_signature = re_name entry @ ''('' @ join_with '','' (map ap_type inputs) @ '')'',
             af_inputs = inputs, af_outputs = None, af_stateMutability = None\<rparr> in
       if re_kind entry \<noteq> KFunction then Inr fragment
       else res_bind (traverse (parameterJson H R) (re_outputs entry)) (\<lambda>outputs.
         Inr (fragment\<lparr>af_outputs := Some outputs, af_stateMutability := Some (re_stateMutability entry)\<rparr>)))"

section \<open>Interface ids\<close>

definition show_hex_int :: "int \<Rightarrow> string" where
  "show_hex_int n = (if n < 0 then ''-'' @ show_hex (nat (- n)) else show_hex (nat n))"

definition xorBytes4 :: "string \<Rightarrow> string \<Rightarrow> string res" where
  "xorBytes4 left right =
     res_bind (case parse_bigint left of None \<Rightarrow> Inl (JsError ''SyntaxError'' (''Cannot convert '' @ left @ '' to a BigInt''))
               | Some n \<Rightarrow> Inr n) (\<lambda>l.
     res_bind (case parse_bigint right of None \<Rightarrow> Inl (JsError ''SyntaxError'' (''Cannot convert '' @ right @ '' to a BigInt''))
               | Some n \<Rightarrow> Inr n) (\<lambda>r.
       Inr (''0x'' @ pad_start 8 (CHR ''0'') (show_hex_int (l XOR r)))))"

definition selector_of :: "abi_host \<Rightarrow> abi_fragment \<Rightarrow> string" where
  "selector_of H fragment = take 10 (ah_id H (af_signature fragment))"

definition computeInterfaceId :: "abi_host \<Rightarrow> abi_fragment list \<Rightarrow> string res" where
  "computeInterfaceId H fragments =
     foldl (\<lambda>acc fragment. res_bind acc (\<lambda>a. xorBytes4 a (selector_of H fragment))) (Inr ''0x00000000'')
       (filter (\<lambda>fragment. af_type fragment = KFunction) fragments)"

section \<open>Stable serialisation\<close>

text \<open>\<open>JSON.stringify\<close> of a string.\<close>

definition quote_char :: "char \<Rightarrow> string" where
  "quote_char c = (let n = code_unit c in
     if n = 34 then [CHR 0x5C, CHR 0x22] else if n = 92 then [CHR 0x5C, CHR 0x5C]
     else if n = 8 then CHR 0x5C # ''b'' else if n = 9 then CHR 0x5C # ''t''
     else if n = 10 then CHR 0x5C # ''n'' else if n = 12 then CHR 0x5C # ''f''
     else if n = 13 then CHR 0x5C # ''r''
     else if n < 32 then CHR 0x5C # ''u'' @ pad_start 4 (CHR ''0'') (show_hex n)
     else [c])"

definition json_quote :: "string \<Rightarrow> string" where
  "json_quote s = CHR 0x22 # concat (map quote_char s) @ [CHR 0x22]"

definition sorted_members :: "(string \<times> string) list \<Rightarrow> string list" where
  "sorted_members kvs = map snd (sort_by (\<lambda>a b. str_le (fst a) (fst b)) kvs)"

fun stableStringify :: "json \<Rightarrow> string" where
  "stableStringify (JArr vs) = ''['' @ join_with '','' (map stableStringify vs) @ '']''"
| "stableStringify (JObj kvs) =
     CHR 0x7B # join_with '','' (sorted_members
       (map (\<lambda>(key, v). (key, json_quote key @ '':'' @ stableStringify v)) kvs)) @ [CHR 0x7D]"
| "stableStringify (JStr s) = json_quote s"
| "stableStringify (JNum n) = show_int n"
| "stableStringify (JBool b) = (if b then ''true'' else ''false'')"
| "stableStringify JNull = ''null''"
| "stableStringify JUndefined = ''null''"

section \<open>Modules\<close>

record module_item =
  mi_signature :: string
  mi_hash :: string        \<comment> \<open>\<open>selector\<close>, or \<open>topic0\<close> for an event\<close>
  mi_declaredIn :: string

record resolved_module =
  rm_name :: string
  rm_source :: string
  rm_interfaceId :: string
  rm_inherits :: "string list"
  rm_functions :: "module_item list"
  rm_errors :: "module_item list"
  rm_events :: "module_item list"
  rm_structs :: "string list"
  rm_enums :: "string list"
  rm_digest :: string

definition item_json :: "string \<Rightarrow> module_item \<Rightarrow> json" where
  "item_json hashKey it = JObj [(''signature'', JStr (mi_signature it)), (hashKey, JStr (mi_hash it)),
     (''declaredIn'', JStr (mi_declaredIn it))]"

definition strings_json :: "string list \<Rightarrow> json" where
  "strings_json xs = JArr (map JStr xs)"

text \<open>The module as an object; its digest is a parameter because it is hashed without one.\<close>

definition module_json :: "json \<Rightarrow> resolved_module \<Rightarrow> json" where
  "module_json digest m = JObj
     [(''name'', JStr (rm_name m)), (''source'', JStr (rm_source m)), (''interfaceId'', JStr (rm_interfaceId m)),
      (''inherits'', strings_json (rm_inherits m)),
      (''functions'', JArr (map (item_json ''selector'') (rm_functions m))),
      (''errors'', JArr (map (item_json ''selector'') (rm_errors m))),
      (''events'', JArr (map (item_json ''topic0'') (rm_events m))),
      (''structs'', strings_json (rm_structs m)), (''enums'', strings_json (rm_enums m)), (''digest'', digest)]"

definition module_items :: "abi_host \<Rightarrow> (abi_fragment \<Rightarrow> string) \<Rightarrow> string \<Rightarrow> abi_fragment list \<Rightarrow> module_item list" where
  "module_items H hash name fragments =
     sort_by (\<lambda>a b. ah_localeLe H (mi_signature a) (mi_signature b))
       (map (\<lambda>fr. \<lparr>mi_signature = af_signature fr, mi_hash = hash fr, mi_declaredIn = name\<rparr>) fragments)"

definition resolveModule :: "abi_host \<Rightarrow> type_registry \<Rightarrow> parsed_interface \<Rightarrow>
    (resolved_module \<times> abi_fragment list) res" where
  "resolveModule H R parsed =
     res_bind (traverse (resolveEntry H R) (pi_functions parsed)) (\<lambda>functions.
     res_bind (traverse (resolveEntry H R) (pi_errors parsed)) (\<lambda>errors.
     res_bind (traverse (resolveEntry H R) (pi_events parsed)) (\<lambda>events.
     res_bind (computeInterfaceId H functions) (\<lambda>interfaceId.
       let module = \<lparr>rm_name = pi_name parsed, rm_source = pi_source parsed, rm_interfaceId = interfaceId,
             rm_inherits = pi_inherits parsed,
             rm_functions = module_items H (selector_of H) (pi_name parsed) functions,
             rm_errors = module_items H (selector_of H) (pi_name parsed) errors,
             rm_events = module_items H (\<lambda>fr. ah_id H (af_signature fr)) (pi_name parsed) events,
             rm_structs = sort_strings (map fst (pi_structs parsed)),
             rm_enums = sort_strings (pi_enums parsed), rm_digest = []\<rparr> in
       Inr (module\<lparr>rm_digest := ah_id H (stableStringify (module_json JUndefined module))\<rparr>,
            functions @ errors @ events)))))"

section \<open>The export\<close>

type_synonym file_system = "string \<Rightarrow> string option"

definition readSource :: "file_system \<Rightarrow> string \<Rightarrow> string res" where
  "readSource files relativePath = (case files relativePath of
     None \<Rightarrow> abi_error (''Required canonical source missing: '' @ relativePath)
   | Some content \<Rightarrow> Inr content)"

text \<open>The implementations: for every known interface the first contract that inherits it.\<close>

definition implementation_step :: "file_system \<Rightarrow> string set \<Rightarrow> (string \<times> string \<times> string) list \<Rightarrow> string \<Rightarrow>
    (string \<times> string \<times> string) list" where
  "implementation_step files known resolved sourcePath =
     (case files sourcePath of None \<Rightarrow> resolved
      | Some content \<Rightarrow> (case decl_scan False 0 (stripComments content) of
          None \<Rightarrow> resolved
        | Some (contract, inherits, b) \<Rightarrow>
            if inherits = [] then resolved
            else foldl (\<lambda>m parent. let base = trim (drop_args parent) in
                if base \<notin> known \<or> kv_has base m then m else kv_set base (contract, sourcePath) m)
              resolved (splitTopLevel (CHR '','') inherits)))"

definition resolveImplementations :: "file_system \<Rightarrow> string set \<Rightarrow> (string \<times> string \<times> string) list" where
  "resolveImplementations files known =
     foldl (implementation_step files known) [] CANONICAL_IMPLEMENTATION_SOURCES"

record manifest_module =
  mm_name :: string
  mm_moduleId :: string
  mm_interfaceId :: string
  mm_implementation :: "string option"
  mm_implementationSource :: "string option"

record abi_export =
  ax_modules :: "resolved_module list"
  ax_canonicalAbi :: "abi_fragment list"
  ax_manifest :: "manifest_module list"
  ax_checksum :: string

definition option_json :: "string option \<Rightarrow> json" where
  "option_json s = (case s of None \<Rightarrow> JNull | Some t \<Rightarrow> JStr t)"

definition parameter_json :: "abi_parameter \<Rightarrow> json" where
  "parameter_json p = JObj ([(''name'', JStr (ap_name p)), (''type'', JStr (ap_type p))] @
     (if ap_indexed p then [(''indexed'', JBool True)] else []))"

definition fragment_json :: "abi_fragment \<Rightarrow> json" where
  "fragment_json fr = JObj ([(''type'', JStr (kind_text (af_type fr))), (''name'', JStr (af_name fr)),
     (''signature'', JStr (af_signature fr)), (''inputs'', JArr (map parameter_json (af_inputs fr)))] @
     (case af_outputs fr of None \<Rightarrow> [] | Some os \<Rightarrow> [(''outputs'', JArr (map parameter_json os))]) @
     (case af_stateMutability fr of None \<Rightarrow> [] | Some m \<Rightarrow> [(''stateMutability'', JStr m)]))"

definition manifest_json :: "manifest_module \<Rightarrow> json" where
  "manifest_json m = JObj [(''name'', JStr (mm_name m)), (''moduleId'', JStr (mm_moduleId m)),
     (''interfaceId'', JStr (mm_interfaceId m)), (''implementation'', option_json (mm_implementation m)),
     (''implementationSource'', option_json (mm_implementationSource m))]"

text \<open>The bundle without its checksum.\<close>

definition export_json :: "abi_export \<Rightarrow> json" where
  "export_json e = JObj
     [(''schemaVersion'', JNum 1), (''kind'', JStr ''truthbounty.abi-artifact-exports''),
      (''protocol'', JStr ''TruthBounty''), (''releaseVersion'', JStr ''2.0.0''),
      (''protocolVersion'', JObj [(''major'', JNum 2), (''minor'', JNum 0)]),
      (''sourceRoot'', JStr ''contracts/v2/interfaces''),
      (''aggregate'', JStr ''contracts/v2/interfaces/ICanonicalV2.sol''),
      (''modules'', JArr (map (\<lambda>m. module_json (JStr (rm_digest m)) m) (ax_modules e))),
      (''canonicalAbi'', JArr (map fragment_json (ax_canonicalAbi e))),
      (''addressManifest'', JObj
        [(''note'', JStr ''Module identity manifest. Concrete addresses are injected at deployment time from deployments/config and are never committed.''),
         (''networks'', JArr (map (\<lambda>(n, c, f). JObj [(''name'', JStr n), (''chainId'', JNum c), (''config'', JStr f)])
            ADDRESS_MANIFEST_NETWORKS)),
         (''modules'', JArr (map manifest_json (ax_manifest e)))])]"

definition dedupe :: "abi_host \<Rightarrow> abi_fragment list \<Rightarrow> abi_fragment list" where
  "dedupe H fragments = sort_by (\<lambda>a b. ah_localeLe H (af_signature a) (af_signature b))
     (dedupe_on af_signature {} fragments)"

definition of_kind :: "entry_kind \<Rightarrow> abi_fragment list \<Rightarrow> abi_fragment list" where
  "of_kind k fragments = filter (\<lambda>fr. af_type fr = k) fragments"

definition parse_file :: "abi_host \<Rightarrow> file_system \<Rightarrow> string \<Rightarrow> parsed_interface res" where
  "parse_file H files source =
     res_bind (readSource files source) (\<lambda>content. parseInterfaceSource (ah_localeLe H) content source)"

definition buildAbiArtifactExport :: "abi_host \<Rightarrow> file_system \<Rightarrow> abi_export res" where
  "buildAbiArtifactExport H files =
     res_bind (traverse (parse_file H files)
       (filter (\<lambda>source. files source \<noteq> None)
         [''contracts/v2/interfaces/IV2Types.sol'', ''contracts/v2/interfaces/IV2Module.sol''])) (\<lambda>parsedRegistry.
     let moduleNames = sort_strings (map fst CANONICAL_MODULE_SOURCES) in
     res_bind (traverse (\<lambda>name. parse_file H files (the (map_of CANONICAL_MODULE_SOURCES name))) moduleNames) (\<lambda>parsedModules.
     let R = registerTypes parsedModules (registerTypes parsedRegistry \<lparr>tr_enums = [], tr_structs = []\<rparr>) in
     res_bind (traverse (resolveModule H R) parsedModules) (\<lambda>resolved.
     let modules = map fst resolved;
         fragments = concat (map snd resolved);
         implementations = resolveImplementations files (set moduleNames);
         partial = \<lparr>ax_modules = modules,
           ax_canonicalAbi = dedupe H (of_kind KFunction fragments) @ dedupe H (of_kind KError fragments) @
             dedupe H (of_kind KEvent fragments),
           ax_manifest = map (\<lambda>m. let implementation = map_of implementations (rm_name m) in
             \<lparr>mm_name = rm_name m, mm_moduleId = ah_id H (rm_name m), mm_interfaceId = rm_interfaceId m,
              mm_implementation = map_option fst implementation,
              mm_implementationSource = map_option snd implementation\<rparr>) modules,
           ax_checksum = []\<rparr> in
     Inr (partial\<lparr>ax_checksum := ah_id H (stableStringify (export_json partial))\<rparr>))))"

section \<open>The freeze\<close>

definition exportPath :: "string \<Rightarrow> string" where
  "exportPath rootDir = rootDir @ ''/exports/abi/v2/2.0.0-2.0/manifest.json''"

definition module_drift :: "(string \<times> resolved_module) list \<Rightarrow> (string \<times> resolved_module) list \<Rightarrow> string \<Rightarrow> string list" where
  "module_drift frozen current name =
     (case map_of frozen name of
        None \<Rightarrow> [''module '' @ name @ '' is not present in the frozen export'']
      | Some expected \<Rightarrow> (case map_of current name of
          None \<Rightarrow> [''frozen module '' @ name @ '' is missing from the current sources'']
        | Some actual \<Rightarrow>
            (if rm_digest expected \<noteq> rm_digest actual
             then [''module '' @ name @ '' digest drift: frozen '' @ rm_digest expected @ '' != current '' @ rm_digest actual] else []) @
            (if rm_interfaceId expected \<noteq> rm_interfaceId actual
             then [''module '' @ name @ '' interfaceId drift: frozen '' @ rm_interfaceId expected @ '' != current '' @ rm_interfaceId actual]
             else [])))"

definition modules_by_name :: "abi_export \<Rightarrow> (string \<times> resolved_module) list" where
  "modules_by_name e = kv_of_list (map (\<lambda>m. (rm_name m, m)) (ax_modules e))"

definition diffAgainstFreeze :: "abi_export \<Rightarrow> abi_export \<Rightarrow> string list" where
  "diffAgainstFreeze frozen current =
     (if ax_checksum frozen \<noteq> ax_checksum current
      then [''export checksum drift: frozen '' @ ax_checksum frozen @ '' != current '' @ ax_checksum current] else []) @
     concat (map (module_drift (modules_by_name frozen) (modules_by_name current))
       (sort_strings (remdups (map fst (modules_by_name frozen) @ map fst (modules_by_name current))))) @
     (if length (ax_canonicalAbi frozen) \<noteq> length (ax_canonicalAbi current)
      then [''canonical ABI size drift: frozen '' @ show_nat (length (ax_canonicalAbi frozen)) @ '' != current '' @
            show_nat (length (ax_canonicalAbi current))] else [])"

text \<open>\<open>frozenAt\<close> is the parsed content of the committed manifest, if the file exists.\<close>

definition checkFreeze :: "abi_host \<Rightarrow> string \<Rightarrow> abi_export option \<Rightarrow> file_system \<Rightarrow> string list res" where
  "checkFreeze H rootDir frozenAt files = (case frozenAt of
     None \<Rightarrow> Inr [''Committed ABI artifact export missing at '' @ exportPath rootDir @ ''; run with --write to freeze it.'']
   | Some frozen \<Rightarrow> res_bind (buildAbiArtifactExport H files) (\<lambda>current. Inr (diffAgainstFreeze frozen current)))"

end
