(* ===== verification/AbiCorrect.thy ===== *)
theory AbiCorrect
  imports AbiExport
begin

text \<open>
  Properties of the ABI export: interface ids are the XOR of the selectors whatever the order,
  canonical types exist for every registry whose structs do not contain themselves, the
  canonical ABI has no duplicates and loses nothing, the serialisation does not depend on the
  key order, and the comparison with the freeze is silent exactly when nothing drifted.
\<close>

section \<open>Interface ids\<close>

text \<open>A selector as a 32 bit word, and a word as the text of a selector.\<close>

definition selector_text :: "32 word \<Rightarrow> string" where
  "selector_text w = ''0x'' @ pad_start 8 (CHR ''0'') (show_hex (unat w))"

definition selector_word :: "string \<Rightarrow> 32 word" where
  "selector_word s = word_of_nat (radix_val 16 (drop 2 s))"

definition selector_format :: "string \<Rightarrow> bool" where
  "selector_format s \<longleftrightarrow> length s = 10 \<and> take 2 s = ''0x'' \<and> list_all is_hex_lower (drop 2 s)"

lemma parse_bigint_hex:
  assumes "list_all is_hex h" "h \<noteq> []"
  shows "parse_bigint (''0x'' @ h) = Some (int (radix_val 16 h))"
proof -
  have "trim (''0x'' @ h) = ''0x'' @ h"
    by (rule trim_not_ws) (use assms is_hex_not_ws in \<open>auto simp: list_all_iff is_ws_def code_unit_def\<close>)
  moreover have "parse_prefixed (''0x'' @ h) = Some (radix_val 16 h)"
    using assms by (simp add: parse_prefixed_def)
  ultimately show ?thesis by (simp add: parse_bigint_def)
qed

lemma digit_val_hex: "is_hex_lower c \<Longrightarrow> digit_val c < 16"
  by (auto simp: is_hex_lower_def digit_val_def is_digit_def)

lemma radix_val_bound: "list_all is_hex_lower h \<Longrightarrow> radix_val 16 h < 16 ^ length h"
proof (induction h rule: rev_induct)
  case (snoc c h)
  then have "radix_val 16 h + 1 \<le> 16 ^ length h" and "digit_val c < 16"
    by (auto simp: digit_val_hex)
  then have "(radix_val 16 h + 1) * 16 \<le> 16 ^ length h * 16" by (intro mult_le_mono1)
  with \<open>digit_val c < 16\<close> show ?case by (simp add: radix_val_snoc)
qed simp

lemma hex_lower_hex: "list_all is_hex_lower h \<Longrightarrow> list_all is_hex h"
  by (auto simp: list_all_iff is_hex_def)

lemma show_hex_word: "length (show_hex (unat (w :: 32 word))) \<le> 8"
proof -
  have "unat w < 16 ^ 8" using unsigned_less [of w] by simp
  then show ?thesis unfolding show_hex_def by (intro show_radix_length_bound) simp_all
qed

lemma selector_text_format: "selector_format (selector_text w)"
  using show_hex_word [of w]
  by (auto simp: selector_format_def selector_text_def pad_start_def list_all_iff is_hex_lower_def is_digit_def
      code_unit_def dest: show_hex_digits [unfolded is_hex_lower_def is_digit_def code_unit_def])

lemma parse_selector:
  assumes "selector_format s"
  shows "parse_bigint s = Some (uint (selector_word s))"
proof -
  from assms have s: "s = ''0x'' @ drop 2 s" "list_all is_hex_lower (drop 2 s)" "length (drop 2 s) = 8"
    unfolding selector_format_def by (metis append_take_drop_id, simp_all)
  from s(2,3) have "parse_bigint (''0x'' @ drop 2 s) = Some (int (radix_val 16 (drop 2 s)))"
    by (intro parse_bigint_hex hex_lower_hex) auto
  moreover have "radix_val 16 (drop 2 s) < 2 ^ 32" using radix_val_bound [OF s(2)] s(3) by simp
  then have "uint (selector_word s) = int (radix_val 16 (drop 2 s))"
    unfolding selector_word_def by (simp add: unsigned_of_nat take_bit_nat_eq_self)
  ultimately show ?thesis using s(1) by simp
qed

lemma selector_word_text [simp]: "selector_word (selector_text w) = w"
  by (simp add: selector_word_def selector_text_def pad_start_def radix_val_replicate_zero)

lemma xorBytes4_words:
  assumes "selector_format s"
  shows "xorBytes4 (selector_text a) s = Inr (selector_text (a XOR selector_word s))"
proof -
  have "uint a XOR uint (selector_word s) = uint (a XOR selector_word s)"
    by (simp add: unsigned_xor_eq)
  moreover have "show_hex_int (uint w) = show_hex (unat w)" for w :: "32 word"
    by (simp add: show_hex_int_def not_less)
  ultimately show ?thesis
    using parse_selector [OF assms] parse_selector [OF selector_text_format, of a, unfolded selector_word_text]
    by (simp add: xorBytes4_def selector_text_def)
qed

lemma zero_selector: "''0x00000000'' = selector_text 0"
  by code_simp

definition xor_words :: "32 word list \<Rightarrow> 32 word" where
  "xor_words ws = foldr (XOR) ws 0"

lemma foldl_xor: "foldl (XOR) a ws = a XOR xor_words ws" for a :: "32 word"
  by (induction ws arbitrary: a) (simp_all add: xor_words_def xor.assoc)

lemma xor_words_mset: "mset ws = mset vs \<Longrightarrow> xor_words ws = xor_words vs"
proof -
  have remove: "w \<in> set ws \<Longrightarrow> xor_words ws = w XOR xor_words (remove1 w ws)" for w ws
    by (induction ws) (auto simp: xor_words_def xor.left_commute)
  show "mset ws = mset vs \<Longrightarrow> xor_words ws = xor_words vs"
  proof (induction ws arbitrary: vs)
    case (Cons w ws)
    then have "w \<in> set vs" by (metis list.set_intros(1) set_mset_mset)
    moreover from Cons.prems have "mset ws = mset (remove1 w vs)" by (simp flip: Cons.prems)
    ultimately show ?case using Cons.IH [of "remove1 w vs"] remove [of w vs] by (simp add: xor_words_def)
  qed (simp add: xor_words_def)
qed

lemma foldl_xorBytes4:
  assumes "\<forall>fr \<in> set frs. selector_format (selector_of H fr)"
  shows "foldl (\<lambda>acc fr. res_bind acc (\<lambda>a. xorBytes4 a (selector_of H fr))) (Inr (selector_text w)) frs =
    Inr (selector_text (foldl (XOR) w (map (\<lambda>fr. selector_word (selector_of H fr)) frs)))"
  using assms by (induction frs arbitrary: w) (simp_all add: xorBytes4_words)

lemma interface_id_words:
  assumes "\<forall>fr \<in> set frs. selector_format (selector_of H fr)"
  shows "computeInterfaceId H frs = Inr (selector_text
    (xor_words (map (\<lambda>fr. selector_word (selector_of H fr)) (of_kind KFunction frs))))"
proof -
  have "\<forall>fr \<in> set (of_kind KFunction frs). selector_format (selector_of H fr)"
    using assms by (auto simp: of_kind_def)
  from foldl_xorBytes4 [OF this, of 0] show ?thesis
    by (simp add: computeInterfaceId_def zero_selector foldl_xor of_kind_def [symmetric])
qed

text \<open>C12: The interface id is a \<open>0x\<close> string of eight digits, the XOR of the 32 bit selectors of the
  functions, and it is the same for every order of the declarations.\<close>

theorem interface_id_xor:
  assumes "\<forall>fr \<in> set frs. selector_format (selector_of H fr)" and "mset frs' = mset frs"
  shows "computeInterfaceId H frs' = computeInterfaceId H frs \<and>
    computeInterfaceId H frs = Inr (selector_text
      (xor_words (map (\<lambda>fr. selector_word (selector_of H fr)) (of_kind KFunction frs)))) \<and>
    selector_format (selector_text (xor_words (map (\<lambda>fr. selector_word (selector_of H fr)) (of_kind KFunction frs))))"
proof -
  have "set frs' = set frs" using assms(2) by (metis set_mset_mset)
  with assms(1) have wf': "\<forall>fr \<in> set frs'. selector_format (selector_of H fr)" by simp
  have "xor_words (map (\<lambda>fr. selector_word (selector_of H fr)) (of_kind KFunction frs')) =
      xor_words (map (\<lambda>fr. selector_word (selector_of H fr)) (of_kind KFunction frs))"
    by (rule xor_words_mset) (simp add: of_kind_def assms(2))
  with interface_id_words [OF wf'] interface_id_words [OF assms(1)] selector_text_format show ?thesis by simp
qed

definition tiny_host :: abi_host where
  "tiny_host = \<lparr>ah_localeLe = str_le, ah_id = (\<lambda>s. if s = ''f(uint256)'' then ''0x0000000399'' else ''0x0000000599''), ah_stack = 9\<rparr>"

definition tiny_fragment :: "string \<Rightarrow> abi_fragment" where
  "tiny_fragment sig = \<lparr>af_type = KFunction, af_name = ''f'', af_signature = sig, af_inputs = [],
     af_outputs = Some [], af_stateMutability = Some ''view''\<rparr>"

theorem interface_id_xor_witness:
  "computeInterfaceId tiny_host [tiny_fragment ''g()'', tiny_fragment ''f(uint256)''] = Inr ''0x00000006'' \<and>
   computeInterfaceId tiny_host [tiny_fragment ''f(uint256)'', tiny_fragment ''g()''] = Inr ''0x00000006''"
proof -
  let ?f = "tiny_fragment ''f(uint256)''" and ?g = "tiny_fragment ''g()''"
  have "list_all (\<lambda>fr. selector_format (selector_of tiny_host fr)) [?f, ?g]" by code_simp
  then have wf: "\<forall>fr \<in> set [?f, ?g]. selector_format (selector_of tiny_host fr)" by (simp only: list_all_iff)
  have "mset [?g, ?f] = mset [?f, ?g]" by simp
  from conjunct1 [OF interface_id_xor [OF wf this]]
  have "computeInterfaceId tiny_host [?g, ?f] = computeInterfaceId tiny_host [?f, ?g]" .
  moreover have "computeInterfaceId tiny_host [?f, ?g] = Inr ''0x00000006''" by code_simp
  ultimately show ?thesis by (simp only: simp_thms)
qed

section \<open>Canonical types\<close>

definition known_type :: "type_registry \<Rightarrow> string \<Rightarrow> bool" where
  "known_type R t \<longleftrightarrow> type_base t \<in> set ELEMENTARY_TYPES \<or> type_base t \<in> set (tr_enums R) \<or>
     map_of (tr_structs R) (type_base t) \<noteq> None"

text \<open>Every field has a known type, and \<open>rank\<close> falls from a struct to the structs in it.\<close>

definition ranked_registry :: "type_registry \<Rightarrow> (string \<Rightarrow> nat) \<Rightarrow> bool" where
  "ranked_registry R rank \<longleftrightarrow> list_all (\<lambda>(n, fs). list_all (\<lambda>f. known_type R (rp_type f) \<and>
     (if map_of (tr_structs R) (type_base (rp_type f)) = None then True
      else rank (type_base (rp_type f)) < rank n)) fs) (tr_structs R)"

lemma canonical_struct:
  assumes "map_of (tr_structs R) (type_base t) = Some fs" "type_base t \<notin> set ELEMENTARY_TYPES"
    "type_base t \<notin> set (tr_enums R)"
  shows "canonicalizeType (Suc k) R t = res_bind (traverse (\<lambda>f. canonicalizeType k R (rp_type f)) fs)
      (\<lambda>cs. Inr (''('' @ join_with '','' cs @ '')'' @ type_suffix t))"
  using assms by (simp add: Let_def)

lemma canonical_simple:
  assumes "known_type R t" "map_of (tr_structs R) (type_base t) = None \<or> type_base t \<in> set ELEMENTARY_TYPES \<or>
    type_base t \<in> set (tr_enums R)"
  shows "\<exists>s. \<forall>k. canonicalizeType (Suc k) R t = Inr s"
  using assms by (auto simp: known_type_def Let_def)

text \<open>C14: Where every type is known and no struct contains itself, canonicalisation returns a result with
  any stack deeper than the nesting, and the same result for every such depth.\<close>

theorem canonical_type_total:
  assumes "ranked_registry R rank" "known_type R t" "rank (type_base t) < k"
  shows "\<exists>s. \<forall>m. canonicalizeType (Suc k + m) R t = Inr s"
  using assms(2,3)
proof (induction k arbitrary: t)
  case (Suc k)
  show ?case
  proof (cases "map_of (tr_structs R) (type_base t) = None \<or> type_base t \<in> set ELEMENTARY_TYPES \<or>
      type_base t \<in> set (tr_enums R)")
    case True
    from canonical_simple [OF Suc.prems(1) this] obtain s where "\<forall>k. canonicalizeType (Suc k) R t = Inr s" ..
    then have "\<forall>m. canonicalizeType (Suc (Suc k) + m) R t = Inr s" by (simp only: add_Suc simp_thms)
    then show ?thesis ..
  next
    case False
    then obtain fs where fs: "map_of (tr_structs R) (type_base t) = Some fs" by auto
    then have "(type_base t, fs) \<in> set (tr_structs R)" by (rule map_of_SomeD)
    with assms(1) have field: "known_type R (rp_type f)"
      "map_of (tr_structs R) (type_base (rp_type f)) \<noteq> None \<Longrightarrow> rank (type_base (rp_type f)) < rank (type_base t)"
      if "f \<in> set fs" for f
      using that unfolding ranked_registry_def list_all_iff by (fastforce split: if_splits)+
    have "\<exists>s. \<forall>m. canonicalizeType (Suc k + m) R (rp_type f) = Inr s" if f: "f \<in> set fs" for f
    proof (cases "map_of (tr_structs R) (type_base (rp_type f))")
      case None
      with canonical_simple [OF field(1) [OF f]]
      obtain s where "\<forall>k. canonicalizeType (Suc k) R (rp_type f) = Inr s" by blast
      then have "\<forall>m. canonicalizeType (Suc k + m) R (rp_type f) = Inr s" by (simp only: add_Suc simp_thms)
      then show ?thesis ..
    next
      case (Some gs)
      with field(2) [OF f] Suc.prems(2) have "rank (type_base (rp_type f)) < k" by simp
      from Suc.IH [OF field(1) [OF f] this] show ?thesis .
    qed
    then obtain g where "\<forall>f \<in> set fs. \<forall>m. canonicalizeType (Suc k + m) R (rp_type f) = Inr (g f)"
      by (metis (no_types))
    then have "traverse (\<lambda>f. canonicalizeType (Suc k + m) R (rp_type f)) fs = Inr (map g fs)" for m
      by (intro traverse_map) simp
    with canonical_struct [OF fs] False show ?thesis by simp
  qed
qed simp

definition tiny_registry :: type_registry where
  "tiny_registry = \<lparr>tr_enums = [''Status''],
     tr_structs = [(''Claim'', [\<lparr>rp_name = ''id'', rp_type = ''uint256'', rp_indexed = False\<rparr>,
        \<lparr>rp_name = ''status'', rp_type = ''Status'', rp_indexed = False\<rparr>]),
       (''Round'', [\<lparr>rp_name = ''claims'', rp_type = ''Claim[]'', rp_indexed = False\<rparr>])]\<rparr>"

theorem canonical_type_total_witness:
  "canonicalizeType 3 tiny_registry ''Round[2]'' = Inr ''((uint256,uint8)[])[2]'' \<and>
   canonicalizeType 50 tiny_registry ''Round[2]'' = Inr ''((uint256,uint8)[])[2]''"
proof -
  let ?rank = "\<lambda>n. if n = ''Round'' then 1 else 0 :: nat"
  have "list_all (\<lambda>(n, fs). list_all (\<lambda>f. known_type tiny_registry (rp_type f) \<and>
     (if map_of (tr_structs tiny_registry) (type_base (rp_type f)) = None then True
      else (if type_base (rp_type f) = ''Round'' then 1 else 0 :: nat) < (if n = ''Round'' then 1 else 0))) fs)
     (tr_structs tiny_registry)"
    by code_simp
  then have ranked: "ranked_registry tiny_registry ?rank" by (simp add: ranked_registry_def)
  have base: "type_base ''Round[2]'' = ''Round'' \<and> known_type tiny_registry ''Round[2]''" by code_simp
  with canonical_type_total [OF ranked, of "''Round[2]''" 2] obtain s where
    s: "\<forall>m. canonicalizeType (Suc 2 + m) tiny_registry ''Round[2]'' = Inr s" by auto
  have "canonicalizeType 3 tiny_registry ''Round[2]'' = Inr ''((uint256,uint8)[])[2]''" by code_simp
  moreover have "canonicalizeType 3 tiny_registry ''Round[2]'' = Inr s" "canonicalizeType 50 tiny_registry ''Round[2]'' = Inr s"
    using s [rule_format, of 0] s [rule_format, of 47] by (simp_all del: canonicalizeType.simps)
  ultimately show ?thesis by (simp only:)
qed

lemma canonical_self_reference:
  assumes "map_of (tr_structs R) n = Some (f # fs)" "type_base (rp_type f) = n"
    and "n \<notin> set ELEMENTARY_TYPES" "n \<notin> set (tr_enums R)"
  shows "\<exists>e. canonicalizeType k R (rp_type f) = Inl e \<and> err_class e = ''RangeError''"
proof (induction k)
  case (Suc k)
  with assms show ?case by (auto simp: Let_def)
qed simp

section \<open>The canonical ABI\<close>

lemma parse_kinds:
  assumes "parseInterfaceSource le src path = Inr p"
  shows "list_all (\<lambda>e. re_kind e = KFunction) (pi_functions p) \<and> list_all (\<lambda>e. re_kind e = KError) (pi_errors p) \<and>
    list_all (\<lambda>e. re_kind e = KEvent) (pi_events p)"
  using assms
  by (auto simp: parseInterfaceSource_def Let_def res_bind_Inr_iff abi_error_def list_all_iff split: option.splits)

lemma resolveEntry_kind: "resolveEntry H R e = Inr fr \<Longrightarrow> af_type fr = re_kind e"
  by (auto simp: resolveEntry_def Let_def res_bind_Inr_iff split: if_splits)

lemma resolve_kinds:
  assumes "traverse (resolveEntry H R) es = Inr frs" "list_all (\<lambda>e. re_kind e = k) es"
  shows "of_kind j frs = (if j = k then frs else [])"
proof -
  have "af_type fr = k" if "fr \<in> set frs" for fr
    using traverse_source_of [OF assms(1) that] assms(2) resolveEntry_kind by (auto simp: list_all_iff)
  then show ?thesis by (auto simp: of_kind_def intro: filter_True filter_False)
qed

lemma of_kind_append [simp]: "of_kind k (xs @ ys) = of_kind k xs @ of_kind k ys"
  by (simp add: of_kind_def)

lemma module_item_signatures: "mi_signature ` set (module_items H h n frs) = af_signature ` set frs"
  by (force simp: module_items_def)

text \<open>The signatures of one kind that a module lists.\<close>

definition module_signatures :: "entry_kind \<Rightarrow> resolved_module \<Rightarrow> string set" where
  "module_signatures k m = mi_signature ` set (case k of KFunction \<Rightarrow> rm_functions m | KError \<Rightarrow> rm_errors m
     | KEvent \<Rightarrow> rm_events m)"

lemma resolveModule_signatures:
  assumes "resolveModule H R p = Inr (m, frs)" "parse_file H files src = Inr p"
  shows "module_signatures k m = af_signature ` set (of_kind k frs)"
proof -
  from assms(2) obtain content where "parseInterfaceSource (ah_localeLe H) content src = Inr p"
    by (auto simp: parse_file_def res_bind_Inr_iff)
  note kinds = parse_kinds [OF this]
  from assms(1) obtain fs es vs i where
    f: "traverse (resolveEntry H R) (pi_functions p) = Inr fs" and e: "traverse (resolveEntry H R) (pi_errors p) = Inr es"
    and v: "traverse (resolveEntry H R) (pi_events p) = Inr vs"
    and frs: "frs = fs @ es @ vs"
    and m: "mi_signature ` set (rm_functions m) = af_signature ` set fs"
      "mi_signature ` set (rm_errors m) = af_signature ` set es" "mi_signature ` set (rm_events m) = af_signature ` set vs"
    by (auto simp: resolveModule_def Let_def res_bind_Inr_iff module_item_signatures)
  have "of_kind j fs = (if j = KFunction then fs else [])" "of_kind j es = (if j = KError then es else [])"
    "of_kind j vs = (if j = KEvent then vs else [])" for j
    using resolve_kinds [OF f] resolve_kinds [OF e] resolve_kinds [OF v] kinds by blast+
  with frs m show ?thesis by (cases k) (simp_all add: module_signatures_def)
qed

lemma dedupe_signatures: "af_signature ` set (dedupe H frs) = af_signature ` set frs"
  by (simp add: dedupe_def dedupe_on_keys)

lemma dedupe_distinct: "distinct (map af_signature (dedupe H frs))"
proof -
  have "mset (map af_signature (dedupe H frs)) = mset (map af_signature (dedupe_on af_signature {} frs))"
    by (simp add: dedupe_def)
  then show ?thesis using mset_eq_imp_distinct_iff dedupe_on_distinct by metis
qed

lemma of_kind_dedupe: "of_kind j (dedupe H (of_kind k frs)) = (if j = k then dedupe H (of_kind k frs) else [])"
proof -
  have "af_type fr = k" if "fr \<in> set (dedupe H (of_kind k frs))" for fr
    using that dedupe_on_subset [of af_signature "{}" "of_kind k frs"] by (auto simp: dedupe_def of_kind_def)
  then show ?thesis by (auto simp: of_kind_def [of j] intro: filter_True filter_False)
qed

lemma build_canonical:
  assumes "buildAbiArtifactExport H files = Inr e"
  obtains frs where "\<And>k. of_kind k (ax_canonicalAbi e) = dedupe H (of_kind k frs)"
    and "\<And>k. (\<Union>m \<in> set (ax_modules e). module_signatures k m) = af_signature ` set (of_kind k frs)"
proof -
  from assms obtain parsed R resolved where
    parsed: "traverse (\<lambda>name. parse_file H files (the (map_of CANONICAL_MODULE_SOURCES name)))
        (sort_strings (map fst CANONICAL_MODULE_SOURCES)) = Inr parsed"
    and resolved: "traverse (resolveModule H R) parsed = Inr resolved"
    and e: "ax_modules e = map fst resolved" "ax_canonicalAbi e =
        dedupe H (of_kind KFunction (concat (map snd resolved))) @ dedupe H (of_kind KError (concat (map snd resolved))) @
        dedupe H (of_kind KEvent (concat (map snd resolved)))"
    by (auto simp: buildAbiArtifactExport_def Let_def res_bind_Inr_iff)
  have each: "module_signatures k (fst r) = af_signature ` set (of_kind k (snd r))" if "r \<in> set resolved" for r k
  proof -
    from traverse_source_of [OF resolved that] obtain p where p: "p \<in> set parsed" "resolveModule H R p = Inr r" by blast
    from traverse_source_of [OF parsed p(1)] obtain src where "parse_file H files src = Inr p" by blast
    with resolveModule_signatures [of H R p "fst r" "snd r"] p(2) show ?thesis by simp
  qed
  show ?thesis
  proof (rule that [of "concat (map snd resolved)"])
    fix k
    show "of_kind k (ax_canonicalAbi e) = dedupe H (of_kind k (concat (map snd resolved)))"
      by (cases k) (simp_all add: e of_kind_dedupe)
    have "(\<Union>m \<in> set (ax_modules e). module_signatures k m) = (\<Union>r \<in> set resolved. af_signature ` set (of_kind k (snd r)))"
      using each by (auto simp: e)
    also have "\<dots> = af_signature ` set (of_kind k (concat (map snd resolved)))"
      by (auto simp: of_kind_def)
    finally show "(\<Union>m \<in> set (ax_modules e). module_signatures k m) =
        af_signature ` set (of_kind k (concat (map snd resolved)))" .
  qed
qed

text \<open>C13: The canonical ABI lists, for functions, errors and events alike, exactly the signatures of the
  modules, each once.\<close>

theorem canonical_abi_exact:
  assumes "buildAbiArtifactExport H files = Inr e"
  shows "distinct (map af_signature (of_kind k (ax_canonicalAbi e))) \<and>
    set (map af_signature (of_kind k (ax_canonicalAbi e))) = (\<Union>m \<in> set (ax_modules e). module_signatures k m)"
proof -
  obtain frs where "of_kind k (ax_canonicalAbi e) = dedupe H (of_kind k frs)"
    "(\<Union>m \<in> set (ax_modules e). module_signatures k m) = af_signature ` set (of_kind k frs)"
    using build_canonical [OF assms] by metis
  then show ?thesis by (simp add: dedupe_distinct dedupe_signatures)
qed

text \<open>A source tree in which every file declares one small interface.\<close>

definition tiny_source :: string where
  "tiny_source = ''interface I { function f(uint a) external view; event E(); }''"

definition tiny_parsed :: "string \<Rightarrow> parsed_interface" where
  "tiny_parsed path = \<lparr>pi_name = ''I'', pi_source = path, pi_inherits = [],
     pi_functions = [\<lparr>re_kind = KFunction, re_name = ''f'', re_inputs = [\<lparr>rp_name = ''a'', rp_type = ''uint256'', rp_indexed = False\<rparr>],
        re_outputs = [], re_stateMutability = ''view''\<rparr>], pi_errors = [],
     pi_events = [\<lparr>re_kind = KEvent, re_name = ''E'', re_inputs = [], re_outputs = [], re_stateMutability = []\<rparr>],
     pi_structs = [], pi_enums = []\<rparr>"

abbreviation no_types :: type_registry where
  "no_types \<equiv> \<lparr>tr_enums = [], tr_structs = []\<rparr>"

lemma tiny_parse: "parseInterfaceSource str_le tiny_source path = Inr (tiny_parsed path)"
  by code_simp

lemma tiny_parse_file: "parse_file tiny_host (\<lambda>p. Some tiny_source) path = Inr (tiny_parsed path)"
  by (simp add: parse_file_def readSource_def tiny_host_def tiny_parse)

lemma tiny_register: "registerTypes (map (\<lambda>x. tiny_parsed (f x)) xs) R = R"
  by (induction xs) (simp_all add: registerTypes_def register_one_def tiny_parsed_def)

lemma tiny_resolve: "\<exists>r. resolveModule tiny_host no_types (tiny_parsed path) = Inr r"
proof -
  have "\<exists>x. traverse (resolveEntry tiny_host no_types) (pi_functions (tiny_parsed path)) = Inr [x] \<and>
      computeInterfaceId tiny_host [x] = Inr ''0x00000003''"
    by (rule exI [of _ "\<lparr>af_type = KFunction, af_name = ''f'', af_signature = ''f(uint256)'',
      af_inputs = [\<lparr>ap_name = ''a'', ap_type = ''uint256'', ap_indexed = False\<rparr>], af_outputs = Some [],
      af_stateMutability = Some ''view''\<rparr>"]) code_simp
  moreover have "\<exists>y. traverse (resolveEntry tiny_host no_types) (pi_events (tiny_parsed path)) = Inr y"
    by (rule exI [of _ "[\<lparr>af_type = KEvent, af_name = ''E'', af_signature = ''E()'', af_inputs = [], af_outputs = None,
      af_stateMutability = None\<rparr>]"]) code_simp
  moreover have "traverse (resolveEntry tiny_host no_types) (pi_errors (tiny_parsed path)) = Inr []"
    by (simp add: tiny_parsed_def)
  ultimately show ?thesis by (auto simp: resolveModule_def Let_def)
qed

lemma tiny_build: "\<exists>e. buildAbiArtifactExport tiny_host (\<lambda>p. Some tiny_source) = Inr e"
proof -
  obtain g where g: "\<And>path. resolveModule tiny_host no_types (tiny_parsed path) = Inr (g path)"
    using tiny_resolve by metis
  have parsed: "traverse (\<lambda>x. parse_file tiny_host (\<lambda>p. Some tiny_source) (f x)) xs = Inr (map (\<lambda>x. tiny_parsed (f x)) xs)"
    for f :: "string \<Rightarrow> string" and xs
    by (rule traverse_map) (rule tiny_parse_file)
  have resolved: "traverse (resolveModule tiny_host no_types) (map (\<lambda>x. tiny_parsed (f x)) xs) = Inr (map (\<lambda>x. g (f x)) xs)"
    for f :: "string \<Rightarrow> string" and xs
    by (induction xs) (simp_all add: g)
  show ?thesis
    unfolding buildAbiArtifactExport_def Let_def
    by (simp only: parsed [of "\<lambda>x. x"] parsed res_bind_Inr tiny_register tiny_register [of "\<lambda>x. x"] resolved) blast
qed

theorem canonical_abi_exact_witness:
  "\<exists>e. buildAbiArtifactExport tiny_host (\<lambda>p. Some tiny_source) = Inr e \<and>
     distinct (map af_signature (of_kind KFunction (ax_canonicalAbi e)))"
  using tiny_build canonical_abi_exact by blast

section \<open>Serialisation and freeze\<close>

lemma sorted_members_perm:
  assumes "distinct (map fst kvs)" "mset kvs = mset kvs'"
  shows "sorted_members kvs = sorted_members kvs'"
proof -
  have inj: "inj_on fst (set kvs)" using assms(1) by (simp add: distinct_map)
  have same: "x = y" if "x \<in> set kvs" "y \<in> set kvs" "str_le (fst x) (fst y)" "str_le (fst y) (fst x)" for x y
    by (rule inj_onD [OF inj str_le_antisym [OF that(3,4)] that(1,2)])
  have "sort_by (\<lambda>a b. str_le (fst a) (fst b)) kvs = sort_by (\<lambda>a b. str_le (fst a) (fst b)) kvs'"
    by (rule sort_by_mset_cong [OF key_total_preorder [OF str_le_total_preorder] assms(2) same])
  then show ?thesis by (simp only: sorted_members_def)
qed

lemma stableStringify_key_order:
  assumes "distinct (map fst kvs)" "mset kvs = mset kvs'"
  shows "stableStringify (JObj kvs) = stableStringify (JObj kvs')"
proof -
  let ?f = "\<lambda>(key, v). (key, json_quote key @ '':'' @ stableStringify v)"
  have "map fst (map ?f kvs) = map fst kvs" by (simp add: split_def comp_def)
  then have "distinct (map fst (map ?f kvs))" by (simp only: assms(1))
  moreover have "mset (map ?f kvs) = mset (map ?f kvs')" by (simp only: mset_map assms(2))
  ultimately have "sorted_members (map ?f kvs) = sorted_members (map ?f kvs')"
    by (rule sorted_members_perm)
  then show ?thesis by (simp only: stableStringify.simps)
qed

lemma module_drift_Nil:
  assumes "name \<in> fst ` set f \<union> fst ` set c"
  shows "module_drift f c name = [] \<longleftrightarrow>
    map_option (\<lambda>m. (rm_digest m, rm_interfaceId m)) (map_of f name) =
    map_option (\<lambda>m. (rm_digest m, rm_interfaceId m)) (map_of c name)"
proof (cases "map_of f name")
  case None
  with assms have "map_of c name \<noteq> None" by (auto simp: map_of_eq_None_iff)
  with None show ?thesis by (auto simp: module_drift_def)
next
  case (Some m)
  then show ?thesis by (cases "map_of c name") (auto simp: module_drift_def)
qed

text \<open>What the comparison looks at: per module name the digest and interface id of the last module with
  that name.\<close>

definition module_fingerprints :: "abi_export \<Rightarrow> string \<Rightarrow> (string \<times> string) option" where
  "module_fingerprints e name =
     map_option (\<lambda>m. (rm_digest m, rm_interfaceId m)) (map_of (rev (map (\<lambda>m. (rm_name m, m)) (ax_modules e))) name)"

text \<open>The comparison with the freeze reports nothing exactly when the checksums agree, both exports
  have the same modules with the same digests and interface ids, and the ABIs have the same
  size.\<close>

theorem no_drift_iff:
  "diffAgainstFreeze frozen current = [] \<longleftrightarrow>
     ax_checksum frozen = ax_checksum current \<and> module_fingerprints frozen = module_fingerprints current \<and>
     length (ax_canonicalAbi frozen) = length (ax_canonicalAbi current)"
proof -
  let ?F = "modules_by_name frozen" and ?C = "modules_by_name current"
  let ?fp = "\<lambda>ms name. map_option (\<lambda>m. (rm_digest m, rm_interfaceId m)) (map_of ms name)"
  have fp: "module_fingerprints frozen = ?fp ?F" "module_fingerprints current = ?fp ?C"
    by (auto simp: module_fingerprints_def modules_by_name_def map_of_kv_of_list)
  have "concat (map (module_drift ?F ?C) (sort_strings (remdups (map fst ?F @ map fst ?C)))) = [] \<longleftrightarrow>
      (\<forall>name \<in> fst ` set ?F \<union> fst ` set ?C. ?fp ?F name = ?fp ?C name)"
    using module_drift_Nil by (auto simp: concat_eq_Nil_conv)
  also have "\<dots> \<longleftrightarrow> ?fp ?F = ?fp ?C"
  proof
    assume eq: "\<forall>name \<in> fst ` set ?F \<union> fst ` set ?C. ?fp ?F name = ?fp ?C name"
    show "?fp ?F = ?fp ?C"
    proof
      fix name
      show "?fp ?F name = ?fp ?C name"
        using eq by (cases "name \<in> fst ` set ?F \<union> fst ` set ?C")
          (auto simp: map_of_eq_None_iff [symmetric] simp del: map_of_eq_None_iff)
    qed
  qed metis
  finally show ?thesis unfolding diffAgainstFreeze_def fp by auto
qed

end
