(* ===== verification/AbiFreeze.thy ===== *)
theory AbiFreeze
  imports AbiCorrect
begin

text \<open>
  The command line of \<open>scripts/exportVersionedAbiArtifacts.ts\<close>: \<open>--write\<close>, which freezes the export, and the
  check against the freeze. The state is the content of the manifest as a later run parses it; the
  sources lie elsewhere and stay as they are. An error is thrown to the top: exit code 1.
\<close>

definition writeFreeze :: "abi_host \<Rightarrow> string \<Rightarrow> file_system \<Rightarrow> (abi_export option, string) action" where
  "writeFreeze H rootDir files frozen = (case buildAbiArtifactExport H files of
     Inl e \<Rightarrow> (Inl e, frozen)
   | Inr bundle \<Rightarrow> (Inr (exportPath rootDir), Some bundle))"

text \<open>The exit code, the lines of the report, and the freeze left on disk.\<close>

definition abi_report :: "abi_export \<Rightarrow> string" where
  "abi_report bundle = ''modules='' @ show_nat (length (ax_modules bundle)) @ '' abiEntries='' @
     show_nat (length (ax_canonicalAbi bundle)) @ '' checksum='' @ ax_checksum bundle"

definition abi_main :: "abi_host \<Rightarrow> string \<Rightarrow> file_system \<Rightarrow> string list \<Rightarrow> abi_export option \<Rightarrow>
    int \<times> string list \<times> abi_export option" where
  "abi_main H rootDir files argv frozen =
     (if ''--write'' \<in> set argv then
        (case writeFreeze H rootDir files frozen of
           (Inl e, frozen') \<Rightarrow> (1, [err_message e], frozen')
         | (Inr target, frozen') \<Rightarrow> (case buildAbiArtifactExport H files of
             Inl e \<Rightarrow> (1, [err_message e], frozen')
           | Inr bundle \<Rightarrow> (0, [''Froze versioned ABI artifact exports at: '' @ target, abi_report bundle], frozen')))
      else (case checkFreeze H rootDir frozen files of
           Inl e \<Rightarrow> (1, [err_message e], frozen)
         | Inr drifts \<Rightarrow>
             (if drifts \<noteq> [] then (1, map (\<lambda>drift. ''DRIFT: '' @ drift) drifts, frozen)
              else (0, [''Versioned ABI artifact exports are frozen and drift-free.''], frozen))))"

section \<open>Freezing and checking\<close>

lemma no_self_drift: "diffAgainstFreeze e e = []"
proof -
  have "module_drift ms ms name = []" if "name \<in> fst ` set ms" for ms :: "(string \<times> resolved_module) list" and name
    using that by (auto simp: module_drift_def map_of_eq_None_iff split: option.splits)
  then show ?thesis by (auto simp: diffAgainstFreeze_def concat_eq_Nil_conv)
qed


text \<open>The check never writes, and ends with 0 exactly when a freeze exists that the export of the current
  sources agrees with in checksum, modules and the size of the ABI.\<close>

theorem check_exit_iff:
  "case abi_main H rootDir files [] frozen of (code, lines, frozen') \<Rightarrow> frozen' = frozen \<and>
     (code = 0 \<longleftrightarrow> (case (frozen, buildAbiArtifactExport H files) of
        (Some f, Inr e) \<Rightarrow> ax_checksum f = ax_checksum e \<and> module_fingerprints f = module_fingerprints e \<and>
          length (ax_canonicalAbi f) = length (ax_canonicalAbi e)
      | _ \<Rightarrow> False))"
  by (cases frozen; cases "buildAbiArtifactExport H files")
     (auto simp: abi_main_def checkFreeze_def no_drift_iff)

end
