(* ===== verification/StorageLayout.thy ===== *)
theory StorageLayout
  imports FilePaths
begin

text \<open>
  \<open>scripts/validateStorageLayouts.ts\<close>: the storage layout gate of the upgradeable contracts.
  Parameters (\<open>layout_env\<close>): the build-info files with the compiler output, the layout
  extraction and the compatibility check of \<open>@openzeppelin/upgrades-core\<close>, the committed
  manifest, and the tree below \<open>contracts/\<close>.
\<close>

section \<open>Data\<close>

record tracked_contract =
  tc_name :: string
  tc_file :: string
  tc_note :: string

definition TRACKED_CONTRACTS :: "tracked_contract list" where
  "TRACKED_CONTRACTS =
   [\<lparr>tc_name = ''TruthBountyToken'', tc_file = ''contracts/TruthBounty.sol'', tc_note = ''UUPS proxy token module''\<rparr>,
    \<lparr>tc_name = ''TruthBounty'', tc_file = ''contracts/TruthBounty.sol'', tc_note = ''inherits GovernanceOwnable (gap)''\<rparr>,
    \<lparr>tc_name = ''DisputeResolution'', tc_file = ''contracts/DisputeResolution.sol'', tc_note = ''declares __gap''\<rparr>,
    \<lparr>tc_name = ''StakeVault'', tc_file = ''contracts/StakeVault.sol'', tc_note = ''declares __gap''\<rparr>,
    \<lparr>tc_name = ''ClaimLifecycle'', tc_file = ''contracts/ClaimLifecycle.sol'', tc_note = ''declares __gap''\<rparr>,
    \<lparr>tc_name = ''WeightedStaking'', tc_file = ''contracts/WeightedStaking.sol'', tc_note = ''inherits GovernanceOwnable (gap)''\<rparr>,
    \<lparr>tc_name = ''VerifierSlashing'', tc_file = ''contracts/VerifierSlashing.sol'', tc_note = ''inherits GovernanceOwnable (gap)''\<rparr>,
    \<lparr>tc_name = ''VerificationRoundManager'', tc_file = ''contracts/VerificationRoundManager.sol'', tc_note = ''declares __gap''\<rparr>,
    \<lparr>tc_name = ''FeeManager'', tc_file = ''contracts/fees/FeeManager.sol'', tc_note = ''declares __gap + GovernanceOwnable''\<rparr>,
    \<lparr>tc_name = ''TokenomicsEngine'', tc_file = ''contracts/tokenomics/TokenomicsEngine.sol'', tc_note = ''declares __gap''\<rparr>,
    \<lparr>tc_name = ''ReputationEngine'', tc_file = ''contracts/reputation/ReputationEngine.sol'', tc_note = ''declares __gap + GovernanceOwnable''\<rparr>,
    \<lparr>tc_name = ''ReputationDecay'', tc_file = ''contracts/ReputationDecay.sol'', tc_note = ''declares __gap + GovernanceOwnable''\<rparr>,
    \<lparr>tc_name = ''RewardEngine'', tc_file = ''contracts/reward/RewardEngine.sol'', tc_note = ''inherits GovernanceOwnable (gap)''\<rparr>,
    \<lparr>tc_name = ''BootstrapController'', tc_file = ''contracts/bootstrap/BootstrapController.sol'', tc_note = ''inherits GovernanceOwnable (gap)''\<rparr>,
    \<lparr>tc_name = ''MigrationManager'', tc_file = ''contracts/deployment/MigrationManager.sol'', tc_note = ''inherits GovernanceOwnable (gap)''\<rparr>,
    \<lparr>tc_name = ''TreasuryManagement'', tc_file = ''contracts/treasury/TreasuryManagement.sol'', tc_note = ''declares __gap + GovernanceOwnable''\<rparr>,
    \<lparr>tc_name = ''TreasuryAccounting'', tc_file = ''contracts/treasury/TreasuryAccounting.sol'', tc_note = ''inherits GovernanceOwnable (gap)''\<rparr>,
    \<lparr>tc_name = ''InsuranceFund'', tc_file = ''contracts/insurance/InsuranceFund.sol'', tc_note = ''inherits GovernanceOwnable (gap)''\<rparr>,
    \<lparr>tc_name = ''ProvisionalSettlementEngine'', tc_file = ''contracts/settlement/ProvisionalSettlementEngine.sol'', tc_note = ''inherits GovernanceOwnable (gap)''\<rparr>,
    \<lparr>tc_name = ''AppealVerificationRound'', tc_file = ''contracts/disputes/AppealVerificationRound.sol'', tc_note = ''inherits GovernanceOwnable (gap)''\<rparr>,
    \<lparr>tc_name = ''ReputationUpdateEngine'', tc_file = ''contracts/ReputationUpdateEngine.sol'', tc_note = ''inherits GovernanceOwnable (gap)''\<rparr>,
    \<lparr>tc_name = ''TimelockOwnedProxyAdmin'', tc_file = ''contracts/upgrade/TimelockOwnedProxyAdmin.sol'', tc_note = ''declares __gap''\<rparr>,
    \<lparr>tc_name = ''MockUpgradeable'', tc_file = ''contracts/MockUpgradeable.sol'', tc_note = ''UUPS test target''\<rparr>]"

type_synonym json_object = "(string \<times> json) list"

record raw_layout =
  rl_storage :: "json_object list"
  rl_types :: "(string \<times> json_object) list"

record layout_entry =
  le_file :: string
  le_solcVersion :: string
  le_layout :: raw_layout

record contract_def =
  cd_name :: string
  cd_kind :: string
  cd_abstract :: bool

text \<open>One pair of build-info files, as parsed.\<close>

record build_info =
  bi_solcVersion :: string
  bi_ast :: "string \<Rightarrow> contract_def list option"            \<comment> \<open>source key\<close>
  bi_storageLayout :: "string \<Rightarrow> string \<Rightarrow> json option"      \<comment> \<open>source key, contract\<close>

record layout_env =
  lv_buildInfo :: "(string \<times> int \<times> build_info) list option"
    \<comment> \<open>the directory, if it exists: file name, modification time, content\<close>
  lv_extract :: "contract_def \<Rightarrow> json \<Rightarrow> raw_layout"
  lv_upgradeSafe :: "raw_layout \<Rightarrow> raw_layout \<Rightarrow> unit res"
  lv_manifest :: "(string \<times> layout_entry) list option res option"
    \<comment> \<open>none: no such file; otherwise the parse result and its \<open>contracts\<close>\<close>
  lv_contracts :: "fs_entry list"

section \<open>Layouts in stable form\<close>

definition stripMeta :: "json_object \<Rightarrow> json_object" where
  "stripMeta item = filter (\<lambda>(k, v). k \<noteq> ''astId'' \<and> k \<noteq> ''src'') item"

definition strip_member :: "json \<Rightarrow> json" where
  "strip_member m = (case m of JObj kvs \<Rightarrow> JObj (stripMeta kvs) | _ \<Rightarrow> m)"

definition strip_members :: "json_object \<Rightarrow> json_object" where
  "strip_members entry = map (\<lambda>(k, v). (k, if k = ''members'' then
     (case v of JArr ms \<Rightarrow> JArr (map strip_member ms) | _ \<Rightarrow> v) else v)) entry"

definition stabilizeLayout :: "raw_layout \<Rightarrow> raw_layout" where
  "stabilizeLayout layout =
     \<lparr>rl_storage = map stripMeta (rl_storage layout),
      rl_types = map (\<lambda>(key, item). (key, strip_members (stripMeta item)))
        (sort_by (\<lambda>a b. str_le (fst a) (fst b)) (rl_types layout))\<rparr>"

section \<open>The current layouts\<close>

text \<open>The newest \<open>*.output.json\<close>, by a stable sort on the modification time.\<close>

definition newest_build :: "(string \<times> int \<times> build_info) list \<Rightarrow> build_info res" where
  "newest_build files =
     (case sort_by (\<lambda>a b. fst (snd b) \<le> fst (snd a)) (filter (\<lambda>(f, t, b). ends_with ''.output.json'' f) files) of
        [] \<Rightarrow> throw_error ''No *.output.json build-info found in artifacts/build-info. Run `npx hardhat compile --force` first.''
      | (f, t, b) # rest \<Rightarrow> Inr b)"

definition current_layout :: "layout_env \<Rightarrow> build_info \<Rightarrow> tracked_contract \<Rightarrow> (string \<times> layout_entry) res" where
  "current_layout env b tracked =
     (let sourceKey = ''project/'' @ tc_file tracked in
      case bi_ast b sourceKey of
        None \<Rightarrow> throw_error (''Source not found in build-info: '' @ tc_file tracked)
      | Some contractDefs \<Rightarrow> (case find (\<lambda>c. cd_name c = tc_name tracked) contractDefs of
          None \<Rightarrow> throw_error (''Contract '' @ tc_name tracked @ '' not found in '' @ tc_file tracked)
        | Some contractDef \<Rightarrow>
            if cd_kind contractDef \<noteq> ''contract'' \<or> cd_abstract contractDef
            then throw_error (tc_name tracked @ '' is abstract; tracked contracts must be concrete'')
            else (case bi_storageLayout b sourceKey (tc_name tracked) of
              None \<Rightarrow> throw_error (''No storageLayout output for '' @ tc_name tracked @
                ''. Ensure hardhat.config.ts includes '' @ [CHR 0x22] @ ''storageLayout'' @ [CHR 0x22] @ '' in solidity.settings.outputSelection and recompile with `npx hardhat compile --force`.'')
            | Some rawLayout \<Rightarrow> Inr (tc_name tracked,
                \<lparr>le_file = tc_file tracked, le_solcVersion = bi_solcVersion b,
                 le_layout = stabilizeLayout (lv_extract env contractDef rawLayout)\<rparr>))))"

definition loadCurrentLayouts :: "layout_env \<Rightarrow> (string \<times> layout_entry) list res" where
  "loadCurrentLayouts env =
     (case lv_buildInfo env of
        None \<Rightarrow> throw_error ''Build-info directory not found: artifacts/build-info. Run `npx hardhat compile --force` first.''
      | Some files \<Rightarrow> res_bind (newest_build files) (\<lambda>b.
          res_bind (traverse (current_layout env b) TRACKED_CONTRACTS) (\<lambda>ls. Inr (kv_of_list ls))))"

definition loadBaselineManifest :: "layout_env \<Rightarrow> (string \<times> layout_entry) list option res" where
  "loadBaselineManifest env = (case lv_manifest env of
     None \<Rightarrow> throw_error ''Storage layout manifest not found: config/storage-layouts.json. Generate it with `npx tsx scripts/validateStorageLayouts.ts --update`.''
   | Some r \<Rightarrow> r)"

definition assertLayoutCompatible :: "layout_env \<Rightarrow> layout_entry \<Rightarrow> layout_entry \<Rightarrow> unit res" where
  "assertLayoutCompatible env baseline updated = lv_upgradeSafe env (le_layout baseline) (le_layout updated)"

section \<open>Contracts with a storage gap\<close>

fun walkSolFiles :: "string \<Rightarrow> fs_entry \<Rightarrow> (string \<times> string) list" where
  "walkSolFiles dir (FsDir name entries) =
     (if name \<in> {''mocks'', ''test''} then []
      else concat (map (walkSolFiles (dir @ ''/'' @ name)) entries))"
| "walkSolFiles dir (FsFile name content) = (if ends_with ''.sol'' name then [(dir @ ''/'' @ name, content)] else [])"
| "walkSolFiles dir (FsOther name) = []"

text \<open>\<open>/uint256\[\d+\]\s+private\s+__gap/\<close>\<close>

definition gap_at :: "string \<Rightarrow> bool" where
  "gap_at s \<longleftrightarrow> (let ds = takeWhile is_digit (drop 8 s); r1 = drop (8 + length ds) s;
      w1 = takeWhile is_ws (drop 1 r1); r2 = drop (1 + length w1) r1;
      w2 = takeWhile is_ws (drop 7 r2) in
    starts_with ''uint256['' s \<and> ds \<noteq> [] \<and> starts_with '']'' r1 \<and> w1 \<noteq> [] \<and> starts_with ''private'' r2 \<and>
    w2 \<noteq> [] \<and> starts_with ''__gap'' (drop (7 + length w2) r2))"

fun declares_gap :: "string \<Rightarrow> bool" where
  "declares_gap [] = False"
| "declares_gap (c # s) = (gap_at (c # s) \<or> declares_gap s)"

text \<open>\<open>/^\s*contract\s+(\w+)/gm\<close>: the names of all matches. The flag tells whether the scanner is at
  the beginning of a line.\<close>

definition contract_at_line :: "string \<Rightarrow> (string \<times> nat) option" where
  "contract_at_line s =
     (let n0 = length (takeWhile is_ws s); r = drop n0 s; w = takeWhile is_ws (drop 8 r);
          name = takeWhile is_word_char (drop (8 + length w) r) in
      if starts_with ''contract'' r \<and> w \<noteq> [] \<and> name \<noteq> []
      then Some (name, n0 + 8 + length w + length name) else None)"

function contract_names :: "bool \<Rightarrow> string \<Rightarrow> string list" where
  "contract_names bol [] = []"
| "contract_names bol (c # s) =
     (case (if bol then contract_at_line (c # s) else None) of
        Some (name, n) \<Rightarrow> name # contract_names False (drop (n - 1) s)
      | None \<Rightarrow> contract_names (code_unit c \<in> {10, 13}) s)"
  by pat_completeness auto
termination by (relation "measure (\<lambda>(b, s). length s)") auto

definition findUntrackedGapContracts :: "layout_env \<Rightarrow> string list \<Rightarrow> string list" where
  "findUntrackedGapContracts env trackedNames = sort_strings (concat (map (\<lambda>(file, content).
     if declares_gap content
     then map (\<lambda>name. name @ '' ('' @ file @ '')'') (filter (\<lambda>name. name \<notin> set trackedNames) (contract_names True content))
     else []) (concat (map (walkSolFiles ''contracts'') (lv_contracts env)))))"

section \<open>Validation\<close>

record validation_result =
  vr_passed :: bool
  vr_issues :: "string list"
  vr_checked :: "string list"

definition tracked_names :: "string list" where
  "tracked_names = map tc_name TRACKED_CONTRACTS"

definition tracked_issues :: "layout_env \<Rightarrow> (string \<times> layout_entry) list \<Rightarrow> (string \<times> layout_entry) list \<Rightarrow>
    string \<Rightarrow> string list" where
  "tracked_issues env manifest current name =
     (case map_of manifest name of
        None \<Rightarrow> [name @ '': missing from manifest - run `npx tsx scripts/validateStorageLayouts.ts --update` after review.'']
      | Some baseline \<Rightarrow> (case assertLayoutCompatible env baseline (the (map_of current name)) of
          Inl err \<Rightarrow> [name @ '': '' @ err_message err]
        | Inr u \<Rightarrow> []))"

text \<open>The dash of these two messages is a dash of another character set in the source.\<close>

definition stale_issue :: "string \<Rightarrow> string" where
  "stale_issue name = name @ '': present in manifest but not tracked - remove it from the manifest or add it to TRACKED_CONTRACTS in scripts/validateStorageLayouts.ts''"

definition gap_issue :: "string \<Rightarrow> string" where
  "gap_issue u = u @ '': declares a storage gap but is not tracked - add it to TRACKED_CONTRACTS in scripts/validateStorageLayouts.ts, regenerate the manifest with --update, and commit the result''"

definition validateStorageLayouts :: "layout_env \<Rightarrow> validation_result" where
  "validateStorageLayouts env =
     (case loadCurrentLayouts env of
        Inl err \<Rightarrow> \<lparr>vr_passed = False, vr_issues = [err_message err], vr_checked = []\<rparr>
      | Inr current \<Rightarrow> (case loadBaselineManifest env of
          Inl err \<Rightarrow> \<lparr>vr_passed = False, vr_issues = [err_message err], vr_checked = map fst current\<rparr>
        | Inr contracts \<Rightarrow>
            (let manifest = (case contracts of None \<Rightarrow> [] | Some cs \<Rightarrow> cs);
                 issues = concat (map (tracked_issues env manifest current) tracked_names) @
                   map stale_issue (filter (\<lambda>name. name \<notin> set tracked_names) (map fst manifest)) @
                   map gap_issue (findUntrackedGapContracts env tracked_names) in
             \<lparr>vr_passed = (issues = []), vr_issues = issues, vr_checked = tracked_names\<rparr>)))"

section \<open>Properties\<close>

lemma stripMeta_idem: "stripMeta (stripMeta item) = stripMeta item"
  by (simp add: stripMeta_def)

lemma strip_member_idem: "strip_member (strip_member m) = strip_member m"
  by (cases m) (simp_all add: strip_member_def stripMeta_idem)

lemma strip_members_idem: "strip_members (strip_members e) = strip_members e"
  by (auto simp: strip_members_def strip_member_idem split: json.split)

lemma stripMeta_members: "stripMeta (strip_members e) = strip_members (stripMeta e)"
  by (induction e) (auto simp: strip_members_def stripMeta_def)

text \<open>\<open>stabilizeLayout\<close> is a normal form: applying it to a stored layout changes nothing, and the
  compiler metadata of the storage items does not influence it.\<close>

theorem stabilize_normal_form:
  "stabilizeLayout (stabilizeLayout l) = stabilizeLayout l \<and>
   stabilizeLayout (l\<lparr>rl_storage := map stripMeta (rl_storage l)\<rparr>) = stabilizeLayout l"
proof -
  have sorted: "sorted_wrt (\<lambda>a b. str_le (fst a) (fst b))
      (map (\<lambda>(key, item). (key, strip_members (stripMeta item))) (sort_by (\<lambda>a b. str_le (fst a) (fst b)) (rl_types l)))"
    using sorted_sort_by [OF key_total_preorder [OF str_le_total_preorder, of fst], of "rl_types l"]
    by (simp add: sorted_wrt_map split_def)
  have "map (\<lambda>(key, item). (key, strip_members (stripMeta item))) (map (\<lambda>(key, item). (key, strip_members (stripMeta item))) xs) =
      map (\<lambda>(key, item). (key, strip_members (stripMeta item))) xs" for xs
    by (auto simp: stripMeta_members stripMeta_idem strip_members_idem)
  then show ?thesis
    by (simp add: stabilizeLayout_def sort_by_sorted [OF sorted] stripMeta_idem del: map_map)
       (simp add: comp_def stripMeta_idem)
qed




lemma tracked_distinct: "distinct tracked_names \<and> length TRACKED_CONTRACTS = 23"
  by code_simp

end
