(* ===== verification/LayoutUpdate.thy ===== *)
theory LayoutUpdate
  imports StorageLayout
begin

text \<open>
  The command line of \<open>scripts/validateStorageLayouts.ts\<close>: \<open>--update\<close>, which writes the manifest, and the
  validation, with the exit code and the two lists that are printed. The manifest that a later run
  parses is the value that was written; its \<open>contracts\<close> are what the gate reads of it.
\<close>

section \<open>Writing the manifest\<close>

record layout_manifest =
  lm_schemaVersion :: int
  lm_generator :: string
  lm_solcVersion :: string
  lm_contracts :: "(string \<times> layout_entry) list"

definition new_manifest :: "(string \<times> layout_entry) list \<Rightarrow> layout_manifest" where
  "new_manifest layouts =
     \<lparr>lm_schemaVersion = 1,
      lm_generator = ''scripts/validateStorageLayouts.ts (V2-SC-046, @openzeppelin/upgrades-core)'',
      lm_solcVersion = (case remdups (map (\<lambda>(name, l). le_solcVersion l) layouts) of [v] \<Rightarrow> v | vs \<Rightarrow> ''mixed''),
      lm_contracts = layouts\<rparr>"

definition writeManifest :: "(string \<times> layout_entry) list \<Rightarrow> layout_env \<Rightarrow> layout_env" where
  "writeManifest layouts env = env\<lparr>lv_manifest := Some (Inr (Some (lm_contracts (new_manifest layouts))))\<rparr>"

definition validate_or_update :: "bool \<Rightarrow> (layout_env, validation_result) action" where
  "validate_or_update update env =
     (if update then (case loadCurrentLayouts env of
          Inl err \<Rightarrow> (Inl err, env)
        | Inr layouts \<Rightarrow> (Inr \<lparr>vr_passed = True, vr_issues = [], vr_checked = tracked_names\<rparr>, writeManifest layouts env))
      else (Inr (validateStorageLayouts env), env))"

section \<open>The main program\<close>

text \<open>The names printed as compatible, the issues printed, and the exit code.\<close>

record gate_output =
  go_compatible :: "string list"
  go_issues :: "string list"
  go_exitCode :: int

definition layout_main :: "string list \<Rightarrow> layout_env \<Rightarrow> gate_output \<times> layout_env" where
  "layout_main argv env =
     (let update = ''--update'' \<in> set argv in
      case validate_or_update update env of
        (Inl err, env') \<Rightarrow> (\<lparr>go_compatible = [], go_issues = [err_message err], go_exitCode = 1\<rparr>, env')
      | (Inr result, env') \<Rightarrow>
          (if update then \<lparr>go_compatible = [], go_issues = [], go_exitCode = 0\<rparr>
           else if vr_passed result then \<lparr>go_compatible = vr_checked result, go_issues = [], go_exitCode = 0\<rparr>
           else \<lparr>go_compatible = vr_checked result, go_issues = vr_issues result, go_exitCode = 1\<rparr>, env'))"

section \<open>After an update\<close>

lemma written_fields [simp]:
  "lv_extract (writeManifest ls env) = lv_extract env" "lv_upgradeSafe (writeManifest ls env) = lv_upgradeSafe env"
  "lv_buildInfo (writeManifest ls env) = lv_buildInfo env" "lv_contracts (writeManifest ls env) = lv_contracts env"
  by (simp_all add: writeManifest_def)

lemma loadCurrentLayouts_frame [simp]:
  "loadCurrentLayouts (writeManifest ls env) = loadCurrentLayouts env"
proof -
  have "current_layout (writeManifest ls env) = current_layout env"
    by (intro ext) (simp only: current_layout_def written_fields)
  then show ?thesis by (simp only: loadCurrentLayouts_def written_fields)
qed

lemma loadBaseline_written [simp]: "loadBaselineManifest (writeManifest ls env) = Inr (Some ls)"
  by (simp add: loadBaselineManifest_def writeManifest_def new_manifest_def)

lemma gaps_frame [simp]: "findUntrackedGapContracts (writeManifest ls env) = findUntrackedGapContracts env"
  by (intro ext) (simp add: findUntrackedGapContracts_def)

lemma compatible_frame [simp]: "assertLayoutCompatible (writeManifest ls env) = assertLayoutCompatible env"
  by (intro ext) (simp add: assertLayoutCompatible_def)

lemma current_names:
  assumes "loadCurrentLayouts env = Inr current"
  shows "set (map fst current) = set tracked_names" "distinct (map fst current)"
proof -
  obtain files b ls where "lv_buildInfo env = Some files"
      and ls: "traverse (current_layout env b) TRACKED_CONTRACTS = Inr ls" and current: "current = kv_of_list ls"
    using assms by (auto simp: loadCurrentLayouts_def res_bind_Inr_iff throw_error_def split: option.splits)
  have "list_all2 (\<lambda>t l. fst l = tc_name t) TRACKED_CONTRACTS ls"
    using ls unfolding traverse_Inr_iff
    by (rule list_all2_mono)
       (auto simp: current_layout_def Let_def throw_error_def split: option.splits if_splits)
  then have "map fst ls = tracked_names"
    by (simp add: tracked_names_def list_all2_conv_all_nth list_eq_iff_nth_eq)
  then have "dom (map_of current) = set tracked_names"
    by (simp add: current map_of_kv_of_list dom_map_of_conv_image_fst flip: set_map)
  then show "set (map fst current) = set tracked_names" by (simp add: dom_map_of_conv_image_fst)
  show "distinct (map fst current)" by (simp add: current distinct_kv_of_list)
qed

text \<open>C35: after a successful \<open>--update\<close>, a run of the gate on the same build finds nothing but the
  contracts with a storage gap that are not tracked (a layout being compatible with itself); the
  update itself ends with 0 even when there are such contracts.\<close>

theorem update_then_validate:
  assumes "loadCurrentLayouts env = Inr current"
    and "list_all (\<lambda>(name, l). lv_upgradeSafe env (le_layout l) (le_layout l) = Inr ()) current"
    and "layout_main [''--update''] env = (out, env')"
  shows "go_exitCode out = 0 \<and> layout_main [] env' =
     (\<lparr>go_compatible = tracked_names,
       go_issues = map gap_issue (findUntrackedGapContracts env tracked_names),
       go_exitCode = (if findUntrackedGapContracts env tracked_names = [] then 0 else 1)\<rparr>, env')"
proof -
  have env': "env' = writeManifest current env" and out: "go_exitCode out = 0"
    using assms(1,3) by (auto simp: layout_main_def validate_or_update_def)
  note names = current_names [OF assms(1)]
  have "tracked_issues env' current current name = []" if "name \<in> set tracked_names" for name
  proof -
    have "name \<in> fst ` set current" using that names(1) by simp
    then obtain l where l: "map_of current name = Some l" by (cases "map_of current name") (auto simp: map_of_eq_None_iff)
    then have "lv_upgradeSafe env (le_layout l) (le_layout l) = Inr ()"
      using assms(2) by (auto simp: list_all_iff dest: map_of_SomeD)
    with l show ?thesis by (simp add: tracked_issues_def env' assertLayoutCompatible_def)
  qed
  then have "concat (map (tracked_issues env' current current) tracked_names) = []" by (simp add: concat_eq_Nil_conv)
  moreover have "filter (\<lambda>name. name \<notin> set tracked_names) (map fst current) = []"
    using names(1) by (auto simp: filter_empty_conv)
  moreover have "loadCurrentLayouts env' = Inr current" "loadBaselineManifest env' = Inr (Some current)"
      "findUntrackedGapContracts env' = findUntrackedGapContracts env"
    using assms(1) by (simp_all only: env' loadCurrentLayouts_frame loadBaseline_written gaps_frame)
  ultimately have "validateStorageLayouts env' =
      (let issues = map gap_issue (findUntrackedGapContracts env tracked_names)
       in \<lparr>vr_passed = (issues = []), vr_issues = issues, vr_checked = tracked_names\<rparr>)"
    by (simp only: validateStorageLayouts_def sum.case option.case Let_def list.map append.simps)
  then have "validate_or_update False env' = (Inr \<lparr>vr_passed = (findUntrackedGapContracts env tracked_names = []),
      vr_issues = map gap_issue (findUntrackedGapContracts env tracked_names), vr_checked = tracked_names\<rparr>, env')"
    by (simp add: validate_or_update_def Let_def)
  with out show ?thesis by (simp add: layout_main_def)
qed

text \<open>Whatever the issues are, once the build and the manifest can be read every tracked contract is
  printed as compatible.\<close>

theorem all_announced_compatible:
  assumes "loadCurrentLayouts env = Inr current" "loadBaselineManifest env = Inr contracts"
  shows "go_compatible (fst (layout_main [] env)) = tracked_names"
  using assms by (simp add: layout_main_def validate_or_update_def validateStorageLayouts_def Let_def)

text \<open>A build in which every tracked contract has an empty layout.\<close>

definition empty_build :: build_info where
  "empty_build = \<lparr>bi_solcVersion = ''0.8.28'',
     bi_ast = (\<lambda>key. Some (map (\<lambda>t. \<lparr>cd_name = tc_name t, cd_kind = ''contract'', cd_abstract = False\<rparr>) TRACKED_CONTRACTS)),
     bi_storageLayout = (\<lambda>key name. Some JNull)\<rparr>"

definition empty_env :: layout_env where
  "empty_env = \<lparr>lv_buildInfo = Some [(''a.output.json'', 1, empty_build)],
     lv_extract = (\<lambda>c raw. \<lparr>rl_storage = [], rl_types = []\<rparr>), lv_upgradeSafe = (\<lambda>a b. Inr ()), lv_manifest = None,
     lv_contracts = [FsFile ''A.sol'' ''uint256[50] private __gap;'', FsFile ''B.sol'' (''contract B { uint256[5] private __gap; }'')]\<rparr>"

lemma empty_env_loads: "\<not> isl (loadCurrentLayouts empty_env)" by code_simp

lemma empty_env_gaps: "findUntrackedGapContracts empty_env tracked_names = [''B (contracts/B.sol)'']" by code_simp

theorem update_then_validate_witness:
  "go_exitCode (fst (layout_main [''--update''] empty_env)) = 0 \<and>
   go_issues (fst (layout_main [] (snd (layout_main [''--update''] empty_env)))) = [gap_issue ''B (contracts/B.sol)''] \<and>
   go_exitCode (fst (layout_main [] (snd (layout_main [''--update''] empty_env)))) = 1"
proof -
  obtain current where current: "loadCurrentLayouts empty_env = Inr current"
    using empty_env_loads by (cases "loadCurrentLayouts empty_env") auto
  have safe: "list_all (\<lambda>(name, l). lv_upgradeSafe empty_env (le_layout l) (le_layout l) = Inr ()) current"
    by (simp add: empty_env_def list_all_iff)
  obtain out env' where run: "layout_main [''--update''] empty_env = (out, env')" by (cases "layout_main [''--update''] empty_env")
  show ?thesis using update_then_validate [OF current safe run] by (simp add: run empty_env_gaps)
qed

theorem all_announced_compatible_witness:
  "go_compatible (fst (layout_main [] (writeManifest [] empty_env))) = tracked_names"
proof -
  obtain current where "loadCurrentLayouts empty_env = Inr current"
    using empty_env_loads by (cases "loadCurrentLayouts empty_env") auto
  then have "loadCurrentLayouts (writeManifest [] empty_env) = Inr current" by simp
  then show ?thesis by (rule all_announced_compatible) simp
qed

end
