(* ===== verification/JsRegex.thy ===== *)
theory JsRegex
  imports JsCollections
begin

text \<open>
  Regular expressions of ECMAScript as the scripts use them: character classes, sequences,
  ordered alternatives, greedy and lazy repetition, capture groups, \<open>^\<close>, \<open>$\<close> and \<open>\b\<close>. \<open>mt\<close> is the
  backtracking matcher: it lists the ways to match in the order in which the engine tries them, so
  \<open>exec\<close> takes the first. \<open>rm\<close> is the declarative meaning, and \<open>mt_rm\<close> says that the two agree.
  Captures inside a repetition do not occur in the scripts.
\<close>

section \<open>Matching\<close>

datatype re = RChar "char \<Rightarrow> bool" | REps | RSeq re re | RAlt re re | RStar bool re | RGroup nat re
  | RStart | REnd | RBound

text \<open>A position: the character before it, the rest of the subject, the captures so far.\<close>

type_synonym cursor = "char option \<times> string"
type_synonym rstate = "cursor \<times> (nat \<times> string) list"

definition matched :: "string \<Rightarrow> string \<Rightarrow> string" where
  "matched s rest = take (length s - length rest) s"

definition word_at :: "char option \<Rightarrow> bool" where
  "word_at c = (case c of None \<Rightarrow> False | Some x \<Rightarrow> is_word_char x)"

definition first_char :: "string \<Rightarrow> char option" where
  "first_char s = (case s of [] \<Rightarrow> None | x # xs \<Rightarrow> Some x)"

text \<open>One more round of a repetition must consume something; the subject's length bounds the rounds.\<close>

primrec star_loop :: "bool \<Rightarrow> (rstate \<Rightarrow> rstate list) \<Rightarrow> nat \<Rightarrow> rstate \<Rightarrow> rstate list" where
  "star_loop greedy f 0 st = [st]"
| "star_loop greedy f (Suc n) st =
     (let more = concat (map (star_loop greedy f n) (filter (\<lambda>st'. length (snd (fst st')) < length (snd (fst st))) (f st))) in
      if greedy then more @ [st] else st # more)"

primrec mt :: "re \<Rightarrow> rstate \<Rightarrow> rstate list" where
  "mt (RChar P) st = (case st of ((p, s), c) \<Rightarrow> (case s of [] \<Rightarrow> [] | x # xs \<Rightarrow> if P x then [((Some x, xs), c)] else []))"
| "mt REps st = [st]"
| "mt (RSeq a b) st = concat (map (mt b) (mt a st))"
| "mt (RAlt a b) st = mt a st @ mt b st"
| "mt (RStar greedy r) st = star_loop greedy (mt r) (length (snd (fst st))) st"
| "mt (RGroup n r) st = map (\<lambda>((p, s), c). ((p, s), (n, matched (snd (fst st)) s) # c)) (mt r st)"
| "mt RStart st = (if fst (fst st) = None then [st] else [])"
| "mt REnd st = (if snd (fst st) = [] then [st] else [])"
| "mt RBound st = (if word_at (fst (fst st)) \<noteq> word_at (first_char (snd (fst st))) then [st] else [])"

text \<open>Abbreviations for the usual notation; \<open>re_str\<close> is a literal, \<open>re_stri\<close> one under the \<open>i\<close> flag.\<close>

definition re_plus :: "re \<Rightarrow> re" where
  "re_plus r = RSeq r (RStar True r)"

definition re_opt :: "re \<Rightarrow> re" where
  "re_opt r = RAlt r REps"

definition re_str :: "string \<Rightarrow> re" where
  "re_str s = foldr (\<lambda>x. RSeq (RChar (\<lambda>y. y = x))) s REps"

definition re_stri :: "string \<Rightarrow> re" where
  "re_stri s = foldr (\<lambda>x. RSeq (RChar (\<lambda>y. lower_char y = lower_char x))) s REps"

primrec re_any :: "re list \<Rightarrow> re" where
  "re_any [] = RChar (\<lambda>x. False)"
| "re_any (r # rs) = (if rs = [] then r else RAlt r (re_any rs))"

section \<open>Searching\<close>

record re_match =
  rx_before :: string                     \<comment> \<open>the skipped text\<close>
  rx_text :: string                       \<comment> \<open>\<open>match[0]\<close>\<close>
  rx_caps :: "(nat \<times> string) list"
  rx_after :: cursor

definition rx_group :: "nat \<Rightarrow> re_match \<Rightarrow> string option" where
  "rx_group n m = map_of (rx_caps m) n"

fun search :: "re \<Rightarrow> char option \<Rightarrow> string \<Rightarrow> re_match option" where
  "search r p s = (case mt r ((p, s), []) of
     (cur, caps) # others \<Rightarrow> Some \<lparr>rx_before = [], rx_text = matched s (snd cur), rx_caps = caps, rx_after = cur\<rparr>
   | [] \<Rightarrow> (case s of [] \<Rightarrow> None
       | x # xs \<Rightarrow> map_option (\<lambda>m. m\<lparr>rx_before := x # rx_before m\<rparr>) (search r (Some x) xs)))"

declare search.simps [simp del]

definition exec :: "re \<Rightarrow> string \<Rightarrow> re_match option" where
  "exec r s = search r None s"

definition re_test :: "re \<Rightarrow> string \<Rightarrow> bool" where
  "re_test r s = (exec r s \<noteq> None)"

section \<open>The declarative meaning\<close>

inductive rm :: "re \<Rightarrow> cursor \<Rightarrow> cursor \<Rightarrow> bool" where
  rm_char: "P x \<Longrightarrow> rm (RChar P) (p, x # xs) (Some x, xs)"
| rm_eps: "rm REps x x"
| rm_seq: "rm a x y \<Longrightarrow> rm b y z \<Longrightarrow> rm (RSeq a b) x z"
| rm_left: "rm a x y \<Longrightarrow> rm (RAlt a b) x y"
| rm_right: "rm b x y \<Longrightarrow> rm (RAlt a b) x y"
| rm_done: "rm (RStar g r) x x"
| rm_round: "rm r x y \<Longrightarrow> rm (RStar g r) y z \<Longrightarrow> rm (RStar g r) x z"
| rm_group: "rm r x y \<Longrightarrow> rm (RGroup n r) x y"
| rm_start: "rm RStart (None, s) (None, s)"
| rm_end: "rm REnd (p, []) (p, [])"
| rm_bound: "word_at p \<noteq> word_at (first_char s) \<Longrightarrow> rm RBound (p, s) (p, s)"

inductive_simps rm_simps [simp]:
  "rm (RChar P) x y" "rm REps x y" "rm (RSeq a b) x y" "rm (RAlt a b) x y" "rm (RGroup n r) x y"
  "rm RStart x y" "rm REnd x y" "rm RBound x y"

inductive_cases rm_starE: "rm (RStar g r) x z"
inductive_cases rm_seqE: "rm (RSeq a b) x z"

text \<open>A match consumes a prefix of the rest, and the character before the new position is the last
  one consumed.\<close>

definition advances :: "cursor \<Rightarrow> cursor \<Rightarrow> bool" where
  "advances x y \<longleftrightarrow> (\<exists>w. snd x = w @ snd y \<and> fst y = (if w = [] then fst x else Some (last w)))"

lemma advances_refl [simp]: "advances x x"
  by (simp add: advances_def)

lemma advances_trans: "advances x y \<Longrightarrow> advances y z \<Longrightarrow> advances x z"
proof -
  assume "advances x y" "advances y z"
  then obtain v w where v: "snd x = v @ snd y" "fst y = (if v = [] then fst x else Some (last v))"
    and w: "snd y = w @ snd z" "fst z = (if w = [] then fst y else Some (last w))"
    by (auto simp: advances_def)
  then show ?thesis unfolding advances_def by (intro exI [of _ "v @ w"]) (auto simp: last_append)
qed

lemma advances_length: "advances x y \<Longrightarrow> length (snd y) \<le> length (snd x)"
  by (auto simp: advances_def)

lemma advances_same: "advances x y \<Longrightarrow> length (snd y) = length (snd x) \<Longrightarrow> y = x"
  by (cases x; cases y) (auto simp: advances_def)

lemma rm_advances: "rm r x y \<Longrightarrow> advances x y"
proof (induction rule: rm.induct)
  case (rm_char P x p xs)
  show ?case unfolding advances_def by (intro exI [of _ "[x]"]) simp
qed (auto intro: advances_trans)

text \<open>Rounds that consume nothing can be left out.\<close>

lemma rm_star_progress:
  assumes "rm (RStar g r) x z"
  shows "x = z \<or> (\<exists>y. rm r x y \<and> length (snd y) < length (snd x) \<and> rm (RStar g r) y z)"
  using assms
proof (induction "RStar g r" x z rule: rm.induct)
  case (rm_round x y z)
  show ?case
  proof (cases "length (snd y) < length (snd x)")
    case True
    with rm_round show ?thesis by blast
  next
    case False
    then have "y = x" using rm_advances [OF rm_round.hyps(1)] advances_length advances_same by (metis nat_less_le)
    with rm_round show ?thesis by simp
  qed
qed simp

lemma star_loop_rm:
  assumes step: "\<And>st y. (\<exists>c. (y, c) \<in> set (f st)) \<longleftrightarrow> rm r (fst st) y"
  shows "length (snd (fst st)) \<le> n \<Longrightarrow> (\<exists>c. (z, c) \<in> set (star_loop g f n st)) \<longleftrightarrow> rm (RStar g r) (fst st) z"
proof (induction n arbitrary: st)
  case 0
  have "z = fst st" if "rm (RStar g r) (fst st) z"
    using rm_star_progress [OF that] 0 by auto
  then show ?case by (cases st) (auto intro: rm_done)
next
  case (Suc n)
  let ?next = "\<lambda>st'. st' \<in> set (f st) \<and> length (snd (fst st')) < length (snd (fst st))"
  have rest: "(\<exists>c. (z, c) \<in> set (star_loop g f n st')) \<longleftrightarrow> rm (RStar g r) (fst st') z" if "?next st'" for st'
    using Suc.IH [of st'] Suc.prems that by simp
  have "(\<exists>c. (z, c) \<in> set (star_loop g f (Suc n) st)) \<longleftrightarrow>
      z = fst st \<or> (\<exists>st'. ?next st' \<and> (\<exists>c. (z, c) \<in> set (star_loop g f n st')))"
    by (cases st) (auto simp: Let_def)
  also have "\<dots> \<longleftrightarrow> z = fst st \<or> (\<exists>st'. ?next st' \<and> rm (RStar g r) (fst st') z)"
    using rest by blast
  also have "\<dots> \<longleftrightarrow> z = fst st \<or> (\<exists>y. rm r (fst st) y \<and> length (snd y) < length (snd (fst st)) \<and> rm (RStar g r) y z)"
    using step [of _ st] by (metis fst_conv prod.collapse)
  also have "\<dots> \<longleftrightarrow> rm (RStar g r) (fst st) z"
    using rm_star_progress [of g r "fst st" z] by (blast intro: rm_done rm_round)
  finally show ?case .
qed

lemma mt_rm: "(\<exists>c. (y, c) \<in> set (mt r st)) \<longleftrightarrow> rm r (fst st) y"
proof (induction r arbitrary: st y)
  case (RChar P)
  show ?case by (cases st) (auto split: list.splits)
next
  case (RSeq a b)
  show ?case
    by (cases y) (simp, metis RSeq.IH fst_conv prod.collapse)
next
  case (RAlt a b)
  show ?case
    unfolding mt.simps set_append Un_iff ex_disj_distrib RAlt.IH rm_simps ..
next
  case (RStar g r)
  then show ?case by (simp add: star_loop_rm)
next
  case (RGroup n r)
  have "(\<exists>c. (y, c) \<in> set (mt (RGroup n r) st)) \<longleftrightarrow> (\<exists>c. (y, c) \<in> set (mt r st))"
    by (cases y) (force simp: image_iff split_beta)
  then show ?case using RGroup.IH by simp
qed (cases st; cases y; auto)+

lemma mt_Nil_iff: "mt r st = [] \<longleftrightarrow> (\<forall>y. \<not> rm r (fst st) y)"
  using mt_rm [of _ r st] by (cases "mt r st") (auto simp del: rm_simps, metis list.set_intros(1) surj_pair)

definition prev_char :: "char option \<Rightarrow> string \<Rightarrow> char option" where
  "prev_char p w = (if w = [] then p else Some (last w))"

lemma search_Nil: "search r p [] \<noteq> None \<longleftrightarrow> mt r ((p, []), []) \<noteq> []"
  by (subst search.simps) (auto split: list.splits prod.splits)

lemma search_Cons:
  "search r p (x # xs) \<noteq> None \<longleftrightarrow> mt r ((p, x # xs), []) \<noteq> [] \<or> search r (Some x) xs \<noteq> None"
  by (subst search.simps) (simp split: list.splits prod.splits)

definition matches_at :: "re \<Rightarrow> char option \<Rightarrow> string \<Rightarrow> string \<Rightarrow> bool" where
  "matches_at r p a b \<longleftrightarrow> (\<exists>y. rm r (prev_char p a, b) y)"

lemma matches_at_Cons: "matches_at r p (x # a) b = matches_at r (Some x) a b"
  by (simp add: matches_at_def prev_char_def)

lemma split_Cons_ex: "(\<exists>a b. x # xs = a @ b \<and> Q a b) \<longleftrightarrow> Q [] (x # xs) \<or> (\<exists>a b. xs = a @ b \<and> Q (x # a) b)"
  by (auto simp: Cons_eq_append_conv)

lemma search_iff: "search r p s \<noteq> None \<longleftrightarrow> (\<exists>a b. s = a @ b \<and> matches_at r p a b)"
proof (induction s arbitrary: p)
  case Nil
  show ?case unfolding search_Nil by (simp add: mt_Nil_iff matches_at_def prev_char_def)
next
  case (Cons x xs)
  have "mt r ((p, x # xs), []) \<noteq> [] \<longleftrightarrow> matches_at r p [] (x # xs)"
    by (simp add: mt_Nil_iff matches_at_def prev_char_def)
  then show ?case
    unfolding search_Cons Cons.IH split_Cons_ex matches_at_Cons by simp
qed

lemma re_test_iff: "re_test r s \<longleftrightarrow> (\<exists>a b y. s = a @ b \<and> rm r (prev_char None a, b) y)"
  unfolding re_test_def exec_def search_iff matches_at_def by blast

section \<open>Literals and alternatives\<close>

lemma prev_char_Cons: "prev_char p (e # v) = prev_char (Some e) v"
  by (simp add: prev_char_def)

lemma rm_literal:
  "rm (foldr (\<lambda>x. RSeq (RChar (Q x))) w REps) x y \<longleftrightarrow>
     (\<exists>v. snd x = v @ snd y \<and> fst y = prev_char (fst x) v \<and> list_all2 Q w v)"
proof (induction w arbitrary: x)
  case Nil
  show ?case by (cases x; cases y) (auto simp: prev_char_def)
next
  case (Cons c w)
  show ?case
  proof (cases "snd x")
    case Nil
    then show ?thesis by (cases x) (auto simp: list_all2_Cons1)
  next
    case (Cons d ds)
    then have "rm (foldr (\<lambda>x. RSeq (RChar (Q x))) (c # w) REps) x y \<longleftrightarrow> Q c d \<and> rm (foldr (\<lambda>x. RSeq (RChar (Q x))) w REps) (Some d, ds) y"
      by (cases x) auto
    also have "\<dots> \<longleftrightarrow> Q c d \<and> (\<exists>v. ds = v @ snd y \<and> fst y = prev_char (Some d) v \<and> list_all2 Q w v)"
      unfolding Cons.IH by simp
    also have "\<dots> \<longleftrightarrow> (\<exists>e v. snd x = (e # v) @ snd y \<and> fst y = prev_char (fst x) (e # v) \<and> Q c e \<and> list_all2 Q w v)"
      unfolding prev_char_Cons Cons by auto
    also have "\<dots> \<longleftrightarrow> (\<exists>v. snd x = v @ snd y \<and> fst y = prev_char (fst x) v \<and> list_all2 Q (c # w) v)"
      unfolding list_all2_Cons1 by blast
    finally show ?thesis .
  qed
qed

lemma rm_str: "rm (re_str w) x y \<longleftrightarrow> snd x = w @ snd y \<and> fst y = prev_char (fst x) w"
proof -
  have "list_all2 (\<lambda>a b. b = a) w v \<longleftrightarrow> v = w" for v
    by (auto simp: list_all2_conv_all_nth list_eq_iff_nth_eq)
  then show ?thesis unfolding re_str_def rm_literal by auto
qed

lemma rm_stri: "rm (re_stri w) x y \<longleftrightarrow> (\<exists>v. snd x = v @ snd y \<and> fst y = prev_char (fst x) v \<and> to_lower v = to_lower w)"
proof -
  have "list_all2 (\<lambda>a b. lower_char b = lower_char a) w v \<longleftrightarrow> to_lower v = to_lower w" for v
    by (auto simp: list_all2_conv_all_nth list_eq_iff_nth_eq to_lower_def)
  then show ?thesis unfolding re_stri_def rm_literal by simp
qed

lemma rm_any: "rm (re_any rs) x y \<longleftrightarrow> (\<exists>r \<in> set rs. rm r x y)"
proof (induction rs)
  case Nil
  show ?case by (cases x; cases y) auto
qed auto

lemma map_infix: "(\<exists>a v c. s = a @ v @ c \<and> map f v = w) \<longleftrightarrow> (\<exists>a c. map f s = a @ w @ c)"
proof
  assume "\<exists>a c. map f s = a @ w @ c"
  then obtain a c where s: "map f s = a @ w @ c" by blast
  define v where "v = take (length w) (drop (length a) s)"
  have "map f v = w" unfolding v_def take_map [symmetric] drop_map [symmetric] s by simp
  moreover have "s = take (length a) s @ v @ drop (length w) (drop (length a) s)"
    unfolding v_def append_take_drop_id ..
  ultimately show "\<exists>a v c. s = a @ v @ c \<and> map f v = w" by blast
next
  assume "\<exists>a v c. s = a @ v @ c \<and> map f v = w"
  then obtain a v c where "s = a @ v @ c" "map f v = w" by blast
  then have "map f s = map f a @ w @ map f c" by simp
  then show "\<exists>a c. map f s = a @ w @ c" by blast
qed

lemma test_stri: "re_test (re_stri w) s \<longleftrightarrow> includes_str (to_lower w) (to_lower s)"
proof -
  have "re_test (re_stri w) s \<longleftrightarrow> (\<exists>a b v c. s = a @ b \<and> b = v @ c \<and> to_lower v = to_lower w)"
    unfolding re_test_iff rm_stri by simp blast
  also have "\<dots> \<longleftrightarrow> (\<exists>a v c. s = a @ v @ c \<and> map lower_char v = to_lower w)"
    unfolding to_lower_def by blast
  also have "\<dots> \<longleftrightarrow> includes_str (to_lower w) (to_lower s)"
    unfolding map_infix includes_str_iff to_lower_def ..
  finally show ?thesis .
qed

lemma test_any: "re_test (re_any rs) s \<longleftrightarrow> (\<exists>r \<in> set rs. re_test r s)"
  unfolding re_test_iff rm_any by blast

lemma rm_anchored: "rm (RSeq RStart r) (prev_char None a, b) y \<longleftrightarrow> a = [] \<and> rm r (None, b) y"
  by (cases "a = []") (auto simp: prev_char_def)

lemma test_prefix: "re_test (RSeq RStart (re_str w)) s \<longleftrightarrow> starts_with w s"
  unfolding re_test_iff rm_anchored rm_str starts_with_iff by auto

section \<open>Replacing and collecting matches\<close>

lemma mt_advances: "(y, c) \<in> set (mt r st) \<Longrightarrow> advances (fst st) y"
  using mt_rm [of y r st] rm_advances by blast

lemma search_split: "search r p s = Some m \<Longrightarrow> s = rx_before m @ rx_text m @ snd (rx_after m)"
proof (induction s arbitrary: p m)
  case Nil
  show ?case
  proof (cases "mt r ((p, []), [])")
    case (Cons st rest)
    then have "advances (p, []) (fst st)" using mt_advances [of "fst st" "snd st" r "((p, []), [])"] by simp
    with Nil Cons show ?thesis by (cases st) (auto simp: search.simps matched_def advances_def)
  qed (use Nil in \<open>simp add: search.simps\<close>)
next
  case (Cons x xs)
  show ?case
  proof (cases "mt r ((p, x # xs), [])")
    case Nil
    with Cons show ?thesis by (auto simp: search.simps [of r p "x # xs"])
  next
    case (Cons st rest)
    then have "advances (p, x # xs) (fst st)" using mt_advances [of "fst st" "snd st" r "((p, x # xs), [])"] by simp
    then obtain w where "x # xs = w @ snd (fst st)" by (auto simp: advances_def)
    moreover from Cons \<open>search r p (x # xs) = Some m\<close>
    have "rx_before m = []" "rx_text m = matched (x # xs) (snd (fst st))" "rx_after m = fst st"
      by (auto simp: search.simps [of r p "x # xs"] split: prod.splits)
    ultimately show ?thesis by (simp add: matched_def)
  qed
qed

text \<open>\<open>s.replace(/r/g, f)\<close>; after an empty match the next character is copied.\<close>

function replace_all :: "re \<Rightarrow> (string \<Rightarrow> string) \<Rightarrow> char option \<Rightarrow> string \<Rightarrow> string" where
  "replace_all r f p s = (case search r p s of None \<Rightarrow> s
     | Some m \<Rightarrow> rx_before m @ f (rx_text m) @
         (if rx_text m \<noteq> [] then replace_all r f (fst (rx_after m)) (snd (rx_after m))
          else case snd (rx_after m) of [] \<Rightarrow> [] | x # xs \<Rightarrow> x # replace_all r f (Some x) xs))"
  by pat_completeness auto
termination
  by (relation "measure (\<lambda>(r, f, p, s). length s)") (auto dest!: search_split simp: split_beta)

declare replace_all.simps [simp del]

text \<open>The loop \<open>while ((match = r.exec(s)) !== null)\<close> of a global expression whose matches are not empty:
  every match with its index.\<close>

function match_all :: "re \<Rightarrow> nat \<Rightarrow> char option \<Rightarrow> string \<Rightarrow> (nat \<times> re_match) list" where
  "match_all r i p s = (case search r p s of None \<Rightarrow> []
     | Some m \<Rightarrow> (i + length (rx_before m), m) #
         (if rx_text m = [] then []
          else match_all r (i + length (rx_before m) + length (rx_text m)) (fst (rx_after m)) (snd (rx_after m))))"
  by pat_completeness auto
termination
  by (relation "measure (\<lambda>(r, i, p, s). length s)") (auto dest!: search_split simp: split_beta)

declare match_all.simps [simp del]

section \<open>Literals and runs as the engine lists them\<close>

lemma mt_str: "mt (re_str w) ((p, s), c) = (if starts_with w s then [((prev_char p w, drop (length w) s), c)] else [])"
proof (induction w arbitrary: p s)
  case Nil
  show ?case by (simp add: re_str_def prev_char_def starts_with_def)
next
  case (Cons x w)
  then show ?case
    by (cases s) (auto simp: re_str_def prev_char_def starts_with_def)
qed

lemma star_loop_chars:
  "length s \<le> n \<Longrightarrow> star_loop g (mt (RChar P)) n ((p, s), c) =
     map (\<lambda>k. ((prev_char p (take k s), drop k s), c))
       (if g then rev [0..<Suc (length (takeWhile P s))] else [0..<Suc (length (takeWhile P s))])"
proof (induction n arbitrary: p s)
  case 0
  then show ?case by (simp add: prev_char_def)
next
  case (Suc n)
  show ?case
  proof (cases s)
    case (Cons x xs)
    then show ?thesis
      using Suc.IH [of xs "Some x"] Suc.prems
      by (auto simp: Let_def upt_conv_Cons [of 0] map_Suc_upt [symmetric] prev_char_Cons rev_map o_def
          simp del: upt_Suc) (simp_all add: prev_char_def)
  qed (simp add: prev_char_def)
qed

lemma mt_star_chars:
  "mt (RStar g (RChar P)) ((p, s), c) =
     map (\<lambda>k. ((prev_char p (take k s), drop k s), c))
       (if g then rev [0..<Suc (length (takeWhile P s))] else [0..<Suc (length (takeWhile P s))])"
  by (simp only: mt.simps star_loop_chars fst_conv snd_conv le_refl)

section \<open>Replacing step by step\<close>

lemma replace_all_skip:
  "mt r ((p, x # xs), []) = [] \<Longrightarrow> replace_all r f p (x # xs) = x # replace_all r f (Some x) xs"
  by (subst replace_all.simps, subst replace_all.simps)
    (auto simp: search.simps [of r p "x # xs"] split: option.splits list.splits)

lemma replace_all_hit:
  "mt r ((p, s), []) = ((q, rest), c) # others \<Longrightarrow> matched s rest \<noteq> [] \<Longrightarrow>
     replace_all r f p s = f (matched s rest) @ replace_all r f q rest"
  by (subst replace_all.simps) (simp add: search.simps [of r p s])

lemma replace_all_Nil: "mt r ((p, []), []) = [] \<Longrightarrow> replace_all r f p [] = []"
  by (subst replace_all.simps) (simp add: search.simps)

section \<open>Anchored classes\<close>

lemma rm_star_chars:
  "rm (RStar g (RChar P)) x y \<longleftrightarrow> (\<exists>w. snd x = w @ snd y \<and> fst y = prev_char (fst x) w \<and> (\<forall>c \<in> set w. P c))"
proof
  assume "rm (RStar g (RChar P)) x y"
  then show "\<exists>w. snd x = w @ snd y \<and> fst y = prev_char (fst x) w \<and> (\<forall>c \<in> set w. P c)"
  proof (induction "RStar g (RChar P)" x y rule: rm.induct)
    case (rm_done x)
    show ?case by (intro exI [of _ "[]"]) (simp add: prev_char_def)
  next
    case (rm_round x y z)
    then obtain w where w: "snd y = w @ snd z" "fst z = prev_char (fst y) w" "\<forall>c \<in> set w. P c" by blast
    from rm_round(1) obtain c where "P c" "snd x = c # snd y" "fst y = Some c" by auto
    with w show ?case by (intro exI [of _ "c # w"]) (simp add: prev_char_Cons)
  qed
next
  assume "\<exists>w. snd x = w @ snd y \<and> fst y = prev_char (fst x) w \<and> (\<forall>c \<in> set w. P c)"
  then obtain w where "snd x = w @ snd y" "fst y = prev_char (fst x) w" "\<forall>c \<in> set w. P c" by blast
  then show "rm (RStar g (RChar P)) x y"
  proof (induction w arbitrary: x)
    case Nil
    then have "x = y" by (simp add: prev_char_def prod_eq_iff)
    then show ?case by (simp add: rm_done)
  next
    case (Cons c w)
    then have "rm (RChar P) x (Some c, w @ snd y)" by (cases x) auto
    moreover have "rm (RStar g (RChar P)) (Some c, w @ snd y) y" using Cons by (simp add: prev_char_Cons)
    ultimately show ?case by (rule rm_round)
  qed
qed

lemma rm_class_end:
  "(\<exists>y. rm (RSeq (RStar g (RChar P)) REnd) x y) \<longleftrightarrow> (\<forall>c \<in> set (snd x). P c)"
  by (auto simp: rm_star_chars)

lemma test_word:
  "re_test (RSeq RStart (RSeq (RChar P) (RSeq (RStar g (RChar Q)) REnd))) s \<longleftrightarrow>
     s \<noteq> [] \<and> P (hd s) \<and> (\<forall>c \<in> set (tl s). Q c)"
proof -
  have "re_test (RSeq RStart (RSeq (RChar P) (RSeq (RStar g (RChar Q)) REnd))) s \<longleftrightarrow>
      (\<exists>x xs. s = x # xs \<and> P x \<and> (\<exists>y. rm (RSeq (RStar g (RChar Q)) REnd) (Some x, xs) y))"
    unfolding re_test_iff rm_anchored by (auto simp del: rm_simps(3)) (auto simp: rm_star_chars)
  also have "\<dots> \<longleftrightarrow> s \<noteq> [] \<and> P (hd s) \<and> (\<forall>c \<in> set (tl s). Q c)"
    unfolding rm_class_end by (cases s) auto
  finally show ?thesis .
qed

lemma test_stri_end: "re_test (RSeq (re_stri w) REnd) s \<longleftrightarrow> (\<exists>a. to_lower s = a @ to_lower w)"
proof -
  have "re_test (RSeq (re_stri w) REnd) s \<longleftrightarrow> (\<exists>u v. s = u @ v \<and> to_lower v = to_lower w)"
    unfolding re_test_iff by (force simp: rm_stri)
  also have "\<dots> \<longleftrightarrow> (\<exists>a. to_lower s = a @ to_lower w)"
    by (simp add: to_lower_def map_eq_append_conv) (metis (no_types))
  finally show ?thesis .
qed

section \<open>The first match\<close>

text \<open>\<open>first_match r st x\<close>: the engine's first way to match ends in state \<open>x\<close>.\<close>

definition first_match :: "re \<Rightarrow> rstate \<Rightarrow> rstate \<Rightarrow> bool" where
  "first_match r st x \<longleftrightarrow> (\<exists>others. mt r st = x # others)"

lemma first_seq: "first_match a st x \<Longrightarrow> first_match b x y \<Longrightarrow> first_match (RSeq a b) st y"
  by (auto simp: first_match_def)

lemma first_alt: "first_match a st x \<Longrightarrow> first_match (RAlt a b) st x" "mt a st = [] \<Longrightarrow> first_match b st x \<Longrightarrow> first_match (RAlt a b) st x"
  by (auto simp: first_match_def)

lemma first_opt_skip: "mt r st = [] \<Longrightarrow> first_match (re_opt r) st st"
  by (simp add: first_match_def re_opt_def)

lemma first_star_chars:
  assumes "\<forall>c \<in> set w. P c" "rest = [] \<or> \<not> P (hd rest)"
  shows "first_match (RStar True (RChar P)) ((p, w @ rest), c) ((prev_char p w, rest), c)"
proof -
  have "takeWhile P rest = []" using assms(2) by (cases rest) auto
  then have "takeWhile P (w @ rest) = w" using assms(1) by (simp add: takeWhile_append)
  then show ?thesis by (simp add: first_match_def mt_star_chars del: mt.simps)
qed

lemma first_plus_chars:
  assumes "w \<noteq> []" "\<forall>c \<in> set w. P c" "rest = [] \<or> \<not> P (hd rest)"
  shows "first_match (re_plus (RChar P)) ((p, w @ rest), c) ((Some (last w), rest), c)"
proof -
  obtain x xs where w: "w = x # xs" using assms(1) by (cases w) auto
  have "first_match (RChar P) ((p, w @ rest), c) ((Some x, xs @ rest), c)" using w assms(2) by (simp add: first_match_def)
  moreover have "first_match (RStar True (RChar P)) ((Some x, xs @ rest), c) ((prev_char (Some x) xs, rest), c)"
    using assms(2,3) w by (intro first_star_chars) auto
  ultimately show ?thesis unfolding re_plus_def w by (auto intro: first_seq simp: prev_char_def)
qed

lemma first_str: "first_match (re_str w) ((p, w @ s), c) ((prev_char p w, s), c)"
  by (simp add: first_match_def mt_str starts_with_def)

lemma first_stri: "first_match (re_stri w) ((p, w @ s), c) ((prev_char p w, s), c)"
proof (induction w arbitrary: p)
  case Nil
  show ?case by (simp add: first_match_def re_stri_def prev_char_def)
next
  case (Cons x w)
  have "first_match (RChar (\<lambda>y. lower_char y = lower_char x)) ((p, (x # w) @ s), c) ((Some x, w @ s), c)"
    by (simp add: first_match_def)
  from first_seq [OF this Cons.IH] show ?case by (simp add: re_stri_def prev_char_Cons)
qed

lemma first_group: "first_match r ((p, s), c) ((q, rest), d) \<Longrightarrow> first_match (RGroup n r) ((p, s), c) ((q, rest), (n, matched s rest) # d)"
  by (auto simp: first_match_def)

lemma first_search: "first_match r ((p, s), []) ((q, rest), caps) \<Longrightarrow>
    search r p s = Some \<lparr>rx_before = [], rx_text = matched s rest, rx_caps = caps, rx_after = (q, rest)\<rparr>"
  by (subst search.simps) (auto simp: first_match_def)

end
