(* ===== verification/JsonChecks.thy ===== *)
theory JsonChecks
  imports JsRegex FilePaths
begin

text \<open>
  What the manifest validators of the \<open>.mjs\<close> gates share: checks on a parsed JSON value that throw an
  error of the gate's own class, and a rule that splits the success of a chain of checks. Numbers in
  JSON values are integers, so \<open>Number.isInteger\<close> asks for a number; a file is given as the result of
  parsing it.
\<close>

definition check_that :: "string \<Rightarrow> bool \<Rightarrow> string \<Rightarrow> unit res" where
  "check_that cls ok msg = (if ok then Inr () else Inl (JsError cls msg))"

definition require_object :: "string \<Rightarrow> string \<Rightarrow> json \<Rightarrow> json res" where
  "require_object cls label v = (case v of JObj kvs \<Rightarrow> Inr v | _ \<Rightarrow> Inl (JsError cls (label @ '' must be a JSON object'')))"

definition require_string :: "string \<Rightarrow> string \<Rightarrow> json \<Rightarrow> string res" where
  "require_string cls label v = (case v of
     JStr s \<Rightarrow> if trim s = [] then Inl (JsError cls (label @ '' must be a non-empty string'')) else Inr s
   | _ \<Rightarrow> Inl (JsError cls (label @ '' must be a non-empty string'')))"

definition require_positive :: "string \<Rightarrow> string \<Rightarrow> json \<Rightarrow> int res" where
  "require_positive cls label v = (case v of
     JNum n \<Rightarrow> if n < 1 then Inl (JsError cls (label @ '' must be a positive integer'')) else Inr n
   | _ \<Rightarrow> Inl (JsError cls (label @ '' must be a positive integer'')))"

definition require_array :: "string \<Rightarrow> string \<Rightarrow> json \<Rightarrow> json list res" where
  "require_array cls label v = (case v of JArr vs \<Rightarrow> Inr vs | _ \<Rightarrow> Inl (JsError cls (label @ '' must be an array'')))"

text \<open>The file of a manifest: absent, not JSON (the parser's error), or a value.\<close>

definition parse_json_file :: "string \<Rightarrow> string \<Rightarrow> string \<Rightarrow> json res option \<Rightarrow> json res" where
  "parse_json_file cls name path file = (case file of
     None \<Rightarrow> Inl (JsError cls (name @ '' not found: '' @ path))
   | Some (Inl e) \<Rightarrow> Inl (JsError cls (name @ '' is not valid JSON: '' @ path @ '' ('' @ err_message e @ '')''))
   | Some (Inr v) \<Rightarrow> Inr v)"

named_theorems check_inv \<open>what a successful check says\<close>

lemma bind_inv [check_inv]: "res_bind m f = Inr b \<longleftrightarrow> (\<exists>a. m = Inr a \<and> f a = Inr b)"
  by (rule res_bind_Inr_iff)

lemma check_that_inv [check_inv]: "check_that cls ok msg = Inr u \<longleftrightarrow> ok"
  by (simp add: check_that_def)

lemma require_object_inv [check_inv]: "require_object cls label v = Inr w \<longleftrightarrow> w = v \<and> (\<exists>kvs. v = JObj kvs)"
  by (auto simp: require_object_def split: json.splits)

lemma require_string_inv [check_inv]: "require_string cls label v = Inr s \<longleftrightarrow> v = JStr s \<and> trim s \<noteq> []"
  by (auto simp: require_string_def split: json.splits if_splits)

lemma require_positive_inv [check_inv]: "require_positive cls label v = Inr n \<longleftrightarrow> v = JNum n \<and> 1 \<le> n"
  by (auto simp: require_positive_def split: json.splits if_splits)

lemma require_array_inv [check_inv]: "require_array cls label v = Inr vs \<longleftrightarrow> v = JArr vs"
  by (auto simp: require_array_def split: json.splits)

lemma parse_json_file_inv [check_inv]: "parse_json_file cls name path file = Inr v \<longleftrightarrow> file = Some (Inr v)"
  by (auto simp: parse_json_file_def split: option.splits sum.splits)

text \<open>Words of a command line: \<open>split(/\s+/).filter((t) => t.length > 0)\<close>.\<close>

fun words_from :: "string \<Rightarrow> string \<Rightarrow> string list" where
  "words_from acc [] = [acc]"
| "words_from acc (c # s) = (if is_ws c then acc # words_from [] s else words_from (acc @ [c]) s)"

definition command_words :: "string \<Rightarrow> string list" where
  "command_words s = filter (\<lambda>w. w \<noteq> []) (words_from [] s)"

lemma words_from_plain: "\<forall>c \<in> set w. \<not> is_ws c \<Longrightarrow> words_from acc w = [acc @ w]"
  by (induction w arbitrary: acc) auto

lemma words_from_append: "\<forall>c \<in> set w. \<not> is_ws c \<Longrightarrow> is_ws d \<Longrightarrow> words_from acc (w @ d # s) = (acc @ w) # words_from [] s"
  by (induction w arbitrary: acc) auto

lemma command_words_join:
  "\<forall>w \<in> set ws. w \<noteq> [] \<and> (\<forall>c \<in> set w. \<not> is_ws c) \<Longrightarrow> command_words (join_with '' '' ws) = ws"
proof (induction ws rule: induct_list012)
  case (2 w)
  then show ?case by (simp add: command_words_def words_from_plain)
next
  case (3 v w ws)
  have "is_ws (CHR 0x20)" by (simp add: is_ws_def code_unit_def)
  with 3 words_from_append [of v "CHR 0x20" "[]" "join_with '' '' (w # ws)"] show ?case
    by (simp add: command_words_def)
qed (simp add: command_words_def)

text \<open>The name of a Solidity identifier: \<open>/^[A-Za-z_][A-Za-z0-9_]*$/\<close>.\<close>

definition is_letter :: "char \<Rightarrow> bool" where
  "is_letter c \<longleftrightarrow> is_upper c \<or> is_lower c \<or> c = CHR ''_''"

definition identifier_regex :: re where
  "identifier_regex = RSeq RStart (RSeq (RChar is_letter) (RSeq (RStar True (RChar (\<lambda>d. is_letter d \<or> is_digit d))) REnd))"

end
