(* ===== verification/StaticAnalysis.thy ===== *)
theory StaticAnalysis
  imports JsonChecks
begin

text \<open>
  \<open>scripts/static-analysis-gate.mjs\<close>: the pinned analyzer, the fingerprint of a finding, the triaged
  baseline, and the verdict. \<open>analysis_host\<close>: the JSON files of the repository by path, the text of
  \<open>slither --version\<close>, a run of slither on its arguments, \<open>JSON.parse\<close> and the hex digest of SHA-256.
  Printing and failing writes are left out; a message that
  quotes one of the operating system is shortened.
\<close>

section \<open>The configuration\<close>

record analysis_config =
  cf_slither :: string
  cf_solc :: string
  cf_target :: string
  cf_filterPaths :: json
  cf_dispositions :: "string list"
  cf_minJustification :: int
  cf_baselineFile :: string
  cf_reportFile :: string

abbreviation requirePlainObject :: "string \<Rightarrow> json \<Rightarrow> json res" where
  "requirePlainObject \<equiv> require_object ''GateError''"

abbreviation requireNonEmptyString :: "string \<Rightarrow> json \<Rightarrow> string res" where
  "requireNonEmptyString \<equiv> require_string ''GateError''"

abbreviation gate_check :: "bool \<Rightarrow> string \<Rightarrow> unit res" where
  "gate_check \<equiv> check_that ''GateError''"

text \<open>\<open>a ?? b\<close>.\<close>

definition nullish :: "json \<Rightarrow> bool" where
  "nullish v \<longleftrightarrow> v = JNull \<or> v = JUndefined"

definition json_else :: "json \<Rightarrow> json \<Rightarrow> json" where
  "json_else v d = (if nullish v then d else v)"

definition text_of :: "json \<Rightarrow> string option" where
  "text_of v = (case v of JStr s \<Rightarrow> Some s | _ \<Rightarrow> None)"

definition requireStringArray :: "string \<Rightarrow> json \<Rightarrow> string list res" where
  "requireStringArray label v = (let bad = Inl (JsError ''GateError'' (label @ '' must be an array of strings'')) in
     case v of JArr vs \<Rightarrow> if None \<in> set (map text_of vs) then bad else Inr (map (the \<circ> text_of) vs)
     | _ \<Rightarrow> bad)"

definition loadAnalysisConfig :: "string \<Rightarrow> json res option \<Rightarrow> analysis_config res" where
  "loadAnalysisConfig configPath file =
     (let label = ''Static analysis config'' in
      res_bind (parse_json_file ''GateError'' label configPath file) (\<lambda>parsed.
      res_bind (requirePlainObject label parsed) (\<lambda>config.
      res_bind (requirePlainObject (label @ ''.toolchain'') (json_get ''toolchain'' config)) (\<lambda>toolchain.
      res_bind (traverse (\<lambda>key. requireNonEmptyString (label @ ''.toolchain.'' @ key) (json_get key toolchain))
        [''slither'', ''cryticCompile'', ''solc'', ''python'']) (\<lambda>pins.
      res_bind (requirePlainObject (label @ ''.scope'') (json_get ''scope'' config)) (\<lambda>scope.
      res_bind (requireNonEmptyString (label @ ''.scope.target'') (json_get ''target'' scope)) (\<lambda>target.
      res_bind (requireStringArray (label @ ''.scope.filterPaths'') (json_else (json_get ''filterPaths'' scope) (JArr []))) (\<lambda>u.
      res_bind (requireStringArray (label @ ''.suppressibleDispositions'') (json_else (json_get ''suppressibleDispositions'' config) (JArr [])))
        (\<lambda>dispositions.
      res_bind (gate_check (dispositions \<noteq> []) (label @ ''.suppressibleDispositions must not be empty'')) (\<lambda>u.
      res_bind (require_positive ''GateError'' (label @ ''.minJustificationLength'') (json_get ''minJustificationLength'' config)) (\<lambda>least.
      res_bind (requireNonEmptyString (label @ ''.baselineFile'') (json_get ''baselineFile'' config)) (\<lambda>baselineFile.
      res_bind (requireNonEmptyString (label @ ''.reportFile'') (json_get ''reportFile'' config)) (\<lambda>reportFile.
      Inr \<lparr>cf_slither = pins ! 0, cf_solc = pins ! 2, cf_target = target, cf_filterPaths = json_get ''filterPaths'' scope, cf_dispositions = dispositions,
        cf_minJustification = least, cf_baselineFile = baselineFile, cf_reportFile = reportFile\<rparr>)))))))))))))"

section \<open>The baseline\<close>

record baseline_entry =
  be_fingerprint :: string
  be_disposition :: string
  be_justification :: string
  be_trackedBy :: json

definition load_baseline_entry :: "string list \<Rightarrow> int \<Rightarrow> string list \<Rightarrow> nat \<Rightarrow> json \<Rightarrow> baseline_entry res" where
  "load_baseline_entry dispositions least seen index raw =
     (let label = ''Static analysis baseline.entries['' @ show_nat index @ '']'' in
      res_bind (requirePlainObject label raw) (\<lambda>entry.
      res_bind (requireNonEmptyString (label @ ''.fingerprint'') (json_get ''fingerprint'' entry)) (\<lambda>fingerprint.
      res_bind (gate_check (fingerprint \<notin> set seen) (label @ ''.fingerprint duplicates an earlier entry: '' @ fingerprint)) (\<lambda>u.
      res_bind (requireNonEmptyString (label @ ''.disposition'') (json_get ''disposition'' entry)) (\<lambda>disposition.
      res_bind (gate_check (disposition \<in> set dispositions) (label @ ''.disposition '' @ [CHR 0x22] @ disposition @ [CHR 0x22] @
        '' is not suppressible; allowed: '' @ join_with '', '' dispositions)) (\<lambda>u.
      res_bind (requireNonEmptyString (label @ ''.justification'') (json_get ''justification'' entry)) (\<lambda>justification.
      res_bind (gate_check (least \<le> int (length (trim justification)))
        (label @ ''.justification must document why the finding does not apply (>= '' @ show_int least @ '' characters)'')) (\<lambda>u.
      res_bind (requireNonEmptyString (label @ ''.reviewedBy'') (json_get ''reviewedBy'' entry)) (\<lambda>u.
      res_bind (requireNonEmptyString (label @ ''.reviewedOn'') (json_get ''reviewedOn'' entry)) (\<lambda>u.
      res_bind (requireNonEmptyString (label @ ''.detector'') (json_get ''detector'' entry)) (\<lambda>u.
      res_bind (if disposition = ''accepted-risk'' then requireNonEmptyString (label @ ''.trackedBy'') (json_get ''trackedBy'' entry)
        else Inr []) (\<lambda>u.
      Inr \<lparr>be_fingerprint = fingerprint, be_disposition = disposition, be_justification = justification,
        be_trackedBy = json_get ''trackedBy'' entry\<rparr>))))))))))))"

fun load_baseline_entries :: "string list \<Rightarrow> int \<Rightarrow> string list \<Rightarrow> nat \<Rightarrow> json list \<Rightarrow> baseline_entry list res" where
  "load_baseline_entries dispositions least seen index [] = Inr []"
| "load_baseline_entries dispositions least seen index (raw # raws) =
     res_bind (load_baseline_entry dispositions least seen index raw) (\<lambda>entry.
     res_bind (load_baseline_entries dispositions least (be_fingerprint entry # seen) (Suc index) raws) (\<lambda>entries.
     Inr (entry # entries)))"

definition loadBaseline :: "string \<Rightarrow> json res option \<Rightarrow> string list \<Rightarrow> int \<Rightarrow> baseline_entry list res" where
  "loadBaseline baselinePath file dispositions least =
     (let label = ''Static analysis baseline'' in
      res_bind (parse_json_file ''GateError'' label baselinePath file) (\<lambda>parsed.
      res_bind (requirePlainObject label parsed) (\<lambda>baseline.
      res_bind (require_array ''GateError'' (label @ ''.entries'') (json_get ''entries'' baseline)) (\<lambda>raws.
      load_baseline_entries dispositions least [] 0 raws))))"

section \<open>Findings\<close>

record finding =
  fi_fingerprint :: string
  fi_detector :: string
  fi_impact :: string
  fi_confidence :: string
  fi_contract :: string
  fi_element :: string
  fi_sourceFile :: string

text \<open>\<open>String(value)\<close> of a JSON value.\<close>

fun json_String :: "json \<Rightarrow> string" where
  "json_String JNull = ''null''"
| "json_String JUndefined = ''undefined''"
| "json_String (JBool b) = (if b then ''true'' else ''false'')"
| "json_String (JNum n) = show_int n"
| "json_String (JStr s) = s"
| "json_String (JArr vs) = join_with '','' (map (\<lambda>v. if nullish v then [] else json_String v) vs)"
| "json_String (JObj kvs) = ''[object Object]''"

definition string_or :: "json \<Rightarrow> string \<Rightarrow> string" where
  "string_or v d = json_String (json_else v (JStr d))"

definition first_element :: "json \<Rightarrow> json" where
  "first_element detector = (case json_get ''elements'' detector of
     JArr (e # es) \<Rightarrow> json_else e (JObj []) | _ \<Rightarrow> JObj [])"

definition finding_file :: "json \<Rightarrow> string" where
  "finding_file element = (let sourceMapping = json_else (json_get ''source_mapping'' element) (JObj []) in
     string_or (json_else (json_get ''filename_relative'' sourceMapping) (json_get ''filename_absolute'' sourceMapping)) ''unknown'')"

definition finding_parts :: "json \<Rightarrow> string list" where
  "finding_parts detector = (let element = first_element detector in
     [string_or (json_get ''check'' detector) ''unknown-detector'', string_or (json_get ''impact'' detector) ''Unknown'',
      string_or (json_get ''confidence'' detector) ''Unknown'', string_or (json_get ''type'' element) ''unknown'',
      string_or (json_get ''name'' element) ''unknown'', finding_file element])"

text \<open>The separator in the source is the character NUL.\<close>

definition FINGERPRINT_SEPARATOR :: string where
  "FINGERPRINT_SEPARATOR = [CHR 0x00]"

definition fingerprintFinding :: "(string \<Rightarrow> string) \<Rightarrow> json \<Rightarrow> string" where
  "fingerprintFinding sha256 detector = take 16 (sha256 (join_with FINGERPRINT_SEPARATOR (finding_parts detector)))"

text \<open>A detector that is null, or elements that are neither missing nor an array, raise a TypeError.\<close>

definition describeFinding :: "(string \<Rightarrow> string) \<Rightarrow> json \<Rightarrow> finding res" where
  "describeFinding sha256 detector =
     (if nullish detector then Inl (JsError ''TypeError'' ''Cannot read properties of null'')
      else case json_else (json_get ''elements'' detector) (JArr []) of
        JArr items \<Rightarrow>
          (let element = first_element detector;
             contract = (case find (\<lambda>item. json_get ''type'' item = JStr ''contract'') items of
               None \<Rightarrow> JUndefined | Some item \<Rightarrow> json_get ''name'' item) in
           Inr \<lparr>fi_fingerprint = fingerprintFinding sha256 detector,
             fi_detector = string_or (json_get ''check'' detector) ''unknown-detector'',
             fi_impact = string_or (json_get ''impact'' detector) ''Unknown'',
             fi_confidence = string_or (json_get ''confidence'' detector) ''Unknown'',
             fi_contract = string_or (json_else contract (json_get ''name'' element)) ''unknown'',
             fi_element = string_or (json_get ''type'' element) ''unknown'' @ '' '' @ string_or (json_get ''name'' element) ''unknown'',
             fi_sourceFile = finding_file element\<rparr>)
      | _ \<Rightarrow> Inl (JsError ''TypeError'' ''find is not a function''))"

definition normalizeReport :: "(string \<Rightarrow> string) \<Rightarrow> json \<Rightarrow> finding list res" where
  "normalizeReport sha256 report =
     res_bind (requirePlainObject ''Slither report'' report) (\<lambda>payload.
     (let results = json_get ''results'' payload in
     res_bind (gate_check (\<not> nullish results) ''Slither report is missing a results object'') (\<lambda>u.
     res_bind (requirePlainObject ''Slither report.results'' results) (\<lambda>obj.
     res_bind (require_array ''GateError'' ''Slither report.results.detectors'' (json_get ''detectors'' obj)) (\<lambda>detectors.
     traverse (describeFinding sha256) detectors)))))"

section \<open>The toolchain pin\<close>

text \<open>\<open>/(\d+\.\d+\.\d+(?:[-+][0-9A-Za-z.-]+)?)/\<close>.\<close>

definition digits_regex :: re where
  "digits_regex = re_plus (RChar is_digit)"

definition dot_regex :: re where
  "dot_regex = RChar (\<lambda>c. c = CHR ''.'')"

definition version_regex :: re where
  "version_regex = RGroup 1 (RSeq digits_regex (RSeq dot_regex (RSeq digits_regex (RSeq dot_regex (RSeq digits_regex
     (re_opt (RSeq (RChar (\<lambda>c. c = CHR ''-'' \<or> c = CHR ''+''))
       (re_plus (RChar (\<lambda>c. is_digit c \<or> is_upper c \<or> is_lower c \<or> c = CHR ''.'' \<or> c = CHR ''-''))))))))))"

definition checkToolchainPin :: "string \<Rightarrow> string \<Rightarrow> string option" where
  "checkToolchainPin versionOutput pinnedVersion = (case exec version_regex versionOutput of
     None \<Rightarrow> Some (''could not parse an analyzer version from '' @ [CHR 0x22] @ versionOutput @ [CHR 0x22])
   | Some m \<Rightarrow> (let version = the (rx_group 1 m) in
       if version \<noteq> pinnedVersion then Some (''analyzer version '' @ version @ '' does not match the pinned '' @ pinnedVersion)
       else None))"

section \<open>The verdict\<close>

definition known_fingerprints :: "string list \<Rightarrow> baseline_entry list \<Rightarrow> string list res" where
  "known_fingerprints dispositions entries = res_bind (traverse (\<lambda>e. gate_check (be_disposition e \<in> set dispositions)
       (''Baseline entry '' @ be_fingerprint e @ '' has a non-suppressible disposition'')) entries)
     (\<lambda>u. Inr (map be_fingerprint (dedupe_on be_fingerprint {} entries)))"

text \<open>The loop over the findings: the fingerprints observed so far, the new findings so far.\<close>

fun new_findings :: "string list \<Rightarrow> string list \<Rightarrow> finding list \<Rightarrow> finding list \<Rightarrow> string list \<times> finding list" where
  "new_findings known observed new [] = (observed, new)"
| "new_findings known observed new (f # fs) =
     (if fi_fingerprint f \<in> set observed then new_findings known observed new fs
      else new_findings known (fi_fingerprint f # observed) (if fi_fingerprint f \<in> set known then new else new @ [f]) fs)"

definition diffAgainstBaseline :: "finding list \<Rightarrow> baseline_entry list \<Rightarrow> string list \<Rightarrow> (finding list \<times> string list) res" where
  "diffAgainstBaseline findings entries dispositions =
     res_bind (known_fingerprints dispositions entries) (\<lambda>known.
     case new_findings known [] [] findings of (observed, new) \<Rightarrow>
       Inr (new, filter (\<lambda>fingerprint. fingerprint \<notin> set observed) known))"

text \<open>A run of slither: exit code 0 with its output, or an error that may carry the output.\<close>

datatype slither_run = Completed string | Failed "string option"

record analysis_host =
  ah_file :: "string \<Rightarrow> json res option"
  ah_version :: "string res"
  ah_slither :: "string list \<Rightarrow> slither_run"
  ah_parse :: "string \<Rightarrow> json res"
  ah_sha256 :: "string \<Rightarrow> string"

definition safeJsonParse :: "analysis_host \<Rightarrow> string \<Rightarrow> json" where
  "safeJsonParse H raw = (case ah_parse H raw of Inl e \<Rightarrow> JNull | Inr v \<Rightarrow> v)"

definition slither_arguments :: "string \<Rightarrow> json \<Rightarrow> string list res" where
  "slither_arguments target filterPaths = (let start = [target, ''--json'', ''-''] in case filterPaths of
     JArr vs \<Rightarrow> Inr (start @ concat (map (\<lambda>path. [''--filter-paths'', json_String path]) vs))
   | JStr s \<Rightarrow> Inr (start @ concat (map (\<lambda>c. [''--filter-paths'', [c]]) s))
   | _ \<Rightarrow> Inl (JsError ''TypeError'' ''filterPaths is not iterable''))"

text \<open>Second: the report that is written.\<close>

definition runAnalyzer :: "analysis_host \<Rightarrow> json \<Rightarrow> string \<Rightarrow> finding list res \<times> string option" where
  "runAnalyzer H filterPaths target = (case slither_arguments target filterPaths of
     Inl e \<Rightarrow> (Inl e, None)
   | Inr args \<Rightarrow>
       (case ah_slither H args of
          Failed out \<Rightarrow>
            (if out \<noteq> None \<and> trim (the out) \<noteq> [] then (normalizeReport (ah_sha256 H) (safeJsonParse H (the out)), None)
             else (Inl (JsError ''GateError'' ''Slither produced no report; refusing to pass the gate''), None))
        | Completed out \<Rightarrow>
            (let report = safeJsonParse H out in
             if report = JNull then (Inl (JsError ''GateError''
               ''Slither produced output that is not valid JSON; refusing to pass the gate''), None)
             else (normalizeReport (ah_sha256 H) report, Some out))))"

record gate_result =
  gr_passed :: bool
  gr_findings :: "finding list"
  gr_newFindings :: "finding list"
  gr_resolved :: "string list"

definition analysis_setup :: "analysis_host \<Rightarrow> string \<Rightarrow> (analysis_config \<times> baseline_entry list) res" where
  "analysis_setup H configPath =
     res_bind (loadAnalysisConfig configPath (ah_file H configPath)) (\<lambda>config.
     res_bind (loadBaseline (cf_baselineFile config) (ah_file H (cf_baselineFile config)) (cf_dispositions config) (cf_minJustification config))
       (\<lambda>entries.
     res_bind (ah_version H) (\<lambda>versionOutput.
     case checkToolchainPin versionOutput (cf_slither config) of
       Some mismatch \<Rightarrow> Inl (JsError ''GateError'' (''Static analysis toolchain pin violated: '' @ mismatch))
     | None \<Rightarrow> Inr (config, entries))))"

definition runStaticAnalysisGate :: "analysis_host \<Rightarrow> string \<Rightarrow> gate_result res \<times> string option" where
  "runStaticAnalysisGate H configPath = (case analysis_setup H configPath of
     Inl e \<Rightarrow> (Inl e, None)
   | Inr (config, entries) \<Rightarrow>
       (case runAnalyzer H (cf_filterPaths config) (cf_target config) of (findings, written) \<Rightarrow>
          (res_bind findings (\<lambda>fs. res_bind (diffAgainstBaseline fs entries (cf_dispositions config)) (\<lambda>(new, resolved).
             Inr \<lparr>gr_passed = (new = []), gr_findings = fs, gr_newFindings = new, gr_resolved = resolved\<rparr>)), written)))"

definition static_gate_main :: "analysis_host \<Rightarrow> nat \<times> string option" where
  "static_gate_main H = (case runStaticAnalysisGate H ''config/static-analysis.json'' of
     (Inl e, written) \<Rightarrow> (1, written)
   | (Inr result, written) \<Rightarrow> (if gr_passed result then 0 else 1, written))"

section \<open>What an accepted configuration and baseline say\<close>

definition entry_justified :: "string list \<Rightarrow> int \<Rightarrow> baseline_entry \<Rightarrow> bool" where
  "entry_justified dispositions least e \<longleftrightarrow> trim (be_fingerprint e) \<noteq> [] \<and> be_disposition e \<in> set dispositions \<and>
     least \<le> int (length (trim (be_justification e))) \<and>
     (be_disposition e = ''accepted-risk'' \<longrightarrow> (\<exists>issue. be_trackedBy e = JStr issue \<and> trim issue \<noteq> []))"

lemma load_baseline_entry_ok:
  "load_baseline_entry ds least seen i raw = Inr e \<Longrightarrow> entry_justified ds least e \<and> be_fingerprint e \<notin> set seen"
  by (auto simp: load_baseline_entry_def Let_def check_inv entry_justified_def)

lemma load_baseline_entries_ok:
  "load_baseline_entries ds least seen i raws = Inr es \<Longrightarrow>
     (\<forall>e \<in> set es. entry_justified ds least e) \<and> distinct (map be_fingerprint es) \<and> be_fingerprint ` set es \<inter> set seen = {}"
proof (induction ds least seen i raws arbitrary: es rule: load_baseline_entries.induct)
  case (2 ds least seen i raw raws)
  from 2(2) obtain e rest where s: "load_baseline_entry ds least seen i raw = Inr e"
      "load_baseline_entries ds least (be_fingerprint e # seen) (Suc i) raws = Inr rest" "es = e # rest"
    by (auto simp: check_inv)
  with 2(1) [OF s(2)] load_baseline_entry_ok [OF s(1)] show ?case by auto
qed simp

lemma load_baseline_ok:
  "loadBaseline p file ds least = Inr es \<Longrightarrow> (\<forall>e \<in> set es. entry_justified ds least e) \<and> distinct (map be_fingerprint es)"
  using load_baseline_entries_ok by (auto simp: loadBaseline_def Let_def check_inv)

lemma load_config_ok: "loadAnalysisConfig p file = Inr cfg \<Longrightarrow> cf_dispositions cfg \<noteq> [] \<and> 1 \<le> cf_minJustification cfg"
  by (auto simp: loadAnalysisConfig_def Let_def check_inv)

section \<open>The loop over the findings\<close>

lemma new_findings_eq:
  "new_findings known observed new fs =
     (rev (map fi_fingerprint (dedupe_on fi_fingerprint (set observed) fs)) @ observed,
      new @ filter (\<lambda>f. fi_fingerprint f \<notin> set known) (dedupe_on fi_fingerprint (set observed) fs))"
  by (induction fs arbitrary: observed new) simp_all

lemma checks_all: "traverse (\<lambda>x. check_that cls (P x) (msg x)) xs = Inr us \<longleftrightarrow> (\<forall>x \<in> set xs. P x) \<and> us = map (\<lambda>x. ()) xs"
  unfolding traverse_Inr_iff by (induction xs arbitrary: us) (auto simp: check_inv list_all2_Cons1)

lemma known_inv: "known_fingerprints ds es = Inr known \<longleftrightarrow> (\<forall>e \<in> set es. be_disposition e \<in> set ds) \<and>
    known = map be_fingerprint (dedupe_on be_fingerprint {} es)"
  by (auto simp: known_fingerprints_def bind_inv checks_all)

lemma diff_eq:
  assumes "\<forall>e \<in> set es. be_disposition e \<in> set ds"
  shows "diffAgainstBaseline fs es ds =
    Inr (filter (\<lambda>f. fi_fingerprint f \<notin> be_fingerprint ` set es) (dedupe_on fi_fingerprint {} fs),
      filter (\<lambda>p. p \<notin> fi_fingerprint ` set fs) (map be_fingerprint (dedupe_on be_fingerprint {} es)))"
proof -
  have "known_fingerprints ds es = Inr (map be_fingerprint (dedupe_on be_fingerprint {} es))"
    using assms known_inv by blast
  then show ?thesis by (simp add: diffAgainstBaseline_def new_findings_eq dedupe_on_keys)
qed

lemma no_new_findings:
  assumes "\<forall>e \<in> set es. be_disposition e \<in> set ds" "diffAgainstBaseline fs es ds = Inr (new, resolved)"
  shows "new = [] \<longleftrightarrow> fi_fingerprint ` set fs \<subseteq> be_fingerprint ` set es"
proof -
  have "new = [] \<longleftrightarrow> (\<forall>p \<in> fi_fingerprint ` set (dedupe_on fi_fingerprint {} fs). p \<in> be_fingerprint ` set es)"
    using assms(2) unfolding diff_eq [OF assms(1)] by (auto simp: filter_empty_conv)
  then show ?thesis by (auto simp: dedupe_on_keys)
qed

section \<open>Properties\<close>

text \<open>The report of slither that the gate reads, whatever its exit code.\<close>

definition analysis_report :: "analysis_host \<Rightarrow> analysis_config \<Rightarrow> json option" where
  "analysis_report H cfg = (case slither_arguments (cf_target cfg) (cf_filterPaths cfg) of
     Inl e \<Rightarrow> None
   | Inr args \<Rightarrow> (case ah_slither H args of
       Failed None \<Rightarrow> None
     | Failed (Some out) \<Rightarrow> if trim out = [] then None else Some (safeJsonParse H out)
     | Completed out \<Rightarrow> if safeJsonParse H out = JNull then None else Some (safeJsonParse H out)))"

lemma run_analyzer_iff: "fst (runAnalyzer H (cf_filterPaths cfg) (cf_target cfg)) = Inr fs \<longleftrightarrow>
    (\<exists>report. analysis_report H cfg = Some report \<and> normalizeReport (ah_sha256 H) report = Inr fs)"
  by (auto simp: runAnalyzer_def analysis_report_def Let_def split: sum.splits slither_run.splits option.splits)

definition analysis_ready :: "analysis_host \<Rightarrow> analysis_config \<Rightarrow> baseline_entry list \<Rightarrow> bool" where
  "analysis_ready H cfg entries \<longleftrightarrow>
     loadAnalysisConfig ''config/static-analysis.json'' (ah_file H ''config/static-analysis.json'') = Inr cfg \<and>
     loadBaseline (cf_baselineFile cfg) (ah_file H (cf_baselineFile cfg)) (cf_dispositions cfg) (cf_minJustification cfg) = Inr entries \<and>
     (\<exists>v. ah_version H = Inr v \<and> checkToolchainPin v (cf_slither cfg) = None)"

lemma setup_iff: "analysis_setup H ''config/static-analysis.json'' = Inr (cfg, entries) \<longleftrightarrow> analysis_ready H cfg entries"
  by (auto simp: analysis_setup_def analysis_ready_def bind_inv split: option.splits)

lemma ready_dispositions: "analysis_ready H cfg entries \<Longrightarrow> \<forall>e \<in> set entries. be_disposition e \<in> set (cf_dispositions cfg)"
  using load_baseline_ok by (fastforce simp: analysis_ready_def entry_justified_def)

lemma static_gate_main_eq: "static_gate_main H = (case analysis_setup H ''config/static-analysis.json'' of
    Inl e \<Rightarrow> (1, None)
  | Inr (cfg, entries) \<Rightarrow> (case runAnalyzer H (cf_filterPaths cfg) (cf_target cfg) of (findings, written) \<Rightarrow>
      (case findings of Inl e \<Rightarrow> 1
       | Inr fs \<Rightarrow> (case diffAgainstBaseline fs entries (cf_dispositions cfg) of Inl e \<Rightarrow> 1 | Inr (new, resolved) \<Rightarrow>
           if new = [] then 0 else 1), written)))"
  by (auto simp: static_gate_main_def runStaticAnalysisGate_def res_bind_def split: sum.splits prod.splits)

lemma ready_exit:
  assumes "analysis_ready H cfg entries"
  shows "fst (static_gate_main H) = (case fst (runAnalyzer H (cf_filterPaths cfg) (cf_target cfg)) of Inl e \<Rightarrow> 1
    | Inr fs \<Rightarrow> if fi_fingerprint ` set fs \<subseteq> be_fingerprint ` set entries then 0 else 1)"
proof -
  note ok = ready_dispositions [OF assms]
  show ?thesis
    using assms unfolding setup_iff [symmetric]
    by (auto simp: static_gate_main_eq diff_eq [OF ok] no_new_findings [OF ok diff_eq [OF ok]] split: prod.splits sum.splits)
qed


text \<open>A baseline is accepted only with distinct fingerprints, each with a suppressible disposition, a
  justification of at least the configured length and, for an accepted risk, the issue that tracks it.\<close>

theorem baseline_justified:
  assumes "analysis_ready H cfg entries"
  shows "distinct (map be_fingerprint entries) \<and> cf_dispositions cfg \<noteq> [] \<and> 1 \<le> cf_minJustification cfg \<and>
    (\<forall>e \<in> set entries. entry_justified (cf_dispositions cfg) (cf_minJustification cfg) e)"
  using assms load_baseline_ok load_config_ok by (auto simp: analysis_ready_def)

lemma traverse_snoc: "traverse f (xs @ [x]) = (case traverse f xs of Inl e \<Rightarrow> Inl e
    | Inr ys \<Rightarrow> (case f x of Inl e \<Rightarrow> Inl e | Inr y \<Rightarrow> Inr (ys @ [y])))"
  by (induction xs) (auto split: sum.splits)

lemma normalize_detectors: "normalizeReport h (JObj [(''results'', JObj [(''detectors'', JArr ds)])]) = traverse (describeFinding h) ds"
  by (simp add: normalizeReport_def Let_def json_get_def require_object_def require_array_def check_that_def nullish_def)

lemma describe_fingerprint: "describeFinding h d = Inr f \<Longrightarrow> fi_fingerprint f = fingerprintFinding h d"
  by (auto simp: describeFinding_def Let_def split: if_splits json.splits)

text \<open>A second call site in the same element is not a new finding: a report with a further finding
  that names the same detector, impact, confidence, element and file as one already reported gets the
  same exit code.\<close>

theorem second_call_site_unseen:
  assumes "ah_parse H old = Inr (JObj [(''results'', JObj [(''detectors'', JArr ds)])])"
    and "ah_parse H raw = Inr (JObj [(''results'', JObj [(''detectors'', JArr (ds @ [d']))])])"
    and "d \<in> set ds" "finding_parts d' = finding_parts d" "describeFinding (ah_sha256 H) d' = Inr f'"
  shows "fst (static_gate_main (H\<lparr>ah_slither := (\<lambda>args. Completed raw)\<rparr>)) = fst (static_gate_main (H\<lparr>ah_slither := (\<lambda>args. Completed old)\<rparr>))"
proof -
  let ?new = "H\<lparr>ah_slither := (\<lambda>args. Completed raw)\<rparr>" and ?old = "H\<lparr>ah_slither := (\<lambda>args. Completed old)\<rparr>"
  have host: "loadAnalysisConfig p (ah_file ?new p) = loadAnalysisConfig p (ah_file ?old p)" "analysis_setup ?new p = analysis_setup ?old p" for p
    by (simp_all add: analysis_setup_def)
  show ?thesis
  proof (cases "analysis_setup ?old ''config/static-analysis.json''")
    case (Inr ready)
    then obtain cfg entries where ready: "analysis_ready ?old cfg entries" "analysis_ready ?new cfg entries"
      by (cases ready) (auto simp: host setup_iff [symmetric])
    show ?thesis
    proof (cases "slither_arguments (cf_target cfg) (cf_filterPaths cfg)")
      case (Inr args)
      have run: "fst (runAnalyzer ?old (cf_filterPaths cfg) (cf_target cfg)) = traverse (describeFinding (ah_sha256 H)) ds"
        "fst (runAnalyzer ?new (cf_filterPaths cfg) (cf_target cfg)) = traverse (describeFinding (ah_sha256 H)) (ds @ [d'])"
        using Inr by (simp_all add: runAnalyzer_def safeJsonParse_def assms(1,2) normalize_detectors)
      show ?thesis
      proof (cases "traverse (describeFinding (ah_sha256 H)) ds")
        case (Inr fs)
        then obtain f where f: "describeFinding (ah_sha256 H) d = Inr f" "f \<in> set fs"
          using traverse_result_of [OF Inr assms(3)] by auto
        have "fi_fingerprint f' = fi_fingerprint f"
          using describe_fingerprint [OF f(1)] describe_fingerprint [OF assms(5)] by (simp add: fingerprintFinding_def assms(4))
        with f(2) have "fi_fingerprint ` set (fs @ [f']) = fi_fingerprint ` set fs" by auto
        with Inr show ?thesis
          by (simp add: ready_exit [OF ready(1)] ready_exit [OF ready(2)] run traverse_snoc assms(5) del: set_append)
      qed (simp add: ready_exit [OF ready(1)] ready_exit [OF ready(2)] run traverse_snoc)
    qed (simp add: ready_exit [OF ready(1)] ready_exit [OF ready(2)] runAnalyzer_def)
  qed (simp add: static_gate_main_eq host)
qed

text \<open>A configuration without \<open>filterPaths\<close> is accepted, and then the gate always fails, without
  running the analyzer.\<close>

theorem filter_paths_required:
  assumes "loadAnalysisConfig ''config/static-analysis.json'' (ah_file H ''config/static-analysis.json'') = Inr cfg"
    and "nullish (cf_filterPaths cfg)"
  shows "static_gate_main (H\<lparr>ah_slither := slither\<rparr>) = (1, None)"
proof (cases "analysis_setup (H\<lparr>ah_slither := slither\<rparr>) ''config/static-analysis.json''")
  case (Inr ready)
  then obtain cfg' entries where ready: "ready = (cfg', entries)" "analysis_ready (H\<lparr>ah_slither := slither\<rparr>) cfg' entries"
    by (cases ready) (auto simp: setup_iff)
  with assms have "nullish (cf_filterPaths cfg')" by (simp add: analysis_ready_def)
  then have "slither_arguments t (cf_filterPaths cfg') = Inl (JsError ''TypeError'' ''filterPaths is not iterable'')" for t
    by (auto simp: nullish_def slither_arguments_def Let_def)
  with Inr ready(1) show ?thesis by (simp add: static_gate_main_eq runAnalyzer_def)
qed (simp add: static_gate_main_eq)

section \<open>Reading the version\<close>

definition starts_in :: "(char \<Rightarrow> bool) \<Rightarrow> string \<Rightarrow> bool" where
  "starts_in P s \<longleftrightarrow> s \<noteq> [] \<and> P (hd s)"

lemma greedy_digits:
  assumes "a \<noteq> []" "\<forall>c \<in> set a. is_digit c" "\<not> starts_in is_digit rest"
  shows "\<exists>others. mt (RSeq digits_regex k) ((p, a @ rest), caps) = mt k ((Some (last a), rest), caps) @ others"
proof -
  obtain x xs where a: "a = x # xs" using assms(1) by (cases a) auto
  have "takeWhile is_digit rest = []" using assms(3) by (cases rest) (auto simp: starts_in_def)
  then have "takeWhile is_digit (xs @ rest) = xs" using assms(2) a by (simp add: takeWhile_append)
  then have "mt digits_regex ((p, a @ rest), caps) =
      map (\<lambda>k. ((prev_char (Some x) (take k (xs @ rest)), drop k (xs @ rest)), caps)) (rev [0..<Suc (length xs)])"
    using assms(2) a by (simp add: digits_regex_def re_plus_def mt_star_chars del: mt.simps(5) upt_Suc)
  then show ?thesis by (simp add: a prev_char_def)
qed

lemma dot_step: "mt (RSeq dot_regex k) ((p, CHR ''.'' # s), caps) = mt k ((Some (CHR ''.''), s), caps)"
  by (simp add: dot_regex_def)

lemma no_digit_dot: "\<not> starts_in is_digit (CHR ''.'' # s)"
  by (simp add: starts_in_def is_digit_def code_unit_def)

lemma version_read:
  assumes "a \<noteq> []" "b \<noteq> []" "c \<noteq> []" "\<forall>x \<in> set (a @ b @ c). is_digit x"
    and "\<not> starts_in (\<lambda>x. is_digit x \<or> x = CHR ''-'' \<or> x = CHR ''+'') rest"
  shows "\<exists>m. exec version_regex (a @ ''.'' @ b @ ''.'' @ c @ rest) = Some m \<and> rx_group 1 m = Some (a @ ''.'' @ b @ ''.'' @ c)"
proof -
  define suffix where "suffix = RSeq (RChar (\<lambda>c. c = CHR ''-'' \<or> c = CHR ''+''))
    (re_plus (RChar (\<lambda>c. is_digit c \<or> is_upper c \<or> is_lower c \<or> c = CHR ''.'' \<or> c = CHR ''-'')))"
  define body where "body = RSeq digits_regex (RSeq dot_regex (RSeq digits_regex (RSeq dot_regex (RSeq digits_regex (re_opt suffix)))))"
  let ?s = "a @ CHR ''.'' # b @ CHR ''.'' # c @ rest"
  have digits: "\<forall>x \<in> set a. is_digit x" "\<forall>x \<in> set b. is_digit x" "\<forall>x \<in> set c. is_digit x" using assms(4) by auto
  have stop: "\<not> starts_in is_digit rest" using assms(5) by (auto simp: starts_in_def)
  have "mt suffix ((p, rest), []) = []" for p
    using assms(5) by (cases rest) (auto simp: suffix_def starts_in_def)
  then have tail: "mt (re_opt suffix) ((p, rest), []) = [((p, rest), [])]" for p by (simp add: re_opt_def)
  obtain o1 where 1: "mt body ((None, ?s), []) = mt (RSeq dot_regex (RSeq digits_regex (RSeq dot_regex (RSeq digits_regex (re_opt suffix)))))
      ((Some (last a), CHR ''.'' # b @ CHR ''.'' # c @ rest), []) @ o1"
    using greedy_digits [OF assms(1) digits(1) no_digit_dot] unfolding body_def by blast
  obtain o2 where 2: "mt (RSeq digits_regex (RSeq dot_regex (RSeq digits_regex (re_opt suffix)))) ((Some (CHR ''.''), b @ CHR ''.'' # c @ rest), []) =
      mt (RSeq dot_regex (RSeq digits_regex (re_opt suffix))) ((Some (last b), CHR ''.'' # c @ rest), []) @ o2"
    using greedy_digits [OF assms(2) digits(2) no_digit_dot] by blast
  obtain o3 where 3: "mt (RSeq digits_regex (re_opt suffix)) ((Some (CHR ''.''), c @ rest), []) = mt (re_opt suffix) ((Some (last c), rest), []) @ o3"
    using greedy_digits [OF assms(3) digits(3) stop] by blast
  have "mt body ((None, ?s), []) = ((Some (last c), rest), []) # o3 @ o2 @ o1"
    unfolding 1 dot_step 2 3 tail by simp
  moreover have ver: "version_regex = RGroup 1 body" by (simp add: version_regex_def body_def suffix_def)
  have "mt version_regex ((None, ?s), []) = map (\<lambda>((p, s), c). ((p, s), (1, matched ?s s) # c)) (mt body ((None, ?s), []))"
    by (simp only: ver mt.simps fst_conv snd_conv)
  ultimately obtain others where "mt version_regex ((None, ?s), []) = ((Some (last c), rest), [(1, matched ?s rest)]) # others"
    by (simp only: list.map prod.case)
  moreover have "matched ?s rest = a @ ''.'' @ b @ ''.'' @ c" by (simp add: matched_def)
  ultimately show ?thesis by (simp add: exec_def search.simps [of version_regex None ?s] rx_group_def)
qed

text \<open>On the text \<open>x.y.z\<close> that slither prints, with anything after it that does not continue the
  version, the pin holds exactly for the pinned version \<open>x.y.z\<close>.\<close>

theorem pin_is_exact:
  assumes "a \<noteq> []" "b \<noteq> []" "c \<noteq> []" "\<forall>x \<in> set (a @ b @ c). is_digit x"
    and "\<not> starts_in (\<lambda>x. is_digit x \<or> x = CHR ''-'' \<or> x = CHR ''+'') rest"
  shows "checkToolchainPin (a @ ''.'' @ b @ ''.'' @ c @ rest) pinned = None \<longleftrightarrow> pinned = a @ ''.'' @ b @ ''.'' @ c"
  using version_read [OF assms] by (auto simp: checkToolchainPin_def Let_def split: if_splits)

section \<open>What a fingerprint identifies\<close>

definition nul_free :: "string \<Rightarrow> bool" where
  "nul_free s \<longleftrightarrow> CHR 0x00 \<notin> set s"

lemma split_at_nul:
  assumes "a @ CHR 0x00 # r = a' @ CHR 0x00 # r'" "nul_free a" "nul_free a'"
  shows "a = a' \<and> r = r'"
  using assms by (induction a arbitrary: a') (auto simp: nul_free_def Cons_eq_append_conv append_eq_Cons_conv)

lemma join_nul_inj:
  "join_with [CHR 0x00] ps = join_with [CHR 0x00] qs \<Longrightarrow> length ps = length qs \<Longrightarrow> \<forall>p \<in> set (ps @ qs). nul_free p \<Longrightarrow> ps = qs"
proof (induction ps arbitrary: qs rule: induct_list012)
  case (2 p)
  then show ?case by (cases qs) auto
next
  case (3 p p' ps)
  then obtain q q' qs' where qs: "qs = q # q' # qs'" by (cases qs; cases "tl qs") auto
  from 3(3) have "p @ CHR 0x00 # join_with [CHR 0x00] (p' # ps) = q @ CHR 0x00 # join_with [CHR 0x00] (q' # qs')"
    by (simp add: qs)
  then have "p = q" "join_with [CHR 0x00] (p' # ps) = join_with [CHR 0x00] (q' # qs')"
    using split_at_nul [of p _ q] 3(5) by (auto simp: qs)
  with 3(2) [of "q' # qs'"] 3(4,5) show ?case by (simp add: qs)
qed simp

lemma finding_parts_length: "length (finding_parts d) = 6"
  by (simp add: finding_parts_def Let_def)

text \<open>Two findings get the same fingerprint exactly when they agree in detector, impact, confidence,
  element type, element name and file, if these texts have no NUL character and the sixteen digits of
  SHA-256 do not collide on the two joined texts.\<close>

theorem fingerprint_identifies:
  assumes "\<forall>p \<in> set (finding_parts d @ finding_parts d'). nul_free p"
    and "take 16 (sha256 (join_with [CHR 0x00] (finding_parts d))) = take 16 (sha256 (join_with [CHR 0x00] (finding_parts d'))) \<Longrightarrow>
      join_with [CHR 0x00] (finding_parts d) = join_with [CHR 0x00] (finding_parts d')"
  shows "fingerprintFinding sha256 d = fingerprintFinding sha256 d' \<longleftrightarrow> finding_parts d = finding_parts d'"
proof
  assume "fingerprintFinding sha256 d = fingerprintFinding sha256 d'"
  with assms(2) have "join_with [CHR 0x00] (finding_parts d) = join_with [CHR 0x00] (finding_parts d')"
    by (simp add: fingerprintFinding_def FINGERPRINT_SEPARATOR_def)
  from join_nul_inj [OF this _ assms(1)] show "finding_parts d = finding_parts d'" by (simp add: finding_parts_length)
qed (simp add: fingerprintFinding_def)

section \<open>A concrete run\<close>

definition demo_config :: "(string \<times> json) list \<Rightarrow> json" where
  "demo_config scope = JObj [
     (''toolchain'', JObj [(''slither'', JStr ''0.10.4''), (''cryticCompile'', JStr ''0.3.7''), (''solc'', JStr ''0.8.28''), (''python'', JStr ''3.11'')]),
     (''scope'', JObj ((''target'', JStr ''.'') # scope)), (''suppressibleDispositions'', JArr [JStr ''false-positive'', JStr ''accepted-risk'']),
     (''minJustificationLength'', JNum 10), (''baselineFile'', JStr ''baseline.json''), (''reportFile'', JStr ''report.json'')]"

definition demo_finding :: "string \<Rightarrow> int \<Rightarrow> json" where
  "demo_finding name line = JObj [(''check'', JStr ''tx-origin''), (''impact'', JStr ''Low''), (''confidence'', JStr ''High''),
     (''elements'', JArr [JObj [(''type'', JStr ''function''), (''name'', JStr name),
       (''source_mapping'', JObj [(''filename_relative'', JStr ''A.sol''), (''lines'', JArr [JNum line])])]])]"

definition demo_print :: string where
  "demo_print = ''tx-origin'' @ [CHR 0x00] @ ''Low'' @ [CHR 0x00] @ ''Hi''"

definition demo_baseline :: json where
  "demo_baseline = JObj [(''entries'', JArr [JObj [(''fingerprint'', JStr demo_print), (''disposition'', JStr ''false-positive''),
     (''justification'', JStr ''only a view helper''), (''reviewedBy'', JStr ''a''), (''reviewedOn'', JStr ''b''), (''detector'', JStr ''tx-origin'')]])]"

definition demo_report :: "json list \<Rightarrow> json" where
  "demo_report ds = JObj [(''results'', JObj [(''detectors'', JArr ds)])]"

text \<open>The digest is the text itself, so a fingerprint is its first sixteen characters.\<close>

definition demo_analysis :: "(string \<times> json) list \<Rightarrow> analysis_host" where
  "demo_analysis scope = \<lparr>ah_file = map_of [(''config/static-analysis.json'', Inr (demo_config scope)), (''baseline.json'', Inr demo_baseline)],
     ah_version = Inr (''0.10.4'' @ [CHR 0x0A]), ah_slither = (\<lambda>args. Completed ''one''),
     ah_parse = (\<lambda>s. Inr (if s = ''one'' then demo_report [demo_finding ''pay()'' 7] else demo_report ([demo_finding ''pay()'' 7] @ [demo_finding ''pay()'' 9]))),
     ah_sha256 = (\<lambda>s. s)\<rparr>"

abbreviation demo_scope :: "(string \<times> json) list" where
  "demo_scope \<equiv> [(''filterPaths'', JArr [JStr ''lib''])]"

definition demo_analysis_config :: "json \<Rightarrow> analysis_config" where
  "demo_analysis_config paths = \<lparr>cf_slither = ''0.10.4'', cf_solc = ''0.8.28'', cf_target = ''.'', cf_filterPaths = paths,
     cf_dispositions = [''false-positive'', ''accepted-risk''], cf_minJustification = 10, cf_baselineFile = ''baseline.json'',
     cf_reportFile = ''report.json''\<rparr>"

definition demo_triaged :: "baseline_entry list" where
  "demo_triaged = [\<lparr>be_fingerprint = demo_print, be_disposition = ''false-positive'', be_justification = ''only a view helper'',
     be_trackedBy = JUndefined\<rparr>]"

lemma demo_setup: "analysis_setup (demo_analysis demo_scope) ''config/static-analysis.json'' = Inr (demo_analysis_config (JArr [JStr ''lib'']), demo_triaged)"
  by code_simp

lemma demo_gate_passes: "static_gate_main (demo_analysis demo_scope) = (0, Some ''one'')"
  by code_simp

theorem baseline_justified_witness: "distinct (map be_fingerprint demo_triaged) \<and> length demo_triaged = 1"
  using baseline_justified [of "demo_analysis demo_scope"] demo_setup by (auto simp: setup_iff demo_triaged_def)

theorem second_call_site_unseen_witness:
  "fst (static_gate_main (demo_analysis demo_scope\<lparr>ah_slither := (\<lambda>args. Completed ''two'')\<rparr>)) = 0"
proof -
  let ?H = "demo_analysis demo_scope" and ?d = "demo_finding ''pay()'' 7" and ?d' = "demo_finding ''pay()'' 9"
  have same: "?H\<lparr>ah_slither := (\<lambda>args. Completed ''one'')\<rparr> = ?H" by (simp add: demo_analysis_def)
  have parse: "ah_parse ?H ''one'' = Inr (JObj [(''results'', JObj [(''detectors'', JArr [?d])])])"
    "ah_parse ?H ''two'' = Inr (JObj [(''results'', JObj [(''detectors'', JArr ([?d] @ [?d']))])])"
    by (simp_all add: demo_analysis_def demo_report_def)
  have parts: "finding_parts ?d' = finding_parts ?d" by code_simp
  obtain f' where f: "describeFinding (ah_sha256 ?H) ?d' = Inr f'"
    by (simp add: describeFinding_def demo_finding_def nullish_def json_else_def json_get_def Let_def)
  show ?thesis
    using second_call_site_unseen [OF parse _ parts f] demo_gate_passes by (simp add: same)
qed

theorem filter_paths_required_witness: "static_gate_main (demo_analysis []) = (1, None)"
proof -
  have same: "demo_analysis []\<lparr>ah_slither := (\<lambda>args. Completed ''one'')\<rparr> = demo_analysis []" by (simp add: demo_analysis_def)
  have "loadAnalysisConfig ''config/static-analysis.json'' (ah_file (demo_analysis []) ''config/static-analysis.json'') = Inr (demo_analysis_config JUndefined)"
    by code_simp
  from filter_paths_required [OF this, of "\<lambda>args. Completed ''one''"] show ?thesis
    by (simp add: same demo_analysis_config_def nullish_def)
qed

theorem pin_is_exact_witness: "checkToolchainPin (''0.10.4'' @ [CHR 0x0A]) ''0.10.4'' = None"
  using pin_is_exact [of "''0''" "''10''" "''4''" "[CHR 0x0A]" "''0.10.4''"] by (simp add: starts_in_def is_digit_def code_unit_def)

theorem fingerprint_identifies_witness:
  "fingerprintFinding (\<lambda>s. s) (JObj [(''check'', JStr ''a''), (''impact'', JStr ''b'')]) \<noteq>
   fingerprintFinding (\<lambda>s. s) (JObj [(''check'', JStr ''a''), (''impact'', JStr ''c'')])"
proof -
  let ?d = "JObj [(''check'', JStr ''a''), (''impact'', JStr ''b'')]" and ?e = "JObj [(''check'', JStr ''a''), (''impact'', JStr ''c'')]"
  have parts: "finding_parts ?d = [''a'', ''b'', ''Unknown'', ''unknown'', ''unknown'', ''unknown'']"
    "finding_parts ?e = [''a'', ''c'', ''Unknown'', ''unknown'', ''unknown'', ''unknown'']"
    by code_simp+
  show ?thesis
    using fingerprint_identifies [of ?d ?e "\<lambda>s. s"] by (simp add: parts nul_free_def)
qed

end
