(* ===== verification/AnalysisReport.thy ===== *)
theory AnalysisReport
  imports StaticAnalysis FilePaths
begin

text \<open>
  The text report of \<open>scripts/static-analysis-gate.mjs\<close>: \<open>formatResult\<close>, and the lines the main program
  prints. Parameters: the root of the repository as a list of segments and the host's
  \<open>localeCompare\<close> as the relation "not after".
\<close>

text \<open>\<open>relative(REPO_ROOT, resolve(REPO_ROOT, file)) || file\<close>.\<close>

definition report_path :: "string list \<Rightarrow> string \<Rightarrow> string" where
  "report_path repo sourceFile =
     (let full = (if starts_with ''/'' sourceFile then path_resolve [] (split_on (CHR ''/'') sourceFile)
                  else path_resolve repo (split_on (CHR ''/'') sourceFile));
          rel = relative_path repo full in
      if rel = [] then sourceFile else join_with ''/'' rel)"

definition finding_lines :: "string list \<Rightarrow> finding \<Rightarrow> string list" where
  "finding_lines repo f =
     [''  - ['' @ fi_impact f @ ''/'' @ fi_confidence f @ ''] '' @ fi_detector f,
      ''      fingerprint: '' @ fi_fingerprint f, ''      contract:    '' @ fi_contract f,
      ''      element:     '' @ fi_element f, ''      source:      '' @ report_path repo (fi_sourceFile f)]"

definition by_impact :: "(string \<Rightarrow> string \<Rightarrow> bool) \<Rightarrow> finding list \<Rightarrow> finding list" where
  "by_impact localeLe = sort_by (\<lambda>a b. localeLe (fi_impact a) (fi_impact b))"

definition formatResult :: "string list \<Rightarrow> (string \<Rightarrow> string \<Rightarrow> bool) \<Rightarrow> analysis_config \<Rightarrow> baseline_entry list \<Rightarrow> gate_result \<Rightarrow> string list" where
  "formatResult repo localeLe config entries result =
     [''==> Zero-new-finding static analysis baseline'', ''    scope:    '' @ cf_target config,
      ''    slither:  '' @ cf_slither config @ '' (pinned)'', ''    solc:     '' @ cf_solc config @ '' (pinned)'',
      ''    reported: '' @ show_nat (length (gr_findings result)) @ '' finding(s)'',
      ''    baseline: '' @ show_nat (length entries) @ '' triaged entr(ies)''] @
     (if gr_newFindings result \<noteq> [] then
        ['''', ''FAILED: '' @ show_nat (length (gr_newFindings result)) @ '' new unresolved finding(s):''] @
        concat (map (finding_lines repo) (by_impact localeLe (gr_newFindings result))) @
        ['''', ''Fix the finding, or triage it into config/slither-baseline.json with a'',
         ''justification of at least '' @ show_int (cf_minJustification config) @ '' characters, a'',
         ''reviewer, and a disposition of '' @ join_with '' or '' (cf_dispositions config) @ ''.'']
      else ['''', ''OK: no new unresolved findings.'']) @
     (if gr_resolved result \<noteq> [] then
        ['''', ''NOTE: '' @ show_nat (length (gr_resolved result)) @ '' baseline entr(ies) were not observed in this run and may be stale:''] @
        map (\<lambda>fingerprint. ''  - '' @ fingerprint) (gr_resolved result)
      else [])"

text \<open>The main program: the printed lines and the exit code.\<close>

definition static_gate_run :: "string list \<Rightarrow> (string \<Rightarrow> string \<Rightarrow> bool) \<Rightarrow> analysis_host \<Rightarrow> string list \<times> nat" where
  "static_gate_run repo localeLe H =
     (case analysis_setup H ''config/static-analysis.json'' of
        Inl e \<Rightarrow> ([''FAILED: '' @ err_message e], 1)
      | Inr (config, entries) \<Rightarrow>
          (case fst (runStaticAnalysisGate H ''config/static-analysis.json'') of
             Inl e \<Rightarrow> ([''FAILED: '' @ err_message e], 1)
           | Inr result \<Rightarrow> (formatResult repo localeLe config entries result, if gr_passed result then 0 else 1)))"

section \<open>The report and the verdict\<close>

lemma run_exit_code: "snd (static_gate_run repo localeLe H) = fst (static_gate_main H)"
  by (auto simp: static_gate_run_def static_gate_main_def runStaticAnalysisGate_def split: sum.splits prod.splits)

text \<open>The main program announces "no new unresolved findings" exactly when it ends with 0.\<close>

theorem report_agrees_with_exit_code:
  "''OK: no new unresolved findings.'' \<in> set (fst (static_gate_run repo localeLe H)) \<longleftrightarrow>
     fst (static_gate_main H) = 0"
proof (cases "analysis_setup H ''config/static-analysis.json''")
  case (Inl e)
  then show ?thesis by (simp add: static_gate_run_def static_gate_main_def runStaticAnalysisGate_def)
next
  case (Inr s)
  obtain config entries where s: "s = (config, entries)" by force
  note ready = Inr [unfolded s]
  show ?thesis
  proof (cases "fst (runStaticAnalysisGate H ''config/static-analysis.json'')")
    case (Inl e)
    then show ?thesis
      by (cases "runStaticAnalysisGate H ''config/static-analysis.json''") (simp add: static_gate_run_def static_gate_main_def ready)
  next
    case (Inr result)
    have passed: "gr_passed result \<longleftrightarrow> gr_newFindings result = []"
      using Inr by (auto simp: runStaticAnalysisGate_def ready res_bind_Inr_iff split: prod.splits)
    have "''OK: no new unresolved findings.'' \<in> set (formatResult repo localeLe config entries result) \<longleftrightarrow> gr_newFindings result = []"
      by (auto simp: formatResult_def finding_lines_def)
    then show ?thesis
      using Inr passed
      by (cases "runStaticAnalysisGate H ''config/static-analysis.json''") (simp add: static_gate_run_def static_gate_main_def ready)
  qed
qed

text \<open>Every new finding appears in the report with its fingerprint, whatever the order by impact.\<close>

theorem new_findings_reported:
  assumes "f \<in> set (gr_newFindings result)"
  shows "''      fingerprint: '' @ fi_fingerprint f \<in> set (formatResult repo localeLe config entries result)"
  using assms by (force simp: formatResult_def finding_lines_def by_impact_def)

end
