(* ===== verification/Storage.thy ===== *)
theory Storage
  imports JsCollections
begin

text \<open>
  \<open>indexer/src/types.ts\<close> and \<open>indexer/src/storage.ts\<close>: the data the indexer stores, the
  \<open>StorageAdapter\<close> interface as a dictionary of operations with its contract as a locale,
  and \<open>InMemoryStorage\<close>, the adapter the indexer constructs, as its interpretation.
\<close>

section \<open>Data\<close>

record contract_config =
  cc_name :: string
  cc_address :: string
  cc_abi :: "string list"
  cc_fromBlock :: int

record indexer_config =
  cfg_chainId :: int
  cfg_rpcUrl :: string
  cfg_wsUrl :: "string option"
  cfg_contracts :: "contract_config list"
  cfg_startBlock :: int
  cfg_checkpointInterval :: int
  cfg_maxReorgDepth :: int
  cfg_pollIntervalMs :: int
  cfg_confirmations :: int

record indexed_event =
  ev_chainId :: int
  ev_blockNumber :: int
  ev_blockHash :: string
  ev_transactionHash :: string
  ev_logIndex :: nat
  ev_contractName :: string
  ev_contractAddress :: string
  ev_eventName :: string
  ev_args :: "(string \<times> json) list"
  ev_timestamp :: int
  ev_processedAt :: int

record indexer_checkpoint =
  cp_blockNumber :: int
  cp_blockHash :: string
  cp_updatedAt :: int

text \<open>The identity of a stored event, the template string built by \<open>getDuplicateEvents\<close> and
  by \<open>processLogs\<close>: transaction hash, a colon, the log index in decimal.\<close>

definition log_key :: "string \<Rightarrow> nat \<Rightarrow> string" where
  "log_key txHash index = txHash @ '':'' @ show_nat index"

definition event_key :: "indexed_event \<Rightarrow> string" where
  "event_key e = log_key (ev_transactionHash e) (ev_logIndex e)"

lemma log_key_inj [simp]: "log_key t i = log_key u j \<longleftrightarrow> t = u \<and> i = j"
proof
  assume eq: "log_key t i = log_key u j"
  let ?p = "\<lambda>c. c \<noteq> CHR '':''"
  have digits: "takeWhile ?p (rev (log_key v k)) = rev (show_nat k)"
    "dropWhile ?p (rev (log_key v k)) = CHR '':'' # rev v" for v k
  proof -
    have no_colon: "\<forall>c \<in> set (rev (show_nat k)). ?p c"
      using show_nat_digits prefix_letters_no_digit(9) by fastforce
    from no_colon show "takeWhile ?p (rev (log_key v k)) = rev (show_nat k)"
      by (simp add: log_key_def takeWhile_append2 del: set_rev)
    from no_colon show "dropWhile ?p (rev (log_key v k)) = CHR '':'' # rev v"
      by (simp add: log_key_def dropWhile_append2 del: set_rev)
  qed
  from digits [of t i] digits [of u j] eq show "t = u \<and> i = j" by simp
qed simp

section \<open>The StorageAdapter interface\<close>

record 's storage_adapter =
  sa_connect :: "('s, unit) action"
  sa_disconnect :: "('s, unit) action"
  sa_saveEvents :: "indexed_event list \<Rightarrow> ('s, unit) action"
  sa_getDuplicateEvents :: "string list \<Rightarrow> ('s, string set) action"
  sa_getCheckpoint :: "('s, indexer_checkpoint option) action"
  sa_saveCheckpoint :: "indexer_checkpoint \<Rightarrow> ('s, unit) action"
  sa_getLatestBlockNumber :: "('s, int) action"

text \<open>
  What the pipeline and the checkpoint manager rely on. A successful \<open>saveEvents\<close> appends,
  a failed one changes nothing; \<open>getDuplicateEvents\<close> reads, reports at least the stored
  keys of the transactions asked for and nothing that is not stored; the checkpoint read is
  the one last saved; events and checkpoint do not interfere.
\<close>

locale storage_contract =
  fixes A :: "'s storage_adapter"
    and stored :: "'s \<Rightarrow> indexed_event list"
    and saved :: "'s \<Rightarrow> indexer_checkpoint option"
  assumes save_stored: "sa_saveEvents A es s = (r, s') \<Longrightarrow>
      stored s' = (case r of Inl e \<Rightarrow> stored s | Inr u \<Rightarrow> stored s @ es)"
    and save_saved: "sa_saveEvents A es s = (r, s') \<Longrightarrow> saved s' = saved s"
    and dup_frame: "sa_getDuplicateEvents A txs s = (d, s') \<Longrightarrow> s' = s"
    and dup_complete: "sa_getDuplicateEvents A txs s = (Inr D, s') \<Longrightarrow> e \<in> set (stored s) \<Longrightarrow>
      ev_transactionHash e \<in> set txs \<Longrightarrow> event_key e \<in> D"
    and dup_sound: "sa_getDuplicateEvents A txs s = (Inr D, s') \<Longrightarrow> D \<subseteq> event_key ` set (stored s)"
    and get_cp: "sa_getCheckpoint A s = (Inr oc, s') \<Longrightarrow> oc = saved s"
    and get_cp_frame: "sa_getCheckpoint A s = (g, s') \<Longrightarrow> s' = s"
    and save_cp: "sa_saveCheckpoint A c s = (r, s') \<Longrightarrow>
      saved s' = (case r of Inl e \<Rightarrow> saved s | Inr u \<Rightarrow> Some c)"
    and save_cp_stored: "sa_saveCheckpoint A c s = (r, s') \<Longrightarrow> stored s' = stored s"
begin

lemma dup_keys:
  assumes "sa_getDuplicateEvents A txs s = (Inr D, s')" "t \<in> set txs"
  shows "log_key t i \<in> D \<longleftrightarrow> log_key t i \<in> event_key ` set (stored s)"
proof
  assume "log_key t i \<in> D"
  with dup_sound [OF assms(1)] show "log_key t i \<in> event_key ` set (stored s)" by blast
next
  assume "log_key t i \<in> event_key ` set (stored s)"
  then obtain e where e: "e \<in> set (stored s)" "event_key e = log_key t i" by auto
  then have "ev_transactionHash e = t" by (simp add: event_key_def)
  with e assms dup_complete show "log_key t i \<in> D" by metis
qed

end

section \<open>InMemoryStorage\<close>

record mem_storage =
  ms_events :: "indexed_event list"
  ms_checkpoint :: "indexer_checkpoint option"

definition empty_storage :: mem_storage where
  "empty_storage = \<lparr>ms_events = [], ms_checkpoint = None\<rparr>"

definition mem_connect :: "(mem_storage, unit) action" where
  "mem_connect s = (Inr (), s)"

definition mem_disconnect :: "(mem_storage, unit) action" where
  "mem_disconnect s = (Inr (), s)"

definition mem_saveEvents :: "indexed_event list \<Rightarrow> (mem_storage, unit) action" where
  "mem_saveEvents events s = (Inr (), s\<lparr>ms_events := ms_events s @ events\<rparr>)"

text \<open>The argument is not used: every stored key is reported.\<close>

definition mem_getDuplicateEvents :: "string list \<Rightarrow> (mem_storage, string set) action" where
  "mem_getDuplicateEvents txHashes s =
     (Inr (fold (\<lambda>event seen. insert (log_key (ev_transactionHash event) (ev_logIndex event)) seen)
             (ms_events s) {}), s)"

definition mem_getCheckpoint :: "(mem_storage, indexer_checkpoint option) action" where
  "mem_getCheckpoint s = (Inr (ms_checkpoint s), s)"

definition mem_saveCheckpoint :: "indexer_checkpoint \<Rightarrow> (mem_storage, unit) action" where
  "mem_saveCheckpoint cp s = (Inr (), s\<lparr>ms_checkpoint := Some cp\<rparr>)"

definition mem_getLatestBlockNumber :: "(mem_storage, int) action" where
  "mem_getLatestBlockNumber s =
     (Inr (case map ev_blockNumber (ms_events s) of [] \<Rightarrow> 0 | b # bs \<Rightarrow> fold max bs b), s)"

definition mem_getEvents :: "mem_storage \<Rightarrow> indexed_event list" where
  "mem_getEvents s = ms_events s"

definition mem_adapter :: "mem_storage storage_adapter" where
  "mem_adapter = \<lparr>sa_connect = mem_connect, sa_disconnect = mem_disconnect,
     sa_saveEvents = mem_saveEvents, sa_getDuplicateEvents = mem_getDuplicateEvents,
     sa_getCheckpoint = mem_getCheckpoint, sa_saveCheckpoint = mem_saveCheckpoint,
     sa_getLatestBlockNumber = mem_getLatestBlockNumber\<rparr>"

lemma fold_insert_keys:
  "fold (\<lambda>x seen. insert (f x) seen) xs S = f ` set xs \<union> S"
  by (induction xs arbitrary: S) auto

lemma mem_getDuplicateEvents_eq:
  "mem_getDuplicateEvents txs s = (Inr (event_key ` set (ms_events s)), s)"
  by (simp add: mem_getDuplicateEvents_def event_key_def fold_insert_keys)

interpretation mem: storage_contract mem_adapter ms_events ms_checkpoint
  by unfold_locales
    (auto simp: mem_adapter_def mem_saveEvents_def mem_getDuplicateEvents_eq
       mem_getCheckpoint_def mem_saveCheckpoint_def)

text \<open>\<open>getLatestBlockNumber\<close> is the greatest stored block number, and 0 without events.\<close>

theorem latest_block_spec:
  "\<exists>n. mem_getLatestBlockNumber s = (Inr n, s) \<and>
     (if ms_events s = [] then n = 0
      else n \<in> ev_blockNumber ` set (ms_events s) \<and>
           \<not> (\<exists>e \<in> set (ms_events s). n < ev_blockNumber e))"
proof (cases "ms_events s")
  case Nil
  then show ?thesis by (simp add: mem_getLatestBlockNumber_def)
next
  case (Cons e es)
  let ?B = "ev_blockNumber ` set (e # es)"
  have eq: "fold max (map ev_blockNumber es) (ev_blockNumber e) = Max ?B"
    using Max.set_eq_fold [of "ev_blockNumber e" "map ev_blockNumber es"] by simp
  have "Max ?B \<in> ?B" by (rule Max_in) auto
  moreover have "b \<le> Max ?B" if "b \<in> ?B" for b using that by simp
  ultimately show ?thesis
    using Cons by (auto simp: mem_getLatestBlockNumber_def eq not_less simp del: Max_insert)
qed

end
