(* ===== verification/IndexerConfig.thy ===== *)
theory IndexerConfig
  imports Storage
begin

text \<open>
  \<open>indexer/src/events.ts\<close>, the event ABIs the indexer decodes and \<open>getEventSignatures\<close>, and
  \<open>indexer/src/index.ts\<close>, the configuration read from the environment. \<open>parseInt\<close> gives
  \<open>None\<close> for \<open>NaN\<close>.
\<close>

section \<open>Event signatures\<close>

definition TRUTH_BOUNTY_ABI :: "string list" where
  "TRUTH_BOUNTY_ABI =
   [''event ClaimCreated(uint256 indexed claimId, address indexed submitter, string content, uint256 verificationWindowEnd)'',
    ''event VoteCast(uint256 indexed claimId, address indexed verifier, bool support, uint256 rawStake, uint256 effectiveStake, uint256 reputationScore)'',
    ''event ClaimSettled(uint256 indexed claimId, bool passed, uint256 totalWeightedFor, uint256 totalWeightedAgainst, uint256 totalRewards, uint256 totalSlashed)'',
    ''event RewardsDistributed(uint256 indexed claimId, address indexed verifier, uint256 amount)'',
    ''event StakeSlashed(uint256 indexed claimId, address indexed verifier, uint256 amount)'',
    ''event StakeDeposited(address indexed verifier, uint256 amount)'',
    ''event StakeWithdrawn(address indexed verifier, uint256 amount)'',
    ''event ClaimWiped(uint256 indexed claimId, address indexed admin, string reason)'']"

definition REPUTATION_DECAY_ABI :: "string list" where
  "REPUTATION_DECAY_ABI =
   [''event ReputationUpdated(address indexed user, uint256 oldReputation, uint256 newReputation, uint256 timestamp)'',
    ''event ActivityRecorded(address indexed user, uint256 timestamp)'',
    ''event ReputationDecayed(address indexed verifier, uint256 previousScore, uint256 newScore)'',
    ''event DecayConfigUpdated(uint256 decayInterval, uint256 decayPercentage, uint256 minimumReputation, bool enabled)'']"

definition REPUTATION_SNAPSHOT_ABI :: "string list" where
  "REPUTATION_SNAPSHOT_ABI =
   [''event ReputationSnapshotRecorded(address indexed user, uint256 reputationScore, uint256 timestamp)'',
    ''event ReputationStalenessValidated(address indexed user, uint256 expectedReputation, uint256 actualReputation, uint256 maxDrift)'']"

record known_event =
  ke_contract :: string
  ke_event :: string
  ke_signature :: string
  ke_abi :: string

text \<open>\<open>abi.match(/^event\s+(\w+)/)\<close>; the match fails without a space or without a name.\<close>

definition extractEventName :: "string \<Rightarrow> string res" where
  "extractEventName abi =
     (let rest = drop 5 abi; name = takeWhile is_word_char (dropWhile is_ws rest) in
      if take 5 abi = ''event'' \<and> rest \<noteq> [] \<and> is_ws (hd rest) \<and> name \<noteq> [] then Inr name
      else throw_error (''Invalid event ABI: '' @ abi))"

definition known_events :: "string \<Rightarrow> string list \<Rightarrow> known_event list res" where
  "known_events contract abis = traverse (\<lambda>abi. res_bind (extractEventName abi) (\<lambda>name.
     Inr \<lparr>ke_contract = contract, ke_event = name, ke_signature = abi, ke_abi = abi\<rparr>)) abis"

definition getEventSignatures :: "known_event list res" where
  "getEventSignatures =
     res_bind (known_events ''TruthBountyWeighted'' TRUTH_BOUNTY_ABI) (\<lambda>a.
     res_bind (known_events ''ReputationDecay'' REPUTATION_DECAY_ABI) (\<lambda>b.
     res_bind (known_events ''ReputationSnapshot'' REPUTATION_SNAPSHOT_ABI) (\<lambda>c. Inr (a @ b @ c))))"

section \<open>Configuration\<close>

record loaded_contract =
  lc_name :: string
  lc_address :: string
  lc_abi :: "string list"
  lc_fromBlock :: "int option"

record loaded_config =
  ld_chainId :: "int option"
  ld_rpcUrl :: string
  ld_wsUrl :: "string option"
  ld_contracts :: "loaded_contract list"
  ld_startBlock :: "int option"
  ld_checkpointInterval :: "int option"
  ld_maxReorgDepth :: "int option"
  ld_pollIntervalMs :: "int option"
  ld_confirmations :: "int option"

type_synonym process_env = "string \<Rightarrow> string option"

definition env_int :: "process_env \<Rightarrow> string \<Rightarrow> string \<Rightarrow> int option" where
  "env_int env name fallback = parse_int10 (or_str (env name) fallback)"

definition loadConfig :: "process_env \<Rightarrow> loaded_config" where
  "loadConfig env =
     \<lparr>ld_chainId = env_int env ''CHAIN_ID'' ''11155420'',
      ld_rpcUrl = or_str (env ''RPC_URL'') ''http://localhost:8545'',
      ld_wsUrl = env ''WS_URL'',
      ld_contracts = filter (\<lambda>c. lc_address c \<noteq> [])
        [\<lparr>lc_name = ''TruthBountyWeighted'', lc_address = or_str (env ''TRUTH_BOUNTY_ADDRESS'') [],
          lc_abi = TRUTH_BOUNTY_ABI, lc_fromBlock = env_int env ''TRUTH_BOUNTY_FROM_BLOCK'' ''0''\<rparr>,
         \<lparr>lc_name = ''ReputationDecay'', lc_address = or_str (env ''REPUTATION_DECAY_ADDRESS'') [],
          lc_abi = REPUTATION_DECAY_ABI, lc_fromBlock = env_int env ''REPUTATION_DECAY_FROM_BLOCK'' ''0''\<rparr>,
         \<lparr>lc_name = ''ReputationSnapshot'', lc_address = or_str (env ''REPUTATION_SNAPSHOT_ADDRESS'') [],
          lc_abi = REPUTATION_SNAPSHOT_ABI, lc_fromBlock = env_int env ''REPUTATION_SNAPSHOT_FROM_BLOCK'' ''0''\<rparr>],
      ld_startBlock = env_int env ''START_BLOCK'' ''0'',
      ld_checkpointInterval = env_int env ''CHECKPOINT_INTERVAL'' ''100'',
      ld_maxReorgDepth = env_int env ''MAX_REORG_DEPTH'' ''12'',
      ld_pollIntervalMs = env_int env ''POLL_INTERVAL_MS'' ''5000'',
      ld_confirmations = env_int env ''CONFIRMATIONS'' ''6''\<rparr>"

text \<open>The guard of \<open>main\<close>: without a contract the process exits with code 1 before an indexer
  exists.\<close>

definition indexer_main :: "process_env \<Rightarrow> int + loaded_config" where
  "indexer_main env = (let config = loadConfig env in
     if ld_contracts config = [] then Inl 1 else Inr config)"

section \<open>What they give\<close>

lemma env_int_show: "env name = Some (show_nat n) \<Longrightarrow> env_int env name d = Some (int n)"
  by (simp add: env_int_def or_str_def parse_int10_show_nat)

text \<open>\<open>getEventSignatures\<close> does not throw: the fourteen ABI entries have fourteen different event
  names, and the ABI of each known event is the entry its name was read from.\<close>

theorem event_signatures_total:
  "\<exists>es. getEventSignatures = Inr es \<and> length es = 14 \<and> distinct (map ke_event es) \<and>
     map ke_abi es = TRUTH_BOUNTY_ABI @ REPUTATION_DECAY_ABI @ REPUTATION_SNAPSHOT_ABI \<and>
     list_all (\<lambda>e. starts_with (''event '' @ ke_event e @ ''('') (ke_abi e)) es"
proof -
  have "(case getEventSignatures of Inl e \<Rightarrow> False | Inr es \<Rightarrow> length es = 14 \<and> distinct (map ke_event es) \<and>
     map ke_abi es = TRUTH_BOUNTY_ABI @ REPUTATION_DECAY_ABI @ REPUTATION_SNAPSHOT_ABI \<and>
     list_all (\<lambda>e. starts_with (''event '' @ ke_event e @ ''('') (ke_abi e)) es)"
    by code_simp
  then show ?thesis by (auto split: sum.splits)
qed

text \<open>The indexer starts exactly when one of the three addresses is set to a non-empty string, it
  watches exactly those contracts, and a number set in the environment is the number used.\<close>

theorem config_from_environment:
  "((\<exists>cfg. indexer_main env = Inr cfg) \<longleftrightarrow>
     truthy_str (env ''TRUTH_BOUNTY_ADDRESS'') \<or> truthy_str (env ''REPUTATION_DECAY_ADDRESS'') \<or>
     truthy_str (env ''REPUTATION_SNAPSHOT_ADDRESS'')) \<and>
   map Some (map lc_address (ld_contracts (loadConfig env))) =
     filter truthy_str [env ''TRUTH_BOUNTY_ADDRESS'', env ''REPUTATION_DECAY_ADDRESS'', env ''REPUTATION_SNAPSHOT_ADDRESS''] \<and>
   ld_confirmations (loadConfig (env(''CONFIRMATIONS'' \<mapsto> show_nat n))) = Some (int n) \<and>
   ld_startBlock (loadConfig (env(''START_BLOCK'' \<mapsto> show_nat n))) = Some (int n)"
proof -
  have addr: "or_str a [] \<noteq> [] \<longleftrightarrow> truthy_str a" "truthy_str a \<Longrightarrow> Some (or_str a []) = a" for a
    by (auto simp: or_str_def truthy_str_def split: option.splits)
  show ?thesis
    by (simp add: indexer_main_def loadConfig_def Let_def addr env_int_show)
qed

end
