(* ===== verification/Checkpoint.thy ===== *)
theory Checkpoint
  imports Storage
begin

text \<open>
  \<open>indexer/src/checkpoint.ts\<close>: the \<open>CheckpointManager\<close>, a cached checkpoint in front of the
  storage adapter. The manager and the event pipeline share one storage object, so the
  storage is a field of the shared state and an adapter call goes through \<open>with_storage\<close>.
\<close>

record 's ckpt_state =
  st_storage :: 's
  st_checkpoint :: "indexer_checkpoint option"

definition with_storage ::
    "('s, 'a) action \<Rightarrow> (('s, 'z) ckpt_state_scheme, 'a) action" where
  "with_storage m st = (case m (st_storage st) of (r, s') \<Rightarrow> (r, st\<lparr>st_storage := s'\<rparr>))"

definition cm_load :: "'s storage_adapter \<Rightarrow> (('s, 'z) ckpt_state_scheme, unit) action" where
  "cm_load A = act_bind (with_storage (sa_getCheckpoint A))
     (\<lambda>c st. (Inr (), st\<lparr>st_checkpoint := c\<rparr>))"

definition cm_get :: "('s, 'z) ckpt_state_scheme \<Rightarrow> indexer_checkpoint option" where
  "cm_get st = st_checkpoint st"

text \<open>The cache is written before the adapter is called.\<close>

definition cm_update :: "'s storage_adapter \<Rightarrow> int \<Rightarrow> int \<Rightarrow> string \<Rightarrow>
    (('s, 'z) ckpt_state_scheme, unit) action" where
  "cm_update A now blockNumber blockHash st =
     (let cp = \<lparr>cp_blockNumber = blockNumber, cp_blockHash = blockHash, cp_updatedAt = now\<rparr>
      in with_storage (sa_saveCheckpoint A cp) (st\<lparr>st_checkpoint := Some cp\<rparr>))"

definition cm_getLastBlockNumber :: "('s, 'z) ckpt_state_scheme \<Rightarrow> int" where
  "cm_getLastBlockNumber st =
     (case st_checkpoint st of None \<Rightarrow> 0 | Some cp \<Rightarrow> cp_blockNumber cp)"

definition cm_getLastBlockHash :: "('s, 'z) ckpt_state_scheme \<Rightarrow> string option" where
  "cm_getLastBlockHash st = map_option cp_blockHash (st_checkpoint st)"

lemma with_storage_eq:
  "with_storage m st = (r, st') \<longleftrightarrow>
     (\<exists>s'. m (st_storage st) = (r, s') \<and> st' = st\<lparr>st_storage := s'\<rparr>)"
  by (auto simp: with_storage_def split: prod.splits)

section \<open>The manager over any adapter that keeps the contract\<close>

context storage_contract
begin

definition coherent :: "('s, 'z) ckpt_state_scheme \<Rightarrow> bool" where
  "coherent st \<longleftrightarrow> st_checkpoint st = saved (st_storage st)"

lemma load_coherent:
  assumes "cm_load A st = (Inr (), st')"
  shows "coherent st'"
proof -
  obtain c s' where get: "sa_getCheckpoint A (st_storage st) = (Inr c, s')"
    and st': "st' = st\<lparr>st_storage := s'\<rparr>\<lparr>st_checkpoint := c\<rparr>"
    using assms by (auto simp: cm_load_def act_bind_def with_storage_def split: prod.splits sum.splits)
  from get_cp [OF get] get_cp_frame [OF get] st' show ?thesis by (simp add: coherent_def)
qed

lemma update_coherent:
  assumes "cm_update A now n h st = (Inr u, st')"
  shows "coherent st'" and "cm_getLastBlockNumber st' = n" and "cm_getLastBlockHash st' = Some h"
  using assms save_cp
  by (auto simp: cm_update_def Let_def with_storage_eq coherent_def
      cm_getLastBlockNumber_def cm_getLastBlockHash_def)

lemma update_stored:
  assumes "cm_update A now n h st = (r, st')"
  shows "stored (st_storage st') = stored (st_storage st)"
  using assms save_cp_stored by (auto simp: cm_update_def Let_def with_storage_eq)

text \<open>A new manager on the same storage resumes where the last successful update stopped.\<close>

lemma resume_after_update:
  assumes upd: "cm_update A now n h st = (Inr u, st1)"
    and shared: "st_storage st2 = st_storage st1"
    and load: "cm_load A st2 = (Inr v, st3)"
  shows "cm_getLastBlockNumber st3 = n \<and> cm_getLastBlockHash st3 = Some h"
proof -
  from load have "cm_load A st2 = (Inr (), st3)" by simp
  moreover from this obtain c s' where get: "sa_getCheckpoint A (st_storage st2) = (Inr c, s')"
    and st3: "st3 = st2\<lparr>st_storage := s'\<rparr>\<lparr>st_checkpoint := c\<rparr>"
    by (auto simp: cm_load_def act_bind_def with_storage_def split: prod.splits sum.splits)
  from get_cp [OF get] st3 shared have "st_checkpoint st3 = saved (st_storage st1)" by simp
  moreover from update_coherent(1) [OF upd] have "saved (st_storage st1) = st_checkpoint st1"
    by (simp add: coherent_def)
  ultimately show ?thesis
    using update_coherent(2,3) [OF upd]
    by (simp add: cm_getLastBlockNumber_def cm_getLastBlockHash_def)
qed

text \<open>When the adapter rejects the write, the cache is ahead of the storage.\<close>

lemma update_failed:
  assumes "cm_update A now n h st = (Inl e, st')"
  shows "cm_getLastBlockNumber st' = n \<and> saved (st_storage st') = saved (st_storage st)"
  using assms save_cp
  by (auto simp: cm_update_def Let_def with_storage_eq cm_getLastBlockNumber_def)

end

section \<open>The manager on InMemoryStorage\<close>

lemma mem_update_eq:
  "cm_update mem_adapter now n h st =
     (let cp = \<lparr>cp_blockNumber = n, cp_blockHash = h, cp_updatedAt = now\<rparr> in
      (Inr (), st\<lparr>st_checkpoint := Some cp, st_storage := (st_storage st)\<lparr>ms_checkpoint := Some cp\<rparr>\<rparr>))"
  by (simp add: cm_update_def with_storage_def mem_adapter_def mem_saveCheckpoint_def Let_def)

lemma mem_load_eq:
  "cm_load mem_adapter st = (Inr (), st\<lparr>st_checkpoint := ms_checkpoint (st_storage st)\<rparr>)"
  by (simp add: cm_load_def act_bind_def with_storage_def mem_adapter_def mem_getCheckpoint_def)

text \<open>A checkpoint written by \<open>update\<close> survives a restart: a manager that loads from the
  storage afterwards, whatever it had cached, reports exactly that block number and hash.\<close>

theorem checkpoint_roundtrip:
  fixes st :: "mem_storage ckpt_state"
  shows "\<exists>st1 st3. cm_update mem_adapter now n h st = (Inr (), st1) \<and>
    cm_load mem_adapter (st2\<lparr>st_storage := st_storage st1\<rparr>) = (Inr (), st3) \<and>
    cm_getLastBlockNumber st3 = n \<and> cm_getLastBlockHash st3 = Some h"
proof -
  obtain st1 where upd: "cm_update mem_adapter now n h st = (Inr (), st1)"
    by (simp add: mem_update_eq Let_def)
  obtain st3 where load: "cm_load mem_adapter (st2\<lparr>st_storage := st_storage st1\<rparr>) = (Inr (), st3)"
    by (simp add: mem_load_eq)
  have "cm_getLastBlockNumber st3 = n \<and> cm_getLastBlockHash st3 = Some h"
    by (rule mem.resume_after_update [OF upd _ load]) simp
  with upd load show ?thesis by blast
qed

end
