(* ===== verification/Pipeline.thy ===== *)
theory Pipeline
  imports Checkpoint
begin

text \<open>
  \<open>indexer/src/pipeline.ts\<close>: fetching logs per contract, decoding them into events,
  persisting them, and the reorg check. The JSON-RPC provider and the ABI decoder of the
  \<open>ethers\<close> package are the parameter \<open>eth_env\<close>: every call may reject.
\<close>

section \<open>The provider\<close>

record eth_log =
  lg_address :: string
  lg_blockNumber :: int
  lg_blockHash :: string
  lg_transactionHash :: string
  lg_index :: nat
  lg_data :: string
  lg_topics :: "string list"

record eth_block =
  bk_hash :: "string option"
  bk_timestamp :: int

record log_description =
  ld_name :: string
  ld_entries :: "(string \<times> json) list" \<comment> \<open>\<open>Object.entries(parsed.args)\<close>\<close>

record eth_env =
  en_getBlockNumber :: "int res"
  en_getBlock :: "int \<Rightarrow> eth_block option res"
  en_getLogs :: "string \<Rightarrow> int \<Rightarrow> int \<Rightarrow> eth_log list res"
  en_logBlock :: "eth_log \<Rightarrow> eth_block option res"
  en_parseLog :: "string list \<Rightarrow> string \<Rightarrow> string list \<Rightarrow> log_description option res"
  en_now :: int

definition lg_key :: "eth_log \<Rightarrow> string" where
  "lg_key lg = log_key (lg_transactionHash lg) (lg_index lg)"

section \<open>Operations\<close>

definition fetchLogs :: "eth_env \<Rightarrow> contract_config list \<Rightarrow> int \<Rightarrow> int \<Rightarrow> eth_log list res" where
  "fetchLogs env contracts fromBlock toBlock =
     res_bind (traverse (\<lambda>c. en_getLogs env (cc_address c) fromBlock toBlock) contracts)
       (\<lambda>contractLogs. Inr (concat contractLogs))"

definition find_contract :: "contract_config list \<Rightarrow> string \<Rightarrow> contract_config option" where
  "find_contract contracts addr =
     find (\<lambda>c. to_lower (cc_address c) = to_lower addr) contracts"

definition named_args :: "(string \<times> json) list \<Rightarrow> (string \<times> json) list" where
  "named_args entries = kv_of_list (filter (\<lambda>(k, v). js_Number k = NaN) entries)"

text \<open>One iteration of the loop of \<open>processLogs\<close>; \<open>None\<close> is \<open>continue\<close>. A decoder exception is
  swallowed, a rejected \<open>log.getBlock()\<close> is not.\<close>

definition process_log ::
    "eth_env \<Rightarrow> contract_config list \<Rightarrow> int \<Rightarrow> string set \<Rightarrow> eth_log \<Rightarrow> indexed_event option res" where
  "process_log env contracts chainId duplicates lg =
     (if lg_key lg \<in> duplicates then Inr None
      else case find_contract contracts (lg_address lg) of None \<Rightarrow> Inr None
      | Some contractConfig \<Rightarrow>
        (case en_parseLog env (cc_abi contractConfig) (lg_data lg) (lg_topics lg) of
           Inl e \<Rightarrow> Inr None
         | Inr None \<Rightarrow> Inr None
         | Inr (Some parsed) \<Rightarrow>
             res_bind (en_logBlock env lg) (\<lambda>block. Inr (Some
               \<lparr>ev_chainId = chainId, ev_blockNumber = lg_blockNumber lg,
                ev_blockHash = lg_blockHash lg, ev_transactionHash = lg_transactionHash lg,
                ev_logIndex = lg_index lg, ev_contractName = cc_name contractConfig,
                ev_contractAddress = lg_address lg, ev_eventName = ld_name parsed,
                ev_args = named_args (ld_entries parsed),
                ev_timestamp = (case block of None \<Rightarrow> 0 | Some b \<Rightarrow> bk_timestamp b),
                ev_processedAt = en_now env\<rparr>))))"

definition collect_somes :: "'a option list \<Rightarrow> 'a list" where
  "collect_somes xs = concat (map (\<lambda>x. case x of None \<Rightarrow> [] | Some y \<Rightarrow> [y]) xs)"

definition processLogs :: "'s storage_adapter \<Rightarrow> eth_env \<Rightarrow> contract_config list \<Rightarrow>
    eth_log list \<Rightarrow> int \<Rightarrow> ('s, indexed_event list) action" where
  "processLogs A env contracts logs chainId =
     act_bind (sa_getDuplicateEvents A (map lg_transactionHash logs))
       (\<lambda>duplicates. act_lift
          (res_bind (traverse (process_log env contracts chainId duplicates) logs)
             (\<lambda>found. Inr (collect_somes found))))"

definition persistEvents :: "'s storage_adapter \<Rightarrow> indexed_event list \<Rightarrow> ('s, unit) action" where
  "persistEvents A events =
     (if events = [] then act_return () else sa_saveEvents A events)"

text \<open>The loop of \<open>detectReorg\<close>, from \<open>depth\<close>, with the remaining number of iterations first.\<close>

fun detect_loop :: "eth_env \<Rightarrow> indexer_checkpoint \<Rightarrow> nat \<Rightarrow> int \<Rightarrow> int option res" where
  "detect_loop env cp 0 depth = Inr None"
| "detect_loop env cp (Suc k) depth =
     (let blockNumber = cp_blockNumber cp - depth in
      if blockNumber < 0 then Inr None
      else case en_getBlock env blockNumber of
        Inl e \<Rightarrow> Inl e
      | Inr None \<Rightarrow> detect_loop env cp k (depth + 1)
      | Inr (Some block) \<Rightarrow>
          if bk_hash block \<noteq> Some (cp_blockHash cp) then Inr (Some blockNumber)
          else detect_loop env cp k (depth + 1))"

definition detectReorg :: "eth_env \<Rightarrow> indexer_checkpoint \<Rightarrow> int \<Rightarrow> int option res" where
  "detectReorg env cp maxDepth = detect_loop env cp (nat maxDepth) 0"

section \<open>Decoding\<close>

lemma collect_somes_simps [simp]:
  "collect_somes [] = []" "collect_somes (None # xs) = collect_somes xs"
  "collect_somes (Some y # xs) = y # collect_somes xs"
  by (simp_all add: collect_somes_def)

lemma set_collect_somes: "set (collect_somes xs) = {y. Some y \<in> set xs}"
  by (induction xs) (auto simp: collect_somes_def split: option.splits)

lemma find_contract_Some:
  "find_contract contracts addr = Some c \<Longrightarrow>
     c \<in> set contracts \<and> to_lower (cc_address c) = to_lower addr"
  by (auto simp: find_contract_def find_Some_iff)

lemma process_log_Some:
  assumes "process_log env contracts chainId D lg = Inr (Some e)"
  shows "event_key e = lg_key lg" and "lg_key lg \<notin> D"
    and "ev_transactionHash e = lg_transactionHash lg"
    and "ev_blockNumber e = lg_blockNumber lg" and "ev_chainId e = chainId"
    and "ev_contractAddress e = lg_address lg"
    and "\<exists>c \<in> set contracts. to_lower (cc_address c) = to_lower (lg_address lg) \<and>
           ev_contractName e = cc_name c"
  using assms
  by (auto simp: process_log_def event_key_def lg_key_def res_bind_def
      dest!: find_contract_Some split: if_splits option.splits sum.splits)

lemma process_log_None_cond:
  assumes "process_log env contracts chainId D lg = Inr None" "lg_key lg \<notin> D"
  shows "process_log env contracts chainId D' lg = Inr None"
  using assms
  by (auto simp: process_log_def res_bind_def split: if_splits option.splits sum.splits)

lemma process_logs_keys:
  assumes "traverse (process_log env contracts chainId D) logs = Inr found"
  shows "map event_key (collect_somes found) =
     map lg_key (filter (\<lambda>l. \<exists>e. process_log env contracts chainId D l = Inr (Some e)) logs)"
  using assms
proof (induction logs arbitrary: found)
  case Nil
  then show ?case by simp
next
  case (Cons l logs)
  then obtain x found' where x: "process_log env contracts chainId D l = Inr x"
    and found: "found = x # found'" "traverse (process_log env contracts chainId D) logs = Inr found'"
    by (auto split: sum.splits)
  from Cons.IH [OF found(2)] x found(1) show ?case
    by (cases x) (auto dest: process_log_Some(1))
qed

lemma process_logs_fresh:
  assumes "traverse (process_log env contracts chainId D) logs = Inr found"
    and "e \<in> set (collect_somes found)"
  shows "\<exists>l \<in> set logs. process_log env contracts chainId D l = Inr (Some e)"
proof -
  from assms(2) have "Some e \<in> set found" by (simp add: set_collect_somes)
  with traverse_source_of [OF assms(1)] show ?thesis by blast
qed

section \<open>The pipeline over any adapter that keeps the contract\<close>

context storage_contract
begin

lemma processLogs_run:
  assumes "processLogs A env contracts logs chainId s = (Inr es, s')"
  shows "s' = s \<and> (\<exists>D found. sa_getDuplicateEvents A (map lg_transactionHash logs) s = (Inr D, s) \<and>
     traverse (process_log env contracts chainId D) logs = Inr found \<and> es = collect_somes found)"
  using assms dup_frame
  by (fastforce simp: processLogs_def action_simps split: prod.splits sum.splits)

lemma dup_lg_key:
  assumes "sa_getDuplicateEvents A (map lg_transactionHash logs) s = (Inr D, s')" "l \<in> set logs"
  shows "lg_key l \<in> D \<longleftrightarrow> lg_key l \<in> event_key ` set (stored s)"
  using dup_keys [OF assms(1), of "lg_transactionHash l" "lg_index l"] assms(2)
  by (simp add: lg_key_def)

text \<open>Only logs that are not stored yet become events.\<close>

lemma processLogs_fresh:
  assumes run: "processLogs A env contracts logs chainId s = (Inr es, s')" and e: "e \<in> set es"
  shows "event_key e \<notin> event_key ` set (stored s)" and "\<exists>l \<in> set logs. event_key e = lg_key l"
proof -
  from processLogs_run [OF run] obtain D found where
    D: "sa_getDuplicateEvents A (map lg_transactionHash logs) s = (Inr D, s)"
    and found: "traverse (process_log env contracts chainId D) logs = Inr found"
    and es: "es = collect_somes found" by blast
  from process_logs_fresh [OF found] e es obtain l where l: "l \<in> set logs"
    and p: "process_log env contracts chainId D l = Inr (Some e)" by blast
  from process_log_Some(1,2) [OF p] dup_lg_key [OF D l] l
  show "event_key e \<notin> event_key ` set (stored s)" and "\<exists>l \<in> set logs. event_key e = lg_key l"
    by auto
qed

lemma processLogs_distinct:
  assumes "processLogs A env contracts logs chainId s = (Inr es, s')" "distinct (map lg_key logs)"
  shows "distinct (map event_key es)"
proof -
  from processLogs_run [OF assms(1)] obtain D found where
    "traverse (process_log env contracts chainId D) logs = Inr found" "es = collect_somes found"
    by blast
  with process_logs_keys [OF this(1)] assms(2) show ?thesis by (simp add: distinct_map_filter)
qed

lemma persist_stored:
  assumes "persistEvents A es s = (Inr u, s')"
  shows "stored s' = stored s @ es"
  using assms save_stored by (auto simp: persistEvents_def act_return_def split: if_splits)

lemma persist_saved:
  assumes "persistEvents A es s = (r, s')"
  shows "saved s' = saved s"
  using assms save_saved by (auto simp: persistEvents_def act_return_def split: if_splits)

lemma persist_failed:
  assumes "persistEvents A es s = (Inl e, s')"
  shows "stored s' = stored s"
  using assms save_stored by (auto simp: persistEvents_def act_return_def split: if_splits)

text \<open>Storing a decoded batch keeps the stored keys distinct.\<close>

lemma ingest_distinct:
  assumes run: "processLogs A env contracts logs chainId s = (Inr es, s')"
    and persist: "persistEvents A es s' = (Inr u, s'')"
    and logs: "distinct (map lg_key logs)"
    and keys: "distinct (map event_key (stored s))"
  shows "distinct (map event_key (stored s''))"
proof -
  from processLogs_run [OF run] have "s' = s" by blast
  with persist have "stored s'' = stored s @ es" by (simp add: persist_stored)
  moreover have "set (map event_key (stored s)) \<inter> set (map event_key es) = {}"
    using processLogs_fresh(1) [OF run] by (auto simp: image_iff) metis
  ultimately show ?thesis
    using processLogs_distinct [OF run logs] keys by simp
qed

text \<open>Decoding the same logs again after the batch was stored yields nothing new.\<close>

lemma ingest_idempotent:
  assumes run: "processLogs A env contracts logs chainId s = (Inr es, s')"
    and persist: "persistEvents A es s' = (Inr u, s'')"
    and again: "processLogs A env contracts logs chainId s'' = (Inr es2, s3)"
  shows "es2 = []"
proof (rule ccontr)
  assume "es2 \<noteq> []"
  then obtain e where e: "e \<in> set es2" by (cases es2) auto
  from processLogs_run [OF again] obtain D2 found2 where
    D2: "sa_getDuplicateEvents A (map lg_transactionHash logs) s'' = (Inr D2, s'')"
    and found2: "traverse (process_log env contracts chainId D2) logs = Inr found2"
    and es2: "es2 = collect_somes found2" by blast
  from process_logs_fresh [OF found2] e es2 obtain l where l: "l \<in> set logs"
    and p2: "process_log env contracts chainId D2 l = Inr (Some e)" by blast
  from processLogs_run [OF run] obtain D found where s': "s' = s"
    and D: "sa_getDuplicateEvents A (map lg_transactionHash logs) s = (Inr D, s)"
    and found: "traverse (process_log env contracts chainId D) logs = Inr found"
    and es: "es = collect_somes found" by blast
  have stored: "stored s'' = stored s @ es" using persist persist_stored s' by simp
  from process_log_Some(1,2) [OF p2] dup_lg_key [OF D2 l]
  have new: "lg_key l \<notin> event_key ` set (stored s'')" by simp
  with stored have "lg_key l \<notin> event_key ` set (stored s)" by auto
  with dup_lg_key [OF D l] have notD: "lg_key l \<notin> D" by simp
  from traverse_result_of [OF found l] obtain x
    where x: "process_log env contracts chainId D l = Inr x" and "x \<in> set found" by blast
  show False
  proof (cases x)
    case None
    with x notD have "process_log env contracts chainId D2 l = Inr None"
      by (auto intro: process_log_None_cond)
    with p2 show False by simp
  next
    case (Some e1)
    with \<open>x \<in> set found\<close> es have "e1 \<in> set es" by (simp add: set_collect_somes)
    moreover from x Some have "event_key e1 = lg_key l" using process_log_Some(1) by blast
    ultimately have "lg_key l \<in> event_key ` set (stored s @ es)" by force
    with new stored show False by simp
  qed
qed

end

section \<open>The reorg check\<close>

lemma detect_loop_Some:
  assumes "detect_loop env cp k depth = Inr (Some n)" "0 \<le> depth"
  shows "0 \<le> n \<and> cp_blockNumber cp - depth - int k < n \<and> n \<le> cp_blockNumber cp - depth \<and>
    (\<exists>b. en_getBlock env n = Inr (Some b) \<and> bk_hash b \<noteq> Some (cp_blockHash cp))"
  using assms
proof (induction k arbitrary: depth)
  case (Suc k)
  show ?case
  proof (cases "detect_loop env cp k (depth + 1) = Inr (Some n)")
    case True
    from Suc.IH [OF this] Suc.prems show ?thesis by auto
  next
    case False
    with Suc.prems show ?thesis
      by (auto simp: Let_def not_less split: if_splits sum.splits option.splits)
  qed
qed simp

lemma detect_loop_None:
  assumes "detect_loop env cp k depth = Inr None"
    and "depth \<le> d" "d < depth + int k" "0 \<le> cp_blockNumber cp - d"
    and "en_getBlock env (cp_blockNumber cp - d) = Inr (Some b)"
  shows "bk_hash b = Some (cp_blockHash cp)"
  using assms
proof (induction k arbitrary: depth)
  case 0
  then show ?case by simp
next
  case (Suc k)
  show ?case
  proof (cases "d = depth")
    case True
    with Suc.prems show ?thesis by (auto simp: Let_def split: if_splits)
  next
    case False
    with Suc.prems have "detect_loop env cp k (depth + 1) = Inr None"
      by (auto simp: Let_def split: if_splits sum.splits option.splits)
    from Suc.IH [OF this] False Suc.prems show ?thesis by simp
  qed
qed

text \<open>C7: The block \<open>detectReorg\<close> reports lies within \<open>maxDepth\<close> blocks of the checkpoint, is
  not negative, and the provider has a block there whose hash is not the checkpoint's.\<close>

theorem detectReorg_sound:
  assumes "detectReorg env cp maxDepth = Inr (Some n)"
  shows "0 \<le> n \<and> cp_blockNumber cp - maxDepth < n \<and> n \<le> cp_blockNumber cp \<and>
    (\<exists>b. en_getBlock env n = Inr (Some b) \<and> bk_hash b \<noteq> Some (cp_blockHash cp))"
proof -
  from assms have "nat maxDepth \<noteq> 0" by (auto simp: detectReorg_def intro!: gr0I)
  with detect_loop_Some [of env cp "nat maxDepth" 0 n] assms show ?thesis
    by (auto simp: detectReorg_def)
qed

text \<open>A small chain: block \<open>n\<close> has the hash \<open>h<n>\<close>.\<close>

definition hash_chain_env :: eth_env where
  "hash_chain_env = \<lparr>en_getBlockNumber = Inr 9,
     en_getBlock = (\<lambda>n. Inr (Some \<lparr>bk_hash = Some (''h'' @ show_int n), bk_timestamp = n\<rparr>)),
     en_getLogs = (\<lambda>a f t. Inr []), en_logBlock = (\<lambda>l. Inr None),
     en_parseLog = (\<lambda>abi d ts. Inr None), en_now = 0\<rparr>"

theorem detectReorg_sound_witness:
  "detectReorg hash_chain_env \<lparr>cp_blockNumber = 7, cp_blockHash = ''old'', cp_updatedAt = 0\<rparr> 12 = Inr (Some 7) \<and>
   (\<exists>b. en_getBlock hash_chain_env 7 = Inr (Some b) \<and> bk_hash b \<noteq> Some ''old'')"
proof -
  have run: "detectReorg hash_chain_env \<lparr>cp_blockNumber = 7, cp_blockHash = ''old'', cp_updatedAt = 0\<rparr> 12 = Inr (Some 7)"
    by code_simp
  with detectReorg_sound [OF run] show ?thesis by simp
qed

text \<open>Every block is compared with the hash of the checkpoint itself. So on a chain where the
  block before the checkpoint has another hash, as it does on every real chain, a reorg is
  reported at that parent although the checkpoint block is unchanged.\<close>

theorem detectReorg_false_positive:
  assumes "en_getBlock env (cp_blockNumber cp) = Inr (Some b)" "bk_hash b = Some (cp_blockHash cp)"
    and "en_getBlock env (cp_blockNumber cp - 1) = Inr (Some p)" "bk_hash p \<noteq> bk_hash b"
    and "1 \<le> cp_blockNumber cp" "2 \<le> maxDepth"
  shows "detectReorg env cp maxDepth = Inr (Some (cp_blockNumber cp - 1))"
proof -
  have "nat maxDepth = Suc (Suc (nat (maxDepth - 2)))"
    using assms(6) by simp
  then obtain k where k: "nat maxDepth = Suc (Suc k)" by blast
  with assms show ?thesis by (simp add: detectReorg_def Let_def)
qed

theorem detectReorg_false_positive_witness:
  "detectReorg hash_chain_env \<lparr>cp_blockNumber = 7, cp_blockHash = ''h7'', cp_updatedAt = 0\<rparr> 12 = Inr (Some 6)"
proof -
  have "show_int 7 = ''7''" "show_int 6 = ''6''" by code_simp+
  then show ?thesis
    using detectReorg_false_positive [of hash_chain_env "\<lparr>cp_blockNumber = 7, cp_blockHash = ''h7'', cp_updatedAt = 0\<rparr>"
      "\<lparr>bk_hash = Some (''h'' @ show_int 7), bk_timestamp = 7\<rparr>"
      "\<lparr>bk_hash = Some (''h'' @ show_int 6), bk_timestamp = 6\<rparr>" 12]
    by (simp add: hash_chain_env_def)
qed

end
