(* ===== verification/Provider.thy ===== *)
theory Provider
  imports JsCollections
begin

text \<open>
  \<open>indexer/src/provider.ts\<close>: the \<open>ProviderManager\<close> as a state machine. Its callbacks run when
  the event loop delivers a socket event or a timer, in any order: one rule of \<open>pv_step\<close> per
  callback. A WebSocket object is a number (its generation); timers are multisets because
  several may be pending at once. The block numbers handed to the callback are the output.
\<close>

section \<open>State\<close>

datatype endpoint = Rpc | Ws nat

record provider_state =
  pv_ws :: "nat option"            \<comment> \<open>\<open>this.ws\<close>: generation of the current socket\<close>
  pv_wsUrl :: "string option"
  pv_useWebSocket :: bool
  pv_reconnectAttempts :: nat
  pv_listening :: "nat list"       \<comment> \<open>sockets with \<open>block\<close> and \<open>error\<close> listeners\<close>
  pv_delays :: "nat multiset"      \<comment> \<open>pending \<open>setTimeout\<close>s, in milliseconds\<close>
  pv_polls :: nat                  \<comment> \<open>running reconnect intervals\<close>
  pv_next :: nat                   \<comment> \<open>next unused socket generation\<close>

definition maxReconnectAttempts :: nat where
  "maxReconnectAttempts = 10"

definition reconnectDelayMs :: nat where
  "reconnectDelayMs = 2000"

definition new_provider :: "string option \<Rightarrow> provider_state" where
  "new_provider wsUrl =
     (let ws = (if truthy_str wsUrl then Some 0 else None) in
      \<lparr>pv_ws = ws, pv_wsUrl = wsUrl, pv_useWebSocket = False, pv_reconnectAttempts = 0,
       pv_listening = [], pv_delays = {#}, pv_polls = 0, pv_next = 1\<rparr>)"

section \<open>Operations\<close>

text \<open>The getter \<open>provider\<close>: which endpoint the next request goes to.\<close>

definition pv_provider :: "provider_state \<Rightarrow> endpoint" where
  "pv_provider p = (case pv_ws p of None \<Rightarrow> Rpc
     | Some g \<Rightarrow> if pv_useWebSocket p then Ws g else Rpc)"

definition pv_hasWebSocket :: "provider_state \<Rightarrow> bool" where
  "pv_hasWebSocket p \<longleftrightarrow> pv_ws p \<noteq> None"

definition pv_onNewBlock :: "provider_state \<Rightarrow> provider_state" where
  "pv_onNewBlock p = (case pv_ws p of None \<Rightarrow> p
     | Some g \<Rightarrow> if truthy_str (pv_wsUrl p) then p\<lparr>pv_listening := g # pv_listening p\<rparr> else p)"

definition on_ws_block :: "provider_state \<Rightarrow> provider_state" where
  "on_ws_block p = p\<lparr>pv_reconnectAttempts := 0, pv_useWebSocket := True\<rparr>"

text \<open>The \<open>error\<close> listener up to its \<open>await\<close>: beyond the limit it returns at once.\<close>

definition on_ws_error :: "provider_state \<Rightarrow> provider_state" where
  "on_ws_error p =
     (let n = Suc (pv_reconnectAttempts p); p' = p\<lparr>pv_reconnectAttempts := n\<rparr> in
      if maxReconnectAttempts < n then p'
      else p'\<lparr>pv_useWebSocket := False, pv_delays := add_mset (reconnectDelayMs * n) (pv_delays p)\<rparr>)"

text \<open>The delay has passed: the rest of the \<open>error\<close> listener starts the interval.\<close>

definition on_delay_over :: "nat \<Rightarrow> provider_state \<Rightarrow> provider_state" where
  "on_delay_over d p = p\<lparr>pv_delays := pv_delays p - {#d#}, pv_polls := Suc (pv_polls p)\<rparr>"

text \<open>The interval callback when \<open>getBlockNumber\<close> resolved (when it rejects, nothing changes).\<close>

definition on_reconnected :: "provider_state \<Rightarrow> provider_state" where
  "on_reconnected p = pv_onNewBlock (p\<lparr>pv_polls := pv_polls p - 1, pv_ws := Some (pv_next p),
     pv_next := Suc (pv_next p), pv_useWebSocket := True\<rparr>)"

text \<open>\<open>destroy\<close> closes the current socket, which then delivers no further events; pending timers
  and intervals keep running.\<close>

definition pv_destroy :: "provider_state \<Rightarrow> provider_state" where
  "pv_destroy p = (case pv_ws p of None \<Rightarrow> p
     | Some g \<Rightarrow> p\<lparr>pv_listening := removeAll g (pv_listening p)\<rparr>)"

section \<open>Steps\<close>

text \<open>\<open>pv_step p out p'\<close>: one callback runs; \<open>out\<close> is the block number passed on, if any.\<close>

inductive pv_step :: "provider_state \<Rightarrow> int option \<Rightarrow> provider_state \<Rightarrow> bool" where
  ws_block: "g \<in> set (pv_listening p) \<Longrightarrow> pv_step p (Some n) (on_ws_block p)"
| ws_error: "g \<in> set (pv_listening p) \<Longrightarrow> pv_step p None (on_ws_error p)"
| delay_over: "d \<in># pv_delays p \<Longrightarrow> pv_step p None (on_delay_over d p)"
| reconnected: "0 < pv_polls p \<Longrightarrow> pv_step p (Some n) (on_reconnected p)"
| reconnect_failed: "0 < pv_polls p \<Longrightarrow> pv_step p None p"

inductive pv_reachable :: "string option \<Rightarrow> provider_state \<Rightarrow> bool" for url where
  pv_start: "pv_reachable url (pv_onNewBlock (new_provider url))"
| pv_next: "pv_reachable url p \<Longrightarrow> pv_step p out p' \<Longrightarrow> pv_reachable url p'"

inductive_cases pv_stepE: "pv_step p out p'"

section \<open>Invariant\<close>

definition pv_inv :: "provider_state \<Rightarrow> bool" where
  "pv_inv p \<longleftrightarrow> (pv_ws p = None \<longrightarrow> pv_listening p = []) \<and>
     (pv_listening p \<noteq> [] \<longrightarrow> truthy_str (pv_wsUrl p)) \<and>
     (pv_ws p = None \<longrightarrow> \<not> pv_useWebSocket p \<and> pv_delays p = {#} \<and> pv_polls p = 0) \<and>
     (\<forall>d \<in># pv_delays p. \<exists>k. 1 \<le> k \<and> k \<le> maxReconnectAttempts \<and> d = reconnectDelayMs * k)"

lemma pv_inv_start: "pv_inv (pv_onNewBlock (new_provider url))"
  by (auto simp: pv_inv_def pv_onNewBlock_def new_provider_def Let_def)

lemma pv_inv_error: "pv_inv p \<Longrightarrow> pv_listening p \<noteq> [] \<Longrightarrow> pv_inv (on_ws_error p)"
  unfolding pv_inv_def on_ws_error_def Let_def
  by (auto simp: Suc_le_eq not_less)

lemma pv_inv_block: "pv_inv p \<Longrightarrow> pv_listening p \<noteq> [] \<Longrightarrow> pv_inv (on_ws_block p)"
  by (auto simp: pv_inv_def on_ws_block_def)

lemma pv_inv_delay: "pv_inv p \<Longrightarrow> d \<in># pv_delays p \<Longrightarrow> pv_inv (on_delay_over d p)"
  by (auto simp: pv_inv_def on_delay_over_def dest: in_diffD)

lemma pv_inv_reconnected: "pv_inv p \<Longrightarrow> 0 < pv_polls p \<Longrightarrow> pv_inv (on_reconnected p)"
  by (auto simp: pv_inv_def on_reconnected_def pv_onNewBlock_def)

lemma pv_step_inv: "pv_step p out p' \<Longrightarrow> pv_inv p \<Longrightarrow> pv_inv p'"
  by (induction rule: pv_step.induct)
    (auto intro: pv_inv_block pv_inv_error pv_inv_delay pv_inv_reconnected)

lemma pv_reachable_inv: "pv_reachable url p \<Longrightarrow> pv_inv p"
  by (induction rule: pv_reachable.induct) (auto intro: pv_inv_start pv_step_inv)



section \<open>Exhausting the reconnect attempts\<close>

text \<open>One failed connection that the polling reconnect replaces by a fresh socket.\<close>

definition flap :: "provider_state \<Rightarrow> provider_state" where
  "flap p = on_reconnected (on_delay_over (reconnectDelayMs * Suc (pv_reconnectAttempts p)) (on_ws_error p))"

lemma flap_reachable:
  assumes "pv_reachable url p" "pv_listening p \<noteq> []" "pv_reconnectAttempts p < maxReconnectAttempts"
  shows "pv_reachable url (flap p)"
proof -
  from assms(2) obtain g where g: "g \<in> set (pv_listening p)" by (cases "pv_listening p") auto
  have 1: "pv_reachable url (on_ws_error p)"
    by (rule pv_reachable.pv_next [OF assms(1) pv_step.ws_error [OF g]])
  let ?d = "reconnectDelayMs * Suc (pv_reconnectAttempts p)"
  have "?d \<in># pv_delays (on_ws_error p)" using assms(3) by (simp add: on_ws_error_def Let_def)
  then have 2: "pv_reachable url (on_delay_over ?d (on_ws_error p))"
    by (rule pv_reachable.pv_next [OF 1 pv_step.delay_over])
  have "0 < pv_polls (on_delay_over ?d (on_ws_error p))" by (simp add: on_delay_over_def)
  then show ?thesis
    unfolding flap_def by (rule pv_reachable.pv_next [OF 2 pv_step.reconnected])
qed

lemma flap_state:
  assumes "pv_reconnectAttempts p < maxReconnectAttempts" "truthy_str (pv_wsUrl p)"
  shows "pv_reconnectAttempts (flap p) = Suc (pv_reconnectAttempts p)"
    and "pv_ws (flap p) = Some (pv_next p)" and "pv_next (flap p) = Suc (pv_next p)"
    and "pv_useWebSocket (flap p)" and "pv_wsUrl (flap p) = pv_wsUrl p"
    and "pv_listening (flap p) \<noteq> []" and "pv_delays (flap p) = pv_delays p"
    and "pv_polls (flap p) = pv_polls p"
  using assms
  by (simp_all add: flap_def on_reconnected_def pv_onNewBlock_def on_delay_over_def
      on_ws_error_def Let_def)

lemma error_exhausted:
  assumes "maxReconnectAttempts \<le> pv_reconnectAttempts p"
  shows "pv_provider (on_ws_error p) = pv_provider p" and "pv_delays (on_ws_error p) = pv_delays p"
    and "pv_polls (on_ws_error p) = pv_polls p"
  using assms by (auto simp: on_ws_error_def pv_provider_def split: option.split)

lemma flaps_state:
  assumes "pv_reachable url p" "pv_listening p \<noteq> []" "truthy_str (pv_wsUrl p)"
    and "pv_reconnectAttempts p = 0" "Suc n \<le> maxReconnectAttempts"
  shows "pv_reachable url ((flap ^^ Suc n) p) \<and> pv_listening ((flap ^^ Suc n) p) \<noteq> [] \<and>
    pv_wsUrl ((flap ^^ Suc n) p) = pv_wsUrl p \<and> pv_reconnectAttempts ((flap ^^ Suc n) p) = Suc n \<and>
    pv_provider ((flap ^^ Suc n) p) = Ws (pv_next p + n) \<and>
    pv_next ((flap ^^ Suc n) p) = pv_next p + Suc n \<and>
    pv_delays ((flap ^^ Suc n) p) = pv_delays p \<and> pv_polls ((flap ^^ Suc n) p) = pv_polls p"
  using assms(5)
proof (induction n)
  case 0
  with assms flap_reachable [OF assms(1,2)] flap_state [of p] show ?case
    by (simp add: pv_provider_def)
next
  case (Suc n)
  let ?q = "(flap ^^ Suc n) p"
  from Suc have IH: "pv_reachable url ?q" "pv_listening ?q \<noteq> []" "truthy_str (pv_wsUrl ?q)"
    "pv_reconnectAttempts ?q < maxReconnectAttempts"
    using assms(3) by (simp_all del: funpow.simps)
  have step: "(flap ^^ Suc (Suc n)) p = flap ?q" by simp
  show ?case
    unfolding step
    using flap_reachable [OF IH(1,2,4)] flap_state [OF IH(4,3)] Suc
    by (simp add: pv_provider_def del: funpow.simps)
qed

text \<open>Ten errors in a row, each followed by a successful reconnect but no block, leave a state
  in which the next socket error neither falls back to the RPC endpoint nor schedules another
  reconnect: requests keep going to the failed socket.\<close>

theorem provider_stuck_on_dead_socket:
  assumes "truthy_str url"
  shows "\<exists>p p'. pv_reachable url p \<and> pv_reconnectAttempts p = 10 \<and> pv_step p None p' \<and>
    p' = on_ws_error p \<and> pv_provider p' = Ws 10 \<and> pv_delays p' = {#} \<and> pv_polls p' = 0"
proof -
  let ?start = "pv_onNewBlock (new_provider url)"
  let ?p = "(flap ^^ Suc 9) ?start"
  have p0: "pv_listening ?start \<noteq> []" "truthy_str (pv_wsUrl ?start)" "pv_reconnectAttempts ?start = 0"
    "pv_next ?start = 1" "pv_delays ?start = {#}" "pv_polls ?start = 0"
    using assms by (auto simp: pv_onNewBlock_def new_provider_def)
  from flaps_state [OF pv_reachable.pv_start p0(1,2,3), of 9] p0(4-6)
  have p: "pv_reachable url ?p" "pv_listening ?p \<noteq> []" "pv_reconnectAttempts ?p = 10"
    "pv_provider ?p = Ws 10" "pv_delays ?p = {#}" "pv_polls ?p = 0"
    by (simp_all add: maxReconnectAttempts_def del: funpow.simps)
  from p(2) obtain g where "g \<in> set (pv_listening ?p)" by (cases "pv_listening ?p") auto
  then have "pv_step ?p None (on_ws_error ?p)" by (rule pv_step.ws_error)
  moreover have "pv_provider (on_ws_error ?p) = Ws 10 \<and> pv_delays (on_ws_error ?p) = {#} \<and>
      pv_polls (on_ws_error ?p) = 0"
    using error_exhausted [of ?p] p by (simp add: maxReconnectAttempts_def del: funpow.simps)
  ultimately show ?thesis using p(1,3) by blast
qed

theorem provider_stuck_on_dead_socket_witness:
  "truthy_str (Some ''wss://node'') \<and> (\<exists>p. pv_reachable (Some ''wss://node'') p \<and> pv_provider (on_ws_error p) = Ws 10)"
  using provider_stuck_on_dead_socket [of "Some ''wss://node''"] by (auto simp: truthy_str_def)

end
