(* ===== verification/Indexer.thy ===== *)
theory Indexer
  imports Pipeline Provider
begin

text \<open>
  \<open>indexer/src/indexer.ts\<close>: the \<open>Indexer\<close> class over \<open>InMemoryStorage\<close>. Each method is one
  action on the indexer's state; the provider (\<open>eth_env\<close>) answers consistently during one
  method call and may differ between calls. \<open>ix_delivered\<close> records, for the theorems, the
  handler calls made so far as (handler position, event). Console output is not modelled.
\<close>

section \<open>State and operations\<close>

record indexer_state = "mem_storage ckpt_state" +
  ix_provider :: provider_state
  ix_running :: bool
  ix_pollTimer :: bool
  ix_handlers :: "(indexed_event \<Rightarrow> unit res) list"
  ix_delivered :: "(nat \<times> indexed_event) list"

definition new_indexer :: "indexer_config \<Rightarrow> indexer_state" where
  "new_indexer cfg = \<lparr>st_storage = empty_storage, st_checkpoint = None,
     ix_provider = new_provider (cfg_wsUrl cfg), ix_running = False, ix_pollTimer = False,
     ix_handlers = [], ix_delivered = []\<rparr>"

definition onEvent :: "(indexed_event \<Rightarrow> unit res) \<Rightarrow> indexer_state \<Rightarrow> indexer_state" where
  "onEvent handler st = st\<lparr>ix_handlers := ix_handlers st @ [handler]\<rparr>"

fun call_handlers ::
    "(nat \<times> (indexed_event \<Rightarrow> unit res)) list \<Rightarrow> indexed_event \<Rightarrow> (indexer_state, unit) action" where
  "call_handlers [] event st = (Inr (), st)"
| "call_handlers ((i, handler) # hs) event st =
     (let st' = st\<lparr>ix_delivered := ix_delivered st @ [(i, event)]\<rparr> in
      case handler event of Inl e \<Rightarrow> (Inl e, st') | Inr u \<Rightarrow> call_handlers hs event st')"

fun runHandlers :: "indexed_event list \<Rightarrow> (indexer_state, unit) action" where
  "runHandlers [] st = (Inr (), st)"
| "runHandlers (event # events) st =
     act_bind (\<lambda>s. call_handlers (enumerate 0 (ix_handlers s)) event s)
       (\<lambda>u. runHandlers events) st"

definition syncBlocks :: "eth_env \<Rightarrow> indexer_config \<Rightarrow> int \<Rightarrow> int \<Rightarrow> (indexer_state, unit) action" where
  "syncBlocks env cfg fromBlock toBlock =
     act_bind (act_lift (fetchLogs env (cfg_contracts cfg) fromBlock toBlock)) (\<lambda>logs.
       if logs = [] then cm_update mem_adapter (en_now env) toBlock []
       else act_bind (with_storage (processLogs mem_adapter env (cfg_contracts cfg) logs (cfg_chainId cfg)))
         (\<lambda>events. act_bind (with_storage (persistEvents mem_adapter events))
         (\<lambda>u. act_bind (runHandlers events)
         (\<lambda>u. cm_update mem_adapter (en_now env) (lg_blockNumber (last logs)) (lg_blockHash (last logs))))))"

definition sync_start :: "indexer_config \<Rightarrow> indexer_state \<Rightarrow> int" where
  "sync_start cfg st = (let n = cm_getLastBlockNumber st in if n = 0 then cfg_startBlock cfg else n)"

definition batchSize :: int where
  "batchSize = 1000"

function sync_loop :: "eth_env \<Rightarrow> indexer_config \<Rightarrow> int \<Rightarrow> int \<Rightarrow> (indexer_state, unit) action" where
  "sync_loop env cfg from safeLatest st =
     (if from < safeLatest \<and> ix_running st
      then act_bind (syncBlocks env cfg from (min (from + batchSize - 1) safeLatest))
             (\<lambda>u. sync_loop env cfg (from + batchSize) safeLatest) st
      else (Inr (), st))"
  by pat_completeness auto
termination
  by (relation "measure (\<lambda>(env, cfg, from, safeLatest, st). nat (safeLatest - from))")
     (auto simp: batchSize_def)

declare sync_loop.simps [simp del]

definition syncHistorical :: "eth_env \<Rightarrow> indexer_config \<Rightarrow> (indexer_state, unit) action" where
  "syncHistorical env cfg st =
     (let startBlock = sync_start cfg st in
      act_bind (act_lift (en_getBlockNumber env)) (\<lambda>latestBlock.
        let safeLatest = latestBlock - cfg_confirmations cfg in
        if startBlock \<ge> safeLatest then act_return ()
        else sync_loop env cfg startBlock safeLatest) st)"

definition onNewBlock :: "eth_env \<Rightarrow> indexer_config \<Rightarrow> int \<Rightarrow> (indexer_state, unit) action" where
  "onNewBlock env cfg blockNumber st =
     act_bind (act_lift (case cm_get st of None \<Rightarrow> Inr None
                         | Some cp \<Rightarrow> detectReorg env cp (cfg_maxReorgDepth cfg)))
       (\<lambda>reorg. case reorg of
          Some reorgBlock \<Rightarrow> syncBlocks env cfg reorgBlock blockNumber
        | None \<Rightarrow> (let fromBlock = cm_getLastBlockNumber st + 1 in
            if fromBlock \<le> blockNumber then syncBlocks env cfg fromBlock blockNumber
            else act_return ())) st"

text \<open>The interval callback: nothing escapes its \<open>try\<close>.\<close>

definition poll_tick :: "eth_env \<Rightarrow> indexer_config \<Rightarrow> indexer_state \<Rightarrow> indexer_state" where
  "poll_tick env cfg st =
     (if \<not> ix_running st then st
      else snd (act_bind (act_lift (en_getBlockNumber env)) (\<lambda>latest s.
        let safeLatest = latest - cfg_confirmations cfg;
            lastIndexed = cm_getLastBlockNumber s in
        if safeLatest > lastIndexed then onNewBlock env cfg safeLatest s else (Inr (), s)) st))"

text \<open>The callback passed to \<open>ProviderManager.onNewBlock\<close>: rejections are logged.\<close>

definition ws_tick :: "eth_env \<Rightarrow> indexer_config \<Rightarrow> int \<Rightarrow> indexer_state \<Rightarrow> indexer_state" where
  "ws_tick env cfg blockNumber st = snd (onNewBlock env cfg blockNumber st)"

definition start :: "eth_env \<Rightarrow> indexer_config \<Rightarrow> (indexer_state, unit) action" where
  "start env cfg st =
     act_bind (with_storage (sa_connect mem_adapter)) (\<lambda>u.
     act_bind (cm_load mem_adapter) (\<lambda>u.
     act_bind (syncHistorical env cfg) (\<lambda>u s.
       (Inr (), s\<lparr>ix_provider := (if pv_hasWebSocket (ix_provider s)
                                  then pv_onNewBlock (ix_provider s) else ix_provider s),
                  ix_pollTimer := True\<rparr>)))) (st\<lparr>ix_running := True\<rparr>)"

definition stop :: "(indexer_state, unit) action" where
  "stop st = with_storage (sa_disconnect mem_adapter)
     (st\<lparr>ix_running := False, ix_pollTimer := False, ix_provider := pv_destroy (ix_provider st)\<rparr>)"

section \<open>What one method call does\<close>

abbreviation stored_events :: "(mem_storage, 'z) ckpt_state_scheme \<Rightarrow> indexed_event list" where
  "stored_events st \<equiv> ms_events (st_storage st)"

text \<open>The handler calls for a batch when no handler throws.\<close>

definition deliveries :: "nat \<Rightarrow> indexed_event list \<Rightarrow> (nat \<times> indexed_event) list" where
  "deliveries n es = concat (map (\<lambda>e. map (\<lambda>i. (i, e)) [0..<n]) es)"

lemma call_handlers_run:
  assumes "call_handlers hs e st = (r, st')"
  shows "\<exists>ds rest. st' = st\<lparr>ix_delivered := ix_delivered st @ ds\<rparr> \<and>
    ds @ rest = map (\<lambda>(i, h). (i, e)) hs \<and> (r = Inr () \<longrightarrow> rest = [])"
  using assms
proof (induction hs e st rule: call_handlers.induct)
  case (1 e st)
  then show ?case by auto
next
  case (2 i h hs e st)
  let ?s1 = "st\<lparr>ix_delivered := ix_delivered st @ [(i, e)]\<rparr>"
  show ?case
  proof (cases "h e")
    case (Inl x)
    with "2.prems" have "st' = ?s1" "r = Inl x" by (auto simp: Let_def)
    then show ?thesis
      by (intro exI [of _ "[(i, e)]"] exI [of _ "map (\<lambda>(i, h). (i, e)) hs"]) simp
  next
    case (Inr u)
    with "2.prems" have "call_handlers hs e ?s1 = (r, st')" by (auto simp: Let_def)
    from "2.IH" [OF refl Inr this] obtain ds rest where
      "st' = ?s1\<lparr>ix_delivered := ix_delivered ?s1 @ ds\<rparr>"
      "ds @ rest = map (\<lambda>(i, h). (i, e)) hs" "r = Inr () \<longrightarrow> rest = []" by blast
    then show ?thesis
      by (intro exI [of _ "(i, e) # ds"] exI [of _ rest]) simp
  qed
qed

lemma enumerate_deliveries:
  "map (\<lambda>(i, h). (i, e)) (enumerate 0 hs) = map (\<lambda>i. (i, e)) [0..<length hs]"
  by (rule nth_equalityI) (simp_all add: nth_enumerate_eq)

lemma runHandlers_run:
  assumes "runHandlers es st = (r, st')"
  shows "\<exists>ds rest. st' = st\<lparr>ix_delivered := ix_delivered st @ ds\<rparr> \<and>
    ds @ rest = deliveries (length (ix_handlers st)) es \<and> (r = Inr () \<longrightarrow> rest = [])"
  using assms
proof (induction es arbitrary: st)
  case Nil
  then show ?case by (auto simp: deliveries_def)
next
  case (Cons e es)
  let ?n = "length (ix_handlers st)"
  obtain q t where q: "call_handlers (enumerate 0 (ix_handlers st)) e st = (q, t)" by fastforce
  from call_handlers_run [OF q] obtain ds rest where
    t: "t = st\<lparr>ix_delivered := ix_delivered st @ ds\<rparr>"
    and ds: "ds @ rest = map (\<lambda>i. (i, e)) [0..<?n]" "q = Inr () \<longrightarrow> rest = []"
    by (auto simp: enumerate_deliveries)
  have all: "deliveries ?n (e # es) = map (\<lambda>i. (i, e)) [0..<?n] @ deliveries ?n es"
    by (simp add: deliveries_def)
  show ?case
  proof (cases q)
    case (Inl x)
    with Cons.prems q have "st' = t" "r = Inl x" by (auto simp: act_bind_def)
    with t ds(1) all show ?thesis
      by (intro exI [of _ ds] exI [of _ "rest @ deliveries ?n es"]) simp
  next
    case (Inr u)
    with Cons.prems q have "runHandlers es t = (r, st')" by (auto simp: act_bind_def)
    from Cons.IH [OF this] t obtain ds2 rest2 where
      "st' = t\<lparr>ix_delivered := ix_delivered t @ ds2\<rparr>" "ds2 @ rest2 = deliveries ?n es"
      "r = Inr () \<longrightarrow> rest2 = []" by auto
    with t ds Inr all show ?thesis
      by (intro exI [of _ "ds @ ds2"] exI [of _ rest2]) simp
  qed
qed

lemma connect_eq: "with_storage (sa_connect mem_adapter) st = (Inr (), st :: indexer_state)"
  by (cases st) (simp add: with_storage_def mem_adapter_def mem_connect_def ckpt_state.update_convs)

lemma disconnect_eq: "with_storage (sa_disconnect mem_adapter) st = (Inr (), st :: indexer_state)"
  by (cases st) (simp add: with_storage_def mem_adapter_def mem_disconnect_def)

lemma mem_processLogs_eq:
  "processLogs mem_adapter env contracts logs chainId s =
     (res_bind (traverse (process_log env contracts chainId (event_key ` set (ms_events s))) logs)
        (\<lambda>found. Inr (collect_somes found)), s)"
  by (simp add: processLogs_def action_simps mem_adapter_def mem_getDuplicateEvents_eq)

lemma mem_persistEvents_eq:
  "persistEvents mem_adapter es s = (Inr (), s\<lparr>ms_events := ms_events s @ es\<rparr>)"
  by (cases es) (simp_all add: persistEvents_def act_return_def mem_adapter_def mem_saveEvents_def)

text \<open>All outcomes of \<open>syncBlocks\<close>: nothing happened and it threw; no logs; or a batch was stored and
  announced to the handlers in part (it threw) or in full (the checkpoint moved).\<close>

definition sync_outcome ::
    "eth_env \<Rightarrow> indexer_config \<Rightarrow> int \<Rightarrow> indexer_state \<Rightarrow> eth_log list \<Rightarrow>
     unit res \<Rightarrow> indexer_state \<Rightarrow> bool" where
  "sync_outcome env cfg toBlock st logs r st' \<longleftrightarrow>
     (if logs = [] then r = Inr () \<and> (r, st') = cm_update mem_adapter (en_now env) toBlock [] st
      else (\<exists>es ds rest st1.
        processLogs mem_adapter env (cfg_contracts cfg) logs (cfg_chainId cfg) (st_storage st) =
          (Inr es, st_storage st) \<and>
        ds @ rest = deliveries (length (ix_handlers st)) es \<and>
        st1 = st\<lparr>st_storage := (st_storage st)\<lparr>ms_events := stored_events st @ es\<rparr>,
                 ix_delivered := ix_delivered st @ ds\<rparr> \<and>
        ((\<exists>e. r = Inl e) \<and> st' = st1 \<or>
         rest = [] \<and> r = Inr () \<and> (r, st') = cm_update mem_adapter (en_now env)
           (lg_blockNumber (last logs)) (lg_blockHash (last logs)) st1)))"

lemma syncBlocks_run:
  assumes run: "syncBlocks env cfg f t st = (r, st')"
  shows "(\<exists>e. r = Inl e \<and> st' = st) \<or>
    (\<exists>logs. fetchLogs env (cfg_contracts cfg) f t = Inr logs \<and>
       sync_outcome env cfg t st logs r st')"
proof (cases "fetchLogs env (cfg_contracts cfg) f t")
  case (Inl e)
  with run show ?thesis by (auto simp: syncBlocks_def action_simps)
next
  case (Inr logs)
  show ?thesis
  proof (cases "logs = []")
    case True
    with Inr run have "cm_update mem_adapter (en_now env) t [] st = (r, st')"
      by (simp add: syncBlocks_def action_simps)
    moreover from this have "r = Inr ()" by (auto simp: mem_update_eq Let_def)
    ultimately show ?thesis using Inr True by (simp add: sync_outcome_def)
  next
    case False
    let ?p = "processLogs mem_adapter env (cfg_contracts cfg) logs (cfg_chainId cfg) (st_storage st)"
    obtain q where q: "?p = (q, st_storage st)" by (simp add: mem_processLogs_eq)
    show ?thesis
    proof (cases q)
      case (Inl e)
      with Inr False run q show ?thesis
        by (auto simp: syncBlocks_def action_simps with_storage_def)
    next
      case (Inr es)
      let ?s1 = "st\<lparr>st_storage := (st_storage st)\<lparr>ms_events := stored_events st @ es\<rparr>\<rparr>"
      obtain h s2 where h: "runHandlers es ?s1 = (h, s2)" by fastforce
      from runHandlers_run [OF h] obtain ds rest where
        s2: "s2 = ?s1\<lparr>ix_delivered := ix_delivered st @ ds\<rparr>"
        and ds: "ds @ rest = deliveries (length (ix_handlers st)) es"
        and rest: "h = Inr () \<longrightarrow> rest = []" by auto
      have run': "(case h of Inl e \<Rightarrow> (Inl e, s2) | Inr u \<Rightarrow> cm_update mem_adapter (en_now env)
          (lg_blockNumber (last logs)) (lg_blockHash (last logs)) s2) = (r, st')"
        using run \<open>fetchLogs _ _ _ _ = Inr logs\<close> False q Inr h
        by (simp add: syncBlocks_def action_simps with_storage_def mem_persistEvents_eq)
      have "(\<exists>e. r = Inl e) \<and> st' = s2 \<or> rest = [] \<and> r = Inr () \<and>
          (r, st') = cm_update mem_adapter (en_now env) (lg_blockNumber (last logs)) (lg_blockHash (last logs)) s2"
        using run' rest by (cases h) (auto simp: mem_update_eq Let_def)
      with \<open>fetchLogs _ _ _ _ = Inr logs\<close> False q Inr ds s2 show ?thesis
        by (auto simp: sync_outcome_def)
    qed
  qed
qed

end
