(* ===== verification/IndexerRuns.thy ===== *)
theory IndexerRuns
  imports Indexer
begin

text \<open>
  Runs of the indexer: the event loop invokes \<open>start\<close>, the interval callback, the socket
  callback, \<open>stop\<close> and \<open>onEvent\<close> in any order, here one at a time (overlapping callbacks are
  the subject of the theory \<open>Overlap\<close>). What every run keeps, what the historical sync
  covers, and where the code departs from its intention.
\<close>

section \<open>Runs\<close>

datatype ix_call = CallStart | CallPoll | CallBlock int | CallStop
  | CallOnEvent "indexed_event \<Rightarrow> unit res"

fun ix_exec :: "indexer_config \<Rightarrow> eth_env \<times> ix_call \<Rightarrow> indexer_state \<Rightarrow> indexer_state" where
  "ix_exec cfg (env, CallStart) st = snd (start env cfg st)"
| "ix_exec cfg (env, CallPoll) st = poll_tick env cfg st"
| "ix_exec cfg (env, CallBlock n) st = ws_tick env cfg n st"
| "ix_exec cfg (env, CallStop) st = snd (stop st)"
| "ix_exec cfg (env, CallOnEvent h) st = onEvent h st"

definition ix_run :: "indexer_config \<Rightarrow> (eth_env \<times> ix_call) list \<Rightarrow> indexer_state \<Rightarrow> indexer_state" where
  "ix_run cfg calls st = fold (ix_exec cfg) calls st"

text \<open>A property that does not depend on the fields that only \<open>start\<close>, \<open>stop\<close> and \<open>onEvent\<close>
  write, nor on whether the checkpoint is reloaded from the storage.\<close>

definition run_stable :: "(indexer_state \<Rightarrow> bool) \<Rightarrow> bool" where
  "run_stable P \<longleftrightarrow> (\<forall>st p b t hs. P st \<longrightarrow>
     P (st\<lparr>ix_provider := p, ix_pollTimer := t\<rparr>) \<and> P (st\<lparr>ix_running := b\<rparr>) \<and>
     P (st\<lparr>ix_running := b, ix_pollTimer := t, ix_provider := p\<rparr>) \<and>
     P (st\<lparr>ix_handlers := hs\<rparr>) \<and> P (st\<lparr>st_checkpoint := ms_checkpoint (st_storage st)\<rparr>))"

lemma sync_loop_preserves:
  assumes "\<And>f t. preserves P (syncBlocks env cfg f t)"
  shows "preserves P (sync_loop env cfg lo safe)"
proof -
  have "P s \<Longrightarrow> P (snd (sync_loop env cfg lo safe s))" for s
  proof (induction "nat (safe - lo)" arbitrary: lo s rule: less_induct)
    case less
    show ?case
    proof (cases "lo < safe \<and> ix_running s")
      case False
      then show ?thesis using less.prems by (subst sync_loop.simps) auto
    next
      case True
      then have smaller: "nat (safe - (lo + batchSize)) < nat (safe - lo)"
        by (simp add: batchSize_def)
      have "preserves P (act_bind (syncBlocks env cfg lo (min (lo + batchSize - 1) safe))
          (\<lambda>u. sync_loop env cfg (lo + batchSize) safe))"
        by (rule preserves_bind [OF assms]) (simp add: preserves_def less.hyps [OF smaller])
      from preservesD [OF this less.prems] True show ?thesis
        by (subst sync_loop.simps) simp
    qed
  qed
  then show ?thesis by (simp add: preserves_def)
qed

lemma onNewBlock_preserves:
  assumes sync: "\<And>f t. preserves P (syncBlocks env cfg f t)"
  shows "preserves P (onNewBlock env cfg n)"
  unfolding preserves_def onNewBlock_def act_bind_lift
  by (auto simp: Let_def act_return_def split: sum.split option.split
      intro: preservesD [OF sync])

lemma syncHistorical_preserves:
  assumes sync: "\<And>f t. preserves P (syncBlocks env cfg f t)"
  shows "preserves P (syncHistorical env cfg)"
  unfolding preserves_def syncHistorical_def Let_def act_bind_lift
  by (auto simp: act_return_def split: sum.split
      intro: preservesD [OF sync_loop_preserves [OF sync]])

lemma poll_tick_keeps:
  assumes sync: "\<And>f t. preserves P (syncBlocks env cfg f t)" and P: "P s"
  shows "P (poll_tick env cfg s)"
proof (cases "en_getBlockNumber env")
  case (Inl e)
  with P show ?thesis by (simp add: poll_tick_def action_simps)
next
  case (Inr latest)
  with P preservesD [OF onNewBlock_preserves [OF sync] P] show ?thesis
    by (simp add: poll_tick_def action_simps Let_def)
qed

lemma start_keeps:
  assumes sync: "\<And>f t. preserves P (syncBlocks env cfg f t)" and stable: "run_stable P" and P: "P s"
  shows "P (snd (start env cfg s))"
proof -
  let ?s1 = "s\<lparr>ix_running := True\<rparr>\<lparr>st_checkpoint := ms_checkpoint (st_storage s)\<rparr>"
  have "P (s\<lparr>ix_running := True\<rparr>)" using stable P by (simp add: run_stable_def)
  then have P1: "P ?s1"
    using stable unfolding run_stable_def by (force dest!: spec [of _ "s\<lparr>ix_running := True\<rparr>"])
  obtain r t where hist: "syncHistorical env cfg ?s1 = (r, t)" by fastforce
  from preservesD [OF syncHistorical_preserves [OF sync] P1] hist have Pt: "P t" by simp
  show ?thesis
  proof (cases r)
    case (Inl e)
    with hist Pt show ?thesis
      by (simp add: start_def act_bind_def connect_eq mem_load_eq)
  next
    case (Inr u)
    with hist Pt stable show ?thesis
      by (simp add: start_def act_bind_def connect_eq mem_load_eq run_stable_def)
  qed
qed

lemma ix_exec_keeps:
  assumes sync: "\<And>f t. preserves P (syncBlocks (fst c) cfg f t)" and stable: "run_stable P" and P: "P s"
  shows "P (ix_exec cfg c s)"
proof (cases c)
  case (Pair env call)
  with sync have sync': "preserves P (syncBlocks env cfg f t)" for f t by simp
  show ?thesis
  proof (cases call)
    case CallStart
    with Pair start_keeps [OF sync' stable P] show ?thesis by simp
  next
    case CallPoll
    with Pair poll_tick_keeps [OF sync' P] show ?thesis by simp
  next
    case (CallBlock n)
    with Pair preservesD [OF onNewBlock_preserves [OF sync'] P] show ?thesis
      by (simp add: ws_tick_def)
  next
    case CallStop
    with Pair stable P show ?thesis by (simp add: stop_def disconnect_eq run_stable_def)
  next
    case (CallOnEvent h)
    with Pair stable P show ?thesis by (simp add: onEvent_def run_stable_def)
  qed
qed

lemma ix_run_keeps:
  assumes "\<And>c f t. c \<in> set calls \<Longrightarrow> preserves P (syncBlocks (fst c) cfg f t)"
    and "run_stable P" and "P s"
  shows "P (ix_run cfg calls s)"
  using assms unfolding ix_run_def
proof (induction calls arbitrary: s)
  case (Cons c calls)
  have "P (ix_exec cfg c s)" by (rule ix_exec_keeps) (use Cons.prems in auto)
  with Cons show ?case by simp
qed simp

section \<open>Every event is stored once and delivered at most once\<close>

text \<open>The provider returns no log twice for the configured contracts.\<close>

definition env_distinct :: "indexer_config \<Rightarrow> eth_env \<Rightarrow> bool" where
  "env_distinct cfg env \<longleftrightarrow> (\<forall>f t logs. fetchLogs env (cfg_contracts cfg) f t = Inr logs \<longrightarrow>
     distinct (map lg_key logs))"

definition delivery_key :: "nat \<times> indexed_event \<Rightarrow> nat \<times> string" where
  "delivery_key d = (fst d, event_key (snd d))"

definition once_inv :: "indexer_state \<Rightarrow> bool" where
  "once_inv st \<longleftrightarrow> distinct (map event_key (stored_events st)) \<and>
     distinct (map delivery_key (ix_delivered st)) \<and>
     event_key ` snd ` set (ix_delivered st) \<subseteq> event_key ` set (stored_events st)"

lemma set_deliveries: "set (deliveries n es) = {0..<n} \<times> set es"
  by (auto simp: deliveries_def)

lemma distinct_deliveries:
  "distinct (map event_key es) \<Longrightarrow> distinct (map delivery_key (deliveries n es))"
proof (induction es)
  case (Cons e es)
  have "map delivery_key (deliveries n (e # es)) =
      map (\<lambda>i. (i, event_key e)) [0..<n] @ map delivery_key (deliveries n es)"
    by (simp add: deliveries_def delivery_key_def)
  moreover have "distinct (map (\<lambda>i. (i, event_key e)) [0..<n])"
    by (simp add: distinct_map inj_on_def)
  moreover have "set (map (\<lambda>i. (i, event_key e)) [0..<n]) \<inter>
      set (map delivery_key (deliveries n es)) = {}"
  proof -
    have "event_key e \<notin> event_key ` set es" using Cons.prems by simp
    then show ?thesis by (auto simp: set_deliveries delivery_key_def image_iff)
  qed
  moreover have "distinct (map delivery_key (deliveries n es))" using Cons by simp
  ultimately show ?case by (simp only: distinct_append)
qed (simp add: deliveries_def)

lemma once_inv_extend:
  assumes inv: "once_inv st"
    and fresh: "event_key ` set es \<inter> event_key ` set (stored_events st) = {}"
    and es: "distinct (map event_key es)"
    and ds: "ds @ rest = deliveries n es"
    and st': "stored_events st' = stored_events st @ es" "ix_delivered st' = ix_delivered st @ ds"
  shows "once_inv st'"
proof -
  have "distinct (map delivery_key ds)"
    using distinct_deliveries [OF es, of n] unfolding ds [symmetric] by simp
  moreover have ds_sub: "snd ` set ds \<subseteq> set es"
  proof -
    have "set ds \<subseteq> set (deliveries n es)" unfolding ds [symmetric] by simp
    then show ?thesis by (auto simp: set_deliveries)
  qed
  moreover have "delivery_key ` set (ix_delivered st) \<inter> delivery_key ` set ds = {}"
  proof -
    have "event_key (snd d) \<noteq> event_key (snd d')"
      if "d \<in> set (ix_delivered st)" "d' \<in> set ds" for d d'
    proof -
      from that(1) inv have "event_key (snd d) \<in> event_key ` set (stored_events st)"
        by (auto simp: once_inv_def)
      moreover from that(2) ds_sub have "event_key (snd d') \<in> event_key ` set es" by auto
      ultimately show ?thesis using fresh by (metis disjoint_iff)
    qed
    then show ?thesis by (auto simp: delivery_key_def)
  qed
  ultimately have "distinct (map delivery_key (ix_delivered st'))"
    using inv st' by (simp add: once_inv_def)
  moreover have "distinct (map event_key (stored_events st'))"
    using inv st' es fresh by (simp add: once_inv_def Int_commute)
  moreover have "event_key ` snd ` set (ix_delivered st') \<subseteq> event_key ` set (stored_events st')"
  proof -
    have "event_key ` snd ` set ds \<subseteq> event_key ` set es" using ds_sub by (rule image_mono)
    with inv show ?thesis unfolding once_inv_def st' set_append image_Un by blast
  qed
  ultimately show ?thesis by (simp add: once_inv_def)
qed

lemma syncBlocks_once:
  assumes env: "env_distinct cfg env"
  shows "preserves once_inv (syncBlocks env cfg f t)"
proof (rule preservesI)
  fix st r st'
  assume inv: "once_inv st" and run: "syncBlocks env cfg f t st = (r, st')"
  from syncBlocks_run [OF run] consider "st' = st" | logs where
    "fetchLogs env (cfg_contracts cfg) f t = Inr logs" "sync_outcome env cfg t st logs r st'" by blast
  then show "once_inv st'"
  proof cases
    case 1
    with inv show ?thesis by simp
  next
    case 2
    from env 2(1) have logs: "distinct (map lg_key logs)" by (simp add: env_distinct_def)
    show ?thesis
    proof (cases "logs = []")
      case True
      with 2(2) inv show ?thesis
        by (auto simp: sync_outcome_def mem_update_eq Let_def once_inv_def)
    next
      case False
      with 2(2) obtain es ds rest where
        p: "processLogs mem_adapter env (cfg_contracts cfg) logs (cfg_chainId cfg) (st_storage st) =
              (Inr es, st_storage st)"
        and ds: "ds @ rest = deliveries (length (ix_handlers st)) es"
        and st': "stored_events st' = stored_events st @ es" "ix_delivered st' = ix_delivered st @ ds"
        by (auto simp: sync_outcome_def mem_update_eq Let_def)
      have "event_key ` set es \<inter> event_key ` set (stored_events st) = {}"
        using mem.processLogs_fresh(1) [OF p] by auto
      from once_inv_extend [OF inv this mem.processLogs_distinct [OF p logs] ds st'] show ?thesis .
    qed
  qed
qed

lemma once_inv_stable: "run_stable once_inv"
  by (auto simp: run_stable_def once_inv_def)


section \<open>A concrete chain for the witnesses\<close>

definition demo_cfg :: indexer_config where
  "demo_cfg = \<lparr>cfg_chainId = 10, cfg_rpcUrl = ''rpc'', cfg_wsUrl = None,
     cfg_contracts = [\<lparr>cc_name = ''TruthBountyWeighted'', cc_address = ''0xAB'', cc_abi = [], cc_fromBlock = 0\<rparr>],
     cfg_startBlock = 3, cfg_checkpointInterval = 100, cfg_maxReorgDepth = 12,
     cfg_pollIntervalMs = 5000, cfg_confirmations = 0\<rparr>"

definition demo_log :: "int \<Rightarrow> nat \<Rightarrow> eth_log" where
  "demo_log block index = \<lparr>lg_address = ''0xab'', lg_blockNumber = block, lg_blockHash = ''h'' @ show_int block,
     lg_transactionHash = ''t'' @ show_int block, lg_index = index, lg_data = [], lg_topics = []\<rparr>"

definition demo_env :: "int \<Rightarrow> eth_log list \<Rightarrow> eth_env" where
  "demo_env head logs = \<lparr>en_getBlockNumber = Inr head,
     en_getBlock = (\<lambda>n. Inr (Some \<lparr>bk_hash = Some (''h'' @ show_int n), bk_timestamp = n\<rparr>)),
     en_getLogs = (\<lambda>addr f t. Inr (filter (\<lambda>l. f \<le> lg_blockNumber l \<and> lg_blockNumber l \<le> t) logs)),
     en_logBlock = (\<lambda>l. Inr (Some \<lparr>bk_hash = Some (lg_blockHash l), bk_timestamp = lg_blockNumber l\<rparr>)),
     en_parseLog = (\<lambda>abi d t. Inr (Some \<lparr>ld_name = ''StakeDeposited'', ld_entries = []\<rparr>)),
     en_now = 0\<rparr>"

lemma demo_env_distinct: "distinct (map lg_key logs) \<Longrightarrow> env_distinct demo_cfg (demo_env head logs)"
  by (auto simp: env_distinct_def fetchLogs_def demo_cfg_def demo_env_def distinct_map_filter)


section \<open>What a successful sync has stored\<close>

lemma syncBlocks_appends:
  assumes "syncBlocks env cfg f t st = (r, st')"
  shows "\<exists>es. stored_events st' = stored_events st @ es"
  using syncBlocks_run [OF assms]
  by (auto simp: sync_outcome_def mem_update_eq Let_def split: if_splits)

lemma append_stable: "run_stable (\<lambda>s. \<exists>es. stored_events s = base @ es)"
  by (simp add: run_stable_def)

text \<open>The storage is append-only: whatever happens later, a reported reorg included, every
  event stored so far stays stored at its place. The "rolling back" of \<open>onNewBlock\<close> removes no
  event of an orphaned block.\<close>

theorem storage_append_only:
  "\<exists>es. stored_events (ix_run cfg (calls @ later) st) = stored_events (ix_run cfg calls st) @ es"
proof -
  let ?base = "stored_events (ix_run cfg calls st)"
  have "\<exists>es. stored_events (ix_run cfg later (ix_run cfg calls st)) = ?base @ es"
  proof (rule ix_run_keeps [of later "\<lambda>s. \<exists>es. stored_events s = ?base @ es"])
    show "preserves (\<lambda>s. \<exists>es. stored_events s = ?base @ es) (syncBlocks (fst c) cfg f t)" for c f t
      by (rule preservesI) (use syncBlocks_appends in fastforce)
  qed (simp_all add: append_stable)
  then show ?thesis by (simp add: ix_run_def)
qed

definition decodable :: "eth_env \<Rightarrow> indexer_config \<Rightarrow> eth_log \<Rightarrow> bool" where
  "decodable env cfg l \<longleftrightarrow>
     (case process_log env (cfg_contracts cfg) (cfg_chainId cfg) {} l of
        Inr (Some e) \<Rightarrow> True | _ \<Rightarrow> False)"

lemma decodable_found:
  assumes "decodable env cfg l" "lg_key l \<notin> D"
  shows "\<exists>e. process_log env (cfg_contracts cfg) (cfg_chainId cfg) D l = Inr (Some e)"
  using assms
  by (auto simp: decodable_def process_log_def split: sum.splits option.splits if_splits)

lemma syncBlocks_complete:
  assumes run: "syncBlocks env cfg f t st = (Inr (), st')"
    and fetch: "fetchLogs env (cfg_contracts cfg) f t = Inr logs"
    and l: "l \<in> set logs" "decodable env cfg l"
  shows "lg_key l \<in> event_key ` set (stored_events st')"
proof -
  from l(1) have "logs \<noteq> []" by auto
  with syncBlocks_run [OF run] fetch obtain es where
    p: "processLogs mem_adapter env (cfg_contracts cfg) logs (cfg_chainId cfg) (st_storage st) =
          (Inr es, st_storage st)"
    and st': "stored_events st' = stored_events st @ es"
    by (auto simp: sync_outcome_def mem_update_eq Let_def)
  show ?thesis
  proof (cases "lg_key l \<in> event_key ` set (stored_events st)")
    case True
    with st' show ?thesis by auto
  next
    case False
    let ?f = "process_log env (cfg_contracts cfg) (cfg_chainId cfg) (event_key ` set (stored_events st))"
    from p obtain found where found: "traverse ?f logs = Inr found" "es = collect_somes found"
      by (auto simp: mem_processLogs_eq res_bind_Inr_iff)
    from decodable_found [OF l(2) False] obtain e where e: "?f l = Inr (Some e)" by blast
    with traverse_result_of [OF found(1) l(1)] have "e \<in> set es"
      by (auto simp: found(2) set_collect_somes)
    with process_log_Some(1) [OF e] st' show ?thesis by force
  qed
qed

section \<open>The batches of the historical sync\<close>

text \<open>The block ranges that \<open>syncHistorical\<close> asks for, as a list.\<close>

function batches :: "int \<Rightarrow> int \<Rightarrow> (int \<times> int) list" where
  "batches lo safe =
     (if lo < safe then (lo, min (lo + batchSize - 1) safe) # batches (lo + batchSize) safe else [])"
  by pat_completeness auto
termination
  by (relation "measure (\<lambda>(lo, safe). nat (safe - lo))") (auto simp: batchSize_def)

declare batches.simps [simp del]

fun sync_all :: "eth_env \<Rightarrow> indexer_config \<Rightarrow> (int \<times> int) list \<Rightarrow> (indexer_state, unit) action" where
  "sync_all env cfg [] st = (Inr (), st)"
| "sync_all env cfg ((f, t) # bs) st = act_bind (syncBlocks env cfg f t) (\<lambda>u. sync_all env cfg bs) st"

lemma syncBlocks_running:
  assumes "syncBlocks env cfg f t st = (r, st')"
  shows "ix_running st' = ix_running st"
  using syncBlocks_run [OF assms]
  by (auto simp: sync_outcome_def mem_update_eq Let_def split: if_splits)

lemma sync_loop_batches:
  "ix_running st \<Longrightarrow> sync_loop env cfg lo safe st = sync_all env cfg (batches lo safe) st"
proof (induction "nat (safe - lo)" arbitrary: lo st rule: less_induct)
  case less
  show ?case
  proof (cases "lo < safe")
    case False
    then show ?thesis by (subst sync_loop.simps, subst batches.simps) simp
  next
    case True
    let ?hi = "min (lo + batchSize - 1) safe"
    from True have smaller: "nat (safe - (lo + batchSize)) < nat (safe - lo)"
      by (simp add: batchSize_def)
    obtain r t where run: "syncBlocks env cfg lo ?hi st = (r, t)" by fastforce
    with less.prems have "ix_running t" using syncBlocks_running by simp
    from less.hyps [OF smaller this] True less.prems run show ?thesis
      by (subst sync_loop.simps, subst batches.simps) (simp add: act_bind_def split: sum.split)
  qed
qed

lemma sync_all_complete:
  assumes "sync_all env cfg bs st = (Inr (), st')" "(f, t) \<in> set bs"
    and "fetchLogs env (cfg_contracts cfg) f t = Inr logs" "l \<in> set logs" "decodable env cfg l"
  shows "lg_key l \<in> event_key ` set (stored_events st')"
  using assms(1,2)
proof (induction bs arbitrary: st)
  case Nil
  then show ?case by simp
next
  case (Cons b bs)
  obtain bf bt where b: "b = (bf, bt)" by fastforce
  from Cons.prems(1) b obtain s1 where s1: "syncBlocks env cfg bf bt st = (Inr (), s1)"
    and rest: "sync_all env cfg bs s1 = (Inr (), st')"
    by (auto simp: act_bind_def split: prod.splits sum.splits)
  show ?case
  proof (cases "(f, t) \<in> set bs")
    case True
    with Cons.IH [OF rest] show ?thesis by simp
  next
    case False
    with Cons.prems(2) b have "bf = f" "bt = t" by auto
    with syncBlocks_complete [OF _ assms(3-5)] s1
    have "lg_key l \<in> event_key ` set (stored_events s1)" by blast
    moreover have "\<exists>es. stored_events st' = stored_events s1 @ es"
      using rest
    proof (induction bs arbitrary: s1)
      case (Cons c cs)
      obtain cf ct where "c = (cf, ct)" by fastforce
      with Cons.prems obtain s2 where "syncBlocks env cfg cf ct s1 = (Inr (), s2)"
        "sync_all env cfg cs s2 = (Inr (), st')"
        by (auto simp: act_bind_def split: prod.splits sum.splits)
      with Cons.IH syncBlocks_appends show ?case by fastforce
    qed simp
    ultimately show ?thesis by auto
  qed
qed

lemma batches_upto:
  assumes "lo < safe"
  shows "concat (map (\<lambda>(f, t). [f..t]) (batches lo safe)) =
     [lo..(if (safe - lo) mod batchSize = 0 then safe - 1 else safe)]"
  using assms
proof (induction "nat (safe - lo)" arbitrary: lo rule: less_induct)
  case less
  let ?upto = "if (safe - lo) mod batchSize = 0 then safe - 1 else safe"
  have unfold: "batches lo safe = (lo, min (lo + batchSize - 1) safe) # batches (lo + batchSize) safe"
    using less.prems by (subst batches.simps) simp
  show ?case
  proof (cases "lo + batchSize < safe")
    case True
    have same: "(safe - (lo + batchSize)) mod batchSize = (safe - lo) mod batchSize"
    proof -
      have "safe - lo = (safe - (lo + batchSize)) + batchSize" by simp
      then show ?thesis by (metis mod_add_self2)
    qed
    have "concat (map (\<lambda>(f, t). [f..t]) (batches (lo + batchSize) safe)) =
        [lo + batchSize..(if (safe - (lo + batchSize)) mod batchSize = 0 then safe - 1 else safe)]"
      by (rule less.hyps) (use True in \<open>simp_all add: batchSize_def\<close>)
    then have "concat (map (\<lambda>(f, t). [f..t]) (batches (lo + batchSize) safe)) = [lo + batchSize..?upto]"
      by (simp only: same)
    moreover have "[lo..?upto] = [lo..lo + batchSize - 1] @ [lo + batchSize..?upto]"
      by (rule upto_split1) (use True in \<open>auto simp: batchSize_def\<close>)
    ultimately have "[lo..?upto] = [lo..lo + batchSize - 1] @
        concat (map (\<lambda>(f, t). [f..t]) (batches (lo + batchSize) safe))" by (simp only:)
    moreover have "min (lo + batchSize - 1) safe = lo + batchSize - 1" using True by simp
    ultimately show ?thesis by (simp only: unfold list.map concat.simps case_prod_conv)
  next
    case False
    then have "batches (lo + batchSize) safe = []" by (subst batches.simps) simp
    moreover have "min (lo + batchSize - 1) safe = ?upto"
    proof (cases "safe = lo + batchSize")
      case False
      with \<open>\<not> lo + batchSize < safe\<close> less.prems have "(safe - lo) mod batchSize = safe - lo"
        by (simp add: mod_pos_pos_trivial batchSize_def)
      with False \<open>\<not> lo + batchSize < safe\<close> less.prems show ?thesis by simp
    qed simp
    ultimately show ?thesis
      by (simp only: unfold list.map concat.simps case_prod_conv append_Nil2)
  qed
qed

text \<open>The loop of a running indexer syncs the ranges \<open>batches\<close> one after the other. They are
  consecutive and overlap nowhere: together they are the blocks from the start block to the last
  safe block, without that last block when the distance is a multiple of the batch size (the
  live sync picks it up).\<close>

theorem batches_cover:
  assumes "ix_running st" "lo < safe"
  shows "sync_loop env cfg lo safe st = sync_all env cfg (batches lo safe) st \<and>
    concat (map (\<lambda>(f, t). [f..t]) (batches lo safe)) =
     [lo..(if (safe - lo) mod batchSize = 0 then safe - 1 else safe)]"
  using sync_loop_batches [OF assms(1)] batches_upto [OF assms(2)] by blast

theorem batches_cover_witness:
  "sync_loop (demo_env 2506 []) demo_cfg 3 2500 ((new_indexer demo_cfg)\<lparr>ix_running := True\<rparr>) =
     sync_all (demo_env 2506 []) demo_cfg (batches 3 2500) ((new_indexer demo_cfg)\<lparr>ix_running := True\<rparr>) \<and>
   concat (map (\<lambda>(f, t). [f..t]) (batches 3 2500)) = [3..2500]"
  using batches_cover [of "(new_indexer demo_cfg)\<lparr>ix_running := True\<rparr>" 3 2500 "demo_env 2506 []" demo_cfg]
  by (simp add: batchSize_def)

text \<open>C5: When the historical sync of a running indexer returns, every log the provider returned for
  one of its ranges and that the ABI decodes is stored.\<close>

theorem historical_complete:
  assumes "syncHistorical env cfg st = (Inr (), st')" "ix_running st"
    and "en_getBlockNumber env = Inr latest"
    and "(f, t) \<in> set (batches (sync_start cfg st) (latest - cfg_confirmations cfg))"
    and "fetchLogs env (cfg_contracts cfg) f t = Inr logs" "l \<in> set logs" "decodable env cfg l"
  shows "lg_key l \<in> event_key ` set (stored_events st')"
proof -
  let ?safe = "latest - cfg_confirmations cfg"
  have "sync_start cfg st < ?safe"
    using assms(4) by (subst (asm) batches.simps) (auto split: if_splits)
  with assms(1-3) have "sync_all env cfg (batches (sync_start cfg st) ?safe) st = (Inr (), st')"
    by (simp add: syncHistorical_def act_bind_lift Let_def sync_loop_batches)
  from sync_all_complete [OF this assms(4-7)] show ?thesis .
qed

theorem historical_complete_witness:
  "lg_key (demo_log 5 1) \<in> event_key ` set (stored_events (snd (syncHistorical
      (demo_env 9 [demo_log 5 0, demo_log 5 1]) demo_cfg ((new_indexer demo_cfg)\<lparr>ix_running := True\<rparr>))))"
proof (rule historical_complete [where latest = 9 and f = 3 and t = 9 and logs = "[demo_log 5 0, demo_log 5 1]"])
  let ?st = "(new_indexer demo_cfg)\<lparr>ix_running := True\<rparr>"
  let ?env = "demo_env 9 [demo_log 5 0, demo_log 5 1]"
  have "fst (syncHistorical ?env demo_cfg ?st) = Inr ()" by code_simp
  then show "syncHistorical ?env demo_cfg ?st = (Inr (), snd (syncHistorical ?env demo_cfg ?st))"
    by (metis prod.collapse)
  show "(3, 9) \<in> set (batches (sync_start demo_cfg ?st) (9 - cfg_confirmations demo_cfg))" by code_simp
  show "decodable ?env demo_cfg (demo_log 5 1)" by code_simp
  show "fetchLogs ?env (cfg_contracts demo_cfg) 3 9 = Inr [demo_log 5 0, demo_log 5 1]"
    by (simp add: fetchLogs_def demo_cfg_def demo_env_def demo_log_def)
qed (simp_all add: demo_env_def)

end
