(* ===== verification/IndexerProcess.thy ===== *)
theory IndexerProcess
  imports IndexerConfig IndexerRuns
begin

text \<open>
  The process of \<open>indexer/src/index.ts\<close>: \<open>main\<close> builds the indexer from the environment, registers the
  logging handler and the interrupt handler and starts it; then the event loop delivers the interval
  timer, blocks of the socket and \<open>SIGINT\<close>. Numbers of the configuration that do not parse (\<open>NaN\<close>) are outside.
\<close>

section \<open>From the environment to the indexer\<close>

definition proper_contract :: "loaded_contract \<Rightarrow> contract_config option" where
  "proper_contract c = map_option (\<lambda>fromBlock.
     \<lparr>cc_name = lc_name c, cc_address = lc_address c, cc_abi = lc_abi c, cc_fromBlock = fromBlock\<rparr>) (lc_fromBlock c)"

definition proper_config :: "loaded_config \<Rightarrow> indexer_config option" where
  "proper_config d =
     (let contracts = map proper_contract (ld_contracts d) in
      case (ld_chainId d, ld_startBlock d, ld_checkpointInterval d, ld_maxReorgDepth d, ld_pollIntervalMs d, ld_confirmations d) of
        (Some chainId, Some startBlock, Some checkpointInterval, Some maxReorgDepth, Some pollIntervalMs, Some confirmations) \<Rightarrow>
          (if None \<in> set contracts then None
           else Some \<lparr>cfg_chainId = chainId, cfg_rpcUrl = ld_rpcUrl d, cfg_wsUrl = ld_wsUrl d, cfg_contracts = map the contracts,
             cfg_startBlock = startBlock, cfg_checkpointInterval = checkpointInterval, cfg_maxReorgDepth = maxReorgDepth,
             cfg_pollIntervalMs = pollIntervalMs, cfg_confirmations = confirmations\<rparr>)
      | _ \<Rightarrow> None)"

section \<open>The process\<close>

datatype process = Live indexer_state | Exited int
datatype process_event = PollTimer | SocketBlock int | Interrupt

definition log_event :: "indexed_event \<Rightarrow> unit res" where
  "log_event event = Inr ()"

definition process_start :: "indexer_config \<Rightarrow> eth_env \<Rightarrow> process" where
  "process_start cfg env =
     (case start env cfg (onEvent log_event (new_indexer cfg)) of
        (Inl err, st) \<Rightarrow> Exited 1
      | (Inr u, st) \<Rightarrow> Live st)"

text \<open>\<open>main\<close>; None: some number of the configuration is \<open>NaN\<close>.\<close>

definition process_main :: "process_env \<Rightarrow> eth_env \<Rightarrow> process option" where
  "process_main vars env = (case indexer_main vars of
     Inl code \<Rightarrow> Some (Exited code)
   | Inr d \<Rightarrow> map_option (\<lambda>cfg. process_start cfg env) (proper_config d))"

text \<open>A rejected promise in the interrupt handler would end the process with 1.\<close>

definition process_step :: "indexer_config \<Rightarrow> process \<Rightarrow> eth_env \<times> process_event \<Rightarrow> process" where
  "process_step cfg p ev = (case p of
     Exited code \<Rightarrow> Exited code
   | Live st \<Rightarrow> (case snd ev of
       PollTimer \<Rightarrow> Live (poll_tick (fst ev) cfg st)
     | SocketBlock n \<Rightarrow> Live (ws_tick (fst ev) cfg n st)
     | Interrupt \<Rightarrow> (case stop st of (Inl err, st') \<Rightarrow> Exited 1 | (Inr u, st') \<Rightarrow> Exited 0)))"

definition process_run :: "indexer_config \<Rightarrow> eth_env \<Rightarrow> (eth_env \<times> process_event) list \<Rightarrow> process" where
  "process_run cfg env events = foldl (process_step cfg) (process_start cfg env) events"

section \<open>Refinement to runs of the indexer\<close>

fun call_of :: "eth_env \<times> process_event \<Rightarrow> eth_env \<times> ix_call" where
  "call_of (env, PollTimer) = (env, CallPoll)"
| "call_of (env, SocketBlock n) = (env, CallBlock n)"
| "call_of (env, Interrupt) = (env, CallStop)"

lemma stop_succeeds: "fst (stop st) = Inr ()"
  by (simp add: stop_def disconnect_eq)

lemma process_steps [simp]:
  "process_step cfg (Exited c) ev = Exited c"
  "process_step cfg (Live st) (env, PollTimer) = Live (poll_tick env cfg st)"
  "process_step cfg (Live st) (env, SocketBlock n) = Live (ws_tick env cfg n st)"
  "process_step cfg (Live st) (env, Interrupt) = Exited 0"
  using stop_succeeds [of st] by (auto simp: process_step_def split: prod.splits sum.splits)

lemma exited_stays [simp]: "foldl (process_step cfg) (Exited c) events = Exited c"
  by (induction events) simp_all

lemma steps_from_live:
  "foldl (process_step cfg) (Live st) events =
     (if Interrupt \<in> snd ` set events then Exited 0 else Live (ix_run cfg (map call_of events) st))"
proof (induction events arbitrary: st)
  case (Cons ev events)
  obtain env e where "ev = (env, e)" by force
  with Cons show ?case by (cases e) (auto simp: ix_run_def)
qed (simp add: ix_run_def)


end
