(* ===== verification/IndexerLive.thy ===== *)
theory IndexerLive
  imports IndexerRuns
begin

text \<open>
  The live phase of the indexer: the cached checkpoint and the stored one agree, the
  checkpoint never runs ahead of the notified block, and three places where the live sync
  departs from what the code means to do: the configured start block, the empty block hash of
  an empty range, and events whose handler failed.
\<close>

section \<open>The checkpoint\<close>

lemma syncBlocks_coherent:
  "preserves (\<lambda>s. st_checkpoint s = ms_checkpoint (st_storage s)) (syncBlocks env cfg f t)"
proof (rule preservesI)
  fix st r st'
  assume inv: "st_checkpoint st = ms_checkpoint (st_storage st)"
    and run: "syncBlocks env cfg f t st = (r, st')"
  from syncBlocks_run [OF run] inv show "st_checkpoint st' = ms_checkpoint (st_storage st')"
    by (auto simp: sync_outcome_def mem_update_eq Let_def split: if_splits)
qed

lemma coherent_stable: "run_stable (\<lambda>s. st_checkpoint s = ms_checkpoint (st_storage s))"
  by (simp add: run_stable_def)

text \<open>After any run the checkpoint the manager has cached is the one in the storage.\<close>

theorem cache_matches_storage:
  "cm_get (ix_run cfg calls (new_indexer cfg)) =
     ms_checkpoint (st_storage (ix_run cfg calls (new_indexer cfg)))"
  unfolding cm_get_def
  by (rule ix_run_keeps [OF syncBlocks_coherent coherent_stable])
    (simp add: new_indexer_def empty_storage_def)

text \<open>The provider only returns logs of the blocks asked for.\<close>

definition env_ranged :: "indexer_config \<Rightarrow> eth_env \<Rightarrow> bool" where
  "env_ranged cfg env \<longleftrightarrow> (\<forall>f t logs l. fetchLogs env (cfg_contracts cfg) f t = Inr logs \<longrightarrow>
     l \<in> set logs \<longrightarrow> f \<le> lg_blockNumber l \<and> lg_blockNumber l \<le> t)"

lemma syncBlocks_checkpoint:
  assumes env: "env_ranged cfg env" and run: "syncBlocks env cfg f t st = (r, st')"
  shows "st_checkpoint st' = st_checkpoint st \<or> cm_getLastBlockNumber st' = t \<or>
    f \<le> cm_getLastBlockNumber st' \<and> cm_getLastBlockNumber st' \<le> t"
proof -
  from syncBlocks_run [OF run] consider "st' = st" | logs where
    "fetchLogs env (cfg_contracts cfg) f t = Inr logs" "sync_outcome env cfg t st logs r st'" by blast
  then show ?thesis
  proof cases
    case 2
    show ?thesis
    proof (cases "logs = []")
      case False
      with env 2(1) have "f \<le> lg_blockNumber (last logs)" "lg_blockNumber (last logs) \<le> t"
        unfolding env_ranged_def using last_in_set by blast+
      with 2(2) False show ?thesis
        by (auto simp: sync_outcome_def mem_update_eq Let_def cm_getLastBlockNumber_def)
    qed (use 2(2) in \<open>auto simp: sync_outcome_def mem_update_eq Let_def cm_getLastBlockNumber_def\<close>)
  qed simp
qed

text \<open>Processing block \<open>n\<close>, whether it ends normally or not and whether or not a reorg is
  reported, leaves the checkpoint where it was or at a block not after \<open>n\<close>.\<close>

theorem live_checkpoint_bound:
  assumes "env_ranged cfg env" "onNewBlock env cfg n st = (r, st')"
  shows "cm_getLastBlockNumber st' \<le> max (cm_getLastBlockNumber st) n"
proof -
  have sync: "cm_getLastBlockNumber st' \<le> max (cm_getLastBlockNumber st) n"
    if "syncBlocks env cfg f n st = (r, st')" for f
    using syncBlocks_checkpoint [OF assms(1) that] by (auto simp: cm_getLastBlockNumber_def)
  from assms(2) consider f where "syncBlocks env cfg f n st = (r, st')" | "st' = st"
    by (auto simp: onNewBlock_def act_bind_lift act_return_def Let_def
        split: sum.splits option.splits if_splits)
  then show ?thesis using sync by cases auto
qed

lemma demo_env_ranged: "env_ranged demo_cfg (demo_env head logs)"
  by (auto simp: env_ranged_def fetchLogs_def demo_cfg_def demo_env_def)

theorem live_checkpoint_bound_witness:
  "cm_getLastBlockNumber (snd (onNewBlock (demo_env 9 [demo_log 5 0]) demo_cfg 7 (new_indexer demo_cfg))) = 5 \<and>
   cm_getLastBlockNumber (snd (onNewBlock (demo_env 9 [demo_log 5 0]) demo_cfg 7 (new_indexer demo_cfg)))
     \<le> max (cm_getLastBlockNumber (new_indexer demo_cfg)) 7"
proof (rule conjI)
  show "cm_getLastBlockNumber (snd (onNewBlock (demo_env 9 [demo_log 5 0]) demo_cfg 7 (new_indexer demo_cfg)))
     \<le> max (cm_getLastBlockNumber (new_indexer demo_cfg)) 7"
    by (rule live_checkpoint_bound [OF demo_env_ranged]) (rule prod.collapse [symmetric])
qed code_simp

section \<open>Where the live sync departs from its intention\<close>

text \<open>When the configured start block is not yet safe at startup, the historical sync returns
  without writing a checkpoint, and the first live block makes the indexer read the whole chain
  from block 1: the start block is ignored.\<close>

theorem start_block_ignored:
  assumes "en_getBlockNumber env = Inr latest"
    and "latest - cfg_confirmations cfg \<le> cfg_startBlock cfg" and "1 \<le> n"
  shows "start env cfg (new_indexer cfg) = (Inr (), st) \<Longrightarrow>
    onNewBlock env2 cfg n st = syncBlocks env2 cfg 1 n st"
proof -
  assume run: "start env cfg (new_indexer cfg) = (Inr (), st)"
  let ?s1 = "(new_indexer cfg)\<lparr>ix_running := True, st_checkpoint := None\<rparr>"
  have "sync_start cfg ?s1 = cfg_startBlock cfg"
    by (simp add: sync_start_def cm_getLastBlockNumber_def)
  with assms(1,2) have "syncHistorical env cfg ?s1 = (Inr (), ?s1)"
    by (simp add: syncHistorical_def act_bind_lift act_return_def)
  with run have "st_checkpoint st = None"
    by (auto simp: start_def act_bind_def connect_eq mem_load_eq new_indexer_def empty_storage_def)
  with assms(3) show ?thesis
    by (simp add: onNewBlock_def cm_get_def cm_getLastBlockNumber_def act_bind_lift)
qed

theorem start_block_ignored_witness:
  "\<exists>st. start (demo_env 2 []) demo_cfg (new_indexer demo_cfg) = (Inr (), st) \<and>
     onNewBlock (demo_env 7 [demo_log 1 0]) demo_cfg 7 st = syncBlocks (demo_env 7 [demo_log 1 0]) demo_cfg 1 7 st \<and>
     cfg_startBlock demo_cfg = 3"
proof -
  let ?r = "start (demo_env 2 []) demo_cfg (new_indexer demo_cfg)"
  have "fst ?r = Inr ()" by code_simp
  then have run: "?r = (Inr (), snd ?r)" by (metis prod.collapse)
  have "onNewBlock (demo_env 7 [demo_log 1 0]) demo_cfg 7 (snd ?r) =
      syncBlocks (demo_env 7 [demo_log 1 0]) demo_cfg 1 7 (snd ?r)"
    by (rule start_block_ignored [where latest = 2, OF _ _ _ run]) (simp_all add: demo_env_def demo_cfg_def)
  with run show ?thesis by (auto simp: demo_cfg_def)
qed

text \<open>A range without logs is checkpointed with the empty hash, which no block has: the next
  live block is taken for a reorg at the checkpoint and the sync starts over from that block.\<close>

theorem empty_range_reported_as_reorg:
  assumes "syncBlocks env cfg f t st = (Inr (), st')"
    and "fetchLogs env (cfg_contracts cfg) f t = Inr []"
    and "en_getBlock env2 t = Inr (Some b)" "bk_hash b \<noteq> Some []"
    and "0 \<le> t" "1 \<le> cfg_maxReorgDepth cfg"
  shows "onNewBlock env2 cfg n st' = syncBlocks env2 cfg t n st'"
proof -
  from assms(1,2) have cp: "st_checkpoint st' =
      Some \<lparr>cp_blockNumber = t, cp_blockHash = [], cp_updatedAt = en_now env\<rparr>"
    by (auto simp: syncBlocks_def act_bind_lift mem_update_eq Let_def)
  have "nat (cfg_maxReorgDepth cfg) = Suc (nat (cfg_maxReorgDepth cfg - 1))"
    using assms(6) by simp
  with assms(3-5) cp show ?thesis
    by (simp add: onNewBlock_def cm_get_def detectReorg_def act_bind_lift Let_def)
qed

theorem empty_range_reported_as_reorg_witness:
  "\<exists>st. syncBlocks (demo_env 9 []) demo_cfg 3 9 (new_indexer demo_cfg) = (Inr (), st) \<and>
     onNewBlock (demo_env 12 []) demo_cfg 12 st = syncBlocks (demo_env 12 []) demo_cfg 9 12 st"
proof -
  let ?r = "syncBlocks (demo_env 9 []) demo_cfg 3 9 (new_indexer demo_cfg)"
  have "fst ?r = Inr ()" by code_simp
  then have run: "?r = (Inr (), snd ?r)" by (metis prod.collapse)
  have "onNewBlock (demo_env 12 []) demo_cfg 12 (snd ?r) = syncBlocks (demo_env 12 []) demo_cfg 9 12 (snd ?r)"
    by (rule empty_range_reported_as_reorg
          [where b = "\<lparr>bk_hash = Some (''h'' @ show_int 9), bk_timestamp = 9\<rparr>", OF run])
      (simp_all add: demo_env_def demo_cfg_def fetchLogs_def)
  with run show ?thesis by blast
qed

definition undelivered :: "nat \<Rightarrow> string \<Rightarrow> indexer_state \<Rightarrow> bool" where
  "undelivered i k st \<longleftrightarrow> k \<in> event_key ` set (stored_events st) \<and>
     (i, k) \<notin> delivery_key ` set (ix_delivered st)"

lemma syncBlocks_undelivered: "preserves (undelivered i k) (syncBlocks env cfg f t)"
proof (rule preservesI)
  fix st r st'
  assume un: "undelivered i k st" and run: "syncBlocks env cfg f t st = (r, st')"
  from syncBlocks_run [OF run] consider "st' = st" | logs where
    "fetchLogs env (cfg_contracts cfg) f t = Inr logs" "sync_outcome env cfg t st logs r st'" by blast
  then show "undelivered i k st'"
  proof cases
    case 2
    show ?thesis
    proof (cases "logs = []")
      case True
      with 2(2) un show ?thesis
        by (auto simp: sync_outcome_def mem_update_eq Let_def undelivered_def)
    next
      case False
      with 2(2) obtain es ds rest where
        p: "processLogs mem_adapter env (cfg_contracts cfg) logs (cfg_chainId cfg) (st_storage st) =
              (Inr es, st_storage st)"
        and ds: "ds @ rest = deliveries (length (ix_handlers st)) es"
        and st': "stored_events st' = stored_events st @ es" "ix_delivered st' = ix_delivered st @ ds"
        by (auto simp: sync_outcome_def mem_update_eq Let_def)
      have "set ds \<subseteq> set (deliveries (length (ix_handlers st)) es)" unfolding ds [symmetric] by simp
      then have "snd d \<in> set es" if "d \<in> set ds" for d using that by (auto simp: set_deliveries)
      moreover have "k \<notin> event_key ` set es"
        using mem.processLogs_fresh(1) [OF p] un unfolding undelivered_def by (metis imageE)
      ultimately have "(i, k) \<notin> delivery_key ` set ds" by (auto simp: delivery_key_def)
      with un st' show ?thesis by (auto simp: undelivered_def)
    qed
  qed (use un in simp)
qed

lemma undelivered_stable: "run_stable (undelivered i k)"
  by (simp add: run_stable_def undelivered_def)

text \<open>C10: Events are stored before the handlers run. An event that was stored without reaching a
  handler, because an earlier handler call of its batch threw, is never delivered to that
  handler: every retry finds the event stored and skips it.\<close>

theorem failed_delivery_never_retried:
  assumes "undelivered i k st"
  shows "undelivered i k (ix_run cfg calls st)"
  by (rule ix_run_keeps [OF syncBlocks_undelivered undelivered_stable assms])

theorem failed_delivery_never_retried_witness:
  "undelivered 0 ''t5:1'' (ix_run demo_cfg
     [(demo_env 9 [demo_log 5 0, demo_log 5 1], CallPoll), (demo_env 12 [demo_log 5 0, demo_log 5 1], CallBlock 12)]
     (snd (start (demo_env 9 [demo_log 5 0, demo_log 5 1]) demo_cfg
        (onEvent (\<lambda>e. throw_error ''handler down'') (new_indexer demo_cfg)))))"
  by (rule failed_delivery_never_retried) code_simp

end
