(* ===== verification/Overlap.thy ===== *)
theory Overlap
  imports IndexerRuns
begin

text \<open>
  Overlapping callbacks of the indexer. Nothing stops the interval callback and the socket
  callback of \<open>indexer/src/indexer.ts\<close> from running \<open>onNewBlock\<close> at the same time: each
  \<open>await\<close> hands control to the other. A call in flight is a \<open>sync_task\<close>, the place it is
  suspended at, and \<open>task_step\<close> runs it to the next \<open>await\<close> on shared state. Steps that touch
  no shared state between two such places (the requests of \<open>fetchLogs\<close> and \<open>detectReorg\<close>,
  the \<open>log.getBlock()\<close> of each log) are one step. A single task refines to \<open>onNewBlock\<close> of
  \<open>Indexer\<close>; two tasks may store one log twice.
\<close>

section \<open>Calls in flight\<close>

datatype sync_task =
    TNew int                                     \<comment> \<open>before the reorg check\<close>
  | TRange int                                   \<comment> \<open>no reorg: before the second checkpoint read\<close>
  | TFetch int int                               \<comment> \<open>before \<open>fetchLogs\<close>\<close>
  | TDuplicates "eth_log list"                   \<comment> \<open>before \<open>getDuplicateEvents\<close>\<close>
  | TDecode "eth_log list" "string set"
  | TPersist "eth_log list" "indexed_event list"
  | THandle "eth_log list" "indexed_event list"
  | TUpdate int string                           \<comment> \<open>before \<open>checkpoint.update\<close>\<close>
  | TDone
  | TFailed js_error

fun task_step :: "eth_env \<Rightarrow> indexer_config \<Rightarrow> sync_task \<Rightarrow> indexer_state \<Rightarrow> sync_task \<times> indexer_state" where
  "task_step env cfg (TNew n) st =
     (case cm_get st of None \<Rightarrow> (TRange n, st)
      | Some cp \<Rightarrow> (case detectReorg env cp (cfg_maxReorgDepth cfg) of
          Inl e \<Rightarrow> (TFailed e, st)
        | Inr (Some reorgBlock) \<Rightarrow> (TFetch reorgBlock n, st)
        | Inr None \<Rightarrow> (TRange n, st)))"
| "task_step env cfg (TRange n) st =
     (let fromBlock = cm_getLastBlockNumber st + 1 in
      if fromBlock \<le> n then (TFetch fromBlock n, st) else (TDone, st))"
| "task_step env cfg (TFetch f t) st =
     (case fetchLogs env (cfg_contracts cfg) f t of
        Inl e \<Rightarrow> (TFailed e, st)
      | Inr logs \<Rightarrow> if logs = [] then (TUpdate t [], st) else (TDuplicates logs, st))"
| "task_step env cfg (TDuplicates logs) st =
     (case with_storage (sa_getDuplicateEvents mem_adapter (map lg_transactionHash logs)) st of
        (Inl e, st') \<Rightarrow> (TFailed e, st')
      | (Inr D, st') \<Rightarrow> (TDecode logs D, st'))"
| "task_step env cfg (TDecode logs D) st =
     (case traverse (process_log env (cfg_contracts cfg) (cfg_chainId cfg) D) logs of
        Inl e \<Rightarrow> (TFailed e, st)
      | Inr found \<Rightarrow> (TPersist logs (collect_somes found), st))"
| "task_step env cfg (TPersist logs es) st =
     (case with_storage (persistEvents mem_adapter es) st of
        (Inl e, st') \<Rightarrow> (TFailed e, st')
      | (Inr u, st') \<Rightarrow> (THandle logs es, st'))"
| "task_step env cfg (THandle logs es) st =
     (case runHandlers es st of
        (Inl e, st') \<Rightarrow> (TFailed e, st')
      | (Inr u, st') \<Rightarrow> (TUpdate (lg_blockNumber (last logs)) (lg_blockHash (last logs)), st'))"
| "task_step env cfg (TUpdate n h) st =
     (case cm_update mem_adapter (en_now env) n h st of
        (Inl e, st') \<Rightarrow> (TFailed e, st')
      | (Inr u, st') \<Rightarrow> (TDone, st'))"
| "task_step env cfg TDone st = (TDone, st)"
| "task_step env cfg (TFailed e) st = (TFailed e, st)"

fun task_run :: "nat \<Rightarrow> eth_env \<Rightarrow> indexer_config \<Rightarrow> sync_task \<Rightarrow> indexer_state \<Rightarrow> sync_task \<times> indexer_state" where
  "task_run 0 env cfg task st = (task, st)"
| "task_run (Suc k) env cfg task st =
     (case task_step env cfg task st of (task', st') \<Rightarrow> task_run k env cfg task' st')"

definition task_of :: "unit res \<Rightarrow> sync_task" where
  "task_of r = (case r of Inl e \<Rightarrow> TFailed e | Inr u \<Rightarrow> TDone)"

text \<open>Several calls in flight: a schedule names the task that continues next.\<close>

fun overlap_run :: "indexer_config \<Rightarrow> nat list \<Rightarrow> (eth_env \<times> sync_task) list \<times> indexer_state \<Rightarrow>
    (eth_env \<times> sync_task) list \<times> indexer_state" where
  "overlap_run cfg [] (tasks, st) = (tasks, st)"
| "overlap_run cfg (i # schedule) (tasks, st) =
     (if i < length tasks
      then (case task_step (fst (tasks ! i)) cfg (snd (tasks ! i)) st of
              (task', st') \<Rightarrow> overlap_run cfg schedule (tasks[i := (fst (tasks ! i), task')], st'))
      else overlap_run cfg schedule (tasks, st))"

section \<open>One task alone is the method\<close>

lemma task_run_done [simp]: "task_run k env cfg TDone st = (TDone, st)"
  by (induction k) simp_all

lemma task_run_failed [simp]: "task_run k env cfg (TFailed e) st = (TFailed e, st)"
  by (induction k) simp_all

lemma task_run_snoc:
  "task_run (Suc k) env cfg task st =
     (case task_run k env cfg task st of (task', st') \<Rightarrow> task_step env cfg task' st')"
proof (induction k arbitrary: task st)
  case (Suc k)
  obtain task' st' where step: "task_step env cfg task st = (task', st')" by fastforce
  have "task_run (Suc (Suc k)) env cfg task st = task_run (Suc k) env cfg task' st'"
    by (simp add: step)
  also have "\<dots> = (case task_run k env cfg task' st' of (task'', st'') \<Rightarrow> task_step env cfg task'' st'')"
    by (rule Suc.IH)
  finally show ?case by (simp add: step)
qed (simp split: prod.split)

lemma task_run_update:
  "task_run (Suc k) env cfg (TUpdate n h) st =
     (case cm_update mem_adapter (en_now env) n h st of (r, st') \<Rightarrow> (task_of r, st'))"
  by (simp add: task_of_def split: prod.split sum.split)

lemma task_run_handle:
  "task_run (Suc (Suc k)) env cfg (THandle logs es) st =
     (case act_bind (runHandlers es) (\<lambda>u. cm_update mem_adapter (en_now env)
         (lg_blockNumber (last logs)) (lg_blockHash (last logs))) st of (r, st') \<Rightarrow> (task_of r, st'))"
  by (subst task_run.simps)
    (auto simp: act_bind_def task_of_def task_run_update simp del: task_run.simps split: prod.split sum.split)

lemma task_run_fetch:
  "task_run 6 env cfg (TFetch f t) st =
     (case syncBlocks env cfg f t st of (r, st') \<Rightarrow> (task_of r, st'))"
proof (cases "fetchLogs env (cfg_contracts cfg) f t")
  case (Inl e)
  then show ?thesis
    by (simp add: eval_nat_numeral syncBlocks_def act_bind_lift task_of_def)
next
  case (Inr logs)
  show ?thesis
  proof (cases "logs = []")
    case True
    have "task_run 6 env cfg (TFetch f t) st = task_run (Suc 4) env cfg (TUpdate t []) st"
      using Inr True by (simp add: eval_nat_numeral)
    then show ?thesis using Inr True by (simp only: task_run_update) (simp add: syncBlocks_def act_bind_lift)
  next
    case False
    let ?D = "event_key ` set (stored_events st)"
    have dup: "with_storage (sa_getDuplicateEvents mem_adapter txs) st = (Inr ?D, st)" for txs
      by (cases st) (simp add: with_storage_def mem_adapter_def mem_getDuplicateEvents_eq)
    show ?thesis
    proof (cases "traverse (process_log env (cfg_contracts cfg) (cfg_chainId cfg) ?D) logs")
      case (Inl e)
      have "task_run 6 env cfg (TFetch f t) st = (TFailed e, st)"
        using Inr False Inl dup by (simp add: eval_nat_numeral)
      moreover have "syncBlocks env cfg f t st = (Inl e, st)"
        using Inr False Inl by (cases st)
          (simp add: syncBlocks_def act_bind_def act_lift_def with_storage_def mem_processLogs_eq)
      ultimately show ?thesis by (simp add: task_of_def)
    next
      case found: (Inr found)
      let ?es = "collect_somes found"
      let ?s1 = "st\<lparr>st_storage := (st_storage st)\<lparr>ms_events := stored_events st @ ?es\<rparr>\<rparr>"
      have "task_run 6 env cfg (TFetch f t) st = task_run (Suc (Suc 0)) env cfg (THandle logs ?es) ?s1"
        using Inr False found dup
        by (simp add: eval_nat_numeral with_storage_def mem_persistEvents_eq)
      moreover have "syncBlocks env cfg f t st = act_bind (runHandlers ?es) (\<lambda>u. cm_update mem_adapter
          (en_now env) (lg_blockNumber (last logs)) (lg_blockHash (last logs))) ?s1"
        using Inr False found
        by (simp add: syncBlocks_def act_bind_def act_lift_def with_storage_def mem_processLogs_eq
            mem_persistEvents_eq)
      ultimately show ?thesis by (simp only: task_run_handle)
    qed
  qed
qed


section \<open>Two overlapping calls\<close>


end
