(* ===== verification/MetaTxContract.thy ===== *)
theory MetaTxContract
  imports JsCollections "HOL-Library.Word"
begin

text \<open>
  \<open>contracts/MetaTxExample.sol\<close>, the contract the meta-transaction service talks to. Addresses
  are 160 bit words, amounts, nonces, deadlines and hashes 256 bit words; arithmetic is checked
  (Solidity 0.8), a failing \<open>require\<close> reverts: the result is the error and the state is the
  one before the call. Keccak hashing of the typed data and signature recovery are the
  parameter \<open>mt_crypto\<close>.
\<close>

type_synonym addr = "160 word"
type_synonym u256 = "256 word"

record mt_crypto =
  cr_digest :: "addr \<Rightarrow> addr \<Rightarrow> u256 \<Rightarrow> u256 \<Rightarrow> u256 \<Rightarrow> u256"
    \<comment> \<open>from, to, amount, nonce, deadline: \<open>_hashTypedDataV4\<close> of the struct hash\<close>
  cr_recover :: "u256 \<Rightarrow> string \<Rightarrow> addr option"   \<comment> \<open>\<open>ECDSA.recover\<close>; \<open>None\<close> is its revert\<close>

datatype mt_event = TransferExecuted addr addr u256 u256 | NonceIncremented addr u256

record mt_contract =
  mt_nonces :: "addr \<Rightarrow> u256"
  mt_used :: "u256 \<Rightarrow> bool"
  mt_log :: "mt_event list"

definition new_contract :: mt_contract where
  "new_contract = \<lparr>mt_nonces = (\<lambda>a. 0), mt_used = (\<lambda>d. False), mt_log = []\<rparr>"

definition revert :: "string \<Rightarrow> 'a res" where
  "revert reason = Inl (JsError ''revert'' reason)"

definition mt_getNonce :: "addr \<Rightarrow> mt_contract \<Rightarrow> u256" where
  "mt_getNonce user c = mt_nonces c user"

definition mt_emit :: "mt_event list \<Rightarrow> mt_contract \<Rightarrow> mt_contract" where
  "mt_emit es c = c\<lparr>mt_log := mt_log c @ es\<rparr>"

text \<open>The internal \<open>_executeTransfer\<close>: the placeholder only checks its arguments.\<close>

definition mt_checkTransfer :: "addr \<Rightarrow> addr \<Rightarrow> u256 \<Rightarrow> unit res" where
  "mt_checkTransfer sender to amount =
     (if sender = 0 then revert ''Invalid sender''
      else if to = 0 then revert ''Invalid recipient''
      else if amount = 0 then revert ''Invalid amount''
      else Inr ())"

definition executeTransfer :: "mt_crypto \<Rightarrow> u256 \<Rightarrow> addr \<Rightarrow> addr \<Rightarrow> u256 \<Rightarrow> u256 \<Rightarrow> string \<Rightarrow>
    (mt_contract, unit) action" where
  "executeTransfer cr timestamp sender to amount deadline signature c =
     (if \<not> timestamp \<le> deadline then (revert ''Signature expired'', c)
      else let currentNonce = mt_nonces c sender;
               digest = cr_digest cr sender to amount currentNonce deadline in
        if mt_used c digest then (revert ''Signature already used'', c)
        else case cr_recover cr digest signature of
          None \<Rightarrow> (revert ''ECDSAInvalidSignature'', c)
        | Some signer \<Rightarrow>
            if signer \<noteq> sender then (revert ''Invalid signature'', c)
            else if currentNonce = -1 then (revert ''Panic(0x11)'', c)
            else case mt_checkTransfer sender to amount of
              Inl e \<Rightarrow> (Inl e, c)
            | Inr u \<Rightarrow> (Inr (), mt_emit [TransferExecuted sender to amount currentNonce,
                                     NonceIncremented sender (currentNonce + 1)]
                (c\<lparr>mt_used := (mt_used c)(digest := True),
                   mt_nonces := (mt_nonces c)(sender := currentNonce + 1)\<rparr>)))"

text \<open>\<open>transfer\<close>: the event's last argument is \<open>nonces[sender]++\<close>, its value before the increment.\<close>

definition mt_transfer :: "addr \<Rightarrow> addr \<Rightarrow> u256 \<Rightarrow> (mt_contract, unit) action" where
  "mt_transfer sender to amount c =
     (case mt_checkTransfer sender to amount of
        Inl e \<Rightarrow> (Inl e, c)
      | Inr u \<Rightarrow> if mt_nonces c sender = -1 then (revert ''Panic(0x11)'', c)
          else (Inr (), mt_emit [TransferExecuted sender to amount (mt_nonces c sender)]
             (c\<lparr>mt_nonces := (mt_nonces c)(sender := mt_nonces c sender + 1)\<rparr>)))"

section \<open>One call\<close>

lemma executeTransfer_Inr:
  assumes "executeTransfer cr now f t a d s c = (Inr u, c')"
  shows "now \<le> d" and "\<not> mt_used c (cr_digest cr f t a (mt_nonces c f) d)"
    and "cr_recover cr (cr_digest cr f t a (mt_nonces c f) d) s = Some f"
    and "mt_nonces c f \<noteq> -1" and "f \<noteq> 0" and "t \<noteq> 0" and "a \<noteq> 0"
    and "mt_nonces c' = (mt_nonces c)(f := mt_nonces c f + 1)"
    and "mt_used c' = (mt_used c)(cr_digest cr f t a (mt_nonces c f) d := True)"
    and "mt_log c' = mt_log c @ [TransferExecuted f t a (mt_nonces c f), NonceIncremented f (mt_nonces c f + 1)]"
  using assms
  by (auto simp: executeTransfer_def Let_def revert_def mt_checkTransfer_def mt_emit_def
      split: if_splits option.splits sum.splits)

lemma executeTransfer_Inl: "executeTransfer cr now f t a d s c = (Inl e, c') \<Longrightarrow> c' = c"
  by (auto simp: executeTransfer_def Let_def split: if_splits option.splits sum.splits)

lemma executeTransfer_ok:
  assumes "now \<le> d" "\<not> mt_used c (cr_digest cr f t a (mt_nonces c f) d)"
    and "cr_recover cr (cr_digest cr f t a (mt_nonces c f) d) s = Some f"
    and "mt_nonces c f \<noteq> -1" "f \<noteq> 0" "t \<noteq> 0" "a \<noteq> 0"
  shows "\<exists>c'. executeTransfer cr now f t a d s c = (Inr (), c')"
  using assms by (simp add: executeTransfer_def Let_def mt_checkTransfer_def)

lemma unat_nonce_Suc:
  fixes n :: u256
  assumes "n \<noteq> -1"
  shows "unat (n + 1) = Suc (unat n)"
proof -
  have "1 + n \<noteq> 0" using assms by (simp add: add_eq_0_iff)
  from unatSuc [OF this] show ?thesis by (simp only: add.commute)
qed

lemma mt_transfer_Inr:
  assumes "mt_transfer f t a c = (Inr u, c')"
  shows "mt_nonces c f \<noteq> -1" and "mt_nonces c' = (mt_nonces c)(f := mt_nonces c f + 1)"
    and "mt_used c' = mt_used c" and "mt_log c' = mt_log c @ [TransferExecuted f t a (mt_nonces c f)]"
  using assms
  by (auto simp: mt_transfer_def mt_emit_def revert_def split: if_splits sum.splits)

section \<open>All calls\<close>

datatype mt_call =
    CallExecute u256 addr addr u256 u256 string   \<comment> \<open>block timestamp and arguments\<close>
  | CallTransfer addr addr u256

fun mt_exec :: "mt_crypto \<Rightarrow> mt_call \<Rightarrow> (mt_contract, unit) action" where
  "mt_exec cr (CallExecute now f t a d s) c = executeTransfer cr now f t a d s c"
| "mt_exec cr (CallTransfer f t a) c = mt_transfer f t a c"

definition mt_run :: "mt_crypto \<Rightarrow> mt_call list \<Rightarrow> mt_contract \<Rightarrow> mt_contract" where
  "mt_run cr calls c = fold (\<lambda>call c. snd (mt_exec cr call c)) calls c"

text \<open>The digests of the executed meta-transactions, in order, and the number of transfers an
  account has made, either way.\<close>

fun executed_digests :: "mt_crypto \<Rightarrow> mt_call list \<Rightarrow> mt_contract \<Rightarrow> u256 list" where
  "executed_digests cr [] c = []"
| "executed_digests cr (call # calls) c =
     (case call of
        CallExecute now f t a d s \<Rightarrow>
          (case mt_exec cr call c of
             (Inl e, c') \<Rightarrow> executed_digests cr calls c'
           | (Inr u, c') \<Rightarrow> cr_digest cr f t a (mt_nonces c f) d # executed_digests cr calls c')
      | CallTransfer f t a \<Rightarrow> executed_digests cr calls (snd (mt_exec cr call c)))"

definition transfers_of :: "addr \<Rightarrow> mt_event list \<Rightarrow> nat" where
  "transfers_of f es = length (filter (\<lambda>e. case e of TransferExecuted g t a n \<Rightarrow> g = f | _ \<Rightarrow> False) es)"

lemma transfers_of_append [simp]: "transfers_of f (es @ ds) = transfers_of f es + transfers_of f ds"
  by (simp add: transfers_of_def)

definition nonce_inv :: "mt_contract \<Rightarrow> bool" where
  "nonce_inv c \<longleftrightarrow> (\<forall>f. unat (mt_nonces c f) = transfers_of f (mt_log c))"

lemma mt_exec_nonce_inv:
  assumes "nonce_inv c"
  shows "nonce_inv (snd (mt_exec cr call c))"
proof -
  obtain r c' where run: "mt_exec cr call c = (r, c')" by fastforce
  show ?thesis
  proof (cases r)
    case (Inl e)
    with run have "c' = c"
      by (cases call)
        (auto dest: executeTransfer_Inl simp: mt_transfer_def split: sum.splits if_splits)
    with run assms show ?thesis by simp
  next
    case (Inr u)
    have "unat (mt_nonces c' g) = transfers_of g (mt_log c')" for g
    proof (cases call)
      case (CallExecute now f t a d s)
      with run Inr have "executeTransfer cr now f t a d s c = (Inr u, c')" by simp
      from executeTransfer_Inr(4,8,10) [OF this] assms unat_nonce_Suc show ?thesis
        by (auto simp: nonce_inv_def transfers_of_def)
    next
      case (CallTransfer f t a)
      with run Inr have "mt_transfer f t a c = (Inr u, c')" by simp
      from mt_transfer_Inr(1,2,4) [OF this] assms unat_nonce_Suc show ?thesis
        by (auto simp: nonce_inv_def transfers_of_def)
    qed
    with run show ?thesis by (simp add: nonce_inv_def)
  qed
qed

lemma mt_exec_used_mono: "mt_used c d \<Longrightarrow> mt_used (snd (mt_exec cr call c)) d"
  by (cases call) (auto simp: executeTransfer_def Let_def mt_transfer_def mt_emit_def
      split: option.split sum.split)

lemma executed_fresh:
  "d \<in> set (executed_digests cr calls c) \<Longrightarrow> \<not> mt_used c d"
proof (induction cr calls c rule: executed_digests.induct)
  case (2 cr call calls c)
  obtain r c' where run: "mt_exec cr call c = (r, c')" by fastforce
  have later: "\<not> mt_used c d" if "d \<in> set (executed_digests cr calls c')"
    using that 2 run mt_exec_used_mono [of c d cr call]
    by (cases call; cases r) (auto split: prod.splits)
  show ?case
  proof (cases call)
    case (CallTransfer f t a)
    with 2(4) run later show ?thesis by simp
  next
    case (CallExecute now f t a d' s)
    show ?thesis
    proof (cases r)
      case (Inl e)
      with CallExecute 2(4) run later show ?thesis by simp
    next
      case (Inr u)
      with CallExecute run have "executeTransfer cr now f t a d' s c = (Inr u, c')" by simp
      from executeTransfer_Inr(2) [OF this] CallExecute Inr 2(4) run later show ?thesis by auto
    qed
  qed
qed simp

lemma executed_distinct: "distinct (executed_digests cr calls c)"
proof (induction cr calls c rule: executed_digests.induct)
  case (2 cr call calls c)
  obtain r c' where run: "mt_exec cr call c = (r, c')" by fastforce
  show ?case
  proof (cases call)
    case (CallTransfer f t a)
    with 2 run show ?thesis by simp
  next
    case (CallExecute now f t a d s)
    show ?thesis
    proof (cases r)
      case (Inl e)
      with CallExecute 2 run show ?thesis by simp
    next
      case (Inr u)
      with CallExecute run have "executeTransfer cr now f t a d s c = (Inr u, c')" by simp
      from executeTransfer_Inr(9) [OF this]
      have "mt_used c' (cr_digest cr f t a (mt_nonces c f) d)" by simp
      with executed_fresh have "cr_digest cr f t a (mt_nonces c f) d \<notin> set (executed_digests cr calls c')"
        by blast
      with CallExecute Inr 2 run show ?thesis by simp
    qed
  qed
qed simp

lemma mt_run_nonce_inv: "nonce_inv c \<Longrightarrow> nonce_inv (mt_run cr calls c)"
  unfolding mt_run_def by (induction calls arbitrary: c) (simp_all add: mt_exec_nonce_inv)

text \<open>C3: Whatever calls reach the contract, in any order and with any arguments, no signed
  message is executed twice, and the nonce of an account is the number of its transfers.\<close>

theorem no_replay:
  "distinct (executed_digests cr calls new_contract) \<and>
   unat (mt_getNonce f (mt_run cr calls new_contract)) =
     transfers_of f (mt_log (mt_run cr calls new_contract))"
proof -
  have "nonce_inv new_contract" by (simp add: nonce_inv_def new_contract_def transfers_of_def)
  then show ?thesis
    using mt_run_nonce_inv executed_distinct by (auto simp: nonce_inv_def mt_getNonce_def)
qed

end
