(* ===== verification/MetaTx.thy ===== *)
theory MetaTx
  imports MetaTxContract
begin

text \<open>
  \<open>meta-tx/meta-tx.service.ts\<close>: the relay service. What it uses of the \<open>ethers\<close> package and of
  the node (contract calls, typed-data hashing, signature recovery) is the parameter
  \<open>eth_client\<close>; the locale \<open>relay_chain\<close> states what the service relies on, and
  \<open>contract_client\<close> provides it from the model of \<open>MetaTxExample\<close>.
\<close>

section \<open>Data\<close>

record typed_domain =
  dm_name :: string
  dm_version :: string
  dm_chainId :: int
  dm_verifyingContract :: string

record transfer_value =
  tv_from :: string
  tv_to :: string
  tv_amount :: int
  tv_nonce :: int
  tv_deadline :: int

type_synonym typed_fields = "(string \<times> (string \<times> string) list) list"

record prepared_transfer =
  pr_domain :: typed_domain
  pr_types :: typed_fields
  pr_value :: transfer_value
  pr_typeHash :: string

record tx_receipt =
  rc_hash :: string
  rc_blockNumber :: int
  rc_gasUsed :: "int option"

record 's eth_client =
  ec_getNetwork :: "int res"                                   \<comment> \<open>chain id\<close>
  ec_getNonce :: "string \<Rightarrow> string \<Rightarrow> 's \<Rightarrow> int res"          \<comment> \<open>contract, user\<close>
  ec_usedSignatures :: "string \<Rightarrow> string \<Rightarrow> 's \<Rightarrow> bool res"
  ec_executeTransfer :: "string \<Rightarrow> string \<Rightarrow> string \<Rightarrow> int \<Rightarrow> int \<Rightarrow> string \<Rightarrow> ('s, tx_receipt option) action"
    \<comment> \<open>the transaction sent by the relayer and awaited\<close>
  ec_id :: "string \<Rightarrow> string"
  ec_hash :: "typed_domain \<Rightarrow> typed_fields \<Rightarrow> transfer_value \<Rightarrow> string res"
  ec_recoverAddress :: "string \<Rightarrow> string \<Rightarrow> string res"

record meta_tx_service =
  sv_rpcUrl :: string
  sv_relayerKey :: string
  sv_contractAddress :: string

definition service_types :: typed_fields where
  "service_types = [(''Transfer'', [(''from'', ''address''), (''to'', ''address''),
     (''amount'', ''uint256''), (''nonce'', ''uint256''), (''deadline'', ''uint256'')])]"

section \<open>Operations\<close>

text \<open>The constructor; \<open>mkWallet\<close> is \<open>new ethers.Wallet\<close>, which rejects a malformed key.\<close>

definition new_service :: "(string \<Rightarrow> unit res) \<Rightarrow> string option \<Rightarrow> string option \<Rightarrow> string option \<Rightarrow>
    meta_tx_service res" where
  "new_service mkWallet RPC_URL RELAYER_KEY CONTRACT_ADDRESS =
     (if \<not> truthy_str RPC_URL then throw_error ''RPC_URL environment variable is required''
      else if \<not> truthy_str RELAYER_KEY then throw_error ''RELAYER_KEY environment variable is required''
      else if \<not> truthy_str CONTRACT_ADDRESS then throw_error ''CONTRACT_ADDRESS environment variable is required''
      else res_bind (mkWallet (the RELAYER_KEY)) (\<lambda>u. Inr \<lparr>sv_rpcUrl = the RPC_URL,
             sv_relayerKey = the RELAYER_KEY, sv_contractAddress = the CONTRACT_ADDRESS\<rparr>))"

definition transfer_domain :: "meta_tx_service \<Rightarrow> int \<Rightarrow> typed_domain" where
  "transfer_domain sv chainId = \<lparr>dm_name = ''MetaTxExample'', dm_version = ''1'', dm_chainId = chainId,
     dm_verifyingContract = sv_contractAddress sv\<rparr>"

definition prepareTransfer :: "'s eth_client \<Rightarrow> meta_tx_service \<Rightarrow> string \<Rightarrow> string \<Rightarrow> int \<Rightarrow> int \<Rightarrow> 's \<Rightarrow>
    prepared_transfer res" where
  "prepareTransfer E sv sender to amount deadline s =
     res_bind (ec_getNetwork E) (\<lambda>chainId.
     res_bind (ec_getNonce E (sv_contractAddress sv) sender s) (\<lambda>nonce.
       Inr \<lparr>pr_domain = transfer_domain sv chainId, pr_types = service_types,
         pr_value = \<lparr>tv_from = sender, tv_to = to, tv_amount = amount, tv_nonce = nonce, tv_deadline = deadline\<rparr>,
         pr_typeHash = ec_id E ''Transfer(address from,address to,uint256 amount,uint256 nonce,uint256 deadline)''\<rparr>))"

definition verifySignature :: "'s eth_client \<Rightarrow> typed_domain \<Rightarrow> transfer_value \<Rightarrow> string \<Rightarrow> string res" where
  "verifySignature E dm val signature =
     (case res_bind (ec_hash E dm service_types val) (\<lambda>digest. ec_recoverAddress E digest signature) of
        Inl error \<Rightarrow> throw_error (''Signature verification failed: '' @ show_error error)
      | Inr signer \<Rightarrow> Inr signer)"

definition relayTransaction :: "'s eth_client \<Rightarrow> meta_tx_service \<Rightarrow> string \<Rightarrow> string \<Rightarrow> int \<Rightarrow> int \<Rightarrow> string \<Rightarrow>
    ('s, tx_receipt option) action" where
  "relayTransaction E sv sender to amount deadline signature s =
     act_bind (act_lift (prepareTransfer E sv sender to amount deadline s)) (\<lambda>p.
     act_bind (act_lift (verifySignature E (pr_domain p) (pr_value p) signature)) (\<lambda>recoveredSigner s.
       if to_lower recoveredSigner \<noteq> to_lower sender
       then (throw_error ''Invalid signature: recovered signer does not match sender'', s)
       else case ec_executeTransfer E (sv_contractAddress sv) sender to amount deadline signature s of
         (Inl error, s') \<Rightarrow> (throw_error (''Transaction relay failed: '' @ show_error error), s')
       | (Inr receipt, s') \<Rightarrow> (Inr receipt, s'))) s"

definition sv_getNonce :: "'s eth_client \<Rightarrow> meta_tx_service \<Rightarrow> string \<Rightarrow> 's \<Rightarrow> int res" where
  "sv_getNonce E sv address s = ec_getNonce E (sv_contractAddress sv) address s"

definition isSignatureUsed :: "'s eth_client \<Rightarrow> meta_tx_service \<Rightarrow> string \<Rightarrow> 's \<Rightarrow> bool res" where
  "isSignatureUsed E sv digest s = ec_usedSignatures E (sv_contractAddress sv) digest s"

section \<open>What the service relies on\<close>

text \<open>A failed transaction changes nothing; an executed one moves the sender's nonce by one and no
  nonce backwards.\<close>

locale relay_chain =
  fixes E :: "'s eth_client"
    and ca :: string
  assumes exec_failed: "ec_executeTransfer E ca f t a d sig s = (Inl e, s') \<Longrightarrow> s' = s"
    and exec_nonce: "ec_executeTransfer E ca f t a d sig s = (Inr r, s') \<Longrightarrow>
      \<exists>n. ec_getNonce E ca f s = Inr n \<and> ec_getNonce E ca f s' = Inr (n + 1)"
    and exec_mono: "ec_executeTransfer E ca f t a d sig s = (Inr r, s') \<Longrightarrow>
      ec_getNonce E ca g s = Inr n \<Longrightarrow> \<exists>m. ec_getNonce E ca g s' = Inr m \<and> n \<le> m"

text \<open>The signature verifies, for the sender, the transfer with this nonce.\<close>

definition signed_for :: "'s eth_client \<Rightarrow> meta_tx_service \<Rightarrow> string \<Rightarrow> string \<Rightarrow> int \<Rightarrow> int \<Rightarrow> string \<Rightarrow> int \<Rightarrow> bool" where
  "signed_for E sv sender to amount deadline signature nonce =
     (case ec_getNetwork E of Inl e \<Rightarrow> False | Inr chainId \<Rightarrow>
        (case verifySignature E (transfer_domain sv chainId)
            \<lparr>tv_from = sender, tv_to = to, tv_amount = amount, tv_nonce = nonce, tv_deadline = deadline\<rparr>
            signature of Inl e \<Rightarrow> False | Inr signer \<Rightarrow> to_lower signer = to_lower sender))"

context relay_chain
begin

lemma relay_failed:
  assumes "relayTransaction E sv f t a d sig s = (Inl e, s')" "sv_contractAddress sv = ca"
  shows "s' = s"
  using assms exec_failed
  by (auto simp: relayTransaction_def action_simps throw_error_def
      split: prod.splits sum.splits if_splits)

lemma relay_run:
  assumes "relayTransaction E sv f t a d sig s = (Inr r, s')" "sv_contractAddress sv = ca"
  shows "\<exists>n. sv_getNonce E sv f s = Inr n \<and> signed_for E sv f t a d sig n \<and>
    sv_getNonce E sv f s' = Inr (n + 1) \<and> ec_executeTransfer E ca f t a d sig s = (Inr r, s')"
  using assms exec_nonce
  by (fastforce simp: relayTransaction_def prepareTransfer_def action_simps throw_error_def
      sv_getNonce_def signed_for_def split: prod.splits sum.splits if_splits)

lemma relay_mono:
  assumes "relayTransaction E sv f t a d sig s = (r, s')" "sv_contractAddress sv = ca"
    and "sv_getNonce E sv g s = Inr n"
  shows "\<exists>m. sv_getNonce E sv g s' = Inr m \<and> n \<le> m"
proof (cases r)
  case (Inl e)
  with assms(1) relay_failed [OF _ assms(2)] have "s' = s" by blast
  with assms(3) show ?thesis by simp
next
  case (Inr rc)
  with assms(1) relay_run [OF _ assms(2)] have "ec_executeTransfer E ca f t a d sig s = (Inr rc, s')"
    by blast
  from exec_mono [OF this] assms(2,3) show ?thesis by (simp add: sv_getNonce_def)
qed

text \<open>A signature that is good for no transfer with the current nonce is refused.\<close>

lemma relay_refused:
  assumes "sv_getNonce E sv f s = Inr n" "\<not> signed_for E sv f t a d sig n"
    and "sv_contractAddress sv = ca"
  shows "\<exists>e. relayTransaction E sv f t a d sig s = (Inl e, s)"
proof -
  obtain r s' where run: "relayTransaction E sv f t a d sig s = (r, s')" by fastforce
  show ?thesis
  proof (cases r)
    case (Inl e)
    with run relay_failed [OF _ assms(3)] show ?thesis by blast
  next
    case (Inr rc)
    with run relay_run [OF _ assms(3)] assms(1,2) show ?thesis by fastforce
  qed
qed

end

section \<open>The contract behind the client\<close>

text \<open>The client of a deployed \<open>MetaTxExample\<close>. Parameters: the block timestamp, the chain id, how
  \<open>ethers\<close> resolves an address string and a digest, and its hashing and recovery.\<close>

record client_env =
  ce_deployed :: string
  ce_timestamp :: u256
  ce_chainId :: int
  ce_resolve :: "string \<Rightarrow> addr option"
  ce_bytes32 :: "string \<Rightarrow> u256 option"
  ce_id :: "string \<Rightarrow> string"
  ce_hash :: "typed_domain \<Rightarrow> typed_fields \<Rightarrow> transfer_value \<Rightarrow> string res"
  ce_recoverAddress :: "string \<Rightarrow> string \<Rightarrow> string res"
  ce_receipt :: "string \<Rightarrow> tx_receipt"

definition bad_argument :: "string \<Rightarrow> 'a res" where
  "bad_argument msg = Inl (JsError ''TypeError'' msg)"

definition encode_u256 :: "int \<Rightarrow> u256 res" where
  "encode_u256 n = (if 0 \<le> n \<and> n < 2 ^ 256 then Inr (word_of_int n) else bad_argument ''value out-of-bounds'')"

definition resolve_addr :: "client_env \<Rightarrow> string \<Rightarrow> addr res" where
  "resolve_addr ce a = (case ce_resolve ce a of None \<Rightarrow> bad_argument ''invalid address'' | Some w \<Rightarrow> Inr w)"

definition relay_contract_at :: "client_env \<Rightarrow> string \<Rightarrow> unit res" where
  "relay_contract_at ce ca = (if ca = ce_deployed ce then Inr () else Inl (JsError ''Error'' ''could not decode result data''))"

definition contract_client :: "mt_crypto \<Rightarrow> client_env \<Rightarrow> mt_contract eth_client" where
  "contract_client cr ce =
     \<lparr>ec_getNetwork = Inr (ce_chainId ce),
      ec_getNonce = (\<lambda>ca user c. res_bind (relay_contract_at ce ca) (\<lambda>u.
        res_bind (resolve_addr ce user) (\<lambda>w. Inr (uint (mt_getNonce w c))))),
      ec_usedSignatures = (\<lambda>ca digest c. res_bind (relay_contract_at ce ca) (\<lambda>u.
        case ce_bytes32 ce digest of None \<Rightarrow> bad_argument ''invalid BytesLike value''
        | Some w \<Rightarrow> Inr (mt_used c w))),
      ec_executeTransfer = (\<lambda>ca f t a d sig c. act_bind (act_lift (relay_contract_at ce ca)) (\<lambda>u.
        act_bind (act_lift (resolve_addr ce f)) (\<lambda>wf. act_bind (act_lift (resolve_addr ce t)) (\<lambda>wt.
        act_bind (act_lift (encode_u256 a)) (\<lambda>wa. act_bind (act_lift (encode_u256 d)) (\<lambda>wd.
        act_bind (executeTransfer cr (ce_timestamp ce) wf wt wa wd sig) (\<lambda>u.
          act_return (Some (ce_receipt ce sig)))))))) c),
      ec_id = ce_id ce, ec_hash = ce_hash ce, ec_recoverAddress = ce_recoverAddress ce\<rparr>"

lemma client_getNonce:
  "ec_getNonce (contract_client cr ce) ca f c = Inr n \<longleftrightarrow>
     ca = ce_deployed ce \<and> (\<exists>w. ce_resolve ce f = Some w \<and> n = uint (mt_getNonce w c))"
  by (auto simp: contract_client_def res_bind_def relay_contract_at_def resolve_addr_def bad_argument_def
      split: option.splits)

lemma client_execute_Inr:
  assumes "ec_executeTransfer (contract_client cr ce) ca f t a d sig c = (Inr r, c')"
  shows "ca = ce_deployed ce \<and> r = Some (ce_receipt ce sig) \<and> 0 \<le> a \<and> a < 2 ^ 256 \<and> 0 \<le> d \<and> d < 2 ^ 256 \<and>
    (\<exists>wf wt. ce_resolve ce f = Some wf \<and> ce_resolve ce t = Some wt \<and>
      executeTransfer cr (ce_timestamp ce) wf wt (word_of_int a) (word_of_int d) sig c = (Inr (), c'))"
  using assms
  by (auto simp: contract_client_def action_simps relay_contract_at_def resolve_addr_def bad_argument_def
      encode_u256_def split: option.splits sum.splits if_splits prod.splits)

lemma client_execute_Inl:
  "ec_executeTransfer (contract_client cr ce) ca f t a d sig c = (Inl e, c') \<Longrightarrow> c' = c"
  by (auto simp: contract_client_def action_simps relay_contract_at_def resolve_addr_def bad_argument_def
      encode_u256_def split: option.splits sum.splits if_splits prod.splits dest: executeTransfer_Inl)

lemma uint_nonce_Suc:
  fixes n :: u256
  assumes "n \<noteq> -1"
  shows "uint (n + 1) = uint n + 1"
proof -
  have "int (unat (n + 1)) = int (Suc (unat n))" by (simp only: unat_nonce_Suc [OF assms])
  then show ?thesis by (simp only: int_nat_eq uint_nat of_nat_Suc add.commute)
qed

lemma client_execute_nonces:
  assumes "ec_executeTransfer (contract_client cr ce) ca f t a d sig c = (Inr r, c')"
  obtains wf where "ca = ce_deployed ce" "ce_resolve ce f = Some wf" "mt_nonces c wf \<noteq> -1"
    and "mt_nonces c' = (mt_nonces c)(wf := mt_nonces c wf + 1)"
proof -
  from client_execute_Inr [OF assms] obtain wf wt where w: "ca = ce_deployed ce" "ce_resolve ce f = Some wf"
    and ex: "executeTransfer cr (ce_timestamp ce) wf wt (word_of_int a) (word_of_int d) sig c = (Inr (), c')"
    by blast
  show ?thesis by (rule that [OF w executeTransfer_Inr(4,8) [OF ex]])
qed

interpretation chain: relay_chain "contract_client cr ce" "ce_deployed ce" for cr ce
proof unfold_locales
  fix f t a d sig c e c'
  assume "ec_executeTransfer (contract_client cr ce) (ce_deployed ce) f t a d sig c = (Inl e, c')"
  then show "c' = c" by (rule client_execute_Inl)
next
  fix f t a d sig c r c'
  assume "ec_executeTransfer (contract_client cr ce) (ce_deployed ce) f t a d sig c = (Inr r, c')"
  then obtain wf where "ce_resolve ce f = Some wf" "mt_nonces c wf \<noteq> -1"
    "mt_nonces c' = (mt_nonces c)(wf := mt_nonces c wf + 1)" by (rule client_execute_nonces)
  then show "\<exists>n. ec_getNonce (contract_client cr ce) (ce_deployed ce) f c = Inr n \<and>
      ec_getNonce (contract_client cr ce) (ce_deployed ce) f c' = Inr (n + 1)"
    by (simp add: client_getNonce mt_getNonce_def uint_nonce_Suc)
next
  fix f t a d sig c r c' g n
  assume "ec_executeTransfer (contract_client cr ce) (ce_deployed ce) f t a d sig c = (Inr r, c')"
    and n: "ec_getNonce (contract_client cr ce) (ce_deployed ce) g c = Inr n"
  from this(1) obtain wf where "mt_nonces c wf \<noteq> -1"
    "mt_nonces c' = (mt_nonces c)(wf := mt_nonces c wf + 1)" by (rule client_execute_nonces)
  moreover from n obtain wg where "ce_resolve ce g = Some wg" "n = uint (mt_nonces c wg)"
    by (auto simp: client_getNonce mt_getNonce_def)
  ultimately show "\<exists>m. ec_getNonce (contract_client cr ce) (ce_deployed ce) g c' = Inr m \<and> n \<le> m"
    by (cases "wf = wg") (simp_all add: client_getNonce mt_getNonce_def uint_nonce_Suc)
qed

section \<open>The service over the contract\<close>

text \<open>A small instance: account 1 signs the transfer with nonce \<open>n\<close> as \<open>0xs<n>\<close>.\<close>

definition demo_from :: string where
  "demo_from = ''0x0000000000000000000000000000000000000001''"

definition demo_to :: string where
  "demo_to = ''0x00000000000000000000000000000000000000a2''"

definition demo_sig :: "int \<Rightarrow> string" where
  "demo_sig n = ''0xs'' @ show_int n"

definition demo_crypto :: mt_crypto where
  "demo_crypto = \<lparr>cr_digest = (\<lambda>f t a n d. n),
     cr_recover = (\<lambda>digest s. if s = demo_sig (uint digest) then Some 1 else None)\<rparr>"

definition demo_client :: client_env where
  "demo_client = \<lparr>ce_deployed = ''0xc0'', ce_timestamp = 100, ce_chainId = 31337,
     ce_resolve = (\<lambda>a. if a = demo_from then Some 1 else if a = demo_to then Some 162 else None),
     ce_bytes32 = (\<lambda>s. None), ce_id = (\<lambda>s. s),
     ce_hash = (\<lambda>dm ty v. Inr (show_int (tv_nonce v))),
     ce_recoverAddress = (\<lambda>digest s. if s = ''0xs'' @ digest then Inr demo_from
        else Inl (JsError ''TypeError'' ''invalid signature'')),
     ce_receipt = (\<lambda>s. \<lparr>rc_hash = ''0xtx'', rc_blockNumber = 7, rc_gasUsed = Some 21000\<rparr>)\<rparr>"

definition demo_service :: meta_tx_service where
  "demo_service = \<lparr>sv_rpcUrl = ''http://node'', sv_relayerKey = ''0x01'', sv_contractAddress = ''0xc0''\<rparr>"

lemma demo_signed_for:
  "signed_for (contract_client cr demo_client) demo_service demo_from t a d (demo_sig n) k \<longleftrightarrow> n = k"
proof -
  have "show_int n = show_int k \<longleftrightarrow> n = k"
    using prefix_letters_no_digit(7) show_nat_digits
    by (auto simp: show_int_def nat_eq_iff) (metis list.set_intros(1))+
  then show ?thesis
    by (auto simp: signed_for_def verifySignature_def contract_client_def demo_client_def demo_sig_def throw_error_def)
qed

text \<open>A relayed transfer was signed for the nonce the contract had, and moves that nonce by
  exactly one; a request that is refused, for whatever reason, leaves the contract as it was.\<close>

theorem relay_moves_nonce:
  assumes "relayTransaction (contract_client cr ce) sv f t a d sig c = (r, c')"
    and "sv_contractAddress sv = ce_deployed ce"
  shows "case r of Inl e \<Rightarrow> c' = c
    | Inr rc \<Rightarrow> (\<exists>n. sv_getNonce (contract_client cr ce) sv f c = Inr n \<and>
        signed_for (contract_client cr ce) sv f t a d sig n \<and>
        sv_getNonce (contract_client cr ce) sv f c' = Inr (n + 1))"
proof (cases r)
  case (Inl e)
  with chain.relay_failed [OF _ assms(2)] assms(1) show ?thesis by simp
next
  case (Inr rc)
  with chain.relay_run [OF _ assms(2)] assms(1) show ?thesis by fastforce
qed

lemma demo_relay:
  "relayTransaction (contract_client demo_crypto demo_client) demo_service demo_from demo_to 5 200 (demo_sig 0) new_contract =
     (Inr (Some \<lparr>rc_hash = ''0xtx'', rc_blockNumber = 7, rc_gasUsed = Some 21000\<rparr>),
      new_contract\<lparr>mt_nonces := (\<lambda>a. 0)(1 := 1), mt_used := (\<lambda>d. False)(0 := True),
        mt_log := [TransferExecuted 1 162 5 0, NonceIncremented 1 1]\<rparr>)"
  by (simp add: relayTransaction_def prepareTransfer_def verifySignature_def action_simps contract_client_def
      demo_client_def demo_service_def relay_contract_at_def resolve_addr_def encode_u256_def executeTransfer_def
      demo_crypto_def new_contract_def mt_getNonce_def demo_sig_def mt_checkTransfer_def mt_emit_def
      demo_from_def demo_to_def)

lemma demo_address: "sv_contractAddress demo_service = ce_deployed demo_client"
  by (simp add: demo_service_def demo_client_def)

theorem relay_moves_nonce_witness:
  "\<exists>c'. sv_getNonce (contract_client demo_crypto demo_client) demo_service demo_from new_contract = Inr 0 \<and>
     sv_getNonce (contract_client demo_crypto demo_client) demo_service demo_from c' = Inr 1"
  using relay_moves_nonce [OF demo_relay demo_address] by (auto simp: demo_signed_for)

text \<open>Nonces only grow, whoever calls the contract.\<close>

lemma mt_exec_nonce_mono: "uint (mt_nonces c f) \<le> uint (mt_nonces (snd (mt_exec cr call c)) f)"
proof -
  obtain r c' where run: "mt_exec cr call c = (r, c')" by fastforce
  show ?thesis
  proof (cases r)
    case (Inl e)
    with run have "c' = c"
      by (cases call)
        (auto dest: executeTransfer_Inl simp: mt_transfer_def split: sum.splits if_splits)
    with run show ?thesis by simp
  next
    case (Inr u)
    with run have "\<exists>g. mt_nonces c g \<noteq> -1 \<and> mt_nonces c' = (mt_nonces c)(g := mt_nonces c g + 1)"
      by (cases call) (auto dest: executeTransfer_Inr(4,8) mt_transfer_Inr(1,2))
    with run show ?thesis by (auto simp: uint_nonce_Suc)
  qed
qed

lemma mt_run_nonce_mono: "uint (mt_nonces c f) \<le> uint (mt_nonces (mt_run cr calls c) f)"
  unfolding mt_run_def
proof (induction calls arbitrary: c)
  case (Cons call calls)
  from mt_exec_nonce_mono [of c f cr call] Cons [of "snd (mt_exec cr call c)"] show ?case by simp
qed simp

lemma signed_for_timestamp:
  "signed_for (contract_client cr (ce\<lparr>ce_timestamp := now\<rparr>)) sv f t a d sig n =
   signed_for (contract_client cr ce) sv f t a d sig n"
  by (simp add: signed_for_def verifySignature_def contract_client_def)

text \<open>C2: Once a request was relayed, the same request is refused for ever: at any later time and
  after any further calls to the contract by anyone, relaying it again throws and changes
  nothing, provided the signature verifies the transfer with one nonce only.\<close>

theorem replay_rejected:
  assumes "relayTransaction (contract_client cr ce) sv f t a d sig c = (Inr r, c1)"
    and "sv_contractAddress sv = ce_deployed ce"
    and "\<forall>n m. signed_for (contract_client cr ce) sv f t a d sig n \<longrightarrow>
           signed_for (contract_client cr ce) sv f t a d sig m \<longrightarrow> n = m"
  shows "\<exists>e. relayTransaction (contract_client cr (ce\<lparr>ce_timestamp := later\<rparr>)) sv f t a d sig (mt_run cr calls c1) =
    (Inl e, mt_run cr calls c1)"
proof -
  let ?E2 = "contract_client cr (ce\<lparr>ce_timestamp := later\<rparr>)"
  from chain.relay_run [OF assms(1,2)] obtain n where n: "signed_for (contract_client cr ce) sv f t a d sig n"
    "sv_getNonce (contract_client cr ce) sv f c1 = Inr (n + 1)" by blast
  from n(2) obtain w where w: "ce_resolve ce f = Some w" "n + 1 = uint (mt_nonces c1 w)"
    by (auto simp: sv_getNonce_def client_getNonce mt_getNonce_def)
  let ?m = "uint (mt_nonces (mt_run cr calls c1) w)"
  have later: "sv_getNonce ?E2 sv f (mt_run cr calls c1) = Inr ?m"
    using w(1) assms(2) by (simp add: sv_getNonce_def client_getNonce mt_getNonce_def)
  have "n < ?m" using w(2) mt_run_nonce_mono [of c1 w cr calls] by simp
  with assms(3) n(1) have "\<not> signed_for ?E2 sv f t a d sig ?m"
    unfolding signed_for_timestamp by blast
  from chain.relay_refused [OF later this] assms(2) show ?thesis by simp
qed

theorem replay_rejected_witness:
  "\<exists>c1 e. relayTransaction (contract_client demo_crypto demo_client) demo_service demo_from demo_to 5 200 (demo_sig 0)
       new_contract = (Inr (Some \<lparr>rc_hash = ''0xtx'', rc_blockNumber = 7, rc_gasUsed = Some 21000\<rparr>), c1) \<and>
     relayTransaction (contract_client demo_crypto (demo_client\<lparr>ce_timestamp := 150\<rparr>)) demo_service
       demo_from demo_to 5 200 (demo_sig 0) (mt_run demo_crypto [CallTransfer 1 162 9] c1) =
       (Inl e, mt_run demo_crypto [CallTransfer 1 162 9] c1)"
  using demo_relay replay_rejected [OF demo_relay demo_address, of 150 "[CallTransfer 1 162 9]"]
  by (auto simp: demo_signed_for)



end
