(* ===== verification/MetaTxController.thy ===== *)
theory MetaTxController
  imports MetaTx
begin

text \<open>
  \<open>meta-tx/meta-tx.controller.ts\<close>: the HTTP handlers in front of the relay service. A request
  body has the declared fields, each of which may be missing (nothing validates it before the
  handler). A handler returns the value that NestJS serialises with \<open>JSON.stringify\<close>, or
  throws a \<open>BadRequestException\<close>; the \<open>error\<close> field of its response is the message here.
\<close>

section \<open>Values and requests\<close>

datatype js_val = JvUndefined | JvBool bool | JvNum int | JvBigInt int | JvStr string
  | JvArr "js_val list" | JvObj "(string \<times> js_val) list"

text \<open>\<open>JSON.stringify\<close> throws a \<open>TypeError\<close> when it reaches a \<open>bigint\<close>.\<close>

fun json_serialisable :: "js_val \<Rightarrow> bool" where
  "json_serialisable (JvBigInt n) = False"
| "json_serialisable (JvArr vs) = list_all json_serialisable vs"
| "json_serialisable (JvObj kvs) = list_all (\<lambda>(k, v). json_serialisable v) kvs"
| "json_serialisable v = True"

record relay_body =
  rb_from :: "string option"
  rb_to :: "string option"
  rb_amount :: "string option"
  rb_deadline :: "js_num option"
  rb_signature :: "string option"

definition bad_request :: "string \<Rightarrow> 'a res" where
  "bad_request msg = Inl (JsError ''BadRequestException'' msg)"

text \<open>\<open>!body.deadline\<close>, \<open>BigInt(body.deadline)\<close> (the number is left out of the message) and
  \<open>BigInt(body.amount)\<close>.\<close>

definition truthy_num :: "js_num option \<Rightarrow> bool" where
  "truthy_num d = (case d of None \<Rightarrow> False | Some NaN \<Rightarrow> False | Some (Fin q) \<Rightarrow> q \<noteq> 0 | Some _ \<Rightarrow> True)"

definition num_le_int :: "js_num \<Rightarrow> int \<Rightarrow> bool" where
  "num_le_int d n = (case d of NaN \<Rightarrow> False | PosInfinity \<Rightarrow> False | NegInfinity \<Rightarrow> True | Fin q \<Rightarrow> q \<le> of_int n)"

definition bigint_of_num :: "js_num \<Rightarrow> int res" where
  "bigint_of_num d = (case d of
     Fin q \<Rightarrow> if of_int \<lfloor>q\<rfloor> = q then Inr \<lfloor>q\<rfloor>
       else Inl (JsError ''RangeError'' ''The number cannot be converted to a BigInt because it is not an integer'')
   | _ \<Rightarrow> Inl (JsError ''RangeError'' ''The number cannot be converted to a BigInt because it is not an integer''))"

definition bigint_of_str :: "string \<Rightarrow> int res" where
  "bigint_of_str s = (case parse_bigint s of
     None \<Rightarrow> Inl (JsError ''SyntaxError'' (''Cannot convert '' @ s @ '' to a BigInt''))
   | Some n \<Rightarrow> Inr n)"

text \<open>\<open>/^0x[a-fA-F0-9]{40}$/\<close>\<close>

definition isValidAddress :: "string \<Rightarrow> bool" where
  "isValidAddress address \<longleftrightarrow> length address = 42 \<and> take 2 address = ''0x'' \<and> list_all is_hex (drop 2 address)"

section \<open>The handlers\<close>

definition catch_bad_request :: "('s, 'a) action \<Rightarrow> ('s, 'a) action" where
  "catch_bad_request m s = (case m s of (Inl error, s') \<Rightarrow> (bad_request (err_message error), s')
     | (Inr v, s') \<Rightarrow> (Inr v, s'))"

text \<open>The checks of \<open>relay\<close> up to the arguments of the service call.\<close>

definition relay_args :: "int \<Rightarrow> relay_body \<Rightarrow> (string \<times> string \<times> int \<times> int \<times> string) res" where
  "relay_args nowMs body =
     (if \<not> truthy_str (rb_from body) \<or> \<not> truthy_str (rb_to body) \<or> \<not> truthy_str (rb_amount body) \<or>
         \<not> truthy_num (rb_deadline body) \<or> \<not> truthy_str (rb_signature body)
      then bad_request ''Missing required fields: from, to, amount, deadline, signature''
      else if \<not> isValidAddress (the (rb_from body)) then bad_request ''Invalid sender address''
      else if \<not> isValidAddress (the (rb_to body)) then bad_request ''Invalid recipient address''
      else res_bind (bigint_of_str (the (rb_amount body))) (\<lambda>amount.
        if amount \<le> 0 then bad_request ''Amount must be greater than 0''
        else if num_le_int (the (rb_deadline body)) (nowMs div 1000) then bad_request ''Deadline must be in the future''
        else if \<not> starts_with ''0x'' (the (rb_signature body))
          then bad_request ''Signature must be a hex string starting with 0x''
        else res_bind (bigint_of_num (the (rb_deadline body))) (\<lambda>deadline.
          Inr (the (rb_from body), the (rb_to body), amount, deadline, the (rb_signature body)))))"

definition relay_reply :: "tx_receipt option \<Rightarrow> js_val" where
  "relay_reply result = JvObj
     [(''success'', JvBool True),
      (''transactionHash'', case result of None \<Rightarrow> JvUndefined | Some r \<Rightarrow> JvStr (rc_hash r)),
      (''blockNumber'', case result of None \<Rightarrow> JvUndefined | Some r \<Rightarrow> JvNum (rc_blockNumber r)),
      (''gasUsed'', case Option.bind result rc_gasUsed of None \<Rightarrow> JvUndefined | Some g \<Rightarrow> JvStr (show_int g))]"

definition ctl_relay :: "'s eth_client \<Rightarrow> meta_tx_service \<Rightarrow> int \<Rightarrow> relay_body \<Rightarrow> ('s, js_val) action" where
  "ctl_relay E sv nowMs body = catch_bad_request
     (act_bind (act_lift (relay_args nowMs body)) (\<lambda>(sender, to, amount, deadline, signature).
       act_bind (relayTransaction E sv sender to amount deadline signature) (\<lambda>result.
         act_return (relay_reply result))))"

definition ctl_getNonce :: "'s eth_client \<Rightarrow> meta_tx_service \<Rightarrow> string option \<Rightarrow> ('s, js_val) action" where
  "ctl_getNonce E sv address = catch_bad_request (\<lambda>s.
     (if \<not> truthy_str address \<or> \<not> isValidAddress (the address) then bad_request ''Invalid address''
      else res_bind (sv_getNonce E sv (the address) s) (\<lambda>nonce.
        Inr (JvObj [(''success'', JvBool True), (''address'', JvStr (the address)), (''nonce'', JvStr (show_int nonce))])), s))"

definition domain_val :: "typed_domain \<Rightarrow> js_val" where
  "domain_val dm = JvObj [(''name'', JvStr (dm_name dm)), (''version'', JvStr (dm_version dm)),
     (''chainId'', JvBigInt (dm_chainId dm)), (''verifyingContract'', JvStr (dm_verifyingContract dm))]"

definition types_val :: "typed_fields \<Rightarrow> js_val" where
  "types_val tys = JvObj (map (\<lambda>(struct, fields). (struct, JvArr (map (\<lambda>(n, ty).
     JvObj [(''name'', JvStr n), (''type'', JvStr ty)]) fields))) tys)"

definition value_val :: "transfer_value \<Rightarrow> js_val" where
  "value_val v = JvObj [(''from'', JvStr (tv_from v)), (''to'', JvStr (tv_to v)),
     (''amount'', JvBigInt (tv_amount v)), (''nonce'', JvBigInt (tv_nonce v)), (''deadline'', JvBigInt (tv_deadline v))]"

definition ctl_prepareTransfer :: "'s eth_client \<Rightarrow> meta_tx_service \<Rightarrow> relay_body \<Rightarrow> ('s, js_val) action" where
  "ctl_prepareTransfer E sv body = catch_bad_request (\<lambda>s.
     (if \<not> truthy_str (rb_from body) \<or> \<not> truthy_str (rb_to body) \<or> \<not> truthy_str (rb_amount body) \<or>
         \<not> truthy_num (rb_deadline body)
      then bad_request ''Missing required fields: from, to, amount, deadline''
      else if \<not> isValidAddress (the (rb_from body)) then bad_request ''Invalid sender address''
      else if \<not> isValidAddress (the (rb_to body)) then bad_request ''Invalid recipient address''
      else res_bind (bigint_of_str (the (rb_amount body))) (\<lambda>amount.
        if amount \<le> 0 then bad_request ''Amount must be greater than 0''
        else res_bind (bigint_of_num (the (rb_deadline body))) (\<lambda>deadline.
          res_bind (prepareTransfer E sv (the (rb_from body)) (the (rb_to body)) amount deadline s) (\<lambda>p.
            Inr (JvObj [(''success'', JvBool True), (''domain'', domain_val (pr_domain p)),
              (''types'', types_val (pr_types p)), (''value'', value_val (pr_value p)),
              (''typeHash'', JvStr (pr_typeHash p))])))), s))"

section \<open>The checks\<close>

lemma valid_address_nonempty: "isValidAddress a \<Longrightarrow> a \<noteq> []"
  by (auto simp: isValidAddress_def)

lemma bigint_of_num_iff: "bigint_of_num d = Inr n \<longleftrightarrow> d = Fin (of_int n)"
  by (cases d) (auto simp: bigint_of_num_def)

lemma bigint_of_str_iff: "bigint_of_str s = Inr n \<longleftrightarrow> parse_bigint s = Some n"
  by (auto simp: bigint_of_str_def split: option.splits)

lemma parse_bigint_positive: "parse_bigint s = Some n \<Longrightarrow> 0 < n \<Longrightarrow> s \<noteq> []"
  by (auto simp: parse_bigint_def trim_def)

text \<open>\<open>relay\<close> calls the service exactly for well-formed requests, and with exactly their values:
  all fields present, two 20 byte hex addresses, an amount that parses to a positive integer, an
  integral deadline later than the current second, a signature that starts with \<open>0x\<close>.\<close>

theorem relay_args_iff:
  "relay_args nowMs body = Inr (f, t, a, d, sig) \<longleftrightarrow>
     (\<exists>amt. body = \<lparr>rb_from = Some f, rb_to = Some t, rb_amount = Some amt, rb_deadline = Some (Fin (of_int d)),
          rb_signature = Some sig\<rparr> \<and> isValidAddress f \<and> isValidAddress t \<and> parse_bigint amt = Some a \<and>
        0 < a \<and> d \<noteq> 0 \<and> nowMs div 1000 < d \<and> take 2 sig = ''0x'')"
  (is "?L \<longleftrightarrow> ?R")
proof
  assume ?L
  then show ?R
    by (cases body)
      (auto simp: relay_args_def bad_request_def res_bind_Inr_iff bigint_of_num_iff bigint_of_str_iff
        numeral_2_eq_2 truthy_str_iff truthy_num_def num_le_int_def starts_with_def split: if_splits option.splits)
next
  assume ?R
  then show ?L
    by (auto simp: relay_args_def res_bind_Inr_iff bigint_of_num_iff bigint_of_str_iff truthy_str_def
        truthy_num_def num_le_int_def starts_with_def valid_address_nonempty numeral_2_eq_2
        dest: parse_bigint_positive)
qed

section \<open>End to end\<close>

lemma relay_reply_serialisable: "json_serialisable (relay_reply r)"
  by (auto simp: relay_reply_def split: option.split)

lemma ctl_relay_run:
  assumes "ctl_relay E sv nowMs body s = (Inr v, s')"
  shows "\<exists>f t a d sig rc. relay_args nowMs body = Inr (f, t, a, d, sig) \<and>
    relayTransaction E sv f t a d sig s = (Inr rc, s') \<and> v = relay_reply rc"
  using assms
  by (auto simp: ctl_relay_def catch_bad_request_def bad_request_def action_simps
      split: prod.splits sum.splits)

lemma ctl_relay_failed:
  assumes "ctl_relay E sv nowMs body s = (Inl e, s')"
  shows "err_class e = ''BadRequestException'' \<and> (s' = s \<or>
    (\<exists>f t a d sig x. relayTransaction E sv f t a d sig s = (Inl x, s')))"
  using assms
  by (auto simp: ctl_relay_def catch_bad_request_def bad_request_def action_simps
      split: prod.splits sum.splits)


definition demo_body :: relay_body where
  "demo_body = \<lparr>rb_from = Some demo_from, rb_to = Some demo_to, rb_amount = Some ''5'',
     rb_deadline = Some (Fin 200), rb_signature = Some (demo_sig 0)\<rparr>"

lemma demo_relay_args: "relay_args 100000 demo_body = Inr (demo_from, demo_to, 5, 200, demo_sig 0)"
proof -
  have "isValidAddress demo_from \<and> isValidAddress demo_to \<and> parse_bigint ''5'' = Some 5"
    by code_simp
  then show ?thesis by (simp add: relay_args_iff demo_body_def demo_sig_def)
qed

lemma demo_ctl_relay:
  "\<exists>v c'. ctl_relay (contract_client demo_crypto demo_client) demo_service 100000 demo_body new_contract = (Inr v, c')"
  by (simp add: ctl_relay_def catch_bad_request_def act_bind_lift demo_relay_args)
    (simp add: act_bind_def demo_relay act_return_def)


text \<open>The reply of a successful \<open>prepare\<close> request cannot be serialised: the chain id and the
  transfer values in it are \<open>bigint\<close>s, on which \<open>JSON.stringify\<close> throws, so no client ever
  receives the data to sign.\<close>

theorem prepare_reply_unserialisable:
  assumes "ctl_prepareTransfer E sv body s = (Inr v, s')"
  shows "\<not> json_serialisable v"
  using assms
  by (auto simp: ctl_prepareTransfer_def catch_bad_request_def bad_request_def domain_val_def res_bind_def
      split: prod.splits sum.splits if_splits)

theorem prepare_reply_unserialisable_witness:
  "\<exists>v. ctl_prepareTransfer (contract_client demo_crypto demo_client) demo_service demo_body new_contract =
     (Inr v, new_contract) \<and> \<not> json_serialisable v"
proof -
  have "isValidAddress demo_from \<and> isValidAddress demo_to \<and> parse_bigint ''5'' = Some 5"
    by code_simp
  then have "bigint_of_str ''5'' = Inr 5" "bigint_of_num (Fin 200) = Inr 200"
    "isValidAddress demo_from" "isValidAddress demo_to"
    by (simp_all add: bigint_of_str_iff bigint_of_num_iff)
  then have "\<exists>v. ctl_prepareTransfer (contract_client demo_crypto demo_client) demo_service demo_body new_contract =
      (Inr v, new_contract)"
    by (simp add: ctl_prepareTransfer_def catch_bad_request_def demo_body_def truthy_str_def truthy_num_def
        prepareTransfer_def contract_client_def relay_contract_at_def demo_client_def demo_service_def
        resolve_addr_def demo_from_def demo_to_def)
  then obtain v where "ctl_prepareTransfer (contract_client demo_crypto demo_client) demo_service demo_body
      new_contract = (Inr v, new_contract)" by blast
  with prepare_reply_unserialisable [OF this] show ?thesis by blast
qed

end
