(* ===== verification/Chain.thy ===== *)
theory Chain
  imports JsCollections
begin

text \<open>
  The contracts the deployment scripts create, as far as a deployment touches them: the constructors
  of the Solidity sources with their guards and role grants, artifact lookup by name, and calls of
  \<open>grantRole\<close>, \<open>renounceRole\<close> and \<open>hasRole\<close>. OpenZeppelin's \<open>AccessControl\<close> is not part of the
  repository: it is the parameter \<open>access_api\<close>, its documented laws are the locale \<open>access_laws\<close>.
  A role is its name (the code uses the hash of the name). The address of a new contract is a fresh
  \<open>Contract n\<close>: distinct contracts and accounts have distinct addresses.
\<close>

datatype chain_address = ZeroAddress | Account string | Contract nat

record appeal_config =
  ac_roundDuration :: int
  ac_minStakeAmount :: int
  ac_stakeMultiplierBps :: int
  ac_maxWeightCap :: int
  ac_parameterVersion :: int
  ac_maxAppealRounds :: int
  ac_appealBond :: int
  ac_appealBondEscalationBps :: int
  ac_maxAppealBond :: int
  ac_maxVotersPerRound :: int

datatype dvalue = DAddr chain_address | DInt int | DAppeal appeal_config
datatype dparam = PAddress | PUint | PAppealConfig

definition uint256 :: "int \<Rightarrow> bool" where
  "uint256 n \<longleftrightarrow> 0 \<le> n \<and> n < 2 ^ 256"

definition appeal_fields :: "appeal_config \<Rightarrow> int list" where
  "appeal_fields c = [ac_roundDuration c, ac_minStakeAmount c, ac_stakeMultiplierBps c, ac_maxWeightCap c,
     ac_parameterVersion c, ac_maxAppealRounds c, ac_appealBond c, ac_appealBondEscalationBps c,
     ac_maxAppealBond c, ac_maxVotersPerRound c]"

fun fits :: "dparam \<Rightarrow> dvalue \<Rightarrow> bool" where
  "fits PAddress (DAddr a) = True"
| "fits PUint (DInt n) = uint256 n"
| "fits PAppealConfig (DAppeal c) = list_all uint256 (appeal_fields c)"
| "fits p v = False"

section \<open>Role based access control\<close>

record 'r access_api =
  ax_empty :: 'r
  ax_has :: "'r \<Rightarrow> string \<Rightarrow> chain_address \<Rightarrow> bool"
  ax_admin :: "'r \<Rightarrow> string \<Rightarrow> string"
  ax_grant :: "string \<Rightarrow> chain_address \<Rightarrow> 'r \<Rightarrow> 'r"
  ax_revoke :: "string \<Rightarrow> chain_address \<Rightarrow> 'r \<Rightarrow> 'r"
  ax_setAdmin :: "string \<Rightarrow> string \<Rightarrow> 'r \<Rightarrow> 'r"

definition DEFAULT_ADMIN_ROLE :: string where
  "DEFAULT_ADMIN_ROLE = ''DEFAULT_ADMIN_ROLE''"

locale access_laws =
  fixes A :: "'r access_api"
  assumes has_empty: "\<not> ax_has A (ax_empty A) r a"
    and admin_empty: "ax_admin A (ax_empty A) r = DEFAULT_ADMIN_ROLE"
    and has_grant: "ax_has A (ax_grant A r a s) r' a' \<longleftrightarrow> r = r' \<and> a = a' \<or> ax_has A s r' a'"
    and admin_grant: "ax_admin A (ax_grant A r a s) r' = ax_admin A s r'"
    and has_revoke: "ax_has A (ax_revoke A r a s) r' a' \<longleftrightarrow> \<not> (r = r' \<and> a = a') \<and> ax_has A s r' a'"
    and admin_revoke: "ax_admin A (ax_revoke A r a s) r' = ax_admin A s r'"
    and has_setAdmin: "ax_has A (ax_setAdmin A r g s) r' a' = ax_has A s r' a'"
    and admin_setAdmin: "ax_admin A (ax_setAdmin A r g s) r' = (if r = r' then g else ax_admin A s r')"
begin

lemmas access_simps = has_empty admin_empty has_grant admin_grant has_revoke admin_revoke
  has_setAdmin admin_setAdmin

end

text \<open>Reference implementation: the members of the roles and the administrators that were set.\<close>

type_synonym role_lists = "(string \<times> chain_address) list \<times> (string \<times> string) list"

definition list_access :: "role_lists access_api" where
  "list_access = \<lparr>ax_empty = ([], []), ax_has = (\<lambda>s r a. (r, a) \<in> set (fst s)),
     ax_admin = (\<lambda>s r. case map_of (snd s) r of None \<Rightarrow> DEFAULT_ADMIN_ROLE | Some g \<Rightarrow> g),
     ax_grant = (\<lambda>r a s. (List.insert (r, a) (fst s), snd s)),
     ax_revoke = (\<lambda>r a s. (filter (\<lambda>m. m \<noteq> (r, a)) (fst s), snd s)),
     ax_setAdmin = (\<lambda>r g s. (fst s, kv_set r g (snd s)))\<rparr>"

interpretation roles: access_laws list_access
  by unfold_locales (auto simp: list_access_def)

definition grant_all :: "'r access_api \<Rightarrow> (string \<times> chain_address) list \<Rightarrow> 'r \<Rightarrow> 'r" where
  "grant_all A = fold (\<lambda>(r, a). ax_grant A r a)"

definition admin_all :: "'r access_api \<Rightarrow> (string \<times> string) list \<Rightarrow> 'r \<Rightarrow> 'r" where
  "admin_all A = fold (\<lambda>(r, g). ax_setAdmin A r g)"

context access_laws
begin

lemma has_grant_all: "ax_has A (grant_all A rs s) r a \<longleftrightarrow> (r, a) \<in> set rs \<or> ax_has A s r a"
proof (induction rs arbitrary: s)
  case (Cons m rs)
  obtain r' a' where m: "m = (r', a')" by force
  show ?case
    using Cons [of "ax_grant A r' a' s"] by (auto simp: grant_all_def m has_grant)
qed (simp add: grant_all_def)

lemma admin_grant_all: "ax_admin A (grant_all A rs s) r = ax_admin A s r"
  unfolding grant_all_def by (induction rs arbitrary: s) (auto simp: access_simps)

lemma has_admin_all: "ax_has A (admin_all A gs s) r a = ax_has A s r a"
proof (induction gs arbitrary: s)
  case (Cons m gs)
  obtain r' g where m: "m = (r', g)" by force
  show ?case
    using Cons [of "ax_setAdmin A r' g s"] by (simp add: admin_all_def m has_setAdmin)
qed (simp add: admin_all_def)

lemma admin_admin_all: "ax_admin A (admin_all A gs s) r =
    (case map_of (rev gs) r of None \<Rightarrow> ax_admin A s r | Some g \<Rightarrow> g)"
  unfolding admin_all_def
  by (induction gs arbitrary: s) (auto simp: access_simps map_add_def split: option.splits)

lemmas role_simps = access_simps has_grant_all admin_grant_all has_admin_all admin_admin_all

end

section \<open>Constructors\<close>

definition require :: "bool \<Rightarrow> string \<Rightarrow> 'a res \<Rightarrow> 'a res" where
  "require c msg k = (if c then k else Inl (JsError ''Revert'' msg))"

definition bad_arguments :: "'a res" where
  "bad_arguments = Inl (JsError ''TypeError'' ''invalid constructor arguments'')"

text \<open>\<open>GovernanceOwnable._initializeGovernance\<close>.\<close>

definition initializeGovernance :: "'r access_api \<Rightarrow> chain_address \<Rightarrow> chain_address \<Rightarrow> 'r \<Rightarrow> 'r res" where
  "initializeGovernance A gov admin s = require (admin \<noteq> ZeroAddress) ''ZeroAddress''
     (Inr (admin_all A [(''GOVERNANCE_ROLE'', ''GOVERNANCE_ADMIN_ROLE''), (''RECOVERY_ROLE'', ''GOVERNANCE_ADMIN_ROLE'')]
       (grant_all A ([(DEFAULT_ADMIN_ROLE, admin), (''GOVERNANCE_ADMIN_ROLE'', admin), (''RECOVERY_ROLE'', admin)] @
          (if gov \<noteq> ZeroAddress then [(''GOVERNANCE_ROLE'', gov)] else [])) s)))"

definition ctor_GovernanceController :: "'r access_api \<Rightarrow> dvalue list \<Rightarrow> 'r res" where
  "ctor_GovernanceController A args = (case args of
     [DAddr initialAdmin] \<Rightarrow> require (initialAdmin \<noteq> ZeroAddress) ''ZeroAddress''
       (Inr (grant_all A [(DEFAULT_ADMIN_ROLE, initialAdmin), (''GOVERNANCE_ROLE'', initialAdmin),
         (''PROPOSAL_EXECUTOR_ROLE'', initialAdmin), (''PARAMETER_MANAGER_ROLE'', initialAdmin)] (ax_empty A)))
   | _ \<Rightarrow> bad_arguments)"

definition ctor_RewardToken :: "'r access_api \<Rightarrow> dvalue list \<Rightarrow> 'r res" where
  "ctor_RewardToken A args = (case args of
     [DAddr initialAdmin, DInt initialSupply] \<Rightarrow> require (initialAdmin \<noteq> ZeroAddress) ''Invalid admin address''
       (Inr (grant_all A [(DEFAULT_ADMIN_ROLE, initialAdmin)] (ax_empty A)))
   | _ \<Rightarrow> bad_arguments)"

definition ctor_StakeVault :: "'r access_api \<Rightarrow> dvalue list \<Rightarrow> 'r res" where
  "ctor_StakeVault A args = (case args of
     [DAddr initialAdmin, DAddr initialToken] \<Rightarrow> require (initialAdmin \<noteq> ZeroAddress) ''ZeroAddress''
       (require (initialToken \<noteq> ZeroAddress) ''ZeroAddress''
       (Inr (admin_all A [(''OPERATOR_ROLE'', ''ADMIN_ROLE''), (''PAUSER_ROLE'', ''ADMIN_ROLE'')]
         (grant_all A [(DEFAULT_ADMIN_ROLE, initialAdmin), (''ADMIN_ROLE'', initialAdmin)] (ax_empty A)))))
   | _ \<Rightarrow> bad_arguments)"

definition ctor_MockReputationOracle :: "'r access_api \<Rightarrow> dvalue list \<Rightarrow> 'r res" where
  "ctor_MockReputationOracle A args = (case args of [] \<Rightarrow> Inr (ax_empty A) | _ \<Rightarrow> bad_arguments)"

text \<open>The genesis parameters of \<open>ParameterVersionRegistry\<close> are constants within their bounds; they
  and their validation are left out.\<close>

definition ctor_ParameterVersionRegistry :: "'r access_api \<Rightarrow> dvalue list \<Rightarrow> 'r res" where
  "ctor_ParameterVersionRegistry A args = (case args of
     [DAddr initialAdmin, DAddr governanceController] \<Rightarrow> require (initialAdmin \<noteq> ZeroAddress) ''ZeroAddress''
       (require (governanceController \<noteq> ZeroAddress) ''ZeroAddress''
       (initializeGovernance A governanceController initialAdmin
         (admin_all A [(''VERSION_PROPOSER_ROLE'', DEFAULT_ADMIN_ROLE), (''VERSION_EXECUTOR_ROLE'', DEFAULT_ADMIN_ROLE),
            (''GUARDIAN_ROLE'', DEFAULT_ADMIN_ROLE)]
         (grant_all A [(DEFAULT_ADMIN_ROLE, initialAdmin), (''VERSION_PROPOSER_ROLE'', initialAdmin),
            (''VERSION_EXECUTOR_ROLE'', initialAdmin), (''GUARDIAN_ROLE'', initialAdmin)] (ax_empty A)))))
   | _ \<Rightarrow> bad_arguments)"

definition ctor_ClaimRegistry :: "'r access_api \<Rightarrow> dvalue list \<Rightarrow> 'r res" where
  "ctor_ClaimRegistry A args = (case args of
     [DAddr initialAdmin, DAddr parameterVersionRegistry] \<Rightarrow>
       require (initialAdmin \<noteq> ZeroAddress) ''ClaimRegistry: zero admin address''
       (require (parameterVersionRegistry \<noteq> ZeroAddress) ''ClaimRegistry: zero registry address''
       (Inr (admin_all A [(''REGISTRY_UPDATER_ROLE'', ''ADMIN_ROLE'')]
         (grant_all A [(DEFAULT_ADMIN_ROLE, initialAdmin), (''ADMIN_ROLE'', initialAdmin)] (ax_empty A)))))
   | _ \<Rightarrow> bad_arguments)"

definition ctor_TruthBountyWeighted :: "'r access_api \<Rightarrow> dvalue list \<Rightarrow> 'r res" where
  "ctor_TruthBountyWeighted A args = (case args of
     [DAddr bountyToken, DAddr reputationOracle, DAddr initialAdmin, DAddr governanceController] \<Rightarrow>
       require (bountyToken \<noteq> ZeroAddress) ''Invalid token address''
       (require (reputationOracle \<noteq> ZeroAddress) ''Invalid oracle address''
       (require (initialAdmin \<noteq> ZeroAddress) ''Invalid admin address''
       (initializeGovernance A governanceController initialAdmin
         (admin_all A [(''RESOLVER_ROLE'', ''ADMIN_ROLE''), (''TREASURY_ROLE'', ''ADMIN_ROLE''), (''PAUSER_ROLE'', ''ADMIN_ROLE'')]
         (grant_all A [(DEFAULT_ADMIN_ROLE, initialAdmin), (''ADMIN_ROLE'', initialAdmin), (''PAUSER_ROLE'', initialAdmin)]
           (ax_empty A))))))
   | _ \<Rightarrow> bad_arguments)"

definition ctor_VerificationAggregator :: "'r access_api \<Rightarrow> dvalue list \<Rightarrow> 'r res" where
  "ctor_VerificationAggregator A args = (case args of
     [DAddr verificationSource, DAddr admin, DInt minVerificationCount, DInt minTotalWeight, DInt minConfidenceBps] \<Rightarrow>
       require (verificationSource \<noteq> ZeroAddress) ''ZeroAddress''
       (require (admin \<noteq> ZeroAddress) ''ZeroAddress''
       (require (minConfidenceBps \<le> 10000) ''Confidence threshold exceeds 100%''
       (Inr (grant_all A [(DEFAULT_ADMIN_ROLE, admin), (''ADMIN_ROLE'', admin)] (ax_empty A)))))
   | _ \<Rightarrow> bad_arguments)"

definition ctor_ProvisionalSettlementEngine :: "'r access_api \<Rightarrow> dvalue list \<Rightarrow> 'r res" where
  "ctor_ProvisionalSettlementEngine A args = (case args of
     [DAddr claimRegistry, DAddr aggregator, DInt challengeWindowDuration, DAddr governanceController, DAddr initialAdmin] \<Rightarrow>
       require (claimRegistry \<noteq> ZeroAddress) ''InvalidClaimRegistryAddress''
       (require (aggregator \<noteq> ZeroAddress) ''InvalidAggregatorAddress''
       (require (3600 \<le> challengeWindowDuration \<and> challengeWindowDuration \<le> 30 * 86400) ''InvalidChallengeWindowDuration''
       (require (initialAdmin \<noteq> ZeroAddress) ''InvalidAdminAddress''
       (initializeGovernance A governanceController initialAdmin
         (admin_all A [(''PAUSER_ROLE'', ''ADMIN_ROLE'')]
         (grant_all A [(DEFAULT_ADMIN_ROLE, initialAdmin), (''ADMIN_ROLE'', initialAdmin), (''PAUSER_ROLE'', initialAdmin)]
           (ax_empty A)))))))
   | _ \<Rightarrow> bad_arguments)"

definition appeal_config_guards :: "appeal_config \<Rightarrow> 'a res \<Rightarrow> 'a res" where
  "appeal_config_guards c k =
     require (3600 \<le> ac_roundDuration c \<and> ac_roundDuration c \<le> 30 * 86400) ''InvalidDuration''
     (require (ac_minStakeAmount c \<noteq> 0) ''InvalidMinStake''
     (require (ac_stakeMultiplierBps c \<noteq> 0) ''InvalidMultiplier''
     (require (ac_maxAppealRounds c \<noteq> 0 \<and> ac_maxAppealRounds c \<le> 3) ''InvalidMaxAppealRounds''
     (require (ac_appealBond c \<noteq> 0) ''InvalidAppealBond''
     (require (10000 \<le> ac_appealBondEscalationBps c \<and> ac_appealBondEscalationBps c \<le> 40000) ''InvalidBondEscalation''
     (require (ac_maxAppealBond c \<noteq> 0 \<and> ac_appealBond c \<le> ac_maxAppealBond c) ''InvalidMaxAppealBond''
     (require (ac_maxVotersPerRound c \<noteq> 0 \<and> ac_maxVotersPerRound c \<le> 200) ''InvalidMaxVotersPerRound'' k)))))))"

definition ctor_AppealVerificationRound :: "'r access_api \<Rightarrow> dvalue list \<Rightarrow> 'r res" where
  "ctor_AppealVerificationRound A args = (case args of
     [DAddr stakingToken, DAddr claimRegistry, DAddr reputationOracle, DAddr vault, DAppeal initialConfig,
      DAddr governanceController, DAddr initialAdmin] \<Rightarrow>
       require (stakingToken \<noteq> ZeroAddress) ''ZeroAddress''
       (require (claimRegistry \<noteq> ZeroAddress) ''ZeroAddress''
       (require (vault \<noteq> ZeroAddress) ''ZeroAddress''
       (require (initialAdmin \<noteq> ZeroAddress) ''ZeroAddress''
       (appeal_config_guards initialConfig
       (initializeGovernance A governanceController initialAdmin
         (admin_all A [(''PAUSER_ROLE'', ''ADMIN_ROLE''), (''DISPUTE_ROUTER_ROLE'', ''ADMIN_ROLE'')]
         (grant_all A [(DEFAULT_ADMIN_ROLE, initialAdmin), (''ADMIN_ROLE'', initialAdmin), (''PAUSER_ROLE'', initialAdmin),
            (''DISPUTE_ROUTER_ROLE'', initialAdmin)] (ax_empty A))))))))
   | _ \<Rightarrow> bad_arguments)"

end
