(* ===== verification/Deployments.thy ===== *)
theory Deployments
  imports Chain
begin

text \<open>
  \<open>scripts/deployCanonicalV2.ts\<close>: the deployment of the canonical V2 suite as a sequence of fallible
  steps on the list of deployed contracts; a failing step leaves the contracts created before it.
  \<open>ARTIFACTS\<close> are the contracts of the repository the scripts name, with the parameter lists of their
  constructors. Constructors whose bodies no script here reaches are the parameter \<open>de_otherCtor\<close>.
\<close>

section \<open>Artifacts\<close>

datatype contract_kind = KGovernanceController | KRewardToken | KStakeVault | KMockReputationOracle
  | KParameterVersionRegistry | KClaimRegistry | KTruthBountyWeighted | KVerificationAggregator
  | KProvisionalSettlementEngine | KAppealVerificationRound | KOther

record artifact =
  at_source :: string
  at_name :: string
  at_params :: "dparam list"
  at_kind :: contract_kind

definition artifact_of :: "string \<Rightarrow> string \<Rightarrow> dparam list \<Rightarrow> contract_kind \<Rightarrow> artifact" where
  "artifact_of src name params kind = \<lparr>at_source = src, at_name = name, at_params = params, at_kind = kind\<rparr>"

definition ARTIFACTS :: "artifact list" where
  "ARTIFACTS =
   [artifact_of ''contracts/governance/GovernanceController.sol'' ''GovernanceController'' [PAddress] KGovernanceController,
    artifact_of ''contracts/RewardToken.sol'' ''RewardToken'' [PAddress, PUint] KRewardToken,
    artifact_of ''contracts/StakeVault.sol'' ''StakeVault'' [PAddress, PAddress] KStakeVault,
    artifact_of ''contracts/v2/StakeVault.sol'' ''StakeVault'' [PAddress, PAddress, PAddress] KOther,
    artifact_of ''contracts/MockReputationOracle.sol'' ''MockReputationOracle'' [] KMockReputationOracle,
    artifact_of ''contracts/governance/ParameterVersionRegistry.sol'' ''ParameterVersionRegistry'' [PAddress, PAddress]
      KParameterVersionRegistry,
    artifact_of ''contracts/ClaimRegistry.sol'' ''ClaimRegistry'' [PAddress, PAddress] KClaimRegistry,
    artifact_of ''contracts/TruthBountyWeighted.sol'' ''TruthBountyWeighted'' [PAddress, PAddress, PAddress, PAddress]
      KTruthBountyWeighted,
    artifact_of ''contracts/VerificationAggregator.sol'' ''VerificationAggregator'' [PAddress, PAddress, PUint, PUint, PUint]
      KVerificationAggregator,
    artifact_of ''contracts/settlement/ProvisionalSettlementEngine.sol'' ''ProvisionalSettlementEngine''
      [PAddress, PAddress, PUint, PAddress, PAddress] KProvisionalSettlementEngine,
    artifact_of ''contracts/disputes/AppealVerificationRound.sol'' ''AppealVerificationRound''
      [PAddress, PAddress, PAddress, PAddress, PAppealConfig, PAddress, PAddress] KAppealVerificationRound,
    artifact_of ''contracts/WeightedStaking.sol'' ''WeightedStaking'' [PAddress, PAddress, PAddress] KOther,
    artifact_of ''contracts/staking/WeightedStaking.sol'' ''WeightedStaking'' [] KOther,
    artifact_of ''contracts/TruthBounty.sol'' ''TruthBountyToken'' [PAddress] KOther,
    artifact_of ''contracts/TruthBounty.sol'' ''TruthBounty'' [PAddress, PAddress, PAddress] KOther,
    artifact_of ''contracts/staking.sol'' ''Staking'' [PAddress, PUint, PAddress] KOther,
    artifact_of ''contracts/TruthBountyClaims.sol'' ''TruthBountyClaims'' [PAddress, PAddress] KOther,
    artifact_of ''contracts/VerifierSlashing.sol'' ''VerifierSlashing'' [PAddress, PAddress, PAddress] KOther,
    artifact_of ''contracts/fees/FeeManager.sol'' ''FeeManager'' (replicate 8 PAddress) KOther,
    artifact_of ''contracts/v2/FinalRewardAllocator.sol'' ''FinalRewardAllocator'' [PAddress, PUint] KOther,
    artifact_of ''contracts/Lock.sol'' ''Lock'' [PUint] KOther]"

definition qualified_name :: "artifact \<Rightarrow> string" where
  "qualified_name a = at_source a @ '':'' @ at_name a"

text \<open>Hardhat's lookup: a name with a colon is fully qualified; a bare name must be unique.\<close>

definition find_artifact :: "string \<Rightarrow> artifact res" where
  "find_artifact name =
     (case filter (\<lambda>a. if CHR '':'' \<in> set name then qualified_name a = name else at_name a = name) ARTIFACTS of
        [] \<Rightarrow> throw_error (''HH700: Artifact for contract '' @ name @ '' not found.'')
      | [a] \<Rightarrow> Inr a
      | _ \<Rightarrow> throw_error (''HH701: There are multiple artifacts for contract '' @ name))"

section \<open>The chain\<close>

record 'r deployed =
  dc_contract :: string
  dc_args :: "dvalue list"
  dc_roles :: 'r

type_synonym 'r chain = "'r deployed list"

record 'r deploy_env =
  de_access :: "'r access_api"
  de_otherCtor :: "string \<Rightarrow> dvalue list \<Rightarrow> 'r res"

definition run_ctor :: "'r deploy_env \<Rightarrow> artifact \<Rightarrow> dvalue list \<Rightarrow> 'r res" where
  "run_ctor E a args = (let A = de_access E in case at_kind a of
     KGovernanceController \<Rightarrow> ctor_GovernanceController A args
   | KRewardToken \<Rightarrow> ctor_RewardToken A args
   | KStakeVault \<Rightarrow> ctor_StakeVault A args
   | KMockReputationOracle \<Rightarrow> ctor_MockReputationOracle A args
   | KParameterVersionRegistry \<Rightarrow> ctor_ParameterVersionRegistry A args
   | KClaimRegistry \<Rightarrow> ctor_ClaimRegistry A args
   | KTruthBountyWeighted \<Rightarrow> ctor_TruthBountyWeighted A args
   | KVerificationAggregator \<Rightarrow> ctor_VerificationAggregator A args
   | KProvisionalSettlementEngine \<Rightarrow> ctor_ProvisionalSettlementEngine A args
   | KAppealVerificationRound \<Rightarrow> ctor_AppealVerificationRound A args
   | KOther \<Rightarrow> de_otherCtor E (qualified_name a) args)"

text \<open>\<open>getContractFactory(name).deploy(...args)\<close>: the argument count is checked against the constructor
  and every argument encoded for its parameter before the constructor runs.\<close>

definition deploy :: "'r deploy_env \<Rightarrow> string \<Rightarrow> dvalue list \<Rightarrow> ('r chain, chain_address) action" where
  "deploy E name args ch =
     (case find_artifact name of
        Inl e \<Rightarrow> (Inl e, ch)
      | Inr a \<Rightarrow>
          if length args \<noteq> length (at_params a)
          then (throw_error ''incorrect number of arguments to constructor'', ch)
          else if \<not> list_all2 fits (at_params a) args then (bad_arguments, ch)
          else (case run_ctor E a args of
            Inl e \<Rightarrow> (Inl e, ch)
          | Inr roles \<Rightarrow> (Inr (Contract (length ch)),
              ch @ [\<lparr>dc_contract = qualified_name a, dc_args = args, dc_roles = roles\<rparr>])))"

definition contract_at :: "'r chain \<Rightarrow> chain_address \<Rightarrow> 'r deployed option" where
  "contract_at ch a = (case a of Contract n \<Rightarrow> if n < length ch then Some (ch ! n) else None | _ \<Rightarrow> None)"

definition call_roles :: "(string \<Rightarrow> chain_address \<Rightarrow> 'r \<Rightarrow> 'r res) \<Rightarrow> chain_address \<Rightarrow> string \<Rightarrow> chain_address \<Rightarrow>
    ('r chain, unit) action" where
  "call_roles f target role account ch =
     (case target of
        Contract n \<Rightarrow> if n < length ch then (case f role account (dc_roles (ch ! n)) of
            Inl e \<Rightarrow> (Inl e, ch)
          | Inr roles \<Rightarrow> (Inr (), ch[n := (ch ! n)\<lparr>dc_roles := roles\<rparr>]))
          else (throw_error ''could not decode result data'', ch)
      | _ \<Rightarrow> (throw_error ''could not decode result data'', ch))"

definition grantRole :: "'r deploy_env \<Rightarrow> chain_address \<Rightarrow> chain_address \<Rightarrow> string \<Rightarrow> chain_address \<Rightarrow>
    ('r chain, unit) action" where
  "grantRole E sender = call_roles (\<lambda>role account s.
     if ax_has (de_access E) s (ax_admin (de_access E) s role) sender then Inr (ax_grant (de_access E) role account s)
     else Inl (JsError ''Revert'' ''AccessControlUnauthorizedAccount''))"

definition renounceRole :: "'r deploy_env \<Rightarrow> chain_address \<Rightarrow> chain_address \<Rightarrow> string \<Rightarrow> chain_address \<Rightarrow>
    ('r chain, unit) action" where
  "renounceRole E sender = call_roles (\<lambda>role account s.
     if account = sender then Inr (ax_revoke (de_access E) role account s)
     else Inl (JsError ''Revert'' ''AccessControlBadConfirmation''))"

definition has_role :: "'r deploy_env \<Rightarrow> 'r chain \<Rightarrow> chain_address \<Rightarrow> string \<Rightarrow> chain_address \<Rightarrow> bool" where
  "has_role E ch target role account = (case contract_at ch target of
     None \<Rightarrow> False | Some c \<Rightarrow> ax_has (de_access E) (dc_roles c) role account)"

section \<open>The canonical suite\<close>

record deployment_options =
  do_initialSupply :: "int option"
  do_minVerificationCount :: "int option"
  do_minTotalWeight :: "int option"
  do_minConfidenceBps :: "int option"
  do_challengeWindowDuration :: "int option"
  do_appealDuration :: "int option"
  do_minAppealStake :: "int option"
  do_appealMultiplierBps :: "int option"
  do_maxWeightCap :: "int option"
  do_maxAppealRounds :: "int option"
  do_appealBond :: "int option"
  do_appealBondEscalationBps :: "int option"
  do_maxAppealBond :: "int option"
  do_maxVotersPerRound :: "int option"
  do_finalizeDeployerRoles :: "bool option"

record canonical_suite =
  su_governanceController :: chain_address
  su_token :: chain_address
  su_oracle :: chain_address
  su_claimRegistry :: chain_address
  su_truthBountyWeighted :: chain_address
  su_aggregator :: chain_address
  su_provisionalSettlementEngine :: chain_address
  su_appealVerificationRound :: chain_address
  su_bondVault :: chain_address

definition orElse :: "'a option \<Rightarrow> 'a \<Rightarrow> 'a" where
  "orElse opt dflt = (case opt of None \<Rightarrow> dflt | Some v \<Rightarrow> v)"

definition parseEther :: "int \<Rightarrow> int" where
  "parseEther n = n * 10 ^ 18"

definition initial_appeal_config :: "deployment_options \<Rightarrow> appeal_config" where
  "initial_appeal_config opts = \<lparr>ac_roundDuration = orElse (do_appealDuration opts) (3 * 24 * 3600),
     ac_minStakeAmount = orElse (do_minAppealStake opts) (parseEther 200),
     ac_stakeMultiplierBps = orElse (do_appealMultiplierBps opts) 15000,
     ac_maxWeightCap = orElse (do_maxWeightCap opts) (parseEther 100000),
     ac_parameterVersion = 1,
     ac_maxAppealRounds = orElse (do_maxAppealRounds opts) 1,
     ac_appealBond = orElse (do_appealBond opts) (parseEther 1000),
     ac_appealBondEscalationBps = orElse (do_appealBondEscalationBps opts) 15000,
     ac_maxAppealBond = orElse (do_maxAppealBond opts) (parseEther 5000),
     ac_maxVotersPerRound = orElse (do_maxVotersPerRound opts) 200\<rparr>"

definition deployCanonicalV2 :: "'r deploy_env \<Rightarrow> chain_address \<Rightarrow> deployment_options \<Rightarrow>
    ('r chain, canonical_suite) action" where
  "deployCanonicalV2 E deployer opts =
     act_bind (deploy E ''GovernanceController'' [DAddr deployer]) (\<lambda>governanceController.
     act_bind (deploy E ''RewardToken'' [DAddr deployer, DInt (orElse (do_initialSupply opts) (parseEther 10000000))]) (\<lambda>token.
     act_bind (deploy E ''contracts/StakeVault.sol:StakeVault'' [DAddr deployer, DAddr token]) (\<lambda>bondVault.
     act_bind (deploy E ''MockReputationOracle'' []) (\<lambda>oracle.
     act_bind (deploy E ''ParameterVersionRegistry'' [DAddr deployer, DAddr deployer]) (\<lambda>parameterVersionRegistry.
     act_bind (deploy E ''ClaimRegistry'' [DAddr deployer, DAddr parameterVersionRegistry]) (\<lambda>claimRegistry.
     act_bind (deploy E ''TruthBountyWeighted''
       [DAddr token, DAddr oracle, DAddr deployer, DAddr governanceController]) (\<lambda>truthBountyWeighted.
     act_bind (deploy E ''VerificationAggregator''
       [DAddr truthBountyWeighted, DAddr deployer, DInt (orElse (do_minVerificationCount opts) 1),
        DInt (orElse (do_minTotalWeight opts) 0), DInt (orElse (do_minConfidenceBps opts) 0)]) (\<lambda>aggregator.
     act_bind (deploy E ''ProvisionalSettlementEngine''
       [DAddr claimRegistry, DAddr aggregator, DInt (orElse (do_challengeWindowDuration opts) (3 * 24 * 3600)),
        DAddr governanceController, DAddr deployer]) (\<lambda>provisionalSettlementEngine.
     act_bind (deploy E ''AppealVerificationRound''
       [DAddr token, DAddr claimRegistry, DAddr oracle, DAddr bondVault, DAppeal (initial_appeal_config opts),
        DAddr governanceController, DAddr deployer]) (\<lambda>appealVerificationRound.
     act_bind (grantRole E deployer claimRegistry ''REGISTRY_UPDATER_ROLE'' provisionalSettlementEngine) (\<lambda>u.
     act_bind (grantRole E deployer bondVault ''OPERATOR_ROLE'' appealVerificationRound) (\<lambda>u.
     act_bind (if orElse (do_finalizeDeployerRoles opts) False
        then (\<lambda>ch. (if has_role E ch claimRegistry ''REGISTRY_UPDATER_ROLE'' deployer
           then renounceRole E deployer claimRegistry ''REGISTRY_UPDATER_ROLE'' deployer else act_return ()) ch)
        else act_return ()) (\<lambda>u.
     act_return \<lparr>su_governanceController = governanceController, su_token = token, su_oracle = oracle,
       su_claimRegistry = claimRegistry, su_truthBountyWeighted = truthBountyWeighted, su_aggregator = aggregator,
       su_provisionalSettlementEngine = provisionalSettlementEngine,
       su_appealVerificationRound = appealVerificationRound, su_bondVault = bondVault\<rparr>)))))))))))))"

section \<open>Deployment steps\<close>

definition the_artifact :: "string \<Rightarrow> artifact" where
  "the_artifact name = (case find_artifact name of Inr a \<Rightarrow> a | Inl e \<Rightarrow> artifact_of [] [] [] KOther)"

definition made :: "'r deploy_env \<Rightarrow> string \<Rightarrow> dvalue list \<Rightarrow> 'r deployed" where
  "made E name args = \<lparr>dc_contract = qualified_name (the_artifact name), dc_args = args,
     dc_roles = projr (run_ctor E (the_artifact name) args)\<rparr>"

lemma find_canonical:
  "find_artifact ''GovernanceController'' = Inr (the_artifact ''GovernanceController'')"
  "find_artifact ''RewardToken'' = Inr (the_artifact ''RewardToken'')"
  "find_artifact ''contracts/StakeVault.sol:StakeVault'' = Inr (the_artifact ''contracts/StakeVault.sol:StakeVault'')"
  "find_artifact ''MockReputationOracle'' = Inr (the_artifact ''MockReputationOracle'')"
  "find_artifact ''ParameterVersionRegistry'' = Inr (the_artifact ''ParameterVersionRegistry'')"
  "find_artifact ''ClaimRegistry'' = Inr (the_artifact ''ClaimRegistry'')"
  "find_artifact ''TruthBountyWeighted'' = Inr (the_artifact ''TruthBountyWeighted'')"
  "find_artifact ''VerificationAggregator'' = Inr (the_artifact ''VerificationAggregator'')"
  "find_artifact ''ProvisionalSettlementEngine'' = Inr (the_artifact ''ProvisionalSettlementEngine'')"
  "find_artifact ''AppealVerificationRound'' = Inr (the_artifact ''AppealVerificationRound'')"
  by code_simp+

lemma params_canonical:
  "at_params (the_artifact ''GovernanceController'') = [PAddress]"
  "at_params (the_artifact ''RewardToken'') = [PAddress, PUint]"
  "at_params (the_artifact ''contracts/StakeVault.sol:StakeVault'') = [PAddress, PAddress]"
  "at_params (the_artifact ''MockReputationOracle'') = []"
  "at_params (the_artifact ''ParameterVersionRegistry'') = [PAddress, PAddress]"
  "at_params (the_artifact ''ClaimRegistry'') = [PAddress, PAddress]"
  "at_params (the_artifact ''TruthBountyWeighted'') = [PAddress, PAddress, PAddress, PAddress]"
  "at_params (the_artifact ''VerificationAggregator'') = [PAddress, PAddress, PUint, PUint, PUint]"
  "at_params (the_artifact ''ProvisionalSettlementEngine'') = [PAddress, PAddress, PUint, PAddress, PAddress]"
  "at_params (the_artifact ''AppealVerificationRound'') =
     [PAddress, PAddress, PAddress, PAddress, PAppealConfig, PAddress, PAddress]"
  by code_simp+

lemma kind_canonical:
  "at_kind (the_artifact ''GovernanceController'') = KGovernanceController"
  "at_kind (the_artifact ''RewardToken'') = KRewardToken"
  "at_kind (the_artifact ''contracts/StakeVault.sol:StakeVault'') = KStakeVault"
  "at_kind (the_artifact ''MockReputationOracle'') = KMockReputationOracle"
  "at_kind (the_artifact ''ParameterVersionRegistry'') = KParameterVersionRegistry"
  "at_kind (the_artifact ''ClaimRegistry'') = KClaimRegistry"
  "at_kind (the_artifact ''TruthBountyWeighted'') = KTruthBountyWeighted"
  "at_kind (the_artifact ''VerificationAggregator'') = KVerificationAggregator"
  "at_kind (the_artifact ''ProvisionalSettlementEngine'') = KProvisionalSettlementEngine"
  "at_kind (the_artifact ''AppealVerificationRound'') = KAppealVerificationRound"
  by code_simp+

lemmas ctor_defs = ctor_GovernanceController_def ctor_RewardToken_def ctor_StakeVault_def
  ctor_MockReputationOracle_def ctor_ParameterVersionRegistry_def ctor_ClaimRegistry_def
  ctor_TruthBountyWeighted_def ctor_VerificationAggregator_def ctor_ProvisionalSettlementEngine_def
  ctor_AppealVerificationRound_def initializeGovernance_def require_def

lemma deploy_step:
  assumes "find_artifact name = Inr (the_artifact name)"
  shows "deploy E name args ch =
    (if length args \<noteq> length (at_params (the_artifact name))
     then (throw_error ''incorrect number of arguments to constructor'', ch)
     else if \<not> list_all2 fits (at_params (the_artifact name)) args then (bad_arguments, ch)
     else (case run_ctor E (the_artifact name) args of Inl e \<Rightarrow> (Inl e, ch)
       | Inr r \<Rightarrow> (Inr (Contract (length ch)), ch @ [made E name args])))"
  using assms by (simp add: deploy_def made_def split: sum.split)

lemmas deploy_steps = find_canonical [THEN deploy_step]

lemma act_bind_ok: "m s = (Inr a, s') \<Longrightarrow> act_bind m f s = f a s'"
  by (simp add: act_bind_def)

lemma act_bind_fails: "isl (fst (m s)) \<Longrightarrow> isl (fst (act_bind m f s))"
  by (cases "m s"; cases "fst (m s)") (auto simp: act_bind_def)

text \<open>The configurations the appeal module accepts, the options every constructor accepts.\<close>

definition appeal_in_bounds :: "appeal_config \<Rightarrow> bool" where
  "appeal_in_bounds c \<longleftrightarrow> list_all uint256 (appeal_fields c) \<and>
     3600 \<le> ac_roundDuration c \<and> ac_roundDuration c \<le> 30 * 86400 \<and> ac_minStakeAmount c \<noteq> 0 \<and>
     ac_stakeMultiplierBps c \<noteq> 0 \<and> ac_maxAppealRounds c \<noteq> 0 \<and> ac_maxAppealRounds c \<le> 3 \<and>
     ac_appealBond c \<noteq> 0 \<and> 10000 \<le> ac_appealBondEscalationBps c \<and> ac_appealBondEscalationBps c \<le> 40000 \<and>
     ac_maxAppealBond c \<noteq> 0 \<and> ac_appealBond c \<le> ac_maxAppealBond c \<and>
     ac_maxVotersPerRound c \<noteq> 0 \<and> ac_maxVotersPerRound c \<le> 200"

definition supply_in_bounds :: "deployment_options \<Rightarrow> bool" where
  "supply_in_bounds opts \<longleftrightarrow> uint256 (orElse (do_initialSupply opts) (parseEther 10000000))"

definition aggregator_in_bounds :: "deployment_options \<Rightarrow> bool" where
  "aggregator_in_bounds opts \<longleftrightarrow>
     uint256 (orElse (do_minVerificationCount opts) 1) \<and> uint256 (orElse (do_minTotalWeight opts) 0) \<and>
     0 \<le> orElse (do_minConfidenceBps opts) 0 \<and> orElse (do_minConfidenceBps opts) 0 \<le> 10000"

definition window_in_bounds :: "deployment_options \<Rightarrow> bool" where
  "window_in_bounds opts \<longleftrightarrow>
     3600 \<le> orElse (do_challengeWindowDuration opts) (3 * 24 * 3600) \<and>
     orElse (do_challengeWindowDuration opts) (3 * 24 * 3600) \<le> 30 * 86400"

definition options_in_bounds :: "deployment_options \<Rightarrow> bool" where
  "options_in_bounds opts \<longleftrightarrow> supply_in_bounds opts \<and> aggregator_in_bounds opts \<and> window_in_bounds opts \<and>
     appeal_in_bounds (initial_appeal_config opts)"

lemma uint256_small: "0 \<le> n \<Longrightarrow> n \<le> 2592000 \<Longrightarrow> uint256 n"
  by (simp add: uint256_def)

lemmas run_defs = deploy_steps params_canonical kind_canonical run_ctor_def ctor_defs Let_def

lemma plain_steps:
  "deploy E ''GovernanceController'' [DAddr (Account d)] ch =
     (Inr (Contract (length ch)), ch @ [made E ''GovernanceController'' [DAddr (Account d)]])"
  "deploy E ''contracts/StakeVault.sol:StakeVault'' [DAddr (Account d), DAddr (Contract t)] ch =
     (Inr (Contract (length ch)), ch @ [made E ''contracts/StakeVault.sol:StakeVault'' [DAddr (Account d), DAddr (Contract t)]])"
  "deploy E ''MockReputationOracle'' [] ch = (Inr (Contract (length ch)), ch @ [made E ''MockReputationOracle'' []])"
  "deploy E ''ParameterVersionRegistry'' [DAddr (Account d), DAddr (Account d)] ch =
     (Inr (Contract (length ch)), ch @ [made E ''ParameterVersionRegistry'' [DAddr (Account d), DAddr (Account d)]])"
  "deploy E ''ClaimRegistry'' [DAddr (Account d), DAddr (Contract v)] ch =
     (Inr (Contract (length ch)), ch @ [made E ''ClaimRegistry'' [DAddr (Account d), DAddr (Contract v)]])"
  "deploy E ''TruthBountyWeighted'' [DAddr (Contract t), DAddr (Contract r), DAddr (Account d), DAddr (Contract g)] ch =
     (Inr (Contract (length ch)), ch @ [made E ''TruthBountyWeighted''
        [DAddr (Contract t), DAddr (Contract r), DAddr (Account d), DAddr (Contract g)]])"
  by (simp_all add: run_defs)

lemma token_step:
  "uint256 n \<Longrightarrow> deploy E ''RewardToken'' [DAddr (Account d), DInt n] ch =
     (Inr (Contract (length ch)), ch @ [made E ''RewardToken'' [DAddr (Account d), DInt n]])"
  "\<not> uint256 n \<Longrightarrow> isl (fst (deploy E ''RewardToken'' [DAddr (Account d), DInt n] ch))"
  by (simp_all add: run_defs bad_arguments_def)

lemma aggregator_step:
  "uint256 n \<Longrightarrow> uint256 w \<Longrightarrow> 0 \<le> k \<Longrightarrow> k \<le> 10000 \<Longrightarrow>
   deploy E ''VerificationAggregator'' [DAddr (Contract v), DAddr (Account d), DInt n, DInt w, DInt k] ch =
     (Inr (Contract (length ch)), ch @ [made E ''VerificationAggregator'' [DAddr (Contract v), DAddr (Account d), DInt n, DInt w, DInt k]])"
  "\<not> (uint256 n \<and> uint256 w \<and> 0 \<le> k \<and> k \<le> 10000) \<Longrightarrow>
   isl (fst (deploy E ''VerificationAggregator'' [DAddr (Contract v), DAddr (Account d), DInt n, DInt w, DInt k] ch))"
  by (auto simp add: run_defs bad_arguments_def uint256_small) (auto simp: uint256_def)

lemma settlement_step:
  "3600 \<le> w \<Longrightarrow> w \<le> 30 * 86400 \<Longrightarrow>
   deploy E ''ProvisionalSettlementEngine'' [DAddr (Contract c), DAddr (Contract a), DInt w, DAddr (Contract g), DAddr (Account d)] ch =
     (Inr (Contract (length ch)), ch @ [made E ''ProvisionalSettlementEngine''
        [DAddr (Contract c), DAddr (Contract a), DInt w, DAddr (Contract g), DAddr (Account d)]])"
  "\<not> (3600 \<le> w \<and> w \<le> 30 * 86400) \<Longrightarrow> isl (fst (deploy E ''ProvisionalSettlementEngine''
     [DAddr (Contract c), DAddr (Contract a), DInt w, DAddr (Contract g), DAddr (Account d)] ch))"
  by (auto simp add: run_defs bad_arguments_def uint256_small)

lemma appeal_step:
  "appeal_in_bounds k \<Longrightarrow>
   deploy E ''AppealVerificationRound'' [DAddr (Contract t), DAddr (Contract c), DAddr (Contract r), DAddr (Contract v),
      DAppeal k, DAddr (Contract g), DAddr (Account d)] ch =
     (Inr (Contract (length ch)), ch @ [made E ''AppealVerificationRound'' [DAddr (Contract t), DAddr (Contract c),
        DAddr (Contract r), DAddr (Contract v), DAppeal k, DAddr (Contract g), DAddr (Account d)]])"
  "\<not> appeal_in_bounds k \<Longrightarrow> isl (fst (deploy E ''AppealVerificationRound'' [DAddr (Contract t), DAddr (Contract c),
      DAddr (Contract r), DAddr (Contract v), DAppeal k, DAddr (Contract g), DAddr (Account d)] ch))"
  by (simp_all add: run_defs bad_arguments_def appeal_config_guards_def appeal_in_bounds_def) blast

definition suite_at :: "nat \<Rightarrow> canonical_suite" where
  "suite_at n = \<lparr>su_governanceController = Contract n, su_token = Contract (n + 1), su_oracle = Contract (n + 3),
     su_claimRegistry = Contract (n + 5), su_truthBountyWeighted = Contract (n + 6), su_aggregator = Contract (n + 7),
     su_provisionalSettlementEngine = Contract (n + 8), su_appealVerificationRound = Contract (n + 9),
     su_bondVault = Contract (n + 2)\<rparr>"

text \<open>The ten contracts after their constructors.\<close>

definition suite_contracts :: "'r deploy_env \<Rightarrow> string \<Rightarrow> deployment_options \<Rightarrow> nat \<Rightarrow> 'r chain" where
  "suite_contracts E d opts n =
     [made E ''GovernanceController'' [DAddr (Account d)],
      made E ''RewardToken'' [DAddr (Account d), DInt (orElse (do_initialSupply opts) (parseEther 10000000))],
      made E ''contracts/StakeVault.sol:StakeVault'' [DAddr (Account d), DAddr (Contract (n + 1))],
      made E ''MockReputationOracle'' [],
      made E ''ParameterVersionRegistry'' [DAddr (Account d), DAddr (Account d)],
      made E ''ClaimRegistry'' [DAddr (Account d), DAddr (Contract (n + 4))],
      made E ''TruthBountyWeighted'' [DAddr (Contract (n + 1)), DAddr (Contract (n + 3)), DAddr (Account d), DAddr (Contract n)],
      made E ''VerificationAggregator'' [DAddr (Contract (n + 6)), DAddr (Account d),
        DInt (orElse (do_minVerificationCount opts) 1), DInt (orElse (do_minTotalWeight opts) 0),
        DInt (orElse (do_minConfidenceBps opts) 0)],
      made E ''ProvisionalSettlementEngine'' [DAddr (Contract (n + 5)), DAddr (Contract (n + 7)),
        DInt (orElse (do_challengeWindowDuration opts) (3 * 24 * 3600)), DAddr (Contract n), DAddr (Account d)],
      made E ''AppealVerificationRound'' [DAddr (Contract (n + 1)), DAddr (Contract (n + 5)), DAddr (Contract (n + 3)),
        DAddr (Contract (n + 2)), DAppeal (initial_appeal_config opts), DAddr (Contract n), DAddr (Account d)]]"

definition wire_roles :: "'r deploy_env \<Rightarrow> nat \<Rightarrow> 'r chain \<Rightarrow> 'r chain" where
  "wire_roles E n cs =
     (let grant = (\<lambda>role account c. c\<lparr>dc_roles := ax_grant (de_access E) role account (dc_roles c)\<rparr>) in
      cs[5 := grant ''REGISTRY_UPDATER_ROLE'' (Contract (n + 8)) (cs ! 5),
         2 := grant ''OPERATOR_ROLE'' (Contract (n + 9)) (cs ! 2)])"

lemma vault_roles:
  assumes "access_laws (de_access E)"
  shows "ax_has (de_access E) (dc_roles (made E ''contracts/StakeVault.sol:StakeVault'' [DAddr (Account d), DAddr (Contract t)])) r a
      \<longleftrightarrow> a = Account d \<and> r \<in> {DEFAULT_ADMIN_ROLE, ''ADMIN_ROLE''}"
    and "ax_admin (de_access E) (dc_roles (made E ''contracts/StakeVault.sol:StakeVault'' [DAddr (Account d), DAddr (Contract t)]))
      ''OPERATOR_ROLE'' = ''ADMIN_ROLE''"
  using access_laws.role_simps [OF assms]
  by (auto simp: made_def run_ctor_def kind_canonical ctor_StakeVault_def require_def Let_def)

lemma registry_roles:
  assumes "access_laws (de_access E)"
  shows "ax_has (de_access E) (dc_roles (made E ''ClaimRegistry'' [DAddr (Account d), DAddr (Contract t)])) r a
      \<longleftrightarrow> a = Account d \<and> r \<in> {DEFAULT_ADMIN_ROLE, ''ADMIN_ROLE''}"
    and "ax_admin (de_access E) (dc_roles (made E ''ClaimRegistry'' [DAddr (Account d), DAddr (Contract t)]))
      ''REGISTRY_UPDATER_ROLE'' = ''ADMIN_ROLE''"
  using access_laws.role_simps [OF assms]
  by (auto simp: made_def run_ctor_def kind_canonical ctor_ClaimRegistry_def require_def Let_def)

lemma grantRole_at:
  assumes "length cs = k + m" "m > 0" "ax_has (de_access E) (dc_roles (cs ! k)) (ax_admin (de_access E) (dc_roles (cs ! k)) role) sender"
  shows "grantRole E sender (Contract (length ch + k)) role account (ch @ cs) =
    (Inr (), ch @ cs[k := (cs ! k)\<lparr>dc_roles := ax_grant (de_access E) role account (dc_roles (cs ! k))\<rparr>])"
  using assms by (simp add: grantRole_def call_roles_def nth_append list_update_append)

lemma has_role_at:
  "k < length cs \<Longrightarrow> has_role E (ch @ cs) (Contract (length ch + k)) role account \<longleftrightarrow>
     ax_has (de_access E) (dc_roles (cs ! k)) role account"
  by (simp add: has_role_def contract_at_def nth_append)

lemma suite_contracts_length [simp]: "length (suite_contracts E d opts n) = 10"
  by (simp add: suite_contracts_def)

lemma wired_registry:
  assumes "access_laws (de_access E)"
  shows "has_role E (ch @ wire_roles E (length ch) (suite_contracts E d opts (length ch))) (Contract (length ch + 5)) r a \<longleftrightarrow>
    a = Account d \<and> r \<in> {DEFAULT_ADMIN_ROLE, ''ADMIN_ROLE''} \<or> r = ''REGISTRY_UPDATER_ROLE'' \<and> a = Contract (length ch + 8)"
  by (simp only: has_role_at [of 5] length_list_update wire_roles_def Let_def suite_contracts_length)
     (auto simp: suite_contracts_def registry_roles [OF assms] access_laws.role_simps [OF assms])

lemma wired_vault:
  assumes "access_laws (de_access E)"
  shows "has_role E (ch @ wire_roles E (length ch) (suite_contracts E d opts (length ch))) (Contract (length ch + 2)) r a \<longleftrightarrow>
    a = Account d \<and> r \<in> {DEFAULT_ADMIN_ROLE, ''ADMIN_ROLE''} \<or> r = ''OPERATOR_ROLE'' \<and> a = Contract (length ch + 9)"
  by (simp only: has_role_at [of 2] length_list_update wire_roles_def Let_def suite_contracts_length)
     (auto simp: suite_contracts_def vault_roles [OF assms] access_laws.role_simps [OF assms])

text \<open>The steps before the first one that checks options, and all ten.\<close>

lemma first_steps:
  fixes ch :: "'r chain" and E :: "'r deploy_env" and d :: string and opts :: deployment_options
  defines "n \<equiv> length ch"
  defines "cs \<equiv> suite_contracts E d opts n"
  assumes "supply_in_bounds opts"
  shows "deploy E ''GovernanceController'' [DAddr (Account d)] ch = (Inr (Contract n), ch @ take 1 cs)"
    and "deploy E ''RewardToken'' [DAddr (Account d), DInt (orElse (do_initialSupply opts) (parseEther 10000000))] (ch @ take 1 cs) =
      (Inr (Contract (n + 1)), ch @ take 2 cs)"
    and "deploy E ''contracts/StakeVault.sol:StakeVault'' [DAddr (Account d), DAddr (Contract (n + 1))] (ch @ take 2 cs) =
      (Inr (Contract (n + 2)), ch @ take 3 cs)"
    and "deploy E ''MockReputationOracle'' [] (ch @ take 3 cs) = (Inr (Contract (n + 3)), ch @ take 4 cs)"
    and "deploy E ''ParameterVersionRegistry'' [DAddr (Account d), DAddr (Account d)] (ch @ take 4 cs) =
      (Inr (Contract (n + 4)), ch @ take 5 cs)"
    and "deploy E ''ClaimRegistry'' [DAddr (Account d), DAddr (Contract (n + 4))] (ch @ take 5 cs) =
      (Inr (Contract (n + 5)), ch @ take 6 cs)"
    and "deploy E ''TruthBountyWeighted'' [DAddr (Contract (n + 1)), DAddr (Contract (n + 3)), DAddr (Account d), DAddr (Contract n)]
        (ch @ take 6 cs) = (Inr (Contract (n + 6)), ch @ take 7 cs)"
  using assms(3) by (simp_all add: supply_in_bounds_def plain_steps token_step suite_contracts_def cs_def n_def eval_nat_numeral)

lemma last_steps:
  fixes ch :: "'r chain" and E :: "'r deploy_env" and d :: string and opts :: deployment_options
  defines "n \<equiv> length ch"
  defines "cs \<equiv> suite_contracts E d opts n"
  shows "aggregator_in_bounds opts \<Longrightarrow> deploy E ''VerificationAggregator'' [DAddr (Contract (n + 6)), DAddr (Account d),
        DInt (orElse (do_minVerificationCount opts) 1), DInt (orElse (do_minTotalWeight opts) 0),
        DInt (orElse (do_minConfidenceBps opts) 0)] (ch @ take 7 cs) = (Inr (Contract (n + 7)), ch @ take 8 cs)"
    and "window_in_bounds opts \<Longrightarrow> deploy E ''ProvisionalSettlementEngine'' [DAddr (Contract (n + 5)), DAddr (Contract (n + 7)),
        DInt (orElse (do_challengeWindowDuration opts) (3 * 24 * 3600)), DAddr (Contract n), DAddr (Account d)] (ch @ take 8 cs) =
      (Inr (Contract (n + 8)), ch @ take 9 cs)"
    and "appeal_in_bounds (initial_appeal_config opts) \<Longrightarrow> deploy E ''AppealVerificationRound'' [DAddr (Contract (n + 1)),
        DAddr (Contract (n + 5)), DAddr (Contract (n + 3)), DAddr (Contract (n + 2)), DAppeal (initial_appeal_config opts),
        DAddr (Contract n), DAddr (Account d)] (ch @ take 9 cs) = (Inr (Contract (n + 9)), ch @ cs)"
  by (simp_all add: aggregator_step settlement_step appeal_step suite_contracts_def cs_def n_def eval_nat_numeral
      aggregator_in_bounds_def window_in_bounds_def)

lemma canonical_run:
  assumes laws: "access_laws (de_access E)" and ok: "options_in_bounds opts"
  shows "deployCanonicalV2 E (Account d) opts ch =
    (Inr (suite_at (length ch)), ch @ wire_roles E (length ch) (suite_contracts E d opts (length ch)))"
proof -
  let ?n = "length ch" and ?cs = "suite_contracts E d opts (length ch)"
  let ?reg = "?cs[5 := (?cs ! 5)\<lparr>dc_roles := ax_grant (de_access E) ''REGISTRY_UPDATER_ROLE'' (Contract (?n + 8)) (dc_roles (?cs ! 5))\<rparr>]"
  have bounds: "supply_in_bounds opts" "aggregator_in_bounds opts" "window_in_bounds opts" "appeal_in_bounds (initial_appeal_config opts)"
    using ok by (simp_all add: options_in_bounds_def)
  have registry: "grantRole E (Account d) (Contract (?n + 5)) ''REGISTRY_UPDATER_ROLE'' (Contract (?n + 8)) (ch @ ?cs) = (Inr (), ch @ ?reg)"
    by (rule grantRole_at [where m = 5]) (simp_all add: suite_contracts_def registry_roles [OF laws])
  have vault: "grantRole E (Account d) (Contract (?n + 2)) ''OPERATOR_ROLE'' (Contract (?n + 9)) (ch @ ?reg) =
      (Inr (), ch @ wire_roles E ?n ?cs)"
    by (subst grantRole_at [where m = 8])
      (simp_all add: suite_contracts_def vault_roles [OF laws] wire_roles_def Let_def)
  have "\<not> has_role E (ch @ wire_roles E ?n ?cs) (Contract (?n + 5)) ''REGISTRY_UPDATER_ROLE'' (Account d)"
    by (simp add: wired_registry [OF laws] DEFAULT_ADMIN_ROLE_def)
  then have finalize: "(if orElse (do_finalizeDeployerRoles opts) False
      then (\<lambda>ch. (if has_role E ch (Contract (?n + 5)) ''REGISTRY_UPDATER_ROLE'' (Account d)
           then renounceRole E (Account d) (Contract (?n + 5)) ''REGISTRY_UPDATER_ROLE'' (Account d) else act_return ()) ch)
      else act_return ()) (ch @ wire_roles E ?n ?cs) = (Inr (), ch @ wire_roles E ?n ?cs)"
    by (simp add: act_return_def)
  show ?thesis
    unfolding deployCanonicalV2_def
    by (simp only: act_bind_def first_steps [OF bounds(1)] last_steps(1) [OF bounds(2)] last_steps(2) [OF bounds(3)]
        last_steps(3) [OF bounds(4)] registry vault finalize prod.case sum.case)
      (simp add: act_return_def suite_at_def)
qed

lemma isl_fst_pair: "isl (fst p) \<Longrightarrow> \<exists>e s. p = (Inl e, s)"
  by (cases p) (auto simp: isl_def)

lemma canonical_fails:
  assumes "\<not> options_in_bounds opts"
  shows "isl (fst (deployCanonicalV2 E (Account d) opts ch))"
proof (cases "supply_in_bounds opts")
  case False
  then obtain e s where "deploy E ''RewardToken'' [DAddr (Account d), DInt (orElse (do_initialSupply opts) (parseEther 10000000))]
      (ch @ [made E ''GovernanceController'' [DAddr (Account d)]]) = (Inl e, s)"
    using isl_fst_pair [OF token_step(2)] unfolding supply_in_bounds_def by blast
  then show ?thesis
    unfolding deployCanonicalV2_def by (simp only: act_bind_def plain_steps prod.case sum.case fst_conv sum.disc)
next
  case sup: True
  note start = first_steps [OF sup]
  let ?n = "length ch" and ?cs = "suite_contracts E d opts (length ch)"
  show ?thesis
  proof (cases "aggregator_in_bounds opts")
    case False
    then obtain e s where "deploy E ''VerificationAggregator'' [DAddr (Contract (?n + 6)), DAddr (Account d),
        DInt (orElse (do_minVerificationCount opts) 1), DInt (orElse (do_minTotalWeight opts) 0),
        DInt (orElse (do_minConfidenceBps opts) 0)] (ch @ take 7 ?cs) = (Inl e, s)"
      using isl_fst_pair [OF aggregator_step(2)] unfolding aggregator_in_bounds_def by blast
    then show ?thesis
      unfolding deployCanonicalV2_def by (simp only: act_bind_def start prod.case sum.case fst_conv sum.disc)
  next
    case aggregator: True
    show ?thesis
    proof (cases "window_in_bounds opts")
      case False
      then obtain e s where "deploy E ''ProvisionalSettlementEngine'' [DAddr (Contract (?n + 5)), DAddr (Contract (?n + 7)),
          DInt (orElse (do_challengeWindowDuration opts) (3 * 24 * 3600)), DAddr (Contract ?n), DAddr (Account d)]
          (ch @ take 8 ?cs) = (Inl e, s)"
        using isl_fst_pair [OF settlement_step(2)] unfolding window_in_bounds_def by blast
      then show ?thesis
        unfolding deployCanonicalV2_def
        by (simp only: act_bind_def start last_steps(1) [OF aggregator] prod.case sum.case fst_conv sum.disc)
    next
      case window: True
      with assms sup aggregator have "\<not> appeal_in_bounds (initial_appeal_config opts)"
        by (simp add: options_in_bounds_def)
      then obtain e s where "deploy E ''AppealVerificationRound'' [DAddr (Contract (?n + 1)), DAddr (Contract (?n + 5)),
          DAddr (Contract (?n + 3)), DAddr (Contract (?n + 2)), DAppeal (initial_appeal_config opts), DAddr (Contract ?n),
          DAddr (Account d)] (ch @ take 9 ?cs) = (Inl e, s)"
        using isl_fst_pair [OF appeal_step(2)] by blast
      then show ?thesis
        unfolding deployCanonicalV2_def
        by (simp only: act_bind_def start last_steps(1) [OF aggregator] last_steps(2) [OF window] prod.case sum.case
            fst_conv sum.disc)
    qed
  qed
qed

section \<open>Properties of the canonical deployment\<close>

text \<open>The deployment script succeeds exactly for the options within the bounds of the constructors:
  256 bit amounts, a confidence of at most 100 percent, a challenge window of an hour to thirty days
  and an appeal configuration the appeal module accepts. Nothing else (the order of the contracts,
  their arguments, the role administration) can make it fail.\<close>

theorem canonical_deploys_iff:
  assumes "access_laws (de_access E)"
  shows "(\<exists>suite ch'. deployCanonicalV2 E (Account d) opts ch = (Inr suite, ch')) \<longleftrightarrow> options_in_bounds opts"
proof (cases "options_in_bounds opts")
  case True
  then show ?thesis using canonical_run [OF assms, of opts d ch] by auto
next
  case False
  then show ?thesis using isl_fst_pair [OF canonical_fails [OF False, of E d ch]] by auto
qed

definition no_deployment_options :: deployment_options where
  "no_deployment_options = \<lparr>do_initialSupply = None, do_minVerificationCount = None, do_minTotalWeight = None,
     do_minConfidenceBps = None, do_challengeWindowDuration = None, do_appealDuration = None, do_minAppealStake = None,
     do_appealMultiplierBps = None, do_maxWeightCap = None, do_maxAppealRounds = None, do_appealBond = None,
     do_appealBondEscalationBps = None, do_maxAppealBond = None, do_maxVotersPerRound = None,
     do_finalizeDeployerRoles = None\<rparr>"

definition list_env :: "role_lists deploy_env" where
  "list_env = \<lparr>de_access = list_access, de_otherCtor = (\<lambda>c args. bad_arguments)\<rparr>"

lemma list_env_laws: "access_laws (de_access list_env)"
  using roles.access_laws_axioms by (simp add: list_env_def)

lemma default_options_in_bounds: "options_in_bounds no_deployment_options"
  by (simp add: options_in_bounds_def supply_in_bounds_def aggregator_in_bounds_def window_in_bounds_def
      appeal_in_bounds_def appeal_fields_def initial_appeal_config_def no_deployment_options_def orElse_def
      parseEther_def uint256_def)

lemma canonical_deploys_iff_witness:
  "(\<exists>suite ch'. deployCanonicalV2 list_env (Account ''deployer'') no_deployment_options [] = (Inr suite, ch')) \<and>
   \<not> (\<exists>suite ch'. deployCanonicalV2 list_env (Account ''deployer'')
        (no_deployment_options\<lparr>do_challengeWindowDuration := Some 60\<rparr>) [] = (Inr suite, ch'))"
  unfolding canonical_deploys_iff [OF list_env_laws]
  using default_options_in_bounds by (simp add: options_in_bounds_def window_in_bounds_def orElse_def)

text \<open>C18: after a successful deployment the settlement engine is the only account that may update the
  claim registry and the appeal module the only operator of the bond vault; the contracts deployed
  before are untouched. The deployer stays administrator of both, with \<open>finalizeDeployerRoles\<close> or
  without it, and can hand itself the updater role at any time.\<close>

theorem canonical_wiring:
  assumes "access_laws (de_access E)"
    and "deployCanonicalV2 E (Account d) opts ch = (Inr suite, ch')"
  shows "(has_role E ch' (su_claimRegistry suite) ''REGISTRY_UPDATER_ROLE'' a \<longleftrightarrow> a = su_provisionalSettlementEngine suite) \<and>
    (has_role E ch' (su_bondVault suite) ''OPERATOR_ROLE'' a \<longleftrightarrow> a = su_appealVerificationRound suite) \<and>
    (has_role E ch' (su_claimRegistry suite) ''ADMIN_ROLE'' a \<longleftrightarrow> a = Account d) \<and>
    (has_role E ch' (su_bondVault suite) ''ADMIN_ROLE'' a \<longleftrightarrow> a = Account d) \<and>
    take (length ch) ch' = ch \<and> length ch' = length ch + 10 \<and>
    fst (grantRole E (Account d) (su_claimRegistry suite) ''REGISTRY_UPDATER_ROLE'' (Account d) ch') = Inr ()"
proof -
  have "options_in_bounds opts"
    using assms(2) canonical_deploys_iff [OF assms(1)] by blast
  note run = canonical_run [OF assms(1) this, of d ch]
  let ?cs = "wire_roles E (length ch) (suite_contracts E d opts (length ch))"
  have suite: "suite = suite_at (length ch)" "ch' = ch @ ?cs" using run assms(2) by auto
  have len: "length ?cs = 10" by (simp add: wire_roles_def Let_def)
  have admin: "has_role E (ch @ ?cs) (Contract (length ch + 5)) ''ADMIN_ROLE'' (Account d)"
    by (simp add: wired_registry [OF assms(1)])
  have "ax_admin (de_access E) (dc_roles (?cs ! 5)) ''REGISTRY_UPDATER_ROLE'' = ''ADMIN_ROLE''"
    using access_laws.role_simps [OF assms(1)] registry_roles [OF assms(1)]
    by (simp add: wire_roles_def Let_def suite_contracts_def)
  then have "grantRole E (Account d) (Contract (length ch + 5)) ''REGISTRY_UPDATER_ROLE'' (Account d) (ch @ ?cs) =
      (Inr (), ch @ ?cs[5 := (?cs ! 5)\<lparr>dc_roles := ax_grant (de_access E) ''REGISTRY_UPDATER_ROLE'' (Account d) (dc_roles (?cs ! 5))\<rparr>])"
    using admin len by (intro grantRole_at [where m = 5]) (simp_all add: has_role_at)
  then show ?thesis
    by (simp add: suite suite_at_def wired_registry [OF assms(1)] wired_vault [OF assms(1)] DEFAULT_ADMIN_ROLE_def len
        del: add_2_eq_Suc' add_2_eq_Suc)
qed

lemma canonical_wiring_witness:
  "\<exists>(suite :: canonical_suite) (ch' :: role_lists chain).
     has_role list_env ch' (su_claimRegistry suite) ''REGISTRY_UPDATER_ROLE'' (su_provisionalSettlementEngine suite) \<and>
     \<not> has_role list_env ch' (su_claimRegistry suite) ''REGISTRY_UPDATER_ROLE'' (Account ''deployer'') \<and>
     has_role list_env ch' (su_claimRegistry suite) ''ADMIN_ROLE'' (Account ''deployer'')"
proof -
  note run = canonical_run [OF list_env_laws default_options_in_bounds, of "''deployer''" "[]"]
  let ?ch = "wire_roles list_env 0 (suite_contracts list_env ''deployer'' no_deployment_options 0)"
  have "has_role list_env ?ch (su_claimRegistry (suite_at 0)) ''REGISTRY_UPDATER_ROLE'' (su_provisionalSettlementEngine (suite_at 0))"
    using canonical_wiring [OF list_env_laws run, of "Contract 8"] by (simp add: suite_at_def)
  moreover have "\<not> has_role list_env ?ch (su_claimRegistry (suite_at 0)) ''REGISTRY_UPDATER_ROLE'' (Account ''deployer'')"
      "has_role list_env ?ch (su_claimRegistry (suite_at 0)) ''ADMIN_ROLE'' (Account ''deployer'')"
    using canonical_wiring [OF list_env_laws run, of "Account ''deployer''"] by (simp_all add: suite_at_def)
  ultimately show ?thesis by blast
qed

end
