(* ===== verification/Ignition.thy ===== *)
theory Ignition
  imports Deployments
begin

text \<open>
  The Ignition modules of \<open>ignition/modules/\<close>: declarative plans of contract deployments and calls.
  A module is the list of its futures in the order of the code; \<open>useModule\<close> puts the futures of the
  used module first, once. The Ignition engine belongs to Hardhat; what is modelled is its
  documented order (a future runs after those it names) and its validation before anything is sent:
  known contract, argument count, parameters without a default given.
\<close>

section \<open>Modules\<close>

datatype ig_arg = IAccount nat | IContract string | IParameter string | ILiteral int | IConfig "ig_arg list"
datatype ig_future = IDeploy string string "ig_arg list" | IGrantRole string string ig_arg
  | ICall string string "ig_arg list"

record ig_module =
  im_parameters :: "(string \<times> dvalue option) list"
  im_futures :: "ig_future list"

fun future_id :: "ig_future \<Rightarrow> string" where
  "future_id (IDeploy i c args) = i"
| "future_id (IGrantRole t role a) = t @ ''.grantRole.'' @ role"
| "future_id (ICall t f args) = t @ ''.'' @ f"

definition use_module :: "ig_module \<Rightarrow> ig_module \<Rightarrow> ig_module" where
  "use_module used m = \<lparr>im_parameters = dedupe_on fst {} (im_parameters used @ im_parameters m),
     im_futures = dedupe_on future_id {} (im_futures used @ im_futures m)\<rparr>"

definition CanonicalV2Module :: ig_module where
  "CanonicalV2Module = \<lparr>im_parameters =
     [(''initialSupply'', Some (DInt (parseEther 10000000))), (''minVerificationCount'', Some (DInt 1)),
      (''minTotalWeight'', Some (DInt 0)), (''minConfidenceBps'', Some (DInt 0)),
      (''challengeWindowDuration'', Some (DInt (3 * 24 * 3600))), (''appealDuration'', Some (DInt (3 * 24 * 3600))),
      (''minAppealStake'', Some (DInt (parseEther 200))), (''appealMultiplierBps'', Some (DInt 15000)),
      (''maxWeightCap'', Some (DInt (parseEther 100000))), (''maxAppealRounds'', Some (DInt 1)),
      (''appealBond'', Some (DInt (parseEther 1000))), (''appealBondEscalationBps'', Some (DInt 15000)),
      (''maxAppealBond'', Some (DInt (parseEther 5000))), (''maxVotersPerRound'', Some (DInt 200))],
     im_futures =
     [IDeploy ''governanceController'' ''GovernanceController'' [IAccount 0],
      IDeploy ''token'' ''RewardToken'' [IAccount 0, IParameter ''initialSupply''],
      IDeploy ''bondVault'' ''contracts/StakeVault.sol:StakeVault'' [IAccount 0, IContract ''token''],
      IDeploy ''reputationOracle'' ''MockReputationOracle'' [],
      IDeploy ''claimRegistry'' ''ClaimRegistry'' [IAccount 0],
      IDeploy ''truthBountyWeighted'' ''TruthBountyWeighted''
        [IContract ''token'', IContract ''reputationOracle'', IAccount 0, IContract ''governanceController''],
      IDeploy ''verificationAggregator'' ''VerificationAggregator''
        [IContract ''truthBountyWeighted'', IAccount 0, IParameter ''minVerificationCount'', IParameter ''minTotalWeight'',
         IParameter ''minConfidenceBps''],
      IDeploy ''provisionalSettlementEngine'' ''ProvisionalSettlementEngine''
        [IContract ''claimRegistry'', IContract ''verificationAggregator'', IParameter ''challengeWindowDuration'',
         IContract ''governanceController'', IAccount 0],
      IDeploy ''appealVerificationRound'' ''AppealVerificationRound''
        [IContract ''token'', IContract ''claimRegistry'', IContract ''reputationOracle'', IContract ''bondVault'',
         IConfig [IParameter ''appealDuration'', IParameter ''minAppealStake'', IParameter ''appealMultiplierBps'',
           IParameter ''maxWeightCap'', ILiteral 1, IParameter ''maxAppealRounds'',
           IParameter ''appealBond'', IParameter ''appealBondEscalationBps'', IParameter ''maxAppealBond'',
           IParameter ''maxVotersPerRound''],
         IContract ''governanceController'', IAccount 0],
      IGrantRole ''claimRegistry'' ''REGISTRY_UPDATER_ROLE'' (IContract ''provisionalSettlementEngine''),
      IGrantRole ''bondVault'' ''OPERATOR_ROLE'' (IContract ''appealVerificationRound'')]\<rparr>"

definition FeeManagerModule :: ig_module where
  "FeeManagerModule = \<lparr>im_parameters =
     [(''feeToken_'', None), (''initialAdmin'', None), (''governanceController'', Some (DAddr ZeroAddress)),
      (''treasuryReserve'', None), (''securityFund'', None), (''ecosystemFund'', None),
      (''contributorIncentives'', None), (''emergencyReserve'', None)],
     im_futures = [IDeploy ''feeManager'' ''FeeManager''
       [IParameter ''feeToken_'', IParameter ''initialAdmin'', IParameter ''governanceController'',
        IParameter ''treasuryReserve'', IParameter ''securityFund'', IParameter ''ecosystemFund'',
        IParameter ''contributorIncentives'', IParameter ''emergencyReserve'']]\<rparr>"

definition FinalRewardAllocatorModule :: ig_module where
  "FinalRewardAllocatorModule = \<lparr>im_parameters = [(''moduleRegistry'', None), (''maxRecipients'', Some (DInt 64))],
     im_futures = [IDeploy ''allocator'' ''FinalRewardAllocator'' [IParameter ''moduleRegistry'', IParameter ''maxRecipients'']]\<rparr>"

definition LockModule :: ig_module where
  "LockModule = \<lparr>im_parameters = [(''unlockTime'', Some (DInt 1893456000)), (''lockedAmount'', Some (DInt 1000000000))],
     im_futures = [IDeploy ''lock'' ''Lock'' [IParameter ''unlockTime'']]\<rparr>"

definition TruthBountyModule :: ig_module where
  "TruthBountyModule = \<lparr>im_parameters = [],
     im_futures = [IDeploy ''token'' ''TruthBountyToken'' [],
       IDeploy ''truthBounty'' ''TruthBounty'' [IContract ''token''],
       ICall ''token'' ''setSettlementContract'' [IContract ''truthBounty'']]\<rparr>"

definition StakingModule :: ig_module where
  "StakingModule = use_module TruthBountyModule
     \<lparr>im_parameters = [(''lockDuration'', Some (DInt 86400))],
      im_futures = [IDeploy ''staking'' ''Staking'' [IContract ''token'', IParameter ''lockDuration'']]\<rparr>"

definition RewardsModule :: ig_module where
  "RewardsModule = use_module TruthBountyModule
     \<lparr>im_parameters = [], im_futures = [IDeploy ''rewards'' ''TruthBountyClaims'' [IContract ''token'']]\<rparr>"

definition FullDeployModule :: ig_module where
  "FullDeployModule = use_module TruthBountyModule (use_module StakingModule
     (use_module RewardsModule \<lparr>im_parameters = [], im_futures = []\<rparr>))"

section \<open>Validation and execution\<close>

text \<open>The values of the parameters: those given for the run, else the defaults.\<close>

definition parameter_value :: "ig_module \<Rightarrow> (string \<Rightarrow> dvalue option) \<Rightarrow> string \<Rightarrow> dvalue option" where
  "parameter_value m given k = (case given k of Some v \<Rightarrow> Some v
     | None \<Rightarrow> (case map_of (im_parameters m) k of Some (Some v) \<Rightarrow> Some v | _ \<Rightarrow> None))"

fun int_value :: "(string \<Rightarrow> dvalue option) \<Rightarrow> ig_arg \<Rightarrow> int option" where
  "int_value P (IParameter k) = (case P k of Some (DInt n) \<Rightarrow> Some n | _ \<Rightarrow> None)"
| "int_value P (ILiteral n) = Some n"
| "int_value P a = None"

definition config_of :: "int list \<Rightarrow> dvalue option" where
  "config_of ns = (case ns of [a, b, c, d, e, f, g, h, i, j] \<Rightarrow> Some (DAppeal \<lparr>ac_roundDuration = a, ac_minStakeAmount = b,
      ac_stakeMultiplierBps = c, ac_maxWeightCap = d, ac_parameterVersion = e, ac_maxAppealRounds = f, ac_appealBond = g,
      ac_appealBondEscalationBps = h, ac_maxAppealBond = i, ac_maxVotersPerRound = j\<rparr>) | _ \<Rightarrow> None)"

text \<open>The value of an argument; none for a missing parameter, an unknown future, an unknown account.\<close>

fun arg_value :: "(string \<Rightarrow> dvalue option) \<Rightarrow> string list \<Rightarrow> (string \<times> chain_address) list \<Rightarrow> ig_arg \<Rightarrow> dvalue option" where
  "arg_value P accounts ids (IAccount n) = (if n < length accounts then Some (DAddr (Account (accounts ! n))) else None)"
| "arg_value P accounts ids (IContract i) = map_option DAddr (map_of ids i)"
| "arg_value P accounts ids (IParameter k) = P k"
| "arg_value P accounts ids (ILiteral n) = Some (DInt n)"
| "arg_value P accounts ids (IConfig as) =
     (if list_all (\<lambda>a. int_value P a \<noteq> None) as then config_of (map (\<lambda>a. the (int_value P a)) as) else None)"

text \<open>Validation: an argument fits a constructor parameter; futures are deployed before they are used.\<close>

fun arg_ok :: "(string \<Rightarrow> dvalue option) \<Rightarrow> string list \<Rightarrow> string list \<Rightarrow> dparam \<Rightarrow> ig_arg \<Rightarrow> bool" where
  "arg_ok P accounts known p (IAccount n) = (p = PAddress \<and> n < length accounts)"
| "arg_ok P accounts known p (IContract i) = (p = PAddress \<and> i \<in> set known)"
| "arg_ok P accounts known p (IParameter k) = (case P k of None \<Rightarrow> False | Some v \<Rightarrow> fits p v)"
| "arg_ok P accounts known p (ILiteral n) = fits p (DInt n)"
| "arg_ok P accounts known p (IConfig as) = (p = PAppealConfig \<and> length as = 10 \<and>
     list_all (\<lambda>a. case int_value P a of None \<Rightarrow> False | Some n \<Rightarrow> uint256 n) as)"

fun future_ok :: "(string \<Rightarrow> dvalue option) \<Rightarrow> string list \<Rightarrow> string list \<Rightarrow> ig_future \<Rightarrow> bool" where
  "future_ok P accounts known (IDeploy i c args) =
     (case find_artifact c of Inl e \<Rightarrow> False | Inr a \<Rightarrow> list_all2 (arg_ok P accounts known) (at_params a) args)"
| "future_ok P accounts known (IGrantRole t role a) = (t \<in> set known \<and> arg_ok P accounts known PAddress a)"
| "future_ok P accounts known (ICall t f args) = (t \<in> set known)"

fun known_after :: "string list \<Rightarrow> ig_future \<Rightarrow> string list" where
  "known_after known (IDeploy i c args) = i # known"
| "known_after known f = known"

fun well_typed :: "(string \<Rightarrow> dvalue option) \<Rightarrow> string list \<Rightarrow> string list \<Rightarrow> ig_future list \<Rightarrow> bool" where
  "well_typed P accounts known [] = True"
| "well_typed P accounts known (f # fs) =
     (future_ok P accounts known f \<and> well_typed P accounts (known_after known f) fs)"

text \<open>Execution. A call of a function other than \<open>grantRole\<close> is the parameter \<open>other\<close>.\<close>

type_synonym 'r other_call = "string \<Rightarrow> dvalue option list \<Rightarrow> chain_address \<Rightarrow> ('r chain, unit) action"

definition unresolved :: "'a res" where
  "unresolved = Inl (JsError ''IgnitionError'' ''IGN: unresolved argument'')"

definition address_value :: "dvalue option \<Rightarrow> chain_address option" where
  "address_value v = (case v of Some (DAddr a) \<Rightarrow> Some a | _ \<Rightarrow> None)"

fun run_future :: "'r deploy_env \<Rightarrow> 'r other_call \<Rightarrow> (string \<Rightarrow> dvalue option) \<Rightarrow> string list \<Rightarrow> ig_future \<Rightarrow>
    (string \<times> chain_address) list \<Rightarrow> ('r chain, (string \<times> chain_address) list) action" where
  "run_future E other P accounts (IDeploy i c args) ids =
     (let vs = map (arg_value P accounts ids) args in
      if None \<in> set vs then act_lift unresolved
      else act_bind (deploy E c (map the vs)) (\<lambda>a. act_return ((i, a) # ids)))"
| "run_future E other P accounts (IGrantRole t role arg) ids =
     (case (map_of ids t, address_value (arg_value P accounts ids arg)) of
        (Some target, Some account) \<Rightarrow>
          act_bind (grantRole E (Account (hd accounts)) target role account) (\<lambda>u. act_return ids)
      | _ \<Rightarrow> act_lift unresolved)"
| "run_future E other P accounts (ICall t f args) ids =
     (case map_of ids t of
        Some target \<Rightarrow> act_bind (other f (map (arg_value P accounts ids) args) target) (\<lambda>u. act_return ids)
      | None \<Rightarrow> act_lift unresolved)"

fun run_futures :: "'r deploy_env \<Rightarrow> 'r other_call \<Rightarrow> (string \<Rightarrow> dvalue option) \<Rightarrow> string list \<Rightarrow> ig_future list \<Rightarrow>
    (string \<times> chain_address) list \<Rightarrow> ('r chain, (string \<times> chain_address) list) action" where
  "run_futures E other P accounts [] ids = act_return ids"
| "run_futures E other P accounts (f # fs) ids =
     act_bind (run_future E other P accounts f ids) (run_futures E other P accounts fs)"

text \<open>\<open>ignition deploy\<close>: nothing is sent unless the whole module validates.\<close>

definition ignition_deploy :: "'r deploy_env \<Rightarrow> 'r other_call \<Rightarrow> ig_module \<Rightarrow> (string \<Rightarrow> dvalue option) \<Rightarrow> string list \<Rightarrow>
    ('r chain, (string \<times> chain_address) list) action" where
  "ignition_deploy E other m given accounts =
     (let P = parameter_value m given in
      if well_typed P accounts [] (im_futures m) then run_futures E other P accounts (im_futures m) []
      else act_lift (Inl (JsError ''IgnitionError'' ''IGN7xx: the module is invalid'')))"

section \<open>Well-typed modules only stop at a contract's own checks\<close>

definition reverts_only :: "'a res \<Rightarrow> bool" where
  "reverts_only r \<longleftrightarrow> (case r of Inl e \<Rightarrow> err_class e = ''Revert'' | Inr a \<Rightarrow> True)"

definition other_contracts_revert :: "'r deploy_env \<Rightarrow> 'r other_call \<Rightarrow> bool" where
  "other_contracts_revert E other \<longleftrightarrow> (\<forall>c args. reverts_only (de_otherCtor E c args)) \<and>
     (\<forall>f vs t ch. reverts_only (fst (other f vs t ch)) \<and> length (snd (other f vs t ch)) = length ch)"

lemma reverts_only_Inr [simp]: "reverts_only (Inr a)"
  by (simp add: reverts_only_def)

lemma reverts_only_require [simp]: "reverts_only (require c msg k) \<longleftrightarrow> (c \<longrightarrow> reverts_only k)"
  by (simp add: reverts_only_def require_def)

lemma reverts_only_governance [simp]: "reverts_only (initializeGovernance A gov admin s)"
  by (simp add: initializeGovernance_def)

fun kind_params :: "contract_kind \<Rightarrow> dparam list option" where
  "kind_params KGovernanceController = Some [PAddress]"
| "kind_params KRewardToken = Some [PAddress, PUint]"
| "kind_params KStakeVault = Some [PAddress, PAddress]"
| "kind_params KMockReputationOracle = Some []"
| "kind_params KParameterVersionRegistry = Some [PAddress, PAddress]"
| "kind_params KClaimRegistry = Some [PAddress, PAddress]"
| "kind_params KTruthBountyWeighted = Some [PAddress, PAddress, PAddress, PAddress]"
| "kind_params KVerificationAggregator = Some [PAddress, PAddress, PUint, PUint, PUint]"
| "kind_params KProvisionalSettlementEngine = Some [PAddress, PAddress, PUint, PAddress, PAddress]"
| "kind_params KAppealVerificationRound = Some [PAddress, PAddress, PAddress, PAddress, PAppealConfig, PAddress, PAddress]"
| "kind_params KOther = None"

definition kind_agrees :: "artifact \<Rightarrow> bool" where
  "kind_agrees a \<longleftrightarrow> (case kind_params (at_kind a) of None \<Rightarrow> True | Some ps \<Rightarrow> at_params a = ps)"

lemma artifact_kinds: "list_all kind_agrees ARTIFACTS"
  by (simp add: ARTIFACTS_def artifact_of_def kind_agrees_def)

lemma find_artifact_known: "find_artifact c = Inr a \<Longrightarrow> a \<in> set ARTIFACTS"
  unfolding find_artifact_def throw_error_def
  by (auto split: list.splits simp: filter_eq_Cons_iff) (metis in_set_conv_decomp)

lemma fits_address: "fits PAddress v \<longleftrightarrow> (\<exists>a. v = DAddr a)" by (cases v) auto
lemma fits_uint: "fits PUint v \<longleftrightarrow> (\<exists>n. v = DInt n \<and> uint256 n)" by (cases v) auto
lemma fits_config: "fits PAppealConfig v \<longleftrightarrow> (\<exists>c. v = DAppeal c \<and> list_all uint256 (appeal_fields c))" by (cases v) auto

lemma ctor_reverts:
  assumes "kind_agrees a" "list_all2 fits (at_params a) args"
    and "\<And>c args. reverts_only (de_otherCtor E c args)"
  shows "reverts_only (run_ctor E a args)"
  using assms
  by (cases "at_kind a")
    (auto simp: kind_agrees_def run_ctor_def Let_def ctor_GovernanceController_def ctor_RewardToken_def ctor_StakeVault_def
      ctor_MockReputationOracle_def ctor_ParameterVersionRegistry_def ctor_ClaimRegistry_def
      ctor_TruthBountyWeighted_def ctor_VerificationAggregator_def ctor_ProvisionalSettlementEngine_def
      ctor_AppealVerificationRound_def appeal_config_guards_def list_all2_Cons1 fits_address fits_uint fits_config)

text \<open>The invariant of a run: the known futures have addresses of contracts on the chain.\<close>

definition ids_ok :: "(string \<times> chain_address) list \<Rightarrow> string list \<Rightarrow> 'r chain \<Rightarrow> bool" where
  "ids_ok ids known ch \<longleftrightarrow> set known \<subseteq> fst ` set ids \<and> (\<forall>m \<in> set ids. \<exists>n < length ch. snd m = Contract n)"

lemma ids_ok_lookup: "ids_ok ids known ch \<Longrightarrow> i \<in> set known \<Longrightarrow> \<exists>n < length ch. map_of ids i = Some (Contract n)"
proof -
  assume ok: "ids_ok ids known ch" and "i \<in> set known"
  then have "i \<in> fst ` set ids" by (auto simp: ids_ok_def)
  then obtain a where a: "map_of ids i = Some a" by (metis map_of_eq_None_iff not_Some_eq)
  from ok have "\<exists>n < length ch. snd (i, a) = Contract n"
    unfolding ids_ok_def using map_of_SomeD [OF a] by (elim conjE) (erule (1) bspec)
  with a show ?thesis by simp
qed

lemma ids_ok_extend:
  assumes "ids_ok ids known ch"
  shows "ids_ok ((i, Contract (length ch)) # ids) (i # known) (ch @ [d])"
proof -
  have "\<exists>n < length (ch @ [d]). snd m = Contract n" if "m \<in> set ids" for m
  proof -
    from assms that have "\<exists>n < length ch. snd m = Contract n"
      unfolding ids_ok_def by (elim conjE) (erule (1) bspec)
    then obtain n where "n < length ch" "snd m = Contract n" by (elim exE conjE)
    then show ?thesis by (intro exI [of _ n]) simp
  qed
  moreover have "set known \<subseteq> fst ` set ids" using assms by (simp add: ids_ok_def)
  ultimately show ?thesis unfolding ids_ok_def by auto
qed

lemma config_of_fits:
  "length ns = 10 \<Longrightarrow> list_all uint256 ns \<Longrightarrow> \<exists>c. config_of ns = Some (DAppeal c) \<and> list_all uint256 (appeal_fields c)"
  by (auto simp: eval_nat_numeral length_Suc_conv config_of_def appeal_fields_def)

lemma arg_progress:
  assumes "arg_ok P accounts known p a" "ids_ok ids known ch"
  shows "\<exists>v. arg_value P accounts ids a = Some v \<and> fits p v"
proof (cases a)
  case (IContract i)
  with assms show ?thesis using ids_ok_lookup [OF assms(2), of i] by auto
next
  case (IConfig as)
  let ?ns = "map (\<lambda>a. the (int_value P a)) as"
  have "length ?ns = 10" "list_all uint256 ?ns" "list_all (\<lambda>a. int_value P a \<noteq> None) as" "p = PAppealConfig"
    using assms(1) IConfig by (auto simp: list_all_iff split: option.splits)
  with config_of_fits [of ?ns] IConfig show ?thesis by auto
qed (use assms in \<open>auto split: option.splits if_splits\<close>)

lemma args_progress:
  assumes "list_all2 (arg_ok P accounts known) ps as" "ids_ok ids known ch"
  shows "None \<notin> set (map (arg_value P accounts ids) as) \<and>
    list_all2 fits ps (map the (map (arg_value P accounts ids) as))"
  using assms(1)
proof (induction rule: list_all2_induct)
  case (Cons p ps a as)
  then show ?case using arg_progress [OF Cons.hyps(1) assms(2)] by auto
qed simp

lemma deploy_progress:
  assumes "find_artifact c = Inr a" "list_all2 fits (at_params a) args" "other_contracts_revert E other"
  shows "(\<exists>e. deploy E c args ch = (Inl e, ch) \<and> err_class e = ''Revert'') \<or>
    (\<exists>d. deploy E c args ch = (Inr (Contract (length ch)), ch @ [d]))"
proof -
  have "kind_agrees a" using find_artifact_known [OF assms(1)] artifact_kinds by (simp add: list_all_iff)
  then have "reverts_only (run_ctor E a args)"
    using assms(2,3) by (intro ctor_reverts) (auto simp: other_contracts_revert_def)
  then show ?thesis
    using assms(1,2) list_all2_lengthD [OF assms(2)]
    by (auto simp: deploy_def reverts_only_def split: sum.splits)
qed

lemma grantRole_progress:
  assumes "n < length ch"
  shows "(\<exists>e. grantRole E sender (Contract n) role account ch = (Inl e, ch) \<and> err_class e = ''Revert'') \<or>
    (\<exists>ch'. grantRole E sender (Contract n) role account ch = (Inr (), ch') \<and> length ch' = length ch)"
  using assms by (simp add: grantRole_def call_roles_def)

definition future_result :: "string list \<Rightarrow> (string \<times> chain_address) list res \<times> 'r chain \<Rightarrow> bool" where
  "future_result known r = (case r of (Inl e, ch) \<Rightarrow> err_class e = ''Revert'' | (Inr ids, ch) \<Rightarrow> ids_ok ids known ch)"

lemma future_progress:
  assumes "future_ok P accounts known f" "ids_ok ids known ch" "other_contracts_revert E other"
  shows "future_result (known_after known f) (run_future E other P accounts f ids ch)"
proof (cases f)
  case (IDeploy i c args)
  with assms(1) obtain a where a: "find_artifact c = Inr a" "list_all2 (arg_ok P accounts known) (at_params a) args"
    by (auto split: sum.splits)
  let ?vs = "map (arg_value P accounts ids) args"
  have vs: "None \<notin> set ?vs" "list_all2 fits (at_params a) (map the ?vs)"
    using args_progress [OF a(2) assms(2)] by blast+
  from deploy_progress [OF a(1) vs(2) assms(3), of ch] show ?thesis
  proof (elim disjE exE conjE)
    fix e assume "deploy E c (map the ?vs) ch = (Inl e, ch)" "err_class e = ''Revert''"
    then show ?thesis using vs(1) IDeploy by (simp add: future_result_def act_bind_def Let_def del: map_map set_map)
  next
    fix d assume "deploy E c (map the ?vs) ch = (Inr (Contract (length ch)), ch @ [d])"
    then show ?thesis using vs(1) IDeploy ids_ok_extend [OF assms(2)]
      by (simp add: future_result_def act_bind_def act_return_def Let_def del: map_map set_map)
  qed
next
  case (IGrantRole t role arg)
  with assms have "t \<in> set known" "arg_ok P accounts known PAddress arg" by auto
  with ids_ok_lookup [OF assms(2)] arg_progress [OF _ assms(2)]
  obtain n v where nv: "n < length ch" "map_of ids t = Some (Contract n)" "arg_value P accounts ids arg = Some v" "fits PAddress v"
    by blast
  then obtain account where "v = DAddr account" by (auto simp: fits_address)
  with nv IGrantRole grantRole_progress [OF nv(1), of E "Account (hd accounts)" role account] assms(2) show ?thesis
    by (auto simp: future_result_def act_bind_def act_return_def ids_ok_def address_value_def)
next
  case (ICall t fn args)
  with assms ids_ok_lookup [OF assms(2), of t] obtain n where n: "map_of ids t = Some (Contract n)" by auto
  have other: "reverts_only (fst (other fn vs a ch)) \<and> length (snd (other fn vs a ch)) = length ch" for vs a
    using assms(3) by (simp add: other_contracts_revert_def)
  show ?thesis
    using n ICall assms(2) other [of "map (arg_value P accounts ids) args" "Contract n"]
    by (cases "other fn (map (arg_value P accounts ids) args) (Contract n) ch")
      (auto simp: future_result_def act_bind_def act_return_def ids_ok_def reverts_only_def split: sum.splits)
qed

lemma futures_progress:
  assumes "well_typed P accounts known fs" "ids_ok ids known ch" "other_contracts_revert E other"
  shows "case run_futures E other P accounts fs ids ch of (Inl e, ch') \<Rightarrow> err_class e = ''Revert'' | _ \<Rightarrow> True"
  using assms(1,2)
proof (induction fs arbitrary: known ids ch)
  case (Cons f fs)
  then have "future_result (known_after known f) (run_future E other P accounts f ids ch)"
    using assms(3) by (intro future_progress) auto
  then show ?case
  proof (cases "run_future E other P accounts f ids ch")
    case (Pair r ch')
    with \<open>future_result _ _\<close> Cons.IH [of "known_after known f" _ ch'] Cons.prems(1) show ?thesis
      by (cases r) (auto simp: act_bind_def future_result_def)
  qed
qed (simp add: act_return_def)


definition locked_env :: "role_lists deploy_env" where
  "locked_env = \<lparr>de_access = list_access, de_otherCtor = (\<lambda>c args. Inl (JsError ''Revert'' ''Unlock time should be in the future''))\<rparr>"

definition no_other_call :: "role_lists other_call" where
  "no_other_call = (\<lambda>f vs t ch. (Inr (), ch))"

lemma locked_env_reverts: "other_contracts_revert locked_env no_other_call"
  by (simp add: other_contracts_revert_def locked_env_def no_other_call_def reverts_only_def)

lemma lock_module_valid: "well_typed (parameter_value LockModule (\<lambda>k. None)) [''deployer''] [] (im_futures LockModule)"
  by (simp add: LockModule_def find_artifact_def ARTIFACTS_def artifact_of_def parameter_value_def uint256_def)


lemma find_legacy:
  "find_artifact ''TruthBountyToken'' = Inr (the_artifact ''TruthBountyToken'')"
  "at_params (the_artifact ''TruthBountyToken'') = [PAddress]"
  "find_artifact ''TruthBounty'' = Inr (the_artifact ''TruthBounty'')"
  "at_params (the_artifact ''TruthBounty'') = [PAddress, PAddress, PAddress]"
  by code_simp+

text \<open>Five of the eight modules do not match the constructors of the repository and are rejected
  before anything is sent, whatever parameters and accounts are given: the canonical module passes
  one argument to the two-argument constructor of \<open>ClaimRegistry\<close>, the others deploy
  \<open>TruthBountyToken\<close> without its administrator.\<close>

theorem ignition_modules_rejected:
  "list_all (\<lambda>m. case ignition_deploy E other m given accounts ch of
       (Inl e, ch') \<Rightarrow> err_class e = ''IgnitionError'' \<and> ch' = ch | _ \<Rightarrow> False)
     [CanonicalV2Module, TruthBountyModule, StakingModule, RewardsModule, FullDeployModule]"
  by (simp add: ignition_deploy_def CanonicalV2Module_def TruthBountyModule_def StakingModule_def RewardsModule_def
      FullDeployModule_def use_module_def find_canonical params_canonical find_legacy Let_def act_lift_def)

text \<open>The fee module is valid as soon as its addresses are given.\<close>

lemma fee_manager_valid:
  assumes "\<And>k. k \<in> {''feeToken_'', ''initialAdmin'', ''treasuryReserve'', ''securityFund'', ''ecosystemFund'',
    ''contributorIncentives'', ''emergencyReserve''} \<Longrightarrow> \<exists>a. given k = Some (DAddr a)"
    and "given ''governanceController'' = None"
  shows "well_typed (parameter_value FeeManagerModule given) accounts [] (im_futures FeeManagerModule)"
proof -
  have "parameter_value FeeManagerModule given k = given k" if "given k \<noteq> None" for k
    using that by (auto simp: parameter_value_def)
  moreover have "parameter_value FeeManagerModule given ''governanceController'' = Some (DAddr ZeroAddress)"
    using assms(2) by (simp add: parameter_value_def FeeManagerModule_def)
  moreover have "find_artifact ''FeeManager'' = Inr (the_artifact ''FeeManager'')"
      "at_params (the_artifact ''FeeManager'') = replicate 8 PAddress"
    by code_simp+
  ultimately show ?thesis
    using assms(1) [of "''feeToken_''"] assms(1) [of "''initialAdmin''"] assms(1) [of "''treasuryReserve''"]
      assms(1) [of "''securityFund''"] assms(1) [of "''ecosystemFund''"] assms(1) [of "''contributorIncentives''"]
      assms(1) [of "''emergencyReserve''"]
    by (auto simp: FeeManagerModule_def eval_nat_numeral)
qed

end
