(* ===== verification/VerifyScript.thy ===== *)
theory VerifyScript
  imports JsNumber JsCollections
begin

text \<open>
  \<open>scripts/verify.ts\<close>: source verification of deployed contracts, one at a time or from a deployment
  file. Parameters (\<open>verify_host\<close>): Hardhat's network name and its task \<open>verify:verify\<close>, whose outcome
  may depend on the calls before, and what the deployment file parses to (none: no such file).
  Console output is left out; what remains is the exit code and the calls of the task.
\<close>

section \<open>Command line\<close>

record cli_options =
  cl_network :: string
  cl_address :: "string option"
  cl_contract :: "string option"
  cl_constructorArgs :: "string option"
  cl_deployment :: "string option"
  cl_help :: bool

definition SUPPORTED_NETWORKS :: "string list" where
  "SUPPORTED_NETWORKS = [''optimism'', ''optimism_sepolia'']"

definition no_options :: cli_options where
  "no_options = \<lparr>cl_network = [], cl_address = None, cl_contract = None, cl_constructorArgs = None,
     cl_deployment = None, cl_help = False\<rparr>"

text \<open>The loop of \<open>parseArgs\<close>: an option consumes the next argument whatever it is; after the last
  argument \<open>args[++i]\<close> is undefined.\<close>

definition head_opt :: "'a list \<Rightarrow> 'a option" where
  "head_opt xs = (case xs of [] \<Rightarrow> None | x # r \<Rightarrow> Some x)"

fun parse_loop :: "string list \<Rightarrow> cli_options \<Rightarrow> cli_options" where
  "parse_loop [] out = out"
| "parse_loop (a # rest) out =
     (if a = ''--network'' then parse_loop (drop 1 rest) (out\<lparr>cl_network := (case head_opt rest of None \<Rightarrow> [] | Some v \<Rightarrow> v)\<rparr>)
      else if a = ''--address'' then parse_loop (drop 1 rest) (out\<lparr>cl_address := head_opt rest\<rparr>)
      else if a = ''--contract'' then parse_loop (drop 1 rest) (out\<lparr>cl_contract := head_opt rest\<rparr>)
      else if a = ''--constructor-args'' then parse_loop (drop 1 rest) (out\<lparr>cl_constructorArgs := head_opt rest\<rparr>)
      else if a = ''--deployment'' then parse_loop (drop 1 rest) (out\<lparr>cl_deployment := head_opt rest\<rparr>)
      else if a = ''--help'' \<or> a = ''-h'' then parse_loop rest (out\<lparr>cl_help := True\<rparr>)
      else parse_loop rest out)"

definition parseArgs :: "string list \<Rightarrow> cli_options" where
  "parseArgs args = parse_loop args no_options"

datatype ctor_arg = ArgText string | ArgNumber js_num | ArgJson json

definition parse_ctor_arg :: "string \<Rightarrow> ctor_arg" where
  "parse_ctor_arg s = (let t = trim s in
     if starts_with ''0x'' t then ArgText t
     else let n = js_Number t in if n \<noteq> NaN then ArgNumber n else ArgText t)"

definition parseConstructorArgs :: "string \<Rightarrow> ctor_arg list" where
  "parseConstructorArgs str = map parse_ctor_arg (split_on (CHR '','') str)"

section \<open>Verification\<close>

record verify_task =
  vt_address :: json
  vt_contract :: "string option"
  vt_constructorArguments :: "ctor_arg list option"

text \<open>The payload of the task: absent members are not set.\<close>

definition verify_payload :: "verify_task \<Rightarrow> verify_task" where
  "verify_payload opts = \<lparr>vt_address = vt_address opts,
     vt_contract = (if truthy_str (vt_contract opts) then vt_contract opts else None),
     vt_constructorArguments = (case vt_constructorArguments opts of
        Some args \<Rightarrow> if args = [] then None else Some args | None \<Rightarrow> None)\<rparr>"

record verify_host =
  vh_network :: string
  vh_verify :: "verify_task list \<Rightarrow> verify_task \<Rightarrow> unit res"
  vh_deployment :: "string \<Rightarrow> json res option"

definition verifyOne :: "verify_host \<Rightarrow> verify_task \<Rightarrow> (verify_task list, bool) action" where
  "verifyOne H opts calls = (let payload = verify_payload opts; calls' = calls @ [payload] in
     case vh_verify H calls payload of
       Inr u \<Rightarrow> (Inr True, calls')
     | Inl e \<Rightarrow> (Inr (includes_str ''Already Verified'' (err_message e)), calls'))"

definition json_truthy :: "json \<Rightarrow> bool" where
  "json_truthy j \<longleftrightarrow> j \<notin> {JNull, JUndefined, JBool False, JNum 0, JStr []}"

definition batch_tasks :: "json \<Rightarrow> verify_task list" where
  "batch_tasks contracts =
     (let token = json_get ''token'' contracts; oracle = json_get ''oracle'' contracts;
          weightedStaking = json_get ''weightedStaking'' contracts;
          truthBountyWeighted = json_get ''truthBountyWeighted'' contracts in
      (if json_truthy token then [\<lparr>vt_address = token,
          vt_contract = Some ''contracts/TruthBounty.sol:TruthBountyToken'', vt_constructorArguments = None\<rparr>] else []) @
      (if json_truthy oracle then [\<lparr>vt_address = oracle,
          vt_contract = Some ''contracts/MockReputationOracle.sol:MockReputationOracle'', vt_constructorArguments = None\<rparr>] else []) @
      (if json_truthy weightedStaking \<and> json_truthy oracle then [\<lparr>vt_address = weightedStaking,
          vt_contract = Some ''contracts/WeightedStaking.sol:WeightedStaking'',
          vt_constructorArguments = Some [ArgJson oracle]\<rparr>] else []) @
      (if json_truthy truthBountyWeighted \<and> json_truthy token \<and> json_truthy oracle then [\<lparr>vt_address = truthBountyWeighted,
          vt_contract = Some ''contracts/TruthBountyWeighted.sol:TruthBountyWeighted'',
          vt_constructorArguments = Some [ArgJson token, ArgJson oracle]\<rparr>] else []))"

text \<open>The loop over the tasks; its result is the number of verified contracts, which is only printed.\<close>

fun verify_all :: "verify_host \<Rightarrow> verify_task list \<Rightarrow> (verify_task list, nat) action" where
  "verify_all H [] = act_return 0"
| "verify_all H (t # ts) = act_bind (verifyOne H t) (\<lambda>ok. act_bind (verify_all H ts) (\<lambda>n.
     act_return (if ok then Suc n else n)))"

definition verifyFromDeployment :: "verify_host \<Rightarrow> string \<Rightarrow> (verify_task list, nat) action" where
  "verifyFromDeployment H deploymentPath =
     (case vh_deployment H deploymentPath of
        None \<Rightarrow> act_lift (throw_error (''Deployment file not found: '' @ deploymentPath))
      | Some parsed \<Rightarrow> act_bind (act_lift parsed) (\<lambda>data.
          if data = JNull then act_lift (Inl (JsError ''TypeError'' ''Cannot destructure property of null''))
          else let contracts = json_get ''contracts'' data in
            if \<not> json_truthy contracts then act_lift (throw_error ''Deployment file must contain the contracts object'')
            else verify_all H (batch_tasks contracts)))"

text \<open>\<open>main\<close> with its \<open>catch\<close>: the exit code and the calls made. Returning normally is exit code 0.\<close>

definition verify_main :: "verify_host \<Rightarrow> string list \<Rightarrow> nat \<times> verify_task list" where
  "verify_main H args = (let cli = parseArgs args in
     if cl_help cli then (0, [])
     else if cl_network cli = [] then (1, [])
     else if cl_network cli \<notin> set SUPPORTED_NETWORKS then (1, [])
     else if vh_network H \<noteq> cl_network cli then (1, [])
     else if truthy_str (cl_deployment cli)
       then (case verifyFromDeployment H (or_str (cl_deployment cli) []) [] of
          (Inl e, calls) \<Rightarrow> (1, calls) | (Inr n, calls) \<Rightarrow> (0, calls))
     else if \<not> truthy_str (cl_address cli) then (1, [])
     else case verifyOne H \<lparr>vt_address = JStr (or_str (cl_address cli) []),
            vt_contract = (if truthy_str (cl_contract cli) then cl_contract cli else None),
            vt_constructorArguments = (if truthy_str (cl_constructorArgs cli)
              then map_option parseConstructorArgs (cl_constructorArgs cli) else None)\<rparr> [] of
          (Inl e, calls) \<Rightarrow> (1, calls) | (Inr success, calls) \<Rightarrow> (if success then 0 else 1, calls))"

section \<open>Properties\<close>

lemma verify_all_calls: "verify_all H ts calls = (r, calls') \<Longrightarrow> calls' = calls @ map verify_payload ts \<and> \<not> isl r"
proof (induction ts arbitrary: calls r calls')
  case (Cons t ts)
  then show ?case
    by (fastforce simp: verifyOne_def action_simps Let_def split: sum.splits prod.splits)
qed (simp add: action_simps)

lemma verify_all_unfold: "\<exists>n. verify_all H ts calls = (Inr n, calls @ map verify_payload ts)"
  using verify_all_calls [of H ts calls] by (cases "verify_all H ts calls") (auto simp: isl_def, metis sum.collapse(2) isl_def)

lemma batch_payload: "t \<in> set (batch_tasks c) \<Longrightarrow> verify_payload t = t"
  by (auto simp: batch_tasks_def Let_def verify_payload_def truthy_str_def split: if_splits)

text \<open>In batch mode the exit code does not depend on the verification task at all: once the
  deployment file can be read, the task is called once for every known contract of the file, in
  the fixed order, whatever the earlier calls gave, and the script ends with code 0 even if every
  one of them failed.\<close>

theorem batch_exit_code_ignores_failures:
  assumes "vh_deployment H path = Some (Inr (JObj kvs))" "json_truthy (json_get ''contracts'' (JObj kvs))"
    and "path \<noteq> []" "vh_network H \<in> set SUPPORTED_NETWORKS"
  shows "verify_main H [''--network'', vh_network H, ''--deployment'', path] =
    (0, batch_tasks (json_get ''contracts'' (JObj kvs)))"
proof -
  let ?c = "json_get ''contracts'' (JObj kvs)"
  have payloads: "map verify_payload (batch_tasks ?c) = batch_tasks ?c"
    by (rule map_idI) (rule batch_payload)
  obtain n where n: "verify_all H (batch_tasks ?c) [] = (Inr n, batch_tasks ?c)"
    using verify_all_unfold [of H "batch_tasks ?c" "[]"] payloads by auto
  have "verifyFromDeployment H path [] = (Inr n, batch_tasks ?c)"
    using assms n by (simp add: verifyFromDeployment_def action_simps Let_def)
  moreover have "parseArgs [''--network'', vh_network H, ''--deployment'', path] =
      no_options\<lparr>cl_network := vh_network H, cl_deployment := Some path\<rparr>"
    by (simp add: parseArgs_def head_opt_def)
  moreover have "vh_network H \<noteq> []" using assms(4) by (auto simp: SUPPORTED_NETWORKS_def)
  ultimately show ?thesis
    using assms(3,4) by (simp add: verify_main_def no_options_def truthy_str_def or_str_def)
qed

definition failing_host :: verify_host where
  "failing_host = \<lparr>vh_network = ''optimism'', vh_verify = (\<lambda>calls t. throw_error ''Invalid API Key''),
     vh_deployment = (\<lambda>p. Some (Inr (JObj [(''contracts'', JObj [(''token'', JStr ''0x01''), (''oracle'', JStr ''0x02'')])])))\<rparr>"

lemma batch_exit_code_ignores_failures_witness:
  "verify_main failing_host [''--network'', vh_network failing_host, ''--deployment'', ''d.json''] =
    (0, batch_tasks (json_get ''contracts'' (JObj [(''contracts'', JObj [(''token'', JStr ''0x01''), (''oracle'', JStr ''0x02'')])])))"
  by (rule batch_exit_code_ignores_failures)
    (simp_all add: failing_host_def json_truthy_def json_get_def SUPPORTED_NETWORKS_def)

text \<open>The task runs only against a supported network that Hardhat itself is connected to, and
  a single verification ends with code 0 exactly when the task succeeds or reports a contract that
  is verified already.\<close>

theorem verify_main_guarded:
  "(case verify_main H args of (code, calls) \<Rightarrow>
     (calls = [] \<or> \<not> cl_help (parseArgs args) \<and> cl_network (parseArgs args) = vh_network H \<and>
        vh_network H \<in> set SUPPORTED_NETWORKS) \<and>
     (truthy_str (cl_deployment (parseArgs args)) \<or> cl_help (parseArgs args) \<or>
      (code = 0 \<longleftrightarrow> (\<exists>t. calls = [t] \<and> (case vh_verify H [] t of
         Inr u \<Rightarrow> True | Inl e \<Rightarrow> includes_str ''Already Verified'' (err_message e))))))"
  by (auto simp: verify_main_def Let_def verifyOne_def split: if_splits sum.splits prod.splits)

section \<open>Constructor arguments\<close>

lemma split_on_none: "c \<notin> set x \<Longrightarrow> split_on c x = [x]"
  by (induction x) auto

lemma split_on_first: "c \<notin> set x \<Longrightarrow> split_on c (x @ c # s) = x # split_on c s"
  by (induction x) auto

lemma split_join_fields:
  "xs \<noteq> [] \<Longrightarrow> list_all (\<lambda>x. c \<notin> set x) xs \<Longrightarrow> split_on c (join_with [c] xs) = xs"
proof (induction xs)
  case (Cons x xs)
  then show ?case by (cases xs) (auto simp: split_on_none split_on_first)
qed simp

text \<open>Addresses given as constructor arguments reach the task unchanged, in number, order and
  spelling, as text.\<close>

theorem constructor_args_roundtrip:
  assumes "addrs \<noteq> []"
    and "list_all (\<lambda>a. starts_with ''0x'' a \<and> CHR '','' \<notin> set a \<and> list_all (\<lambda>c. \<not> is_ws c) a) addrs"
  shows "parseConstructorArgs (join_with '','' addrs) = map ArgText addrs"
proof -
  have "split_on (CHR '','') (join_with '','' addrs) = addrs"
    using assms by (intro split_join_fields) (auto simp: list_all_iff)
  with assms(2) show ?thesis
    by (auto simp: parseConstructorArgs_def parse_ctor_arg_def list_all_iff trim_not_ws Let_def)
qed

lemma constructor_args_roundtrip_witness:
  "parseConstructorArgs (join_with '','' [''0xAb'', ''0x1'']) = map ArgText [''0xAb'', ''0x1'']"
  by (rule constructor_args_roundtrip) code_simp+

section \<open>The networks of the Hardhat configuration\<close>

definition HARDHAT_NETWORKS :: "string list" where
  "HARDHAT_NETWORKS = [''hardhat'', ''optimismSepolia'', ''optimismMainnet'']"

text \<open>The two network names the script accepts are not names of \<open>hardhat.config.ts\<close>: on every
  network configured there it verifies nothing and, unless help was asked for, fails.\<close>

theorem verify_rejects_configured_networks:
  "list_all (\<lambda>network. verify_main (H\<lparr>vh_network := network\<rparr>) args =
     (if cl_help (parseArgs args) then 0 else 1, [])) HARDHAT_NETWORKS"
  by (auto simp: HARDHAT_NETWORKS_def verify_main_def SUPPORTED_NETWORKS_def Let_def)

end
