(* ===== verification/LegacyScripts.thy ===== *)
theory LegacyScripts
  imports Deployments VerifyScript
begin

text \<open>
  The older deployment scripts \<open>scripts/deploy-weighted-staking.ts\<close> and \<open>scripts/deplot.ts\<close>, and
  the constructor arguments \<open>scripts/verify.ts\<close> sends in batch mode, against the constructors of the
  repository. The deployments come first, with what follows as the parameter \<open>configure\<close>; then what
  \<open>deploy-weighted-staking.ts\<close> does after them: configuration, funding and the address file.
\<close>

definition deplot_main :: "'r deploy_env \<Rightarrow> ('r chain, chain_address) action" where
  "deplot_main E = deploy E ''TruthBountyToken'' []"

definition deployWeightedStaking :: "'r deploy_env \<Rightarrow>
    (chain_address \<Rightarrow> chain_address \<Rightarrow> chain_address \<Rightarrow> chain_address \<Rightarrow> ('r chain, unit) action) \<Rightarrow>
    chain_address \<Rightarrow> ('r chain, unit) action" where
  "deployWeightedStaking E configure deployer =
     act_bind (deploy E ''TruthBountyToken'' []) (\<lambda>token.
     act_bind (deploy E ''MockReputationOracle'' []) (\<lambda>oracle.
     act_bind (deploy E ''WeightedStaking'' [DAddr oracle]) (\<lambda>weightedStaking.
     act_bind (deploy E ''TruthBountyWeighted'' [DAddr token, DAddr oracle, DAddr deployer, DAddr deployer]) (\<lambda>truthBounty.
     configure token oracle weightedStaking truthBounty))))"

text \<open>The exit code of the scripts' \<open>main().then(...).catch(...)\<close>.\<close>

definition exit_code :: "'a res \<Rightarrow> nat" where
  "exit_code r = (case r of Inl e \<Rightarrow> 1 | Inr a \<Rightarrow> 0)"

lemma find_token: "find_artifact ''TruthBountyToken'' = Inr (the_artifact ''TruthBountyToken'')"
    "at_params (the_artifact ''TruthBountyToken'') = [PAddress]"
  by code_simp+

lemma token_needs_admin: "deploy E ''TruthBountyToken'' [] ch =
    (throw_error ''incorrect number of arguments to constructor'', ch)"
  by (simp add: deploy_step [OF find_token(1)] find_token(2))

text \<open>Both older scripts stop at their first step without deploying anything: the token's
  constructor takes its administrator since the access control was introduced, and they pass
  nothing. Even past that step the bare name \<open>WeightedStaking\<close> is ambiguous.\<close>

theorem legacy_deployments_fail:
  "(case deployWeightedStaking E configure deployer ch of (r, ch') \<Rightarrow> exit_code r = 1 \<and> ch' = ch) \<and>
   (case deplot_main E ch of (r, ch') \<Rightarrow> exit_code r = 1 \<and> ch' = ch) \<and>
   isl (find_artifact ''WeightedStaking'')"
proof -
  have "isl (find_artifact ''WeightedStaking'')" by code_simp
  then show ?thesis
    by (simp add: deployWeightedStaking_def deplot_main_def token_needs_admin act_bind_def throw_error_def exit_code_def)
qed

section \<open>Configuration of the weighted contract\<close>

text \<open>What the steps after the deployments touch: the reputation settings of \<open>TruthBountyWeighted\<close>, the
  balances of the token, and the address file.\<close>

record weighted_settings =
  ws_minReputationScore :: int
  ws_maxReputationScore :: int
  ws_defaultReputationScore :: int
  ws_weightedStakingEnabled :: bool

record 'r configured_chain =
  cg_contracts :: "'r chain"
  cg_settings :: weighted_settings
  cg_balances :: "chain_address \<Rightarrow> int"
  cg_file :: "json option"

text \<open>The external functions that \<open>TruthBountyWeighted.sol\<close> declares. An \<open>ethers\<close> contract has a method for
  each function of its ABI; the two base contracts of the repository add none of the names used below.\<close>

definition WEIGHTED_FUNCTIONS :: "string list" where
  "WEIGHTED_FUNCTIONS = [''grantRole'', ''revokeRole'', ''createClaim'', ''stake'', ''vote'', ''voteWithValidation'', ''settleClaim'',
     ''claimSettlementRewards'', ''withdrawSettledStake'', ''withdrawStake'', ''getSettlement'', ''isSettled'', ''calculateSettlement'',
     ''previewSettlement'', ''setReputationUpdateEngine'', ''setTreasury'', ''setProtocolFeePercent'', ''wipeClaim'', ''setReputationOracle'',
     ''setReputationBounds'', ''setWeightedStakingEnabled'', ''setDefaultReputationScore'', ''setVerificationWindowDuration'',
     ''setConfirmationDelay'', ''setMinStakeAmount'', ''setSettlementThresholdPercent'', ''setRewardPercent'', ''setSlashPercent'',
     ''setReputationUpdateGracePeriod'', ''getClaimVoterCount'', ''getClaimVoterAt'', ''getVoteData'', ''getVerificationWeight'',
     ''getVerificationSupport'', ''getClaimVerificationWindowEnd'', ''getClaimSubmitter'', ''getClaim'', ''getVote'', ''getVerifierStake'',
     ''previewEffectiveStake'', ''previewEffectiveStakeWithTimestamp'', ''getLastReputationSnapshot'', ''checkReputationStaleness'',
     ''getHistoricalVerification'', ''getVerification'', ''getVerificationSnapshot'', ''pause'', ''unpause'', ''updateBountyToken'']"

definition weighted_method :: "string \<Rightarrow> ('s, 'a) action \<Rightarrow> ('s, 'a) action" where
  "weighted_method name call = (if name \<in> set WEIGHTED_FUNCTIONS then call
     else act_lift (Inl (JsError ''TypeError'' (''truthBounty.'' @ name @ '' is not a function''))))"

definition only_admin :: "'r deploy_env \<Rightarrow> chain_address \<Rightarrow> chain_address \<Rightarrow> ('r configured_chain \<Rightarrow> 'r configured_chain res) \<Rightarrow>
    ('r configured_chain, unit) action" where
  "only_admin E sender target change st =
     (case (if has_role E (cg_contracts st) target ''ADMIN_ROLE'' sender then change st
            else Inl (JsError ''Revert'' ''AccessControlUnauthorizedAccount'')) of
        Inl e \<Rightarrow> (Inl e, st) | Inr st' \<Rightarrow> (Inr (), st'))"

definition setReputationBounds :: "'r deploy_env \<Rightarrow> chain_address \<Rightarrow> chain_address \<Rightarrow> int \<Rightarrow> int \<Rightarrow> ('r configured_chain, unit) action" where
  "setReputationBounds E sender target minScore maxScore = only_admin E sender target (\<lambda>st.
     require (\<not> (minScore = 0 \<or> minScore \<ge> maxScore)) ''InvalidReputationBounds''
     (Inr (st\<lparr>cg_settings := (cg_settings st)\<lparr>ws_minReputationScore := minScore, ws_maxReputationScore := maxScore\<rparr>\<rparr>)))"

definition setDefaultReputationScore :: "'r deploy_env \<Rightarrow> chain_address \<Rightarrow> chain_address \<Rightarrow> int \<Rightarrow> ('r configured_chain, unit) action" where
  "setDefaultReputationScore E sender target defaultScore = only_admin E sender target (\<lambda>st.
     require (defaultScore > 0) ''Invalid default''
     (Inr (st\<lparr>cg_settings := (cg_settings st)\<lparr>ws_defaultReputationScore := defaultScore\<rparr>\<rparr>)))"

text \<open>\<open>ERC20.transfer\<close>.\<close>

definition token_transfer :: "chain_address \<Rightarrow> chain_address \<Rightarrow> int \<Rightarrow> ('r configured_chain, unit) action" where
  "token_transfer sender target amount st =
     (if target = ZeroAddress then (Inl (JsError ''Revert'' ''ERC20InvalidReceiver''), st)
      else if cg_balances st sender < amount then (Inl (JsError ''Revert'' ''ERC20InsufficientBalance''), st)
      else (let b = (cg_balances st)(sender := cg_balances st sender - amount) in
        (Inr (), st\<lparr>cg_balances := b(target := b target + amount)\<rparr>)))"

text \<open>The address file; how an address is written, the network name and the time are arguments.\<close>

definition deployment_file :: "(chain_address \<Rightarrow> string) \<Rightarrow> string \<Rightarrow> string \<Rightarrow> chain_address \<Rightarrow> chain_address \<Rightarrow> chain_address \<Rightarrow>
    chain_address \<Rightarrow> chain_address \<Rightarrow> json" where
  "deployment_file show network timestamp deployer token oracle weightedStaking truthBounty = JObj
     [(''network'', JStr network), (''timestamp'', JStr timestamp), (''deployer'', JStr (show deployer)),
      (''contracts'', JObj [(''token'', JStr (show token)), (''oracle'', JStr (show oracle)),
         (''weightedStaking'', JStr (show weightedStaking)), (''truthBountyWeighted'', JStr (show truthBounty))]),
      (''configuration'', JObj [(''minReputation'', JStr ''0.1''), (''maxReputation'', JStr ''10.0''),
         (''defaultReputation'', JStr ''1.0''), (''weightedEnabled'', JBool True)])]"

definition configureWeighted :: "'r deploy_env \<Rightarrow> (chain_address \<Rightarrow> string) \<Rightarrow> string \<Rightarrow> string \<Rightarrow> chain_address \<Rightarrow>
    chain_address \<Rightarrow> chain_address \<Rightarrow> chain_address \<Rightarrow> chain_address \<Rightarrow> ('r configured_chain, unit) action" where
  "configureWeighted E show network timestamp deployer token oracle weightedStaking truthBounty =
     act_bind (weighted_method ''setReputationBounds'' (setReputationBounds E deployer truthBounty (10 ^ 17) (parseEther 10))) (\<lambda>u.
     act_bind (weighted_method ''setDefaultReputationScore'' (setDefaultReputationScore E deployer truthBounty (parseEther 1))) (\<lambda>u.
     act_bind (token_transfer deployer truthBounty (parseEther 100000)) (\<lambda>u.
     act_bind (weighted_method ''getConfiguration'' (act_return ())) (\<lambda>u st.
       (Inr (), st\<lparr>cg_file := Some (deployment_file show network timestamp deployer token oracle weightedStaking truthBounty)\<rparr>)))))"

lemma weighted_method_simps:
  "weighted_method ''setReputationBounds'' f = f" "weighted_method ''setDefaultReputationScore'' f = f"
  "weighted_method ''getConfiguration'' f = act_lift (Inl (JsError ''TypeError'' ''truthBounty.getConfiguration is not a function''))"
proof -
  have "''setReputationBounds'' \<in> set WEIGHTED_FUNCTIONS" "''setDefaultReputationScore'' \<in> set WEIGHTED_FUNCTIONS"
    "''getConfiguration'' \<notin> set WEIGHTED_FUNCTIONS" by code_simp+
  then show "weighted_method ''setReputationBounds'' f = f" "weighted_method ''setDefaultReputationScore'' f = f"
    "weighted_method ''getConfiguration'' f = act_lift (Inl (JsError ''TypeError'' ''truthBounty.getConfiguration is not a function''))"
    by (simp_all add: weighted_method_def)
qed

text \<open>Runs that leave the address file alone.\<close>

lemma file_untouched:
  "preserves (\<lambda>s. cg_file s = f) (setReputationBounds E sender target lo hi)"
  "preserves (\<lambda>s. cg_file s = f) (setDefaultReputationScore E sender target d)"
  "preserves (\<lambda>s. cg_file s = f) (token_transfer sender target amount)"
  by (auto simp: preserves_def setReputationBounds_def setDefaultReputationScore_def only_admin_def require_def
      token_transfer_def Let_def split: sum.splits if_splits)

lemma act_bind_failed: "act_bind (act_lift (Inl e)) f = act_lift (Inl e)"
  by (rule ext) (simp add: act_bind_def act_lift_def)

lemma configure_steps:
  "configureWeighted E show network timestamp deployer token oracle weightedStaking truthBounty =
     act_bind (setReputationBounds E deployer truthBounty (10 ^ 17) (parseEther 10)) (\<lambda>u.
     act_bind (setDefaultReputationScore E deployer truthBounty (parseEther 1)) (\<lambda>u.
     act_bind (token_transfer deployer truthBounty (parseEther 100000)) (\<lambda>u.
     act_lift (Inl (JsError ''TypeError'' ''truthBounty.getConfiguration is not a function'')))))"
  by (simp only: configureWeighted_def weighted_method_simps act_bind_failed)

lemma admin_settings:
  assumes "has_role E (cg_contracts st) target ''ADMIN_ROLE'' sender"
  shows "lo \<noteq> 0 \<Longrightarrow> lo < hi \<Longrightarrow> setReputationBounds E sender target lo hi st =
      (Inr (), st\<lparr>cg_settings := (cg_settings st)\<lparr>ws_minReputationScore := lo, ws_maxReputationScore := hi\<rparr>\<rparr>)"
    and "0 < d \<Longrightarrow> setDefaultReputationScore E sender target d st =
      (Inr (), st\<lparr>cg_settings := (cg_settings st)\<lparr>ws_defaultReputationScore := d\<rparr>\<rparr>)"
  using assms by (simp_all add: setReputationBounds_def setDefaultReputationScore_def only_admin_def require_def)


text \<open>A chain with a contract that the account \<open>d\<close> administers.\<close>

definition funded_chain :: "role_lists configured_chain" where
  "funded_chain = \<lparr>cg_contracts = [\<lparr>dc_contract = ''TruthBountyWeighted'', dc_args = [], dc_roles = ([(''ADMIN_ROLE'', Account ''d'')], [])\<rparr>],
     cg_settings = \<lparr>ws_minReputationScore = 1, ws_maxReputationScore = 2, ws_defaultReputationScore = 1, ws_weightedStakingEnabled = True\<rparr>,
     cg_balances = (\<lambda>a. if a = Account ''d'' then parseEther 10000000 else 0), cg_file = None\<rparr>"


section \<open>Batch verification\<close>

definition task_arity_ok :: "verify_task \<Rightarrow> bool" where
  "task_arity_ok t = (case vt_contract t of None \<Rightarrow> True | Some c \<Rightarrow> (case find_artifact c of
     Inl e \<Rightarrow> False
   | Inr a \<Rightarrow> length (case vt_constructorArguments t of None \<Rightarrow> [] | Some as \<Rightarrow> as) = length (at_params a)))"

lemma batch_artifacts:
  "find_artifact ''contracts/TruthBounty.sol:TruthBountyToken'' = Inr (the_artifact ''contracts/TruthBounty.sol:TruthBountyToken'')"
  "length (at_params (the_artifact ''contracts/TruthBounty.sol:TruthBountyToken'')) = 1"
  "find_artifact ''contracts/MockReputationOracle.sol:MockReputationOracle'' =
     Inr (the_artifact ''contracts/MockReputationOracle.sol:MockReputationOracle'')"
  "length (at_params (the_artifact ''contracts/MockReputationOracle.sol:MockReputationOracle'')) = 0"
  "find_artifact ''contracts/WeightedStaking.sol:WeightedStaking'' = Inr (the_artifact ''contracts/WeightedStaking.sol:WeightedStaking'')"
  "length (at_params (the_artifact ''contracts/WeightedStaking.sol:WeightedStaking'')) = 3"
  "find_artifact ''contracts/TruthBountyWeighted.sol:TruthBountyWeighted'' =
     Inr (the_artifact ''contracts/TruthBountyWeighted.sol:TruthBountyWeighted'')"
  "length (at_params (the_artifact ''contracts/TruthBountyWeighted.sol:TruthBountyWeighted'')) = 4"
  by code_simp+

text \<open>Of the contracts in a deployment file only the oracle is submitted with as many constructor
  arguments as its constructor takes; the other three can never verify.\<close>

theorem batch_verification_arguments:
  "filter task_arity_ok (batch_tasks contracts) =
     filter (\<lambda>t. vt_contract t = Some ''contracts/MockReputationOracle.sol:MockReputationOracle'') (batch_tasks contracts)"
  by (rule filter_cong) (auto simp: batch_tasks_def Let_def task_arity_ok_def batch_artifacts split: if_splits)

end
