(* ===== verification/ResolverTimelock.thy ===== *)
theory ResolverTimelock
  imports Chain
begin

text \<open>
  \<open>contracts/utils/ResolverRoleTimelock.sol\<close>: grants and revocations of \<open>RESOLVER_ROLE\<close> wait in a table
  of pending operations. Every function that changes state, as a function of the sender, the block time
  and the state; \<open>Inl\<close> is a revert, which changes nothing. An operation id stands for the hash of its
  fields, taken to be injective; the address of the contract and the role are the same in every hash.
  Block times are far below \<open>2^256\<close>. Roles are the parameter \<open>access_api\<close>.
\<close>

section \<open>State\<close>

datatype operation_id = OperationId chain_address bool nat nat   \<comment> \<open>account, grant, time, nonce\<close>

record pending_change =
  pc_readyAt :: nat
  pc_expireAt :: nat
  pc_executed :: bool

text \<open>A missing entry of a mapping is the zero of its type.\<close>

record 'r timelock =
  tl_roles :: 'r
  tl_pending :: "operation_id \<Rightarrow> pending_change"
  tl_changeId :: "chain_address \<Rightarrow> bool \<Rightarrow> operation_id option"
  tl_readyAt :: "operation_id \<Rightarrow> nat"
  tl_nonce :: nat

definition no_pending :: pending_change where
  "no_pending = \<lparr>pc_readyAt = 0, pc_expireAt = 0, pc_executed = False\<rparr>"

definition new_timelock :: "'r \<Rightarrow> 'r timelock" where
  "new_timelock roles = \<lparr>tl_roles = roles, tl_pending = (\<lambda>i. no_pending), tl_changeId = (\<lambda>a g. None), tl_readyAt = (\<lambda>i. 0), tl_nonce = 0\<rparr>"

definition RESOLVER_ROLE :: string where
  "RESOLVER_ROLE = ''RESOLVER_ROLE''"

definition MIN_RESOLVER_ROLE_CHANGE_DELAY :: nat where
  "MIN_RESOLVER_ROLE_CHANGE_DELAY = 2 * 86400"

definition MAX_RESOLVER_ROLE_CHANGE_DELAY :: nat where
  "MAX_RESOLVER_ROLE_CHANGE_DELAY = 14 * 86400"

definition tl_has :: "'r access_api \<Rightarrow> ('r, 'm) timelock_scheme \<Rightarrow> string \<Rightarrow> chain_address \<Rightarrow> bool" where
  "tl_has A s = ax_has A (tl_roles s)"

definition only_admin_of :: "'r access_api \<Rightarrow> chain_address \<Rightarrow> ('r, 'm) timelock_scheme \<Rightarrow> string \<Rightarrow> 'a res \<Rightarrow> 'a res" where
  "only_admin_of A sender s role = require (tl_has A s (ax_admin A (tl_roles s) role) sender) ''AccessControlUnauthorizedAccount''"

section \<open>Scheduling\<close>

definition forget_change :: "operation_id \<Rightarrow> chain_address \<Rightarrow> bool \<Rightarrow> ('r, 'm) timelock_scheme \<Rightarrow> ('r, 'm) timelock_scheme" where
  "forget_change operationId account grant s = s\<lparr>tl_pending := (tl_pending s)(operationId := no_pending),
     tl_changeId := (tl_changeId s)(account := (tl_changeId s account)(grant := None)),
     tl_readyAt := (tl_readyAt s)(operationId := 0)\<rparr>"

definition scheduleChange :: "nat \<Rightarrow> chain_address \<Rightarrow> bool \<Rightarrow> nat \<Rightarrow> ('r, 'm) timelock_scheme \<Rightarrow> ('r, 'm) timelock_scheme res" where
  "scheduleChange now account grant delay s =
     require (MIN_RESOLVER_ROLE_CHANGE_DELAY \<le> delay \<and> delay \<le> MAX_RESOLVER_ROLE_CHANGE_DELAY) ''InvalidDelay''
     (let nonce = (tl_nonce s + 1) mod 2 ^ 256; operationId = OperationId account grant now nonce;
        readyAt = now + delay; expireAt = now + MAX_RESOLVER_ROLE_CHANGE_DELAY in
      require (pc_readyAt (tl_pending s operationId) = 0) ''OperationIdCollision''
      (Inr (s\<lparr>tl_nonce := nonce,
        tl_pending := (tl_pending s)(operationId := \<lparr>pc_readyAt = readyAt, pc_expireAt = expireAt, pc_executed = False\<rparr>),
        tl_changeId := (tl_changeId s)(account := (tl_changeId s account)(grant := Some operationId)),
        tl_readyAt := (tl_readyAt s)(operationId := readyAt)\<rparr>)))"

definition scheduleResolverRoleGrantWithDelay :: "'r access_api \<Rightarrow> chain_address \<Rightarrow> nat \<Rightarrow> chain_address \<Rightarrow> nat \<Rightarrow>
    ('r, 'm) timelock_scheme \<Rightarrow> ('r, 'm) timelock_scheme res" where
  "scheduleResolverRoleGrantWithDelay A sender now account delay s = only_admin_of A sender s RESOLVER_ROLE
     (require (\<not> tl_has A s RESOLVER_ROLE account) ''ResolverRoleChangeNoop'' (scheduleChange now account True delay s))"

definition scheduleResolverRoleRevokeWithDelay :: "'r access_api \<Rightarrow> chain_address \<Rightarrow> nat \<Rightarrow> chain_address \<Rightarrow> nat \<Rightarrow>
    ('r, 'm) timelock_scheme \<Rightarrow> ('r, 'm) timelock_scheme res" where
  "scheduleResolverRoleRevokeWithDelay A sender now account delay s = only_admin_of A sender s RESOLVER_ROLE
     (require (tl_has A s RESOLVER_ROLE account) ''ResolverRoleChangeNoop'' (scheduleChange now account False delay s))"

definition scheduleResolverRoleGrant :: "'r access_api \<Rightarrow> chain_address \<Rightarrow> nat \<Rightarrow> chain_address \<Rightarrow>
    ('r, 'm) timelock_scheme \<Rightarrow> ('r, 'm) timelock_scheme res" where
  "scheduleResolverRoleGrant A sender now account s = only_admin_of A sender s RESOLVER_ROLE
     (require (\<not> tl_has A s RESOLVER_ROLE account) ''ResolverRoleChangeNoop''
       (scheduleChange now account True MIN_RESOLVER_ROLE_CHANGE_DELAY s))"

definition scheduleResolverRoleRevoke :: "'r access_api \<Rightarrow> chain_address \<Rightarrow> nat \<Rightarrow> chain_address \<Rightarrow>
    ('r, 'm) timelock_scheme \<Rightarrow> ('r, 'm) timelock_scheme res" where
  "scheduleResolverRoleRevoke A sender now account s = only_admin_of A sender s RESOLVER_ROLE
     (require (tl_has A s RESOLVER_ROLE account) ''ResolverRoleChangeNoop''
       (scheduleChange now account False MIN_RESOLVER_ROLE_CHANGE_DELAY s))"

definition cancelResolverRoleChange :: "'r access_api \<Rightarrow> chain_address \<Rightarrow> operation_id \<Rightarrow> chain_address \<Rightarrow> bool \<Rightarrow>
    ('r, 'm) timelock_scheme \<Rightarrow> ('r, 'm) timelock_scheme res" where
  "cancelResolverRoleChange A sender operationId account grant s = only_admin_of A sender s RESOLVER_ROLE
     (require (pc_readyAt (tl_pending s operationId) \<noteq> 0) ''ResolverRoleChangeNotPending''
     (require (\<not> pc_executed (tl_pending s operationId)) ''ResolverRoleChangeNoop''
       (Inr (forget_change operationId account grant s))))"

section \<open>Execution\<close>

text \<open>The id is looked up, not recomputed: it need not belong to the account or to the direction. The
  deletion of an expired operation is undone by the revert that follows it.\<close>

definition executeChange :: "'r access_api \<Rightarrow> nat \<Rightarrow> operation_id \<Rightarrow> chain_address \<Rightarrow> bool \<Rightarrow>
    ('r, 'm) timelock_scheme \<Rightarrow> ('r, 'm) timelock_scheme res" where
  "executeChange A now operationId account grant s = (let pendingChange = tl_pending s operationId in
     require (pc_readyAt pendingChange \<noteq> 0) ''ResolverRoleChangeNotPending''
     (require (\<not> pc_executed pendingChange) ''ResolverRoleChangeNoop''
     (require (pc_readyAt pendingChange \<le> now) ''ResolverRoleChangeNotReady''
     (require (now \<le> pc_expireAt pendingChange) ''ResolverRoleChangeExpiredError''
     (let s' = forget_change operationId account grant s in
      if grant then require (\<not> tl_has A s' RESOLVER_ROLE account) ''ResolverRoleChangeNoop''
        (Inr (s'\<lparr>tl_roles := ax_grant A RESOLVER_ROLE account (tl_roles s')\<rparr>))
      else require (tl_has A s' RESOLVER_ROLE account) ''ResolverRoleChangeNoop''
        (Inr (s'\<lparr>tl_roles := ax_revoke A RESOLVER_ROLE account (tl_roles s')\<rparr>)))))))"

definition executeResolverRoleGrant :: "'r access_api \<Rightarrow> nat \<Rightarrow> operation_id \<Rightarrow> chain_address \<Rightarrow>
    ('r, 'm) timelock_scheme \<Rightarrow> ('r, 'm) timelock_scheme res" where
  "executeResolverRoleGrant A now operationId account = executeChange A now operationId account True"

definition executeResolverRoleRevoke :: "'r access_api \<Rightarrow> nat \<Rightarrow> operation_id \<Rightarrow> chain_address \<Rightarrow>
    ('r, 'm) timelock_scheme \<Rightarrow> ('r, 'm) timelock_scheme res" where
  "executeResolverRoleRevoke A now operationId account = executeChange A now operationId account False"

definition cleanupExpiredRoleChange :: "nat \<Rightarrow> operation_id \<Rightarrow> chain_address \<Rightarrow> bool \<Rightarrow>
    ('r, 'm) timelock_scheme \<Rightarrow> ('r, 'm) timelock_scheme res" where
  "cleanupExpiredRoleChange now operationId account grant s =
     require (pc_readyAt (tl_pending s operationId) \<noteq> 0) ''ResolverRoleChangeNotPending''
     (require (pc_expireAt (tl_pending s operationId) < now) ''ResolverRoleChangeExpiredError''
       (Inr (forget_change operationId account grant s)))"

section \<open>The inherited functions\<close>

definition timelock_grantRole :: "'r access_api \<Rightarrow> chain_address \<Rightarrow> string \<Rightarrow> chain_address \<Rightarrow>
    ('r, 'm) timelock_scheme \<Rightarrow> ('r, 'm) timelock_scheme res" where
  "timelock_grantRole A sender role account s = only_admin_of A sender s role
     (require (role \<noteq> RESOLVER_ROLE) ''ResolverRoleChangeRequiresTimelock''
       (Inr (s\<lparr>tl_roles := ax_grant A role account (tl_roles s)\<rparr>)))"

definition timelock_revokeRole :: "'r access_api \<Rightarrow> chain_address \<Rightarrow> string \<Rightarrow> chain_address \<Rightarrow>
    ('r, 'm) timelock_scheme \<Rightarrow> ('r, 'm) timelock_scheme res" where
  "timelock_revokeRole A sender role account s = only_admin_of A sender s role
     (require (role \<noteq> RESOLVER_ROLE) ''ResolverRoleChangeRequiresTimelock''
       (Inr (s\<lparr>tl_roles := ax_revoke A role account (tl_roles s)\<rparr>)))"

text \<open>\<open>AccessControl.renounceRole\<close> is not overridden.\<close>

definition timelock_renounceRole :: "'r access_api \<Rightarrow> chain_address \<Rightarrow> string \<Rightarrow> chain_address \<Rightarrow>
    ('r, 'm) timelock_scheme \<Rightarrow> ('r, 'm) timelock_scheme res" where
  "timelock_renounceRole A sender role account s = require (account = sender) ''AccessControlBadConfirmation''
     (Inr (s\<lparr>tl_roles := ax_revoke A role account (tl_roles s)\<rparr>))"

section \<open>Runs\<close>

text \<open>One transaction at a block time, by any sender.\<close>

datatype timelock_call =
    CSchedule chain_address bool
  | CScheduleWithDelay chain_address bool nat
  | CCancel operation_id chain_address bool
  | CExecute operation_id chain_address bool
  | CCleanup operation_id chain_address bool
  | CGrantRole string chain_address
  | CRevokeRole string chain_address
  | CRenounceRole string chain_address

fun call_timelock :: "'r access_api \<Rightarrow> chain_address \<Rightarrow> nat \<Rightarrow> timelock_call \<Rightarrow> ('r, 'm) timelock_scheme \<Rightarrow> ('r, 'm) timelock_scheme res" where
  "call_timelock A sender now (CSchedule a g) = (if g then scheduleResolverRoleGrant else scheduleResolverRoleRevoke) A sender now a"
| "call_timelock A sender now (CScheduleWithDelay a g d) =
     (\<lambda>s. (if g then scheduleResolverRoleGrantWithDelay else scheduleResolverRoleRevokeWithDelay) A sender now a d s)"
| "call_timelock A sender now (CCancel i a g) = cancelResolverRoleChange A sender i a g"
| "call_timelock A sender now (CExecute i a g) = (if g then executeResolverRoleGrant else executeResolverRoleRevoke) A now i a"
| "call_timelock A sender now (CCleanup i a g) = cleanupExpiredRoleChange now i a g"
| "call_timelock A sender now (CGrantRole r a) = timelock_grantRole A sender r a"
| "call_timelock A sender now (CRevokeRole r a) = timelock_revokeRole A sender r a"
| "call_timelock A sender now (CRenounceRole r a) = timelock_renounceRole A sender r a"

text \<open>States reachable from a deployment without resolvers, with the time and who was scheduled when.\<close>

inductive timelock_run :: "'r access_api \<Rightarrow> nat \<Rightarrow> 'r timelock \<Rightarrow> bool" for A where
  deployed: "\<forall>a. \<not> ax_has A roles RESOLVER_ROLE a \<Longrightarrow> timelock_run A now (new_timelock roles)"
| later: "timelock_run A now s \<Longrightarrow> now \<le> now' \<Longrightarrow> timelock_run A now' s"
| called: "timelock_run A now s \<Longrightarrow> call_timelock A sender now c s = Inr s' \<Longrightarrow> timelock_run A now s'"

lemma require_Inr: "require c msg k = Inr x \<longleftrightarrow> c \<and> k = Inr x"
  by (simp add: require_def)

lemmas timelock_defs = scheduleResolverRoleGrant_def scheduleResolverRoleRevoke_def scheduleResolverRoleGrantWithDelay_def
  scheduleResolverRoleRevokeWithDelay_def cancelResolverRoleChange_def executeResolverRoleGrant_def executeResolverRoleRevoke_def
  executeChange_def cleanupExpiredRoleChange_def timelock_grantRole_def timelock_revokeRole_def timelock_renounceRole_def
  scheduleChange_def forget_change_def only_admin_of_def require_Inr Let_def

section \<open>The table of pending operations\<close>

text \<open>Every pending operation waits between the two delays and expires 14 days after it was scheduled.\<close>

definition pending_ok :: "operation_id \<Rightarrow> pending_change \<Rightarrow> bool" where
  "pending_ok i p \<longleftrightarrow> p = no_pending \<or> (case i of OperationId account grant time nonce \<Rightarrow>
     \<not> pc_executed p \<and> time + MIN_RESOLVER_ROLE_CHANGE_DELAY \<le> pc_readyAt p \<and> pc_readyAt p \<le> pc_expireAt p \<and>
     pc_expireAt p = time + MAX_RESOLVER_ROLE_CHANGE_DELAY)"

lemma pending_ok_none [simp]: "pending_ok i no_pending"
  by (simp add: pending_ok_def)

text \<open>What a call does to the table: nothing, it forgets one operation, or it adds one.\<close>

lemma pending_after:
  assumes "call_timelock A sender now c s = Inr s'"
  obtains "tl_pending s' = tl_pending s"
  | i where "tl_pending s' = (tl_pending s)(i := no_pending)"
  | a g n d where "tl_pending s' = (tl_pending s)(OperationId a g now n :=
        \<lparr>pc_readyAt = now + d, pc_expireAt = now + MAX_RESOLVER_ROLE_CHANGE_DELAY, pc_executed = False\<rparr>)"
      "MIN_RESOLVER_ROLE_CHANGE_DELAY \<le> d" "d \<le> MAX_RESOLVER_ROLE_CHANGE_DELAY"
  using assms by (cases c) (auto simp: timelock_defs split: if_split_asm)

text \<open>And to the roles: an executed operation, another role, or a renunciation.\<close>

lemma roles_after:
  assumes "call_timelock A sender now c s = Inr s'"
  obtains "tl_roles s' = tl_roles s"
  | i a g where "c = CExecute i a g" "tl_roles s' = (if g then ax_grant else ax_revoke) A RESOLVER_ROLE a (tl_roles s)"
      "pc_readyAt (tl_pending s i) \<noteq> 0" "pc_readyAt (tl_pending s i) \<le> now" "now \<le> pc_expireAt (tl_pending s i)"
  | r a where "r \<noteq> RESOLVER_ROLE" "tl_roles s' = ax_grant A r a (tl_roles s)"
  | r a where "r \<noteq> RESOLVER_ROLE" "tl_roles s' = ax_revoke A r a (tl_roles s)"
  | r where "c = CRenounceRole r sender" "tl_roles s' = ax_revoke A r sender (tl_roles s)"
  using assms by (cases c) (auto simp: timelock_defs split: if_split_asm)

lemma pending_ok_call:
  "call_timelock A sender now c s = Inr s' \<Longrightarrow> \<forall>i. pending_ok i (tl_pending s i) \<Longrightarrow> \<forall>i. pending_ok i (tl_pending s' i)"
  by (erule pending_after) (simp_all add: pending_ok_def)

lemma pending_ok_run: "timelock_run A now s \<Longrightarrow> \<forall>i. pending_ok i (tl_pending s i)"
proof (induction rule: timelock_run.induct)
  case (called now s sender c s')
  then show ?case using pending_ok_call by blast
qed (simp_all add: new_timelock_def)

section \<open>Properties\<close>

text \<open>C33: in every run, who holds the resolver role changes only by an execution between two and fourteen
  days after some operation was scheduled, or by a holder who renounces it.\<close>

theorem role_change_delayed:
  assumes "access_laws A" "timelock_run A now s" "call_timelock A sender now c s = Inr s'"
    and "tl_has A s' RESOLVER_ROLE a \<noteq> tl_has A s RESOLVER_ROLE a"
  shows "(\<exists>account grant time nonce. c = CExecute (OperationId account grant time nonce) a (tl_has A s' RESOLVER_ROLE a) \<and>
      time + MIN_RESOLVER_ROLE_CHANGE_DELAY \<le> now \<and> now \<le> time + MAX_RESOLVER_ROLE_CHANGE_DELAY) \<or>
    (c = CRenounceRole RESOLVER_ROLE a \<and> sender = a)"
  using assms(3)
proof (cases rule: roles_after)
  case (2 i b g)
  obtain account grant time nonce where i: "i = OperationId account grant time nonce" by (cases i)
  from 2(2) assms(4) have "b = a" "g = tl_has A s' RESOLVER_ROLE a"
    by (auto simp: tl_has_def access_laws.access_simps [OF assms(1)] split: if_split_asm)
  moreover have "pending_ok i (tl_pending s i)" using pending_ok_run [OF assms(2)] by blast
  ultimately show ?thesis using 2(1,3,4,5) i by (auto simp: pending_ok_def no_pending_def)
qed (use assms(4) in \<open>auto simp: tl_has_def access_laws.access_simps [OF assms(1)] split: if_split_asm\<close>)

text \<open>C34: a scheduled operation is open to everybody: two days after an administrator schedules any change of
  the role, any account without the role can execute that operation as a grant to itself.\<close>

theorem any_operation_grants_anyone:
  assumes "access_laws A" "call_timelock A admin time (CSchedule b g) s = Inr s'" "\<not> tl_has A s RESOLVER_ROLE attacker"
    and "time + MIN_RESOLVER_ROLE_CHANGE_DELAY \<le> now" "now \<le> time + MAX_RESOLVER_ROLE_CHANGE_DELAY"
  shows "\<exists>s''. call_timelock A attacker now (CExecute (OperationId b g time ((tl_nonce s + 1) mod 2 ^ 256)) attacker True) s' = Inr s'' \<and>
    tl_has A s'' RESOLVER_ROLE attacker"
proof -
  let ?i = "OperationId b g time ((tl_nonce s + 1) mod 2 ^ 256)"
  have "tl_roles s' = tl_roles s" "pc_readyAt (tl_pending s' ?i) = time + MIN_RESOLVER_ROLE_CHANGE_DELAY"
    "pc_expireAt (tl_pending s' ?i) = time + MAX_RESOLVER_ROLE_CHANGE_DELAY" "\<not> pc_executed (tl_pending s' ?i)"
    using assms(2) by (auto simp: timelock_defs split: if_split_asm)
  then show ?thesis using assms(3-5)
    by (auto simp: executeResolverRoleGrant_def executeChange_def forget_change_def Let_def require_def tl_has_def
        access_laws.access_simps [OF assms(1)] MIN_RESOLVER_ROLE_CHANGE_DELAY_def)
qed

section \<open>A concrete attack\<close>

definition demo_roles :: role_lists where
  "demo_roles = ([(''ADMIN_ROLE'', Account ''admin'')], [(RESOLVER_ROLE, ''ADMIN_ROLE'')])"

abbreviation demo_operation :: operation_id where
  "demo_operation \<equiv> OperationId (Account ''settlement'') True 1000 1"

definition demo_scheduled :: "role_lists timelock" where
  "demo_scheduled = \<lparr>tl_roles = demo_roles,
     tl_pending = (\<lambda>i. no_pending)(demo_operation := \<lparr>pc_readyAt = 173800, pc_expireAt = 1210600, pc_executed = False\<rparr>),
     tl_changeId = (\<lambda>a g. None)(Account ''settlement'' := (\<lambda>g. None)(True := Some demo_operation)),
     tl_readyAt = (\<lambda>i. 0)(demo_operation := 173800), tl_nonce = 1\<rparr>"

lemmas demo_defs = scheduleResolverRoleGrant_def scheduleChange_def only_admin_of_def require_def tl_has_def new_timelock_def
  demo_roles_def list_access_def no_pending_def Let_def MIN_RESOLVER_ROLE_CHANGE_DELAY_def MAX_RESOLVER_ROLE_CHANGE_DELAY_def

lemma resolver_not_admin [simp]: "RESOLVER_ROLE \<noteq> ''ADMIN_ROLE''"
  by (simp add: RESOLVER_ROLE_def)

lemma demo_schedules: "call_timelock list_access (Account ''admin'') 1000 (CSchedule (Account ''settlement'') True) (new_timelock demo_roles) = Inr demo_scheduled"
  by (simp add: demo_scheduled_def demo_defs)

lemma attack_succeeds: "\<exists>s. call_timelock list_access (Account ''mallory'') 173800 (CExecute demo_operation (Account ''mallory'') True) demo_scheduled = Inr s \<and>
    tl_has list_access s RESOLVER_ROLE (Account ''mallory'')"
  by (simp add: demo_scheduled_def demo_defs executeResolverRoleGrant_def executeChange_def forget_change_def)

theorem any_operation_grants_anyone_witness:
  "\<exists>s. call_timelock list_access (Account ''mallory'') 173800 (CExecute demo_operation (Account ''mallory'') True) demo_scheduled = Inr s \<and>
     tl_has list_access s RESOLVER_ROLE (Account ''mallory'')"
  using any_operation_grants_anyone [OF roles.access_laws_axioms demo_schedules, of "Account ''mallory''" 173800]
  by (simp add: tl_has_def new_timelock_def demo_roles_def list_access_def MIN_RESOLVER_ROLE_CHANGE_DELAY_def MAX_RESOLVER_ROLE_CHANGE_DELAY_def)

theorem role_change_delayed_witness:
  "\<exists>s account grant time nonce. call_timelock list_access (Account ''mallory'') 173800 (CExecute demo_operation (Account ''mallory'') True) demo_scheduled = Inr s \<and>
     CExecute demo_operation (Account ''mallory'') True = CExecute (OperationId account grant time nonce) (Account ''mallory'') True \<and>
     time + MIN_RESOLVER_ROLE_CHANGE_DELAY \<le> 173800"
proof -
  have "timelock_run list_access 1000 (new_timelock demo_roles)"
    by (rule timelock_run.deployed) (simp add: demo_roles_def list_access_def)
  then have "timelock_run list_access 173800 demo_scheduled"
    using timelock_run.called [OF _ demo_schedules] timelock_run.later by fastforce
  moreover obtain s where s: "call_timelock list_access (Account ''mallory'') 173800 (CExecute demo_operation (Account ''mallory'') True) demo_scheduled = Inr s"
      "tl_has list_access s RESOLVER_ROLE (Account ''mallory'')"
    using attack_succeeds by blast
  moreover have "\<not> tl_has list_access demo_scheduled RESOLVER_ROLE (Account ''mallory'')" by (simp add: demo_scheduled_def demo_defs)
  ultimately show ?thesis
    using role_change_delayed [OF roles.access_laws_axioms _ s(1), of "Account ''mallory''"] by auto
qed

end
