(* ===== verification/SlashingDeployment.thy ===== *)
theory SlashingDeployment
  imports ResolverTimelock
begin

text \<open>
  \<open>scripts/deploySlashing.ts\<close> with the parts of \<open>contracts/VerifierSlashing.sol\<close> and
  \<open>contracts/staking.sol\<close> it runs: the constructors, \<open>grantSettlementRole\<close> and \<open>setSlashingContract\<close>.
  \<open>slashing_host\<close>: the environment, the address a text stands for, the deployer, the address of the new
  contract and the block times of the two calls. The address in \<open>STAKING_CONTRACT_ADDRESS\<close> is taken to
  hold a \<open>Staking\<close> contract. Offences, penalties and printing are left out.
\<close>

section \<open>The contracts\<close>

record 'r staking_state = "'r timelock" +
  sk_slashingContract :: chain_address

record 'r slashing_state = "'r timelock" +
  sl_stakingContract :: chain_address
  sl_emergencyAdmin :: chain_address

definition ctor_Staking :: "'r access_api \<Rightarrow> chain_address \<Rightarrow> chain_address \<Rightarrow> 'r staking_state res" where
  "ctor_Staking A stakingToken initialAdmin =
     require (stakingToken \<noteq> ZeroAddress) ''Invalid token address'' (require (initialAdmin \<noteq> ZeroAddress) ''Invalid admin address''
     (Inr (timelock.extend (new_timelock (admin_all A [(RESOLVER_ROLE, ''ADMIN_ROLE'')]
       (grant_all A [(DEFAULT_ADMIN_ROLE, initialAdmin), (''ADMIN_ROLE'', initialAdmin)] (ax_empty A))))
       (staking_state.fields ZeroAddress))))"

text \<open>The revocation, or the cancellation, for the contract that is replaced.\<close>

definition release_old :: "'r access_api \<Rightarrow> nat \<Rightarrow> ('r, 'm) staking_state_scheme \<Rightarrow> ('r, 'm) staking_state_scheme res" where
  "release_old A now s = (let old = sk_slashingContract s in
     if old = ZeroAddress then Inr s
     else if tl_has A s RESOLVER_ROLE old then scheduleChange now old False MIN_RESOLVER_ROLE_CHANGE_DELAY s
     else (case tl_changeId s old True of
         None \<Rightarrow> Inr s
       | Some pendingGrant \<Rightarrow> if tl_readyAt s pendingGrant \<noteq> 0
           then Inr (s\<lparr>tl_readyAt := (tl_readyAt s)(pendingGrant := 0)\<rparr>) else Inr s))"

definition setSlashingContract :: "'r access_api \<Rightarrow> chain_address \<Rightarrow> nat \<Rightarrow> chain_address \<Rightarrow>
    ('r, 'm) staking_state_scheme \<Rightarrow> ('r, 'm) staking_state_scheme res" where
  "setSlashingContract A sender now newContract s =
     require (tl_has A s ''ADMIN_ROLE'' sender) ''AccessControlUnauthorizedAccount''
     (require (newContract \<noteq> ZeroAddress) ''Invalid slashing contract''
     (res_bind (release_old A now s) (\<lambda>s1. let s2 = s1\<lparr>sk_slashingContract := newContract\<rparr> in
        if \<not> tl_has A s2 RESOLVER_ROLE newContract then scheduleChange now newContract True MIN_RESOLVER_ROLE_CHANGE_DELAY s2
        else Inr s2)))"

definition ctor_VerifierSlashing :: "'r access_api \<Rightarrow> chain_address \<Rightarrow> chain_address \<Rightarrow> chain_address \<Rightarrow> 'r slashing_state res" where
  "ctor_VerifierSlashing A stakingContract admin governanceController =
     require (stakingContract \<noteq> ZeroAddress \<and> admin \<noteq> ZeroAddress) ''InvalidStakingContract''
     (res_bind (initializeGovernance A governanceController admin
        (admin_all A [(RESOLVER_ROLE, ''ADMIN_ROLE''), (''PAUSER_ROLE'', ''ADMIN_ROLE'')]
        (grant_all A [(DEFAULT_ADMIN_ROLE, admin), (''ADMIN_ROLE'', admin), (''PAUSER_ROLE'', admin)] (ax_empty A))))
      (\<lambda>roles. Inr (timelock.extend (new_timelock roles) (slashing_state.fields stakingContract admin))))"

definition grantSettlementRole :: "'r access_api \<Rightarrow> chain_address \<Rightarrow> nat \<Rightarrow> chain_address \<Rightarrow> 'r slashing_state \<Rightarrow> 'r slashing_state res" where
  "grantSettlementRole A sender now account s =
     require (tl_has A s ''GOVERNANCE_ROLE'' sender \<or> tl_has A s DEFAULT_ADMIN_ROLE sender \<or> sender = sl_emergencyAdmin s)
       ''UnauthorizedGovernance''
     (require (\<not> tl_has A s RESOLVER_ROLE account) ''ResolverRoleChangeNoop''
       (scheduleChange now account True MIN_RESOLVER_ROLE_CHANGE_DELAY s))"

section \<open>The script\<close>

record slashing_host =
  sh_env :: "string \<Rightarrow> string option"
  sh_address :: "string \<Rightarrow> chain_address option"
  sh_deployer :: chain_address
  sh_newContract :: chain_address
  sh_setTime :: nat
  sh_grantTime :: nat

record 'r slashing_world =
  sw_staking :: "'r staking_state"
  sw_slashing :: "'r slashing_state option"

definition resolve_text :: "slashing_host \<Rightarrow> string \<Rightarrow> chain_address res" where
  "resolve_text H t = (case sh_address H t of None \<Rightarrow> throw_error (''unconfigured name '' @ t) | Some a \<Rightarrow> Inr a)"

definition grant_settlement :: "'r access_api \<Rightarrow> slashing_host \<Rightarrow> 'r slashing_state \<Rightarrow> 'r slashing_state res" where
  "grant_settlement A H slashing = (case sh_env H ''SETTLEMENT_CONTRACT_ADDRESS'' of
     None \<Rightarrow> Inr slashing
   | Some settlement \<Rightarrow>
       if settlement = [] \<or> \<not> tl_has A slashing ''ADMIN_ROLE'' (sh_deployer H) then Inr slashing
       else res_bind (resolve_text H settlement) (\<lambda>account. grantSettlementRole A (sh_deployer H) (sh_grantTime H) account slashing))"

text \<open>The contract that is created, and with it the world; a failure keeps what was done before.\<close>

definition new_slashing :: "'r access_api \<Rightarrow> slashing_host \<Rightarrow> 'r slashing_state res" where
  "new_slashing A H =
     (if \<not> truthy_str (sh_env H ''STAKING_CONTRACT_ADDRESS'') then throw_error ''STAKING_CONTRACT_ADDRESS environment variable is required''
      else res_bind (resolve_text H (the (sh_env H ''STAKING_CONTRACT_ADDRESS''))) (\<lambda>staking.
        res_bind (if truthy_str (sh_env H ''ADMIN_ADDRESS'') then resolve_text H (the (sh_env H ''ADMIN_ADDRESS'')) else Inr (sh_deployer H)) (\<lambda>admin.
        ctor_VerifierSlashing A staking admin (sh_deployer H))))"

definition deploySlashing :: "'r access_api \<Rightarrow> slashing_host \<Rightarrow> 'r slashing_world \<Rightarrow> nat \<times> 'r slashing_world" where
  "deploySlashing A H w = (case new_slashing A H of
     Inl e \<Rightarrow> (1, w)
   | Inr slashing \<Rightarrow>
       (let w1 = w\<lparr>sw_slashing := Some slashing\<rparr> in
        case setSlashingContract A (sh_deployer H) (sh_setTime H) (sh_newContract H) (sw_staking w1) of
          Inl e \<Rightarrow> (1, w1)
        | Inr staking \<Rightarrow>
            (let w2 = w1\<lparr>sw_staking := staking\<rparr> in
             case grant_settlement A H slashing of
               Inl e \<Rightarrow> (1, w2)
             | Inr slashing' \<Rightarrow> (0, w2\<lparr>sw_slashing := Some slashing'\<rparr>))))"

section \<open>Properties\<close>

lemma schedule_effect:
  "scheduleChange now a g d s = Inr s' \<Longrightarrow> tl_roles s' = tl_roles s \<and>
     tl_pending s' = (tl_pending s)(OperationId a g now ((tl_nonce s + 1) mod 2 ^ 256) :=
       \<lparr>pc_readyAt = now + d, pc_expireAt = now + MAX_RESOLVER_ROLE_CHANGE_DELAY, pc_executed = False\<rparr>)"
  by (auto simp: scheduleChange_def require_Inr Let_def)

lemma new_slashing_roles:
  assumes "access_laws A" "new_slashing A H = Inr sl"
  shows "\<not> tl_has A sl RESOLVER_ROLE a" "tl_nonce sl = 0"
  using assms(2)
  by (auto simp: new_slashing_def ctor_VerifierSlashing_def initializeGovernance_def require_Inr res_bind_Inr_iff throw_error_def
      tl_has_def new_timelock_def timelock.defs access_laws.role_simps [OF assms(1)] RESOLVER_ROLE_def DEFAULT_ADMIN_ROLE_def split: if_split_asm)

text \<open>When the script has succeeded, nobody holds the settlement role of the new contract: with a
  settlement address and a deployer that is administrator the grant is only scheduled, to be executed by
  another transaction two days later.\<close>

theorem settlement_role_only_scheduled:
  assumes "access_laws A" "deploySlashing A H w = (0, w')"
  shows "\<exists>slashing. sw_slashing w' = Some slashing \<and> (\<forall>a. \<not> tl_has A slashing RESOLVER_ROLE a) \<and>
    (truthy_str (sh_env H ''SETTLEMENT_CONTRACT_ADDRESS'') \<and> tl_has A slashing ''ADMIN_ROLE'' (sh_deployer H) \<longrightarrow>
      (\<exists>account. sh_address H (the (sh_env H ''SETTLEMENT_CONTRACT_ADDRESS'')) = Some account \<and>
        pc_readyAt (tl_pending slashing (OperationId account True (sh_grantTime H) 1)) = sh_grantTime H + MIN_RESOLVER_ROLE_CHANGE_DELAY))"
proof -
  obtain sl sl' where new: "new_slashing A H = Inr sl" and grant: "grant_settlement A H sl = Inr sl'" and world: "sw_slashing w' = Some sl'"
    using assms(2) by (auto simp: deploySlashing_def Let_def split: sum.splits)
  note none = new_slashing_roles [OF assms(1) new]
  show ?thesis
  proof (cases "truthy_str (sh_env H ''SETTLEMENT_CONTRACT_ADDRESS'') \<and> tl_has A sl ''ADMIN_ROLE'' (sh_deployer H)")
    case True
    then obtain account where account: "sh_address H (the (sh_env H ''SETTLEMENT_CONTRACT_ADDRESS'')) = Some account"
        "scheduleChange (sh_grantTime H) account True MIN_RESOLVER_ROLE_CHANGE_DELAY sl = Inr sl'"
      using grant by (auto simp: grant_settlement_def truthy_str_iff res_bind_Inr_iff resolve_text_def throw_error_def grantSettlementRole_def
          require_Inr split: option.splits if_splits)
    with schedule_effect [OF account(2)] none world show ?thesis by (simp add: tl_has_def)
  next
    case False
    then have "sl' = sl" using grant by (auto simp: grant_settlement_def truthy_str_def split: option.splits if_splits)
    with False none world show ?thesis by auto
  qed
qed

lemma schedule_keeps_contract: "scheduleChange now a g d s = Inr s' \<Longrightarrow> sk_slashingContract s' = sk_slashingContract s"
  by (auto simp: scheduleChange_def require_Inr Let_def)

lemma release_roles: "release_old A now s = Inr s1 \<Longrightarrow> tl_roles s1 = tl_roles s"
  by (auto simp: release_old_def Let_def dest: schedule_effect split: if_split_asm option.split_asm)

lemma release_keeps: "release_old A now s = Inr s1 \<Longrightarrow> \<not> tl_has A s RESOLVER_ROLE (sk_slashingContract s) \<Longrightarrow> tl_pending s1 = tl_pending s"
  by (auto simp: release_old_def Let_def split: if_split_asm option.split_asm)

lemma set_slashing_steps:
  assumes "setSlashingContract A sender now c s = Inr s'"
  obtains s1 where "release_old A now s = Inr s1" "tl_has A s RESOLVER_ROLE c" "s' = s1\<lparr>sk_slashingContract := c\<rparr>"
  | s1 where "release_old A now s = Inr s1" "\<not> tl_has A s RESOLVER_ROLE c"
      "scheduleChange now c True MIN_RESOLVER_ROLE_CHANGE_DELAY (s1\<lparr>sk_slashingContract := c\<rparr>) = Inr s'"
proof -
  obtain s1 where s1: "release_old A now s = Inr s1"
      "(if \<not> tl_has A (s1\<lparr>sk_slashingContract := c\<rparr>) RESOLVER_ROLE c
        then scheduleChange now c True MIN_RESOLVER_ROLE_CHANGE_DELAY (s1\<lparr>sk_slashingContract := c\<rparr>)
        else Inr (s1\<lparr>sk_slashingContract := c\<rparr>)) = Inr s'"
    using assms by (auto simp: setSlashingContract_def Let_def require_Inr res_bind_Inr_iff)
  have "tl_has A (s1\<lparr>sk_slashingContract := c\<rparr>) RESOLVER_ROLE c = tl_has A s RESOLVER_ROLE c"
    by (simp add: tl_has_def release_roles [OF s1(1)])
  with s1 that show thesis by (auto split: if_split_asm)
qed

lemma set_slashing_new:
  assumes "setSlashingContract A sender now c s = Inr s'"
  shows "sk_slashingContract s' = c" "tl_roles s' = tl_roles s"
proof -
  show "sk_slashingContract s' = c" using assms by (cases rule: set_slashing_steps) (auto dest: schedule_keeps_contract)
  show "tl_roles s' = tl_roles s" using assms
  proof (cases rule: set_slashing_steps)
    case (2 s1)
    with schedule_effect [OF 2(3)] release_roles [OF 2(1)] show ?thesis by simp
  qed (simp add: release_roles)
qed

lemma set_slashing_schedules:
  assumes "setSlashingContract A sender now c s = Inr s'" "\<not> tl_has A s RESOLVER_ROLE c"
  shows "\<exists>n. tl_pending s' (OperationId c True now n) =
    \<lparr>pc_readyAt = now + MIN_RESOLVER_ROLE_CHANGE_DELAY, pc_expireAt = now + MAX_RESOLVER_ROLE_CHANGE_DELAY, pc_executed = False\<rparr>"
  using assms(1)
proof (cases rule: set_slashing_steps)
  case (2 s1)
  from schedule_effect [OF 2(3)] show ?thesis by auto
qed (use assms(2) in blast)

text \<open>An old contract without the role: nothing happens to the operations of other accounts.\<close>

lemma set_slashing_keeps:
  assumes "setSlashingContract A sender now c s = Inr s'" "\<not> tl_has A s RESOLVER_ROLE (sk_slashingContract s)" "a \<noteq> c"
  shows "tl_pending s' (OperationId a g t n) = tl_pending s (OperationId a g t n)"
  using assms(1)
proof (cases rule: set_slashing_steps)
  case (1 s1)
  with release_keeps [OF 1(1) assms(2)] show ?thesis by simp
next
  case (2 s1)
  with schedule_effect [OF 2(3)] release_keeps [OF 2(1) assms(2)] assms(3) show ?thesis by simp
qed

text \<open>Replacing a slashing contract does not cancel its pending grant: the replaced contract can still
  be granted the role within the window of the old operation.\<close>

theorem replaced_contract_still_granted:
  assumes "access_laws A" "setSlashingContract A admin t1 old s = Inr s1" "\<not> tl_has A s RESOLVER_ROLE old"
    and "setSlashingContract A admin t2 new s1 = Inr s2" "old \<noteq> new"
    and "t1 + MIN_RESOLVER_ROLE_CHANGE_DELAY \<le> now" "now \<le> t1 + MAX_RESOLVER_ROLE_CHANGE_DELAY"
  shows "\<exists>operation s3. executeResolverRoleGrant A now operation old s2 = Inr s3 \<and> tl_has A s3 RESOLVER_ROLE old \<and> sk_slashingContract s3 = new"
proof -
  obtain n where n: "tl_pending s1 (OperationId old True t1 n) =
      \<lparr>pc_readyAt = t1 + MIN_RESOLVER_ROLE_CHANGE_DELAY, pc_expireAt = t1 + MAX_RESOLVER_ROLE_CHANGE_DELAY, pc_executed = False\<rparr>"
    using set_slashing_schedules [OF assms(2,3)] by blast
  note s1 = set_slashing_new [OF assms(2)] and s2 = set_slashing_new [OF assms(4)]
  have "\<not> tl_has A s1 RESOLVER_ROLE (sk_slashingContract s1)" using assms(3) s1 by (simp add: tl_has_def)
  from set_slashing_keeps [OF assms(4) this assms(5)] n
  have "tl_pending s2 (OperationId old True t1 n) =
      \<lparr>pc_readyAt = t1 + MIN_RESOLVER_ROLE_CHANGE_DELAY, pc_expireAt = t1 + MAX_RESOLVER_ROLE_CHANGE_DELAY, pc_executed = False\<rparr>"
    by simp
  then have run: "executeResolverRoleGrant A now (OperationId old True t1 n) old s2 =
      Inr ((forget_change (OperationId old True t1 n) old True s2)\<lparr>tl_roles := ax_grant A RESOLVER_ROLE old (tl_roles s2)\<rparr>)"
    using assms(3,6,7) s1(2) s2(2)
    by (simp add: executeResolverRoleGrant_def executeChange_def Let_def require_def forget_change_def tl_has_def MIN_RESOLVER_ROLE_CHANGE_DELAY_def)
  show ?thesis
    by (rule exI, rule exI, rule conjI, rule run)
      (use s2(1) in \<open>simp add: tl_has_def access_laws.access_simps [OF assms(1)] forget_change_def\<close>)
qed

section \<open>Concrete runs\<close>

definition demo_staking :: "role_lists staking_state" where
  "demo_staking = timelock.extend (new_timelock ([(''ADMIN_ROLE'', Account ''deployer'')], [(RESOLVER_ROLE, ''ADMIN_ROLE'')]))
     (staking_state.fields ZeroAddress)"

lemmas demo_slashing_defs = setSlashingContract_def release_old_def scheduleChange_def require_def tl_has_def new_timelock_def timelock.defs staking_state.defs
  list_access_def no_pending_def Let_def MIN_RESOLVER_ROLE_CHANGE_DELAY_def MAX_RESOLVER_ROLE_CHANGE_DELAY_def res_bind_def

definition demo_slashing_host :: slashing_host where
  "demo_slashing_host = \<lparr>sh_env = map_of [(''STAKING_CONTRACT_ADDRESS'', ''staking''), (''SETTLEMENT_CONTRACT_ADDRESS'', ''settlement'')],
     sh_address = (\<lambda>t. Some (Account t)), sh_deployer = Account ''deployer'', sh_newContract = Contract 3, sh_setTime = 1000, sh_grantTime = 1012\<rparr>"

lemma demo_deploys: "fst (deploySlashing list_access demo_slashing_host \<lparr>sw_staking = demo_staking, sw_slashing = None\<rparr>) = 0"
  by (simp add: deploySlashing_def new_slashing_def demo_slashing_host_def truthy_str_def resolve_text_def ctor_VerifierSlashing_def
      initializeGovernance_def grant_settlement_def grantSettlementRole_def slashing_state.defs demo_staking_def grant_all_def admin_all_def
      RESOLVER_ROLE_def demo_slashing_defs)

theorem settlement_role_only_scheduled_witness:
  "\<exists>slashing. sw_slashing (snd (deploySlashing list_access demo_slashing_host \<lparr>sw_staking = demo_staking, sw_slashing = None\<rparr>)) = Some slashing \<and>
     \<not> tl_has list_access slashing RESOLVER_ROLE (Account ''settlement'')"
  using settlement_role_only_scheduled [OF roles.access_laws_axioms, of demo_slashing_host] demo_deploys
  by (metis prod.collapse)

theorem replaced_contract_still_granted_witness:
  "\<exists>s1 s2 operation s3. setSlashingContract list_access (Account ''deployer'') 1000 (Contract 3) demo_staking = Inr s1 \<and>
     setSlashingContract list_access (Account ''deployer'') 2000 (Contract 4) s1 = Inr s2 \<and>
     executeResolverRoleGrant list_access 173800 operation (Contract 3) s2 = Inr s3 \<and> tl_has list_access s3 RESOLVER_ROLE (Contract 3)"
proof -
  obtain s1 where s1: "setSlashingContract list_access (Account ''deployer'') 1000 (Contract 3) demo_staking = Inr s1"
    by (simp add: demo_staking_def demo_slashing_defs)
  then have "tl_roles s1 = tl_roles demo_staking" by (rule set_slashing_new)
  obtain s2 where s2: "setSlashingContract list_access (Account ''deployer'') 2000 (Contract 4) s1 = Inr s2"
    using s1 by (auto simp add: demo_staking_def demo_slashing_defs)
  have "\<not> tl_has list_access demo_staking RESOLVER_ROLE (Contract 3)" by (simp add: demo_staking_def demo_slashing_defs)
  from replaced_contract_still_granted [OF roles.access_laws_axioms s1 this s2, of 173800] s1 s2 show ?thesis
    by (simp add: MIN_RESOLVER_ROLE_CHANGE_DELAY_def MAX_RESOLVER_ROLE_CHANGE_DELAY_def) blast
qed

end
