(* ===== verification/TruthBountyContract.thy ===== *)
theory TruthBountyContract
  imports JsCollections
begin

text \<open>
  The claim and voting contract \<open>contracts/TruthBounty.sol\<close> (contract \<open>TruthBounty\<close>), which the scripts
  \<open>resolveClaim.ts\<close> and \<open>claimRewards.ts\<close> drive: state, every state-changing function, reverts as
  errors that leave the state as it was. Amounts are naturals with the 256 bit overflow checks of
  Solidity 0.8 written out. The bounty token is the parameter \<open>erc20\<close> with the documented laws of
  ERC20 transfers; who may govern and pause is given by predicates on senders. Events and the
  reentrancy guard (the token does not call back) are left out.
\<close>

section \<open>The token\<close>

record ('t, 'a) token_api =
  tk_balance :: "'t \<Rightarrow> 'a \<Rightarrow> nat"
  tk_totalSupply :: "'t \<Rightarrow> nat"
  tk_transfer :: "'a \<Rightarrow> 'a \<Rightarrow> nat \<Rightarrow> 't \<Rightarrow> 't option"
  tk_transferFrom :: "'a \<Rightarrow> 'a \<Rightarrow> 'a \<Rightarrow> nat \<Rightarrow> 't \<Rightarrow> 't option"

type_synonym 't erc20 = "('t, string) token_api"

definition moved :: "('a \<Rightarrow> nat) \<Rightarrow> 'a \<Rightarrow> 'a \<Rightarrow> nat \<Rightarrow> 'a \<Rightarrow> nat" where
  "moved bal f t n = (if f = t then bal else bal(f := bal f - n, t := bal t + n))"

locale erc20_laws =
  fixes T :: "('t, 'a) token_api"
  assumes transfer_iff: "tk_transfer T f to n t \<noteq> None \<longleftrightarrow> n \<le> tk_balance T t f"
    and transfer_balance: "tk_transfer T f to n t = Some t' \<Longrightarrow> tk_balance T t' = moved (tk_balance T t) f to n"
    and transferFrom_balance: "tk_transferFrom T s f to n t = Some t' \<Longrightarrow>
      n \<le> tk_balance T t f \<and> tk_balance T t' = moved (tk_balance T t) f to n"
begin

lemma transfer_moves:
  "tk_transfer T f to n t = Some t' \<Longrightarrow> f \<noteq> to \<Longrightarrow>
     tk_balance T t' to = tk_balance T t to + n \<and> tk_balance T t' f = tk_balance T t f - n \<and> n \<le> tk_balance T t f"
  using transfer_iff [of f to n t] by (simp add: transfer_balance moved_def)

lemma transfer_succeeds:
  "n \<le> tk_balance T t f \<Longrightarrow> \<exists>t'. tk_transfer T f to n t = Some t' \<and> tk_balance T t' = moved (tk_balance T t) f to n"
  using transfer_iff [of f to n t] transfer_balance [of f to n t] by fastforce

end

text \<open>Reference token: balances and a fixed allowance of everything to everyone.\<close>

definition plain_token :: "('a \<Rightarrow> nat, 'a) token_api" where
  "plain_token = \<lparr>tk_balance = (\<lambda>t. t), tk_totalSupply = (\<lambda>t. 10 ^ 25),
     tk_transfer = (\<lambda>f to n t. if n \<le> t f then Some (moved t f to n) else None),
     tk_transferFrom = (\<lambda>s f to n t. if n \<le> t f then Some (moved t f to n) else None)\<rparr>"

interpretation plain: erc20_laws plain_token
  by unfold_locales (auto simp: plain_token_def split: if_splits)

section \<open>State\<close>

record tb_claim =
  cl_submitter :: "string option"
  cl_content :: string
  cl_createdAt :: nat
  cl_windowEnd :: nat
  cl_settled :: bool
  cl_for :: nat
  cl_against :: nat
  cl_total :: nat

record tb_vote =
  vo_voted :: bool
  vo_support :: bool
  vo_stake :: nat
  vo_rewardClaimed :: bool
  vo_stakeReturned :: bool

record tb_result =
  re_passed :: bool
  re_rewards :: nat
  re_slashed :: nat
  re_winner :: nat
  re_loser :: nat

record tb_verifier =
  vs_total :: nat
  vs_active :: nat

definition no_claim :: tb_claim where
  "no_claim = \<lparr>cl_submitter = None, cl_content = [], cl_createdAt = 0, cl_windowEnd = 0, cl_settled = False,
     cl_for = 0, cl_against = 0, cl_total = 0\<rparr>"

definition no_vote :: tb_vote where
  "no_vote = \<lparr>vo_voted = False, vo_support = False, vo_stake = 0, vo_rewardClaimed = False, vo_stakeReturned = False\<rparr>"

definition no_result :: tb_result where
  "no_result = \<lparr>re_passed = False, re_rewards = 0, re_slashed = 0, re_winner = 0, re_loser = 0\<rparr>"

record 't tb_state =
  tb_claims :: "nat \<Rightarrow> tb_claim"
  tb_results :: "nat \<Rightarrow> tb_result"
  tb_votes :: "nat \<Rightarrow> string \<Rightarrow> tb_vote"
  tb_stakes :: "string \<Rightarrow> tb_verifier"
  tb_window :: nat
  tb_minStake :: nat
  tb_threshold :: nat
  tb_rewardPercent :: nat
  tb_slashPercent :: nat
  tb_counter :: nat
  tb_totalSlashed :: nat
  tb_totalRewarded :: nat
  tb_paused :: bool
  tb_token :: 't

definition new_truth_bounty :: "'t \<Rightarrow> 't tb_state" where
  "new_truth_bounty t = \<lparr>tb_claims = (\<lambda>c. no_claim), tb_results = (\<lambda>c. no_result), tb_votes = (\<lambda>c a. no_vote),
     tb_stakes = (\<lambda>a. \<lparr>vs_total = 0, vs_active = 0\<rparr>), tb_window = 7 * 86400, tb_minStake = 100 * 10 ^ 18,
     tb_threshold = 60, tb_rewardPercent = 80, tb_slashPercent = 20, tb_counter = 0, tb_totalSlashed = 0,
     tb_totalRewarded = 0, tb_paused = False, tb_token = t\<rparr>"

record 't tb_env =
  te_token :: "'t erc20"
  te_self :: string
  te_governor :: "string \<Rightarrow> bool"
  te_pauser :: "string \<Rightarrow> bool"

section \<open>Functions\<close>

definition fail :: "string \<Rightarrow> ('s, 'a) action" where
  "fail msg s = (Inl (JsError ''Revert'' msg), s)"

definition need :: "bool \<Rightarrow> string \<Rightarrow> ('s, 'a) action \<Rightarrow> ('s, 'a) action" where
  "need c msg k = (if c then k else fail msg)"

definition fits256 :: "nat \<Rightarrow> bool" where
  "fits256 n \<longleftrightarrow> n < 2 ^ 256"

definition set_claim :: "nat \<Rightarrow> tb_claim \<Rightarrow> 't tb_state \<Rightarrow> 't tb_state" where
  "set_claim c x s = s\<lparr>tb_claims := (tb_claims s)(c := x)\<rparr>"

definition set_vote :: "nat \<Rightarrow> string \<Rightarrow> tb_vote \<Rightarrow> 't tb_state \<Rightarrow> 't tb_state" where
  "set_vote c a x s = s\<lparr>tb_votes := (tb_votes s)(c := (tb_votes s c)(a := x))\<rparr>"

definition set_stake :: "string \<Rightarrow> tb_verifier \<Rightarrow> 't tb_state \<Rightarrow> 't tb_state" where
  "set_stake a x s = s\<lparr>tb_stakes := (tb_stakes s)(a := x)\<rparr>"

definition percentOf :: "nat \<Rightarrow> nat \<Rightarrow> nat" where
  "percentOf v percent = v * percent div 100"

text \<open>\<open>require(bountyToken.transfer(to, amount), ...)\<close> and the rest of the function.\<close>

definition pay :: "'t tb_env \<Rightarrow> string \<Rightarrow> nat \<Rightarrow> ('t tb_state, unit) action \<Rightarrow> ('t tb_state, unit) action" where
  "pay N to n k s = (case tk_transfer (te_token N) (te_self N) to n (tb_token s) of
     None \<Rightarrow> (Inl (JsError ''Revert'' ''ERC20InsufficientBalance''), s)
   | Some t \<Rightarrow> k (s\<lparr>tb_token := t\<rparr>))"

definition createClaim :: "string \<Rightarrow> nat \<Rightarrow> string \<Rightarrow> ('t tb_state, nat) action" where
  "createClaim sender now content s = need (\<not> tb_paused s) ''EnforcedPause''
     (need (fits256 (tb_counter s + 1) \<and> fits256 (now + tb_window s)) ''Panic(0x11)''
     (\<lambda>s. let claimId = tb_counter s in
       (Inr claimId, set_claim claimId \<lparr>cl_submitter = Some sender, cl_content = content, cl_createdAt = now,
          cl_windowEnd = now + tb_window s, cl_settled = False, cl_for = 0, cl_against = 0, cl_total = 0\<rparr>
          (s\<lparr>tb_counter := claimId + 1\<rparr>)))) s"

definition tb_stake :: "'t tb_env \<Rightarrow> string \<Rightarrow> nat \<Rightarrow> ('t tb_state, unit) action" where
  "tb_stake N sender amount s = need (\<not> tb_paused s) ''EnforcedPause''
     (need (tb_minStake s \<le> amount) ''Stake below minimum''
     (\<lambda>s. case tk_transferFrom (te_token N) (te_self N) sender (te_self N) amount (tb_token s) of
        None \<Rightarrow> fail ''ERC20InsufficientBalance'' s
      | Some t \<Rightarrow> need (fits256 (vs_total (tb_stakes s sender) + amount)) ''Panic(0x11)''
          (\<lambda>s. (Inr (), set_stake sender ((tb_stakes s sender)\<lparr>vs_total := vs_total (tb_stakes s sender) + amount\<rparr>)
             (s\<lparr>tb_token := t\<rparr>))) s)) s"

definition tb_cast :: "string \<Rightarrow> nat \<Rightarrow> nat \<Rightarrow> bool \<Rightarrow> nat \<Rightarrow> ('t tb_state, unit) action" where
  "tb_cast sender now claimId support stakeAmount s =
     (let claim = tb_claims s claimId; st = tb_stakes s sender in
      need (\<not> tb_paused s) ''EnforcedPause''
     (need (cl_submitter claim \<noteq> None) ''Claim does not exist''
     (need (now < cl_windowEnd claim) ''Verification window closed''
     (need (\<not> cl_settled claim) ''Claim already settled''
     (need (\<not> vo_voted (tb_votes s claimId sender)) ''Already voted''
     (need (tb_minStake s \<le> stakeAmount) ''Stake below minimum''
     (need (fits256 (vs_active st + stakeAmount)) ''Panic(0x11)''
     (need (vs_active st + stakeAmount \<le> vs_total st) ''Insufficient available stake''
     (need (fits256 (cl_total claim + stakeAmount)) ''Panic(0x11)''
     (\<lambda>s. (Inr (),
        set_claim claimId (claim\<lparr>cl_for := (if support then cl_for claim + stakeAmount else cl_for claim),
            cl_against := (if support then cl_against claim else cl_against claim + stakeAmount),
            cl_total := cl_total claim + stakeAmount\<rparr>)
        (set_vote claimId sender \<lparr>vo_voted = True, vo_support = support, vo_stake = stakeAmount,
            vo_rewardClaimed = False, vo_stakeReturned = False\<rparr>
        (set_stake sender (st\<lparr>vs_active := vs_active st + stakeAmount\<rparr>) s)))))))))))) s)"

definition is_tie :: "nat \<Rightarrow> nat \<Rightarrow> bool" where
  "is_tie stakedFor stakedAgainst \<longleftrightarrow> stakedFor = stakedAgainst \<and> 0 < stakedFor"

definition determineOutcome :: "nat \<Rightarrow> nat \<Rightarrow> nat \<Rightarrow> bool" where
  "determineOutcome threshold stakedFor stakedAgainst =
     (let totalStake = stakedFor + stakedAgainst in
      if totalStake = 0 then False else threshold \<le> stakedFor * 100 div totalStake)"

definition settlement :: "'t tb_state \<Rightarrow> tb_claim \<Rightarrow> tb_result" where
  "settlement s claim =
     (let tie = is_tie (cl_for claim) (cl_against claim);
          passed = (\<not> tie \<and> determineOutcome (tb_threshold s) (cl_for claim) (cl_against claim));
          winnerStake = (if passed then cl_for claim else cl_against claim);
          loserStake = (if passed then cl_against claim else cl_for claim);
          slashed = percentOf loserStake (tb_slashPercent s) in
      if tie then no_result
      else \<lparr>re_passed = passed, re_rewards = percentOf slashed (tb_rewardPercent s), re_slashed = slashed,
             re_winner = winnerStake, re_loser = loserStake\<rparr>)"

definition settleClaim :: "nat \<Rightarrow> nat \<Rightarrow> ('t tb_state, unit) action" where
  "settleClaim now claimId s =
     (let claim = tb_claims s claimId; result = settlement s claim in
      need (\<not> tb_paused s) ''EnforcedPause''
     (need (cl_submitter claim \<noteq> None) ''Claim does not exist''
     (need (cl_windowEnd claim \<le> now) ''Verification window not closed''
     (need (\<not> cl_settled claim) ''Claim already settled''
     (need (0 < cl_total claim) ''No votes cast''
     (need (is_tie (cl_for claim) (cl_against claim) \<or> fits256 (cl_for claim * 100)) ''Panic(0x11)''
     (need (fits256 (re_slashed result) \<and> fits256 (re_rewards result)) ''Panic(0x11)''
     (need (is_tie (cl_for claim) (cl_against claim) \<or>
         fits256 (tb_totalSlashed s + re_slashed result) \<and> fits256 (tb_totalRewarded s + re_rewards result)) ''Panic(0x11)''
     (\<lambda>s. (Inr (), set_claim claimId (claim\<lparr>cl_settled := True\<rparr>)
        (s\<lparr>tb_results := (tb_results s)(claimId := result),
           tb_totalSlashed := tb_totalSlashed s + re_slashed result,
           tb_totalRewarded := tb_totalRewarded s + re_rewards result\<rparr>)))))))))) s)"

definition tie_result :: "tb_result \<Rightarrow> bool" where
  "tie_result r \<longleftrightarrow> re_rewards r = 0 \<and> re_slashed r = 0 \<and> re_winner r = 0 \<and> re_loser r = 0"

text \<open>\<open>v.stakeReturned = true; activeStakes -= stakeAmount; transfer(sender, returned)\<close>.\<close>

definition return_stake :: "'t tb_env \<Rightarrow> string \<Rightarrow> nat \<Rightarrow> tb_vote \<Rightarrow> nat \<Rightarrow> ('t tb_state, unit) action" where
  "return_stake N sender claimId v returned s = (let st = tb_stakes s sender in
     need (vo_stake v \<le> vs_active st) ''Panic(0x11)''
     (pay N sender returned (\<lambda>s. (Inr (), set_vote claimId sender v
        (set_stake sender (st\<lparr>vs_active := vs_active st - vo_stake v\<rparr>) s)))) s)"

text \<open>A revert undoes the payments made before it.\<close>

definition atomically :: "('s, 'a) action \<Rightarrow> ('s, 'a) action" where
  "atomically m s = (case m s of (Inl e, s') \<Rightarrow> (Inl e, s) | (Inr a, s') \<Rightarrow> (Inr a, s'))"

definition claimSettlementRewards :: "'t tb_env \<Rightarrow> string \<Rightarrow> nat \<Rightarrow> ('t tb_state, unit) action" where
  "claimSettlementRewards N sender claimId = atomically (\<lambda>s.
     (let claim = tb_claims s claimId; v = tb_votes s claimId sender; r = tb_results s claimId;
          reward = vo_stake v * re_rewards r div re_winner r; paid = v\<lparr>vo_rewardClaimed := True, vo_stakeReturned := True\<rparr> in
      need (\<not> tb_paused s) ''EnforcedPause''
     (need (cl_settled claim) ''Claim not settled''
     (need (vo_voted v) ''No vote cast''
     (need (\<not> vo_rewardClaimed v) ''Rewards already claimed''
     (if tie_result r
      then need (\<not> vo_stakeReturned v) ''Stake already returned'' (return_stake N sender claimId paid (vo_stake v))
      else need (0 < re_winner r) ''No winners''
          (need (vo_support v = re_passed r) ''Not a winner''
          (need (fits256 (vo_stake v * re_rewards r)) ''Panic(0x11)''
          (let rest = (if vo_stakeReturned v then (\<lambda>s. (Inr (), set_vote claimId sender paid s))
                       else return_stake N sender claimId paid (vo_stake v)) in
           if 0 < reward then pay N sender reward rest else rest))))))) s))"

definition withdrawSettledStake :: "'t tb_env \<Rightarrow> string \<Rightarrow> nat \<Rightarrow> ('t tb_state, unit) action" where
  "withdrawSettledStake N sender claimId = atomically (\<lambda>s.
     (let claim = tb_claims s claimId; v = tb_votes s claimId sender; r = tb_results s claimId;
          slashedAmount = percentOf (vo_stake v) (tb_slashPercent s); st = tb_stakes s sender in
      need (cl_settled claim) ''Claim not settled''
     (need (vo_voted v) ''No vote cast''
     (need (\<not> vo_stakeReturned v) ''Stake already returned''
     (if tie_result r
      then return_stake N sender claimId (v\<lparr>vo_rewardClaimed := True, vo_stakeReturned := True\<rparr>) (vo_stake v)
      else need (vo_support v \<noteq> re_passed r) ''Winners should use claimSettlementRewards''
          (need (fits256 slashedAmount \<and> slashedAmount \<le> vo_stake v) ''Panic(0x11)''
          (if vo_stake v - slashedAmount > 0
           then return_stake N sender claimId (v\<lparr>vo_stakeReturned := True\<rparr>) (vo_stake v - slashedAmount)
           else need (vo_stake v \<le> vs_active st) ''Panic(0x11)''
             (\<lambda>s. (Inr (), set_vote claimId sender (v\<lparr>vo_stakeReturned := True\<rparr>)
                (set_stake sender (st\<lparr>vs_active := vs_active st - vo_stake v\<rparr>) s)))))))) s))"

definition withdrawStake :: "'t tb_env \<Rightarrow> string \<Rightarrow> nat \<Rightarrow> ('t tb_state, unit) action" where
  "withdrawStake N sender amount s = (let st = tb_stakes s sender in
     need (\<not> tb_paused s) ''EnforcedPause''
     (need (fits256 (vs_active st + amount)) ''Panic(0x11)''
     (need (vs_active st + amount \<le> vs_total st) ''Insufficient available stake''
     (pay N sender amount (\<lambda>s. (Inr (), set_stake sender (st\<lparr>vs_total := vs_total st - amount\<rparr>) s))))) s)"

datatype tb_parameter = PWindow | PMinStake | PThreshold | PReward | PSlash

definition set_parameter :: "'t tb_env \<Rightarrow> string \<Rightarrow> tb_parameter \<Rightarrow> nat \<Rightarrow> ('t tb_state, unit) action" where
  "set_parameter N sender p v s = need (te_governor N sender) ''Unauthorized'' (\<lambda>s. case p of
     PWindow \<Rightarrow> need (86400 \<le> v \<and> v \<le> 30 * 86400) ''Invalid duration'' (\<lambda>s. (Inr (), s\<lparr>tb_window := v\<rparr>)) s
   | PMinStake \<Rightarrow> need (0 < v) ''Invalid amount'' (need (v \<le> tk_totalSupply (te_token N) (tb_token s))
        ''Min stake exceeds token supply'' (\<lambda>s. (Inr (), s\<lparr>tb_minStake := v\<rparr>))) s
   | PThreshold \<Rightarrow> need (0 < v \<and> v \<le> 100) ''Invalid threshold'' (\<lambda>s. (Inr (), s\<lparr>tb_threshold := v\<rparr>)) s
   | PReward \<Rightarrow> need (0 < v \<and> v \<le> 100) ''Invalid percent'' (\<lambda>s. (Inr (), s\<lparr>tb_rewardPercent := v\<rparr>)) s
   | PSlash \<Rightarrow> need (0 < v \<and> v \<le> 100) ''Invalid percent'' (\<lambda>s. (Inr (), s\<lparr>tb_slashPercent := v\<rparr>)) s) s"

definition set_paused :: "'t tb_env \<Rightarrow> string \<Rightarrow> bool \<Rightarrow> ('t tb_state, unit) action" where
  "set_paused N sender b s = need (te_pauser N sender) ''AccessControlUnauthorizedAccount''
     (need (tb_paused s \<noteq> b) (if b then ''EnforcedPause'' else ''ExpectedPause'')
     (\<lambda>s. (Inr (), s\<lparr>tb_paused := b\<rparr>))) s"

end
