(* ===== verification/Deposits.thy ===== *)
theory Deposits
  imports TruthBountyContract
begin

text \<open>
  Deposits of many accounts with one holder: \<open>covered f held\<close> says that any finite number of accounts can be
  paid out of \<open>held\<close>. Shared by the contracts that hold stakes.
\<close>

definition covered :: "('a \<Rightarrow> nat) \<Rightarrow> nat \<Rightarrow> bool" where
  "covered f held \<longleftrightarrow> (\<forall>B. finite B \<longrightarrow> (\<Sum>a\<in>B. f a) \<le> held)"

lemma covered_zero [simp]: "covered (\<lambda>a. 0) held"
  by (simp add: covered_def)

lemma covered_mono: "covered f held \<Longrightarrow> held \<le> held' \<Longrightarrow> covered f held'"
  by (auto simp: covered_def intro: order_trans)

lemma covered_one: "covered f held \<Longrightarrow> f a \<le> held"
  using sum.insert [of "{}" a f] by (auto simp: covered_def dest: spec [of _ "{a}"])

lemma sum_update:
  fixes f :: "'a \<Rightarrow> nat"
  assumes "finite B"
  shows "(\<Sum>a\<in>insert u B. (f(u := m)) a) + f u = (\<Sum>a\<in>insert u B. f a) + m"
proof -
  have "(\<Sum>a\<in>B - {u}. (f(u := m)) a) = (\<Sum>a\<in>B - {u}. f a)" by (rule sum.cong) auto
  then show ?thesis using assms by (simp add: sum.insert_remove)
qed

text \<open>A deposit changes together with the holdings.\<close>

lemma covered_change:
  assumes old: "covered f held" and held: "held' + f u = held + m"
  shows "covered (f(u := m)) held'"
  unfolding covered_def
proof (intro allI impI)
  fix B :: "'a set"
  assume fin: "finite B"
  have "(\<Sum>a\<in>insert u B. (f(u := m)) a) + f u = (\<Sum>a\<in>insert u B. f a) + m"
    by (rule sum_update [OF fin])
  moreover have "(\<Sum>a\<in>insert u B. f a) \<le> held"
    using old fin by (simp only: covered_def finite_insert)
  moreover have "(\<Sum>a\<in>B. (f(u := m)) a) \<le> (\<Sum>a\<in>insert u B. (f(u := m)) a)"
    by (rule sum_mono2) (use fin in auto)
  ultimately show "(\<Sum>a\<in>B. (f(u := m)) a) \<le> held'"
    using held by linarith
qed

end
