(* ===== verification/StakingContract.thy ===== *)
theory StakingContract
  imports SlashingDeployment Deposits
begin

text \<open>
  \<open>contracts/staking.sol\<close>, the contract whose stakes the slashing contract takes: every function that changes
  state, on top of the role timelock and of \<open>setSlashingContract\<close>. The token and the accounting contract behind
  \<open>ITreasuryAccounting\<close> are parameters (\<open>stake_host\<close>); the token obeys the laws of \<open>erc20_laws\<close>, the accounting
  contract may accept or revert. Amounts and times carry the 256 bit checks of Solidity 0.8. Events and the
  reentrancy guard are left out (the token does not call back).
\<close>

section \<open>State\<close>

record ('r, 't, 'y) stake_host =
  hk_access :: "'r access_api"
  hk_token :: "('t, chain_address) token_api"
  hk_self :: chain_address
  hk_recordStake :: "chain_address \<Rightarrow> chain_address \<Rightarrow> nat \<Rightarrow> 'y \<Rightarrow> 'y option"   \<comment> \<open>accounting contract, user, amount\<close>
  hk_recordUnstake :: "chain_address \<Rightarrow> chain_address \<Rightarrow> nat \<Rightarrow> 'y \<Rightarrow> 'y option"
  hk_recordSlash :: "chain_address \<Rightarrow> chain_address \<Rightarrow> nat \<Rightarrow> 'y \<Rightarrow> 'y option"

record stake_info =
  si_amount :: nat
  si_unlockTime :: nat

record ('r, 't, 'y) stakes_state = "'r staking_state" +
  sf_lockDuration :: nat
  sf_treasuryAccounting :: chain_address
  sf_treasury :: chain_address
  sf_stakes :: "chain_address \<Rightarrow> stake_info"
  sf_token :: 't
  sf_books :: 'y

definition no_stake :: stake_info where
  "no_stake = \<lparr>si_amount = 0, si_unlockTime = 0\<rparr>"

definition new_stakes :: "'r staking_state \<Rightarrow> nat \<Rightarrow> chain_address \<Rightarrow> 't \<Rightarrow> 'y \<Rightarrow> ('r, 't, 'y) stakes_state" where
  "new_stakes deployed initialLockDuration initialAdmin t y =
     staking_state.extend deployed (stakes_state.fields initialLockDuration ZeroAddress initialAdmin (\<lambda>a. no_stake) t y)"

section \<open>Functions\<close>

definition or_revert :: "string \<Rightarrow> 'a option \<Rightarrow> 'a res" where
  "or_revert msg r = (case r of None \<Rightarrow> Inl (JsError ''Revert'' msg) | Some x \<Rightarrow> Inr x)"

definition only_admins :: "('r, 't, 'y) stake_host \<Rightarrow> chain_address \<Rightarrow> ('r, 't, 'y) stakes_state \<Rightarrow> 'a res \<Rightarrow> 'a res" where
  "only_admins H sender s = require (tl_has (hk_access H) s ''ADMIN_ROLE'' sender) ''AccessControlUnauthorizedAccount''"

definition setTreasuryAccounting :: "('r, 't, 'y) stake_host \<Rightarrow> chain_address \<Rightarrow> chain_address \<Rightarrow>
    ('r, 't, 'y) stakes_state \<Rightarrow> ('r, 't, 'y) stakes_state res" where
  "setTreasuryAccounting H sender a s = only_admins H sender s
     (require (a \<noteq> ZeroAddress) ''Invalid treasury address'' (Inr (s\<lparr>sf_treasuryAccounting := a\<rparr>)))"

definition setLockDuration :: "('r, 't, 'y) stake_host \<Rightarrow> chain_address \<Rightarrow> nat \<Rightarrow>
    ('r, 't, 'y) stakes_state \<Rightarrow> ('r, 't, 'y) stakes_state res" where
  "setLockDuration H sender d s = only_admins H sender s (Inr (s\<lparr>sf_lockDuration := d\<rparr>))"

definition setTreasury :: "('r, 't, 'y) stake_host \<Rightarrow> chain_address \<Rightarrow> chain_address \<Rightarrow>
    ('r, 't, 'y) stakes_state \<Rightarrow> ('r, 't, 'y) stakes_state res" where
  "setTreasury H sender a s = only_admins H sender s
     (require (a \<noteq> ZeroAddress) ''Invalid treasury'' (Inr (s\<lparr>sf_treasury := a\<rparr>)))"

definition stake_tokens :: "('r, 't, 'y) stake_host \<Rightarrow> chain_address \<Rightarrow> nat \<Rightarrow> nat \<Rightarrow>
    ('r, 't, 'y) stakes_state \<Rightarrow> ('r, 't, 'y) stakes_state res" where
  "stake_tokens H sender now amount s =
     require (0 < amount) ''Cannot stake 0'' (require (sf_treasuryAccounting s \<noteq> ZeroAddress) ''Treasury not configured''
     (res_bind (or_revert ''SafeERC20FailedOperation'' (tk_transferFrom (hk_token H) (hk_self H) sender (hk_self H) amount (sf_token s))) (\<lambda>t.
     res_bind (or_revert ''recordStake'' (hk_recordStake H (sf_treasuryAccounting s) sender amount (sf_books s))) (\<lambda>y.
     (let total = si_amount (sf_stakes s sender) + amount; unlock = now + sf_lockDuration s in
     require (total < 2 ^ 256) ''Panic'' (require (unlock < 2 ^ 256) ''Panic''
     (Inr (s\<lparr>sf_token := t, sf_books := y,
       sf_stakes := (sf_stakes s)(sender := \<lparr>si_amount = total, si_unlockTime = unlock\<rparr>)\<rparr>))))))))"

definition unstake_tokens :: "('r, 't, 'y) stake_host \<Rightarrow> chain_address \<Rightarrow> nat \<Rightarrow> nat \<Rightarrow>
    ('r, 't, 'y) stakes_state \<Rightarrow> ('r, 't, 'y) stakes_state res" where
  "unstake_tokens H sender now amount s = (let info = sf_stakes s sender in
     require (amount \<le> si_amount info) ''Insufficient staked balance''
     (require (si_unlockTime info \<le> now) ''Stake is still locked''
     (require (0 < amount) ''Cannot unstake 0''
     (require (sf_treasuryAccounting s \<noteq> ZeroAddress) ''Treasury not configured''
     (res_bind (or_revert ''recordUnstake'' (hk_recordUnstake H (sf_treasuryAccounting s) sender amount (sf_books s))) (\<lambda>y.
      res_bind (or_revert ''SafeERC20FailedOperation'' (tk_transfer (hk_token H) (hk_self H) sender amount (sf_token s))) (\<lambda>t.
      Inr (s\<lparr>sf_token := t, sf_books := y,
        sf_stakes := (sf_stakes s)(sender := info\<lparr>si_amount := si_amount info - amount\<rparr>)\<rparr>))))))))"

definition forceSlash :: "('r, 't, 'y) stake_host \<Rightarrow> chain_address \<Rightarrow> chain_address \<Rightarrow> nat \<Rightarrow>
    ('r, 't, 'y) stakes_state \<Rightarrow> ('r, 't, 'y) stakes_state res" where
  "forceSlash H sender user amount s = (let info = sf_stakes s user in
     require (tl_has (hk_access H) s RESOLVER_ROLE sender) ''Only authorized resolvers can slash''
     (require (sk_slashingContract s \<noteq> ZeroAddress) ''Slashing contract not set''
     (require (sender = sk_slashingContract s) ''Only active slashing contract''
     (require (sf_treasuryAccounting s \<noteq> ZeroAddress) ''Treasury not configured''
     (require (amount \<le> si_amount info) ''Insufficient stake to slash''
     (res_bind (or_revert ''recordSlash'' (hk_recordSlash H (sf_treasuryAccounting s) user amount (sf_books s))) (\<lambda>y.
      res_bind (or_revert ''ERC20InsufficientBalance'' (tk_transfer (hk_token H) (hk_self H) sender amount (sf_token s))) (\<lambda>t.
      Inr (s\<lparr>sf_token := t, sf_books := y,
        sf_stakes := (sf_stakes s)(user := info\<lparr>si_amount := si_amount info - amount\<rparr>)\<rparr>)))))))))"

section \<open>Transactions\<close>

datatype stake_call =
    VStake nat | VUnstake nat | VForceSlash chain_address nat | VLockDuration nat | VTreasury chain_address
  | VTreasuryAccounting chain_address | VSlashingContract chain_address | VTimelock timelock_call

fun call_staking :: "('r, 't, 'y) stake_host \<Rightarrow> chain_address \<Rightarrow> nat \<Rightarrow> stake_call \<Rightarrow>
    ('r, 't, 'y) stakes_state \<Rightarrow> ('r, 't, 'y) stakes_state res" where
  "call_staking H sender now (VStake n) = stake_tokens H sender now n"
| "call_staking H sender now (VUnstake n) = unstake_tokens H sender now n"
| "call_staking H sender now (VForceSlash a n) = forceSlash H sender a n"
| "call_staking H sender now (VLockDuration d) = setLockDuration H sender d"
| "call_staking H sender now (VTreasury a) = setTreasury H sender a"
| "call_staking H sender now (VTreasuryAccounting a) = setTreasuryAccounting H sender a"
| "call_staking H sender now (VSlashingContract a) = setSlashingContract (hk_access H) sender now a"
| "call_staking H sender now (VTimelock c) = call_timelock (hk_access H) sender now c"

text \<open>The reachable states. Other contracts may change their books and the token; only the staking contract
  itself takes tokens from its balance.\<close>

inductive staking_run :: "('r, 't, 'y) stake_host \<Rightarrow> nat \<Rightarrow> ('r, 't, 'y) stakes_state \<Rightarrow> bool" for H where
  created: "ctor_Staking (hk_access H) token admin = Inr deployed \<Longrightarrow> staking_run H now (new_stakes deployed duration admin t y)"
| called: "staking_run H now s \<Longrightarrow> now \<le> now' \<Longrightarrow> sender \<noteq> hk_self H \<Longrightarrow> call_staking H sender now' c s = Inr s' \<Longrightarrow>
    staking_run H now' s'"
| elsewhere: "staking_run H now s \<Longrightarrow> tk_balance (hk_token H) (sf_token s) (hk_self H) \<le> tk_balance (hk_token H) t (hk_self H) \<Longrightarrow>
    staking_run H now (s\<lparr>sf_token := t, sf_books := y\<rparr>)"

section \<open>What a transaction does to the stakes\<close>

lemma or_revert_Inr: "or_revert msg r = Inr x \<longleftrightarrow> r = Some x"
  by (simp add: or_revert_def split: option.splits)

lemmas staking_defs = stake_tokens_def unstake_tokens_def forceSlash_def setTreasuryAccounting_def setLockDuration_def setTreasury_def
  only_admins_def require_Inr res_bind_Inr_iff or_revert_Inr Let_def

lemma timelock_keeps_stakes:
  fixes s :: "('r, 't, 'y) stakes_state"
  assumes "call_timelock A sender now c s = Inr s'"
  shows "sf_stakes s' = sf_stakes s \<and> sf_token s' = sf_token s"
  using assms by (cases c) (auto simp: timelock_defs split: if_split_asm)

lemma schedule_keeps_stakes:
  fixes s :: "('r, 't, 'y) stakes_state"
  shows "scheduleChange now a g d s = Inr s' \<Longrightarrow> sf_stakes s' = sf_stakes s \<and> sf_token s' = sf_token s"
  by (auto simp: scheduleChange_def require_Inr Let_def)

lemma release_keeps_stakes:
  fixes s :: "('r, 't, 'y) stakes_state"
  shows "release_old A now s = Inr s' \<Longrightarrow> sf_stakes s' = sf_stakes s \<and> sf_token s' = sf_token s"
  by (auto simp: release_old_def Let_def dest: schedule_keeps_stakes split: if_split_asm option.split_asm)

lemma slashing_contract_keeps_stakes:
  fixes s :: "('r, 't, 'y) stakes_state"
  assumes "setSlashingContract A sender now c s = Inr s'"
  shows "sf_stakes s' = sf_stakes s \<and> sf_token s' = sf_token s"
  using assms
proof (cases rule: set_slashing_steps)
  case (1 s1)
  with release_keeps_stakes [OF 1(1)] show ?thesis by simp
next
  case (2 s1)
  with release_keeps_stakes [OF 2(1)] schedule_keeps_stakes [OF 2(3)] show ?thesis by simp
qed

text \<open>The three transactions that change stakes, and all others.\<close>

lemma staking_cases:
  assumes "call_staking H sender now c s = Inr s'"
  obtains (stake) n where "c = VStake n" "tk_transferFrom (hk_token H) (hk_self H) sender (hk_self H) n (sf_token s) = Some (sf_token s')"
      "sf_stakes s' = (sf_stakes s)(sender := \<lparr>si_amount = si_amount (sf_stakes s sender) + n, si_unlockTime = now + sf_lockDuration s\<rparr>)"
  | (unstake) n where "c = VUnstake n" "n \<le> si_amount (sf_stakes s sender)" "si_unlockTime (sf_stakes s sender) \<le> now"
      "tk_transfer (hk_token H) (hk_self H) sender n (sf_token s) = Some (sf_token s')"
      "sf_stakes s' = (sf_stakes s)(sender := (sf_stakes s sender)\<lparr>si_amount := si_amount (sf_stakes s sender) - n\<rparr>)"
  | (slash) a n where "c = VForceSlash a n" "n \<le> si_amount (sf_stakes s a)" "sender = sk_slashingContract s"
      "tl_has (hk_access H) s RESOLVER_ROLE sender" "tk_transfer (hk_token H) (hk_self H) sender n (sf_token s) = Some (sf_token s')"
      "sf_stakes s' = (sf_stakes s)(a := (sf_stakes s a)\<lparr>si_amount := si_amount (sf_stakes s a) - n\<rparr>)"
  | (other) "sf_stakes s' = sf_stakes s" "sf_token s' = sf_token s"
proof (cases c)
  case (VTimelock tc)
  with assms other timelock_keeps_stakes [of "hk_access H" sender now tc s s'] show thesis by simp
next
  case (VSlashingContract a)
  with assms other slashing_contract_keeps_stakes [of "hk_access H" sender now a s s'] show thesis by simp
next
  case (VStake n)
  with assms show thesis by (intro stake [of n]) (auto simp: staking_defs)
next
  case (VUnstake n)
  with assms show thesis by (intro unstake [of n]) (auto simp: staking_defs)
next
  case (VForceSlash a n)
  with assms show thesis by (intro slash [of a n]) (auto simp: staking_defs)
qed (use assms other in \<open>auto simp: staking_defs\<close>)

section \<open>Solvency\<close>

definition solvent :: "('r, 't, 'y) stake_host \<Rightarrow> ('r, 't, 'y) stakes_state \<Rightarrow> bool" where
  "solvent H s \<longleftrightarrow> covered (\<lambda>a. si_amount (sf_stakes s a)) (tk_balance (hk_token H) (sf_token s) (hk_self H))"

lemma solvent_change:
  assumes "solvent H s"
    and "(\<lambda>a. si_amount (sf_stakes s' a)) = (\<lambda>a. si_amount (sf_stakes s a))(u := m)"
    and "tk_balance (hk_token H) (sf_token s') (hk_self H) + si_amount (sf_stakes s u) =
      tk_balance (hk_token H) (sf_token s) (hk_self H) + m"
  shows "solvent H s'"
  using covered_change [OF assms(1) [unfolded solvent_def] assms(3)] by (simp add: solvent_def assms(2))

lemma solvent_step:
  assumes laws: "erc20_laws (hk_token H)" and sender: "sender \<noteq> hk_self H" and old: "solvent H s"
    and step: "call_staking H sender now c s = Inr s'"
  shows "solvent H s'"
  using step
proof (cases rule: staking_cases)
  case (stake n)
  from erc20_laws.transferFrom_balance [OF laws stake(2)] sender
  have "tk_balance (hk_token H) (sf_token s') (hk_self H) = tk_balance (hk_token H) (sf_token s) (hk_self H) + n"
    by (simp add: moved_def)
  then show ?thesis by (intro solvent_change [OF old, of s' sender]) (auto simp: stake(3))
next
  case (unstake n)
  from erc20_laws.transfer_moves [OF laws unstake(4)] sender
  have "tk_balance (hk_token H) (sf_token s') (hk_self H) = tk_balance (hk_token H) (sf_token s) (hk_self H) - n"
    "n \<le> tk_balance (hk_token H) (sf_token s) (hk_self H)" by auto
  then show ?thesis using unstake(2) by (intro solvent_change [OF old, of s' sender]) (auto simp: unstake(5))
next
  case (slash a n)
  from erc20_laws.transfer_moves [OF laws slash(5)] sender
  have "tk_balance (hk_token H) (sf_token s') (hk_self H) = tk_balance (hk_token H) (sf_token s) (hk_self H) - n"
    "n \<le> tk_balance (hk_token H) (sf_token s) (hk_self H)" by auto
  then show ?thesis using slash(2) by (intro solvent_change [OF old, of s' a]) (auto simp: slash(6))
next
  case other
  with old show ?thesis by (simp add: solvent_def)
qed

lemma run_solvent:
  assumes laws: "erc20_laws (hk_token H)"
  shows "staking_run H now s \<Longrightarrow> solvent H s"
proof (induction rule: staking_run.induct)
  case (created token admin deployed now duration t y)
  show ?case by (simp add: solvent_def new_stakes_def staking_state.defs stakes_state.defs no_stake_def)
next
  case (called now s now' sender c s')
  with solvent_step [OF laws] show ?case by blast
next
  case (elsewhere now s t y)
  then show ?case by (auto simp: solvent_def intro: covered_mono)
qed

section \<open>Withdrawals and reductions\<close>

lemma unstake_succeeds:
  assumes laws: "erc20_laws (hk_token H)" and solv: "solvent H s" and a: "a \<noteq> hk_self H"
    and amount: "0 < n" "n \<le> si_amount (sf_stakes s a)" and time: "si_unlockTime (sf_stakes s a) \<le> now"
    and books: "sf_treasuryAccounting s \<noteq> ZeroAddress" "hk_recordUnstake H (sf_treasuryAccounting s) a n (sf_books s) \<noteq> None"
  shows "\<exists>s'. call_staking H a now (VUnstake n) s = Inr s' \<and>
    tk_balance (hk_token H) (sf_token s') a = tk_balance (hk_token H) (sf_token s) a + n \<and>
    (\<lambda>b. si_amount (sf_stakes s' b)) = (\<lambda>b. si_amount (sf_stakes s b))(a := si_amount (sf_stakes s a) - n)"
proof -
  from books obtain y where y: "hk_recordUnstake H (sf_treasuryAccounting s) a n (sf_books s) = Some y" by blast
  have "si_amount (sf_stakes s a) \<le> tk_balance (hk_token H) (sf_token s) (hk_self H)"
    using covered_one solv unfolding solvent_def .
  then have "n \<le> tk_balance (hk_token H) (sf_token s) (hk_self H)" using amount(2) by simp
  then obtain t where t: "tk_transfer (hk_token H) (hk_self H) a n (sf_token s) = Some t"
    using erc20_laws.transfer_succeeds [OF laws] by blast
  let ?s = "s\<lparr>sf_token := t, sf_books := y,
    sf_stakes := (sf_stakes s)(a := (sf_stakes s a)\<lparr>si_amount := si_amount (sf_stakes s a) - n\<rparr>)\<rparr>"
  have "call_staking H a now (VUnstake n) s = Inr ?s"
    using amount time books y t by (simp add: unstake_tokens_def Let_def require_def or_revert_def res_bind_def)
  moreover have "tk_balance (hk_token H) t a = tk_balance (hk_token H) (sf_token s) a + n"
    using erc20_laws.transfer_moves [OF laws t] a by simp
  ultimately show ?thesis by (intro exI [of _ ?s]) auto
qed

text \<open>C39: an unlocked stake can be withdrawn: in every reachable state the contract holds enough tokens for
  all stakes, so whoever asks for at most his stake after its lock time gets it, as long as the
  accounting contract accepts.\<close>

theorem unlocked_stake_withdrawable:
  assumes "erc20_laws (hk_token H)" "staking_run H now s" "a \<noteq> hk_self H"
    and "0 < n" "n \<le> si_amount (sf_stakes s a)" "si_unlockTime (sf_stakes s a) \<le> later"
    and "sf_treasuryAccounting s \<noteq> ZeroAddress" "hk_recordUnstake H (sf_treasuryAccounting s) a n (sf_books s) \<noteq> None"
  shows "\<exists>s'. call_staking H a later (VUnstake n) s = Inr s' \<and>
    tk_balance (hk_token H) (sf_token s') a = tk_balance (hk_token H) (sf_token s) a + n \<and>
    (\<lambda>b. si_amount (sf_stakes s' b)) = (\<lambda>b. si_amount (sf_stakes s b))(a := si_amount (sf_stakes s a) - n)"
  using unstake_succeeds [OF assms(1) run_solvent [OF assms(1,2)] assms(3-)] .

text \<open>C40: a stake shrinks only in two ways: its owner withdraws it after its lock time, or the active slashing
  contract takes it while it holds the resolver role; what the stake loses its taker receives.\<close>

theorem stake_decrease_authorised:
  assumes "erc20_laws (hk_token H)" "sender \<noteq> hk_self H" "call_staking H sender now c s = Inr s'"
    and "si_amount (sf_stakes s' a) < si_amount (sf_stakes s a)"
  shows "tk_balance (hk_token H) (sf_token s') sender + si_amount (sf_stakes s' a) =
      tk_balance (hk_token H) (sf_token s) sender + si_amount (sf_stakes s a) \<and>
    (sender = a \<and> si_unlockTime (sf_stakes s a) \<le> now \<or>
     sender = sk_slashingContract s \<and> tl_has (hk_access H) s RESOLVER_ROLE sender)"
  using assms(3)
proof (cases rule: staking_cases)
  case (stake n)
  then show ?thesis using assms(4) by (simp split: if_splits)
next
  case (unstake n)
  with erc20_laws.transfer_moves [OF assms(1) unstake(4)] assms(2,4) show ?thesis by (auto split: if_splits)
next
  case (slash b n)
  with erc20_laws.transfer_moves [OF assms(1) slash(5)] assms(2,4) show ?thesis by (auto split: if_splits)
next
  case other
  then show ?thesis using assms(4) by simp
qed

text \<open>A stake is locked until the time that its last addition set, with the lock duration of then: after
  the duration was lowered to 0, adding one token unlocks the whole stake at once.\<close>

theorem added_token_unlocks:
  assumes "call_staking H admin now (VLockDuration 0) s = Inr s1" "call_staking H a now (VStake 1) s1 = Inr s2"
  shows "si_unlockTime (sf_stakes s2 a) = now \<and> si_amount (sf_stakes s2 a) = si_amount (sf_stakes s a) + 1"
  using assms by (auto simp: staking_defs)

section \<open>A concrete run\<close>

definition demo_stake_host :: "(role_lists, chain_address \<Rightarrow> nat, unit) stake_host" where
  "demo_stake_host = \<lparr>hk_access = list_access, hk_token = plain_token, hk_self = Contract 0, hk_recordStake = (\<lambda>c a n y. Some y),
     hk_recordUnstake = (\<lambda>c a n y. Some y), hk_recordSlash = (\<lambda>c a n y. Some y)\<rparr>"

definition demo_created :: "(role_lists, chain_address \<Rightarrow> nat, unit) stakes_state" where
  "demo_created = new_stakes (projr (ctor_Staking list_access (Account ''token'') (Account ''admin''))) 100 (Account ''admin'')
     (\<lambda>a. if a = Account ''ann'' then 50 else 0) ()"

definition demo_ready :: "(role_lists, chain_address \<Rightarrow> nat, unit) stakes_state" where
  "demo_ready = projr (call_staking demo_stake_host (Account ''admin'') 5 (VTreasuryAccounting (Contract 1)) demo_created)"

definition demo_staked :: "(role_lists, chain_address \<Rightarrow> nat, unit) stakes_state" where
  "demo_staked = projr (call_staking demo_stake_host (Account ''ann'') 10 (VStake 30) demo_ready)"

lemmas demo_staking_defs = demo_stake_host_def demo_created_def demo_ready_def demo_staked_def new_stakes_def ctor_Staking_def
  grant_all_def admin_all_def list_access_def plain_token_def staking_state.defs stakes_state.defs timelock.defs new_timelock_def require_def
  setTreasuryAccounting_def stake_tokens_def unstake_tokens_def only_admins_def tl_has_def res_bind_def or_revert_def Let_def no_stake_def moved_def

lemma demo_steps:
  "call_staking demo_stake_host (Account ''admin'') 5 (VTreasuryAccounting (Contract 1)) demo_created = Inr demo_ready"
  "call_staking demo_stake_host (Account ''ann'') 10 (VStake 30) demo_ready = Inr demo_staked"
  "si_amount (sf_stakes demo_staked (Account ''ann'')) = 30" "si_unlockTime (sf_stakes demo_staked (Account ''ann'')) = 110"
  "sf_treasuryAccounting demo_staked = Contract 1"
  by (simp_all add: demo_staking_defs)

lemma demo_run: "staking_run demo_stake_host 10 demo_staked"
proof -
  have "staking_run demo_stake_host 1 demo_created"
    unfolding demo_created_def by (rule staking_run.created [where token = "Account ''token''"]) (simp add: demo_stake_host_def ctor_Staking_def require_def)
  then have "staking_run demo_stake_host 5 demo_ready"
    by (rule staking_run.called [OF _ _ _ demo_steps(1)]) (simp_all add: demo_stake_host_def)
  then show ?thesis
    by (rule staking_run.called [OF _ _ _ demo_steps(2)]) (simp_all add: demo_stake_host_def)
qed

lemma demo_laws: "erc20_laws (hk_token demo_stake_host)"
  using plain.erc20_laws_axioms by (simp add: demo_stake_host_def)

theorem unlocked_stake_withdrawable_witness:
  "\<exists>s'. call_staking demo_stake_host (Account ''ann'') 110 (VUnstake 30) demo_staked = Inr s' \<and>
     si_amount (sf_stakes s' (Account ''ann'')) = 0"
proof -
  have "\<exists>s'. call_staking demo_stake_host (Account ''ann'') 110 (VUnstake 30) demo_staked = Inr s' \<and>
    tk_balance (hk_token demo_stake_host) (sf_token s') (Account ''ann'') = tk_balance (hk_token demo_stake_host) (sf_token demo_staked) (Account ''ann'') + 30 \<and>
    (\<lambda>b. si_amount (sf_stakes s' b)) = (\<lambda>b. si_amount (sf_stakes demo_staked b))(Account ''ann'' := si_amount (sf_stakes demo_staked (Account ''ann'')) - 30)"
    by (rule unlocked_stake_withdrawable [OF demo_laws demo_run]) (simp_all add: demo_steps, simp_all add: demo_stake_host_def)
  then show ?thesis by (auto simp: demo_steps fun_eq_iff)
qed

theorem stake_decrease_authorised_witness:
  "\<exists>s'. call_staking demo_stake_host (Account ''ann'') 110 (VUnstake 20) demo_staked = Inr s' \<and>
     tk_balance plain_token (sf_token s') (Account ''ann'') + si_amount (sf_stakes s' (Account ''ann'')) =
     tk_balance plain_token (sf_token demo_staked) (Account ''ann'') + 30"
proof -
  obtain s' where s': "call_staking demo_stake_host (Account ''ann'') 110 (VUnstake 20) demo_staked = Inr s'"
      "si_amount (sf_stakes s' (Account ''ann'')) = 10"
    by (simp add: demo_staking_defs)
  then have "si_amount (sf_stakes s' (Account ''ann'')) < si_amount (sf_stakes demo_staked (Account ''ann''))" by (simp add: demo_steps)
  from stake_decrease_authorised [OF demo_laws _ s'(1) this] s'(1) show ?thesis
    by (auto simp: demo_steps demo_stake_host_def)
qed

end
