(* ===== verification/TokenContract.thy ===== *)
theory TokenContract
  imports ResolverTimelock Deposits
begin

text \<open>
  The contract \<open>TruthBountyToken\<close> of \<open>contracts/TruthBounty.sol\<close>, an ERC20 token that holds stakes itself: every
  function that changes state, on top of the role timelock. OpenZeppelin's ERC20 is the parameter \<open>token_api\<close> with
  burning as an extension of its laws. Events, the authorisation of upgrades and the inherited token functions
  are left out: other transactions may move tokens, but none takes them from the contract.
\<close>

section \<open>A token that burns\<close>

locale burnable_token = erc20_laws T for T :: "('t, 'a) token_api" +
  fixes burn :: "'a \<Rightarrow> nat \<Rightarrow> 't \<Rightarrow> 't option"
  assumes burn_iff: "burn f n t \<noteq> None \<longleftrightarrow> n \<le> tk_balance T t f"
    and burn_balance: "burn f n t = Some t' \<Longrightarrow> tk_balance T t' = (tk_balance T t)(f := tk_balance T t f - n)"
begin

lemma burn_takes: "burn f n t = Some t' \<Longrightarrow> tk_balance T t' f + n = tk_balance T t f"
  using burn_iff [of f n t] burn_balance [of f n t t'] by simp

end

definition plain_burn :: "'a \<Rightarrow> nat \<Rightarrow> ('a \<Rightarrow> nat) \<Rightarrow> ('a \<Rightarrow> nat) option" where
  "plain_burn f n t = (if n \<le> t f then Some (t(f := t f - n)) else None)"

interpretation plain_burnable: burnable_token plain_token plain_burn
  by unfold_locales (auto simp: plain_token_def plain_burn_def split: if_splits)

section \<open>State and functions\<close>

record ('r, 't) bounty_host =
  bh_access :: "'r access_api"
  bh_token :: "('t, chain_address) token_api"
  bh_burn :: "chain_address \<Rightarrow> nat \<Rightarrow> 't \<Rightarrow> 't option"
  bh_self :: chain_address

record ('r, 't) bounty_state = "'r timelock" +
  bs_settlementContract :: chain_address
  bs_slashPercentage :: nat
  bs_verifierStake :: "chain_address \<Rightarrow> nat"
  bs_token :: 't

text \<open>The constructor; \<open>minted\<close> is the token after the initial supply was minted.\<close>

definition ctor_TruthBountyToken :: "'r access_api \<Rightarrow> chain_address \<Rightarrow> 't \<Rightarrow> ('r, 't) bounty_state res" where
  "ctor_TruthBountyToken A initialAdmin minted = require (initialAdmin \<noteq> ZeroAddress) ''Invalid admin address''
     (Inr (timelock.extend (new_timelock (admin_all A [(RESOLVER_ROLE, ''ADMIN_ROLE'')]
         (grant_all A [(DEFAULT_ADMIN_ROLE, initialAdmin), (''ADMIN_ROLE'', initialAdmin)] (ax_empty A))))
       (bounty_state.fields ZeroAddress 10 (\<lambda>a. 0) minted)))"

definition setSettlementContract :: "('r, 't) bounty_host \<Rightarrow> chain_address \<Rightarrow> nat \<Rightarrow> chain_address \<Rightarrow>
    ('r, 't) bounty_state \<Rightarrow> ('r, 't) bounty_state res" where
  "setSettlementContract H sender now newSettlement s =
     require (tl_has (bh_access H) s ''ADMIN_ROLE'' sender) ''AccessControlUnauthorizedAccount''
     (scheduleChange now newSettlement True MIN_RESOLVER_ROLE_CHANGE_DELAY (s\<lparr>bs_settlementContract := newSettlement\<rparr>))"

definition setSlashPercentage :: "('r, 't) bounty_host \<Rightarrow> chain_address \<Rightarrow> nat \<Rightarrow> ('r, 't) bounty_state \<Rightarrow> ('r, 't) bounty_state res" where
  "setSlashPercentage H sender percentage s =
     require (tl_has (bh_access H) s ''ADMIN_ROLE'' sender) ''AccessControlUnauthorizedAccount''
     (require (percentage \<le> 100) ''Invalid percentage'' (Inr (s\<lparr>bs_slashPercentage := percentage\<rparr>)))"

definition revert_unless :: "string \<Rightarrow> 'a option \<Rightarrow> ('a \<Rightarrow> 'b res) \<Rightarrow> 'b res" where
  "revert_unless msg r k = (case r of None \<Rightarrow> Inl (JsError ''Revert'' msg) | Some x \<Rightarrow> k x)"

definition bounty_stake :: "('r, 't) bounty_host \<Rightarrow> chain_address \<Rightarrow> nat \<Rightarrow> ('r, 't) bounty_state \<Rightarrow> ('r, 't) bounty_state res" where
  "bounty_stake H sender amount s = require (0 < amount) ''Invalid amount''
     (revert_unless ''ERC20InsufficientBalance'' (tk_transfer (bh_token H) sender (bh_self H) amount (bs_token s)) (\<lambda>t.
      require (bs_verifierStake s sender + amount < 2 ^ 256) ''Panic''
      (Inr (s\<lparr>bs_token := t, bs_verifierStake := (bs_verifierStake s)(sender := bs_verifierStake s sender + amount)\<rparr>))))"

definition bounty_withdraw :: "('r, 't) bounty_host \<Rightarrow> chain_address \<Rightarrow> nat \<Rightarrow> ('r, 't) bounty_state \<Rightarrow> ('r, 't) bounty_state res" where
  "bounty_withdraw H sender amount s = require (amount \<le> bs_verifierStake s sender) ''Insufficient stake''
     (revert_unless ''ERC20InsufficientBalance'' (tk_transfer (bh_token H) (bh_self H) sender amount (bs_token s)) (\<lambda>t.
      Inr (s\<lparr>bs_token := t, bs_verifierStake := (bs_verifierStake s)(sender := bs_verifierStake s sender - amount)\<rparr>)))"

definition slashVerifier :: "('r, 't) bounty_host \<Rightarrow> chain_address \<Rightarrow> chain_address \<Rightarrow> ('r, 't) bounty_state \<Rightarrow> ('r, 't) bounty_state res" where
  "slashVerifier H sender verifier s = (let verifierStakeAmount = bs_verifierStake s verifier;
       slashedAmount = verifierStakeAmount * bs_slashPercentage s div 100 in
     require (tl_has (bh_access H) s RESOLVER_ROLE sender) ''AccessControlUnauthorizedAccount''
     (require (0 < verifierStakeAmount) ''No stake to slash''
     (require (verifierStakeAmount * bs_slashPercentage s < 2 ^ 256 \<and> slashedAmount \<le> verifierStakeAmount) ''Panic''
     (revert_unless ''ERC20InsufficientBalance'' (bh_burn H (bh_self H) slashedAmount (bs_token s)) (\<lambda>t.
      Inr (s\<lparr>bs_token := t, bs_verifierStake := (bs_verifierStake s)(verifier := verifierStakeAmount - slashedAmount)\<rparr>))))))"

section \<open>Transactions\<close>

datatype bounty_call = BStake nat | BWithdraw nat | BSlash chain_address | BSettlement chain_address | BPercentage nat
  | BTimelock timelock_call

fun call_bounty :: "('r, 't) bounty_host \<Rightarrow> chain_address \<Rightarrow> nat \<Rightarrow> bounty_call \<Rightarrow> ('r, 't) bounty_state \<Rightarrow> ('r, 't) bounty_state res" where
  "call_bounty H sender now (BStake n) = bounty_stake H sender n"
| "call_bounty H sender now (BWithdraw n) = bounty_withdraw H sender n"
| "call_bounty H sender now (BSlash a) = slashVerifier H sender a"
| "call_bounty H sender now (BSettlement a) = setSettlementContract H sender now a"
| "call_bounty H sender now (BPercentage p) = setSlashPercentage H sender p"
| "call_bounty H sender now (BTimelock c) = call_timelock (bh_access H) sender now c"

inductive bounty_run :: "('r, 't) bounty_host \<Rightarrow> nat \<Rightarrow> ('r, 't) bounty_state \<Rightarrow> bool" for H where
  created: "ctor_TruthBountyToken (bh_access H) admin minted = Inr s \<Longrightarrow> bounty_run H now s"
| called: "bounty_run H now s \<Longrightarrow> now \<le> now' \<Longrightarrow> sender \<noteq> bh_self H \<Longrightarrow> call_bounty H sender now' c s = Inr s' \<Longrightarrow> bounty_run H now' s'"
| elsewhere: "bounty_run H now s \<Longrightarrow> tk_balance (bh_token H) (bs_token s) (bh_self H) \<le> tk_balance (bh_token H) t (bh_self H) \<Longrightarrow>
    bounty_run H now (s\<lparr>bs_token := t\<rparr>)"

section \<open>The stakes are covered\<close>

lemma revert_unless_Inr: "revert_unless msg r k = Inr x \<longleftrightarrow> (\<exists>y. r = Some y \<and> k y = Inr x)"
  by (simp add: revert_unless_def split: option.splits)

lemmas bounty_defs = bounty_stake_def bounty_withdraw_def slashVerifier_def setSettlementContract_def setSlashPercentage_def
  require_Inr revert_unless_Inr Let_def

definition bounty_covered :: "('r, 't) bounty_host \<Rightarrow> ('r, 't) bounty_state \<Rightarrow> bool" where
  "bounty_covered H s \<longleftrightarrow> covered (bs_verifierStake s) (tk_balance (bh_token H) (bs_token s) (bh_self H))"

lemma timelock_keeps_bounty:
  fixes s :: "('r, 't) bounty_state"
  assumes "call_timelock A sender now c s = Inr s'"
  shows "bs_verifierStake s' = bs_verifierStake s \<and> bs_token s' = bs_token s"
  using assms by (cases c) (auto simp: timelock_defs split: if_split_asm)

lemma bounty_step_covered:
  assumes laws: "burnable_token (bh_token H) (bh_burn H)" and sender: "sender \<noteq> bh_self H" and old: "bounty_covered H s"
    and step: "call_bounty H sender now c s = Inr s'"
  shows "bounty_covered H s'"
proof -
  note token = burnable_token.axioms(1) [OF laws]
  let ?b = "\<lambda>s. tk_balance (bh_token H) (bs_token s) (bh_self H)"
  show ?thesis
  proof (cases c)
    case (BStake n)
    then have t: "tk_transfer (bh_token H) sender (bh_self H) n (bs_token s) = Some (bs_token s')"
      and st: "bs_verifierStake s' = (bs_verifierStake s)(sender := bs_verifierStake s sender + n)"
      using step by (auto simp: bounty_defs)
    from erc20_laws.transfer_moves [OF token t] sender have "?b s' + bs_verifierStake s sender = ?b s + (bs_verifierStake s sender + n)" by simp
    with old show ?thesis unfolding bounty_covered_def st by (intro covered_change)
  next
    case (BWithdraw n)
    then have t: "tk_transfer (bh_token H) (bh_self H) sender n (bs_token s) = Some (bs_token s')" "n \<le> bs_verifierStake s sender"
      and st: "bs_verifierStake s' = (bs_verifierStake s)(sender := bs_verifierStake s sender - n)"
      using step by (auto simp: bounty_defs)
    from erc20_laws.transfer_moves [OF token t(1)] sender t(2)
    have "?b s' + bs_verifierStake s sender = ?b s + (bs_verifierStake s sender - n)" by simp
    with old show ?thesis unfolding bounty_covered_def st by (intro covered_change)
  next
    case (BSlash a)
    then obtain n where t: "bh_burn H (bh_self H) n (bs_token s) = Some (bs_token s')" "n \<le> bs_verifierStake s a"
      and st: "bs_verifierStake s' = (bs_verifierStake s)(a := bs_verifierStake s a - n)"
      using step by (auto simp: bounty_defs)
    from burnable_token.burn_takes [OF laws t(1)] t(2) have "?b s' + bs_verifierStake s a = ?b s + (bs_verifierStake s a - n)" by simp
    with old show ?thesis unfolding bounty_covered_def st by (intro covered_change)
  next
    case (BTimelock tc)
    with step old timelock_keeps_bounty [of "bh_access H" sender now tc s s'] show ?thesis by (simp add: bounty_covered_def)
  qed (use step old in \<open>auto simp: bounty_defs bounty_covered_def scheduleChange_def\<close>)
qed

lemma bounty_run_covered:
  assumes "burnable_token (bh_token H) (bh_burn H)"
  shows "bounty_run H now s \<Longrightarrow> bounty_covered H s"
proof (induction rule: bounty_run.induct)
  case (created admin minted s now)
  then show ?case by (auto simp: bounty_covered_def ctor_TruthBountyToken_def require_Inr timelock.defs bounty_state.defs)
next
  case (called now s now' sender c s')
  with bounty_step_covered [OF assms] show ?case by blast
next
  case (elsewhere now s t)
  then show ?case by (auto simp: bounty_covered_def intro: covered_mono)
qed

text \<open>In every reachable state each staker can withdraw the whole stake at once: there is no lock, so a
  staker who sees a slash coming can leave before it.\<close>

theorem token_stake_withdrawable:
  assumes "burnable_token (bh_token H) (bh_burn H)" "bounty_run H now s" "a \<noteq> bh_self H" "n \<le> bs_verifierStake s a"
  shows "\<exists>s'. call_bounty H a later (BWithdraw n) s = Inr s' \<and>
    tk_balance (bh_token H) (bs_token s') a = tk_balance (bh_token H) (bs_token s) a + n"
proof -
  note token = burnable_token.axioms(1) [OF assms(1)]
  have "n \<le> tk_balance (bh_token H) (bs_token s) (bh_self H)"
    using covered_one [of "bs_verifierStake s"] bounty_run_covered [OF assms(1,2)] assms(4)
    by (force simp: bounty_covered_def intro: order_trans)
  then obtain t where t: "tk_transfer (bh_token H) (bh_self H) a n (bs_token s) = Some t"
    using erc20_laws.transfer_succeeds [OF token] by blast
  with erc20_laws.transfer_moves [OF token t] assms(3,4) show ?thesis
    by (simp add: bounty_withdraw_def require_def revert_unless_def)
qed

text \<open>A slash takes the percentage rounded down, from the stake and from the supply alike; a stake too small
  for one unit loses nothing.\<close>

theorem slash_takes_percentage:
  assumes "burnable_token (bh_token H) (bh_burn H)" "slashVerifier H sender a s = Inr s'"
  shows "bs_verifierStake s' a + bs_verifierStake s a * bs_slashPercentage s div 100 = bs_verifierStake s a \<and>
    tk_balance (bh_token H) (bs_token s') (bh_self H) + bs_verifierStake s a * bs_slashPercentage s div 100 =
      tk_balance (bh_token H) (bs_token s) (bh_self H) \<and>
    (bs_verifierStake s a * bs_slashPercentage s < 100 \<longrightarrow> bs_verifierStake s' a = bs_verifierStake s a)"
  using assms(2) burnable_token.burn_takes [OF assms(1)] by (auto simp: bounty_defs)

end
