(* ===== verification/TruthBountyBooks.thy ===== *)
theory TruthBountyBooks
  imports TruthBountyContract
begin

text \<open>
  The books of the claim contract over every sequence of calls: the active stake of a verifier is the
  stake of its votes that was not returned, the totals of a claim are the stakes of its voters, a
  result distributes at most what the losing side loses. \<open>tb_reach\<close> are the states reachable by
  calls of any accounts at any times; a reverted call changes nothing.
\<close>

section \<open>Calls\<close>

datatype tb_op = OCreate string | OStake nat | OVote nat bool nat | OSettle nat | OClaim nat
  | OWithdrawSettled nat | OWithdraw nat | OParameter tb_parameter nat | OPause bool

definition tb_call :: "'t tb_env \<Rightarrow> string \<Rightarrow> nat \<Rightarrow> tb_op \<Rightarrow> ('t tb_state, unit) action" where
  "tb_call N sender now op = (case op of
     OCreate content \<Rightarrow> act_bind (createClaim sender now content) (\<lambda>claimId. act_return ())
   | OStake amount \<Rightarrow> tb_stake N sender amount
   | OVote claimId support amount \<Rightarrow> tb_cast sender now claimId support amount
   | OSettle claimId \<Rightarrow> settleClaim now claimId
   | OClaim claimId \<Rightarrow> claimSettlementRewards N sender claimId
   | OWithdrawSettled claimId \<Rightarrow> withdrawSettledStake N sender claimId
   | OWithdraw amount \<Rightarrow> withdrawStake N sender amount
   | OParameter p v \<Rightarrow> set_parameter N sender p v
   | OPause b \<Rightarrow> set_paused N sender b)"

inductive tb_reach :: "'t tb_env \<Rightarrow> 't tb_state \<Rightarrow> bool" for N where
  reach_new: "tb_reach N (new_truth_bounty t)"
| reach_call: "tb_reach N s \<Longrightarrow> tb_call N sender now op s = (r, s') \<Longrightarrow> tb_reach N s'"

section \<open>What a successful call did\<close>

lemma need_ok [simp]: "need c msg k s = (Inr a, s') \<longleftrightarrow> c \<and> k s = (Inr a, s')"
  by (simp add: need_def fail_def)

lemma pay_ok [simp]: "pay N to n k s = (Inr a, s') \<longleftrightarrow>
    (\<exists>t. tk_transfer (te_token N) (te_self N) to n (tb_token s) = Some t \<and> k (s\<lparr>tb_token := t\<rparr>) = (Inr a, s'))"
  by (simp add: pay_def split: option.split)

lemma atomically_ok [simp]: "atomically m s = (Inr a, s') \<longleftrightarrow> m s = (Inr a, s')"
  by (auto simp: atomically_def split: prod.splits sum.splits)

definition clean :: "('s, 'a) action \<Rightarrow> bool" where
  "clean m \<longleftrightarrow> (\<forall>s e s'. m s = (Inl e, s') \<longrightarrow> s' = s)"

lemma clean_atomically: "clean (atomically m)"
  by (auto simp: clean_def atomically_def split: prod.splits sum.splits)

lemma need_fails: "need c msg k s = (Inl e, s') \<longleftrightarrow> (if c then k s = (Inl e, s') else e = JsError ''Revert'' msg \<and> s' = s)"
  by (auto simp: need_def fail_def)

lemma clean_call: "clean (tb_call N sender now op)"
proof (cases op)
  case (OStake n)
  then show ?thesis
    by (auto simp: clean_def tb_call_def tb_stake_def need_fails fail_def split: option.splits if_splits)
next
  case (OParameter p v)
  then show ?thesis
    by (cases p) (auto simp: clean_def tb_call_def set_parameter_def need_fails split: if_splits)
next
  case (OClaim c)
  then show ?thesis using clean_atomically by (simp add: tb_call_def claimSettlementRewards_def)
next
  case (OWithdrawSettled c)
  then show ?thesis using clean_atomically by (simp add: tb_call_def withdrawSettledStake_def)
qed (auto simp: clean_def tb_call_def createClaim_def tb_cast_def settleClaim_def withdrawStake_def set_paused_def pay_def
      act_bind_def act_return_def need_fails Let_def split: if_splits prod.splits sum.splits option.splits)

lemma revert_changes_nothing: "tb_call N sender now op s = (Inl e, s') \<Longrightarrow> s' = s"
  using clean_call [of N sender now op] unfolding clean_def by blast

lemma return_stake_ok:
  "return_stake N sender c v n s = (Inr (), s') \<longleftrightarrow> vo_stake v \<le> vs_active (tb_stakes s sender) \<and>
     (\<exists>t. tk_transfer (te_token N) (te_self N) sender n (tb_token s) = Some t \<and>
        s' = set_vote c sender v (set_stake sender ((tb_stakes s sender)\<lparr>vs_active := vs_active (tb_stakes s sender) - vo_stake v\<rparr>)
          (s\<lparr>tb_token := t\<rparr>)))"
  by (auto simp: return_stake_def Let_def)

text \<open>Both ways to get a stake back mark the vote and release its stake once.\<close>

definition released :: "string \<Rightarrow> nat \<Rightarrow> bool \<Rightarrow> 't \<Rightarrow> 't tb_state \<Rightarrow> 't tb_state" where
  "released a c claimed t s = (let v = tb_votes s c a; st = tb_stakes s a in
     set_vote c a (v\<lparr>vo_rewardClaimed := claimed, vo_stakeReturned := True\<rparr>)
       (set_stake a (if vo_stakeReturned v then st else st\<lparr>vs_active := vs_active st - vo_stake v\<rparr>) (s\<lparr>tb_token := t\<rparr>)))"

lemma set_stake_same: "set_stake a (tb_stakes s a) s = s"
  by (simp add: set_stake_def)

lemma claim_ok:
  assumes "claimSettlementRewards N a c s = (Inr (), s')"
  shows "\<exists>t. s' = released a c True t s \<and> cl_settled (tb_claims s c) \<and> vo_voted (tb_votes s c a) \<and>
    \<not> vo_rewardClaimed (tb_votes s c a) \<and> \<not> tb_paused s \<and>
    (vo_stakeReturned (tb_votes s c a) \<or> vo_stake (tb_votes s c a) \<le> vs_active (tb_stakes s a))"
  using assms
  by (intro exI [of _ "tb_token s'"])
    (auto simp: claimSettlementRewards_def Let_def return_stake_ok released_def set_stake_def set_vote_def split: if_splits)

lemma released_unreturned:
  assumes "\<not> vo_stakeReturned (tb_votes s c a)"
  shows "released a c True t s = set_vote c a ((tb_votes s c a)\<lparr>vo_rewardClaimed := True, vo_stakeReturned := True\<rparr>)
      (set_stake a ((tb_stakes s a)\<lparr>vs_active := vs_active (tb_stakes s a) - vo_stake (tb_votes s c a)\<rparr>) (s\<lparr>tb_token := t\<rparr>))"
    and "released a c (vo_rewardClaimed (tb_votes s c a)) t s = set_vote c a ((tb_votes s c a)\<lparr>vo_stakeReturned := True\<rparr>)
      (set_stake a ((tb_stakes s a)\<lparr>vs_active := vs_active (tb_stakes s a) - vo_stake (tb_votes s c a)\<rparr>) (s\<lparr>tb_token := t\<rparr>))"
  using assms by (simp_all add: released_def Let_def)

lemma withdrawSettled_ok:
  assumes "withdrawSettledStake N a c s = (Inr (), s')"
  shows "\<exists>t claimed. s' = released a c claimed t s \<and> cl_settled (tb_claims s c) \<and> vo_voted (tb_votes s c a) \<and>
    \<not> vo_stakeReturned (tb_votes s c a) \<and> vo_stake (tb_votes s c a) \<le> vs_active (tb_stakes s a)"
proof -
  let ?v = "tb_votes s c a" and ?slashed = "percentOf (vo_stake (tb_votes s c a)) (tb_slashPercent s)"
  have base: "cl_settled (tb_claims s c)" "vo_voted ?v" and unret: "\<not> vo_stakeReturned ?v"
    using assms by (auto simp: withdrawSettledStake_def Let_def)
  show ?thesis
  proof (cases "tie_result (tb_results s c)")
    case True
    with assms base unret show ?thesis
      by (intro exI [of _ "tb_token s'"] exI [of _ True])
        (auto simp: withdrawSettledStake_def Let_def return_stake_ok released_unreturned set_vote_def set_stake_def)
  next
    case False
    show ?thesis
    proof (cases "0 < vo_stake ?v - ?slashed")
      case True
      with assms base unret \<open>\<not> tie_result _\<close> show ?thesis
        by (intro exI [of _ "tb_token s'"] exI [of _ "vo_rewardClaimed ?v"])
          (auto simp: withdrawSettledStake_def Let_def return_stake_ok released_unreturned set_vote_def set_stake_def)
    next
      case False
      with assms base unret \<open>\<not> tie_result _\<close> show ?thesis
        by (intro exI [of _ "tb_token s'"] exI [of _ "vo_rewardClaimed ?v"])
          (auto simp: withdrawSettledStake_def Let_def released_unreturned set_vote_def set_stake_def)
    qed
  qed
qed

section \<open>Active stakes\<close>

definition locked :: "tb_vote \<Rightarrow> nat" where
  "locked v = (if vo_voted v \<and> \<not> vo_stakeReturned v then vo_stake v else 0)"

definition locked_total :: "'t tb_state \<Rightarrow> string \<Rightarrow> nat" where
  "locked_total s a = (\<Sum>c < tb_counter s. locked (tb_votes s c a))"

definition stakes_ok :: "'t tb_state \<Rightarrow> bool" where
  "stakes_ok s \<longleftrightarrow>
     (\<forall>a. vs_active (tb_stakes s a) = locked_total s a \<and> locked_total s a \<le> vs_total (tb_stakes s a)) \<and>
     (\<forall>c a. vo_voted (tb_votes s c a) \<longrightarrow> c < tb_counter s) \<and>
     (\<forall>c. cl_submitter (tb_claims s c) \<noteq> None \<longrightarrow> c < tb_counter s)"

lemma sum_point:
  fixes f :: "nat \<Rightarrow> nat"
  assumes "c < n"
  shows "(\<Sum>i < n. if i = c then x else f i) + f c = (\<Sum>i < n. f i) + x"
proof -
  have "(\<Sum>i \<in> {..<n} - {c}. if i = c then x else f i) = (\<Sum>i \<in> {..<n} - {c}. f i)"
    by (rule sum.cong) auto
  then show ?thesis
    using assms by (simp add: sum.remove [of "{..<n}" c])
qed

lemma set_vote_fields [simp]:
  "tb_stakes (set_vote c a x s) = tb_stakes s" "tb_counter (set_vote c a x s) = tb_counter s"
  "tb_claims (set_vote c a x s) = tb_claims s" "tb_results (set_vote c a x s) = tb_results s"
  by (simp_all add: set_vote_def)

lemma set_stake_fields [simp]:
  "tb_stakes (set_stake a x s) = (tb_stakes s)(a := x)" "tb_counter (set_stake a x s) = tb_counter s"
  "tb_claims (set_stake a x s) = tb_claims s" "tb_results (set_stake a x s) = tb_results s"
  "tb_votes (set_stake a x s) = tb_votes s"
  by (simp_all add: set_stake_def)

lemma set_claim_fields [simp]:
  "tb_stakes (set_claim c x s) = tb_stakes s" "tb_counter (set_claim c x s) = tb_counter s"
  "tb_claims (set_claim c x s) = (tb_claims s)(c := x)" "tb_results (set_claim c x s) = tb_results s"
  "tb_votes (set_claim c x s) = tb_votes s"
  by (simp_all add: set_claim_def)

lemma set_vote_votes: "tb_votes (set_vote c a x s) i b = (if i = c \<and> b = a then x else tb_votes s i b)"
  by (simp add: set_vote_def)

lemma locked_total_fields [simp]:
  "locked_total (set_stake b y s) a = locked_total s a"
  "locked_total (set_claim c z s) a = locked_total s a"
  "locked_total (s\<lparr>tb_token := t\<rparr>) a = locked_total s a"
  by (simp_all add: locked_total_def)

lemma locked_total_set_vote:
  "c < tb_counter s \<Longrightarrow> locked_total (set_vote c a x s) a + locked (tb_votes s c a) = locked_total s a + locked x"
  using sum_point [of c "tb_counter s" "locked x" "\<lambda>i. locked (tb_votes s i a)"]
  by (simp add: locked_total_def set_vote_votes if_distrib cong: if_cong)

lemma locked_total_set_vote_other: "b \<noteq> a \<Longrightarrow> locked_total (set_vote c a x s) b = locked_total s b"
  by (simp add: locked_total_def set_vote_votes)

lemma stakes_ok_create:
  assumes "stakes_ok s"
  shows "stakes_ok (set_claim (tb_counter s) x (s\<lparr>tb_counter := Suc (tb_counter s)\<rparr>))"
proof -
  have "locked (tb_votes s (tb_counter s) a) = 0" for a
    using assms by (auto simp: stakes_ok_def locked_def)
  then have "locked_total (s\<lparr>tb_counter := Suc (tb_counter s)\<rparr>) a = locked_total s a" for a
    by (simp add: locked_total_def)
  then show ?thesis using assms unfolding stakes_ok_def by (auto simp: less_Suc_eq)
qed

lemma stakes_ok_vote_update:
  assumes ok: "stakes_ok s" and c: "c < tb_counter s"
    and active: "locked_total s a + locked x = n + locked (tb_votes s c a)" and bound: "n \<le> vs_total (tb_stakes s a)"
  shows "stakes_ok (set_vote c a x (set_stake a ((tb_stakes s a)\<lparr>vs_active := n\<rparr>) (s\<lparr>tb_token := t\<rparr>)))"
proof -
  let ?s = "set_stake a ((tb_stakes s a)\<lparr>vs_active := n\<rparr>) (s\<lparr>tb_token := t\<rparr>)"
  have "locked_total (set_vote c a x ?s) a = n"
    using locked_total_set_vote [of c ?s a x] c active by simp
  moreover have "locked_total (set_vote c a x ?s) b = locked_total s b" if "b \<noteq> a" for b
    using that by (simp add: locked_total_set_vote_other)
  ultimately show ?thesis
    using ok c bound unfolding stakes_ok_def by (auto simp: set_vote_votes)
qed

lemma locked_le_total:
  assumes "c < tb_counter s"
  shows "locked (tb_votes s c a) \<le> locked_total s a"
  unfolding locked_total_def using assms by (intro member_le_sum) auto

lemma stakes_ok_release:
  assumes "stakes_ok s" "vo_voted (tb_votes s c a)"
  shows "stakes_ok (released a c claimed t s)"
proof -
  let ?v = "tb_votes s c a" and ?st = "tb_stakes s a"
  have c: "c < tb_counter s" using assms by (auto simp: stakes_ok_def)
  have active: "vs_active ?st = locked_total s a" "locked_total s a \<le> vs_total ?st" using assms(1) by (auto simp: stakes_ok_def)
  have "released a c claimed t s = set_vote c a (?v\<lparr>vo_rewardClaimed := claimed, vo_stakeReturned := True\<rparr>)
      (set_stake a (?st\<lparr>vs_active := locked_total s a - locked ?v\<rparr>) (s\<lparr>tb_token := t\<rparr>))"
    using assms(2) active(1) [symmetric] by (simp add: released_def Let_def locked_def)
  then show ?thesis
    using locked_le_total [OF c, of a] active
    by (simp only:) (rule stakes_ok_vote_update [OF assms(1) c], simp_all add: locked_def)
qed

lemma stakes_ok_same:
  assumes "stakes_ok s" "tb_votes s' = tb_votes s" "tb_stakes s' = tb_stakes s" "tb_counter s' = tb_counter s"
    and "\<And>c. cl_submitter (tb_claims s' c) = cl_submitter (tb_claims s c)"
  shows "stakes_ok s'"
  using assms by (simp add: stakes_ok_def locked_total_def)

lemma stakes_ok_call:
  assumes "stakes_ok s" "tb_call N a now op s = (Inr (), s')"
  shows "stakes_ok s'"
proof (cases op)
  case (OCreate content)
  with assms stakes_ok_create [OF assms(1)] show ?thesis
    by (auto simp: tb_call_def createClaim_def act_bind_def act_return_def Let_def split: prod.splits sum.splits)
next
  case (OStake n)
  with assms obtain t where "s' = set_stake a ((tb_stakes s a)\<lparr>vs_total := vs_total (tb_stakes s a) + n\<rparr>) (s\<lparr>tb_token := t\<rparr>)"
    by (auto simp: tb_call_def tb_stake_def fail_def split: option.splits)
  with assms(1) show ?thesis by (auto simp: stakes_ok_def trans_le_add1)
next
  case (OVote c support n)
  let ?x = "\<lparr>vo_voted = True, vo_support = support, vo_stake = n, vo_rewardClaimed = False, vo_stakeReturned = False\<rparr>"
  let ?s = "set_vote c a ?x (set_stake a ((tb_stakes s a)\<lparr>vs_active := vs_active (tb_stakes s a) + n\<rparr>) s)"
  from assms OVote obtain cl where s': "s' = set_claim c cl ?s" and old: "cl_submitter (tb_claims s c) \<noteq> None"
      "cl_submitter cl = cl_submitter (tb_claims s c)" "\<not> vo_voted (tb_votes s c a)"
      "vs_active (tb_stakes s a) + n \<le> vs_total (tb_stakes s a)"
    by (auto simp: tb_call_def tb_cast_def Let_def)
  have c: "c < tb_counter s" using assms(1) old(1) by (auto simp: stakes_ok_def)
  have "vs_active (tb_stakes s a) = locked_total s a" using assms(1) by (simp add: stakes_ok_def)
  then have "stakes_ok (set_vote c a ?x (set_stake a ((tb_stakes s a)\<lparr>vs_active := vs_active (tb_stakes s a) + n\<rparr>)
      (s\<lparr>tb_token := tb_token s\<rparr>)))"
    using old(3,4) by (intro stakes_ok_vote_update [OF assms(1) c]) (simp_all add: locked_def)
  then have "stakes_ok ?s" by simp
  then show ?thesis using s' c by (auto simp: stakes_ok_def)
next
  case (OSettle c)
  with assms(2) show ?thesis
    by (intro stakes_ok_same [OF assms(1)]) (auto simp: tb_call_def settleClaim_def Let_def)
next
  case (OClaim c)
  with assms claim_ok [of N a c s s'] stakes_ok_release [OF assms(1)] show ?thesis by (auto simp: tb_call_def)
next
  case (OWithdrawSettled c)
  with assms withdrawSettled_ok [of N a c s s'] stakes_ok_release [OF assms(1)] show ?thesis by (auto simp: tb_call_def)
next
  case (OWithdraw n)
  with assms obtain t where "s' = set_stake a ((tb_stakes s a)\<lparr>vs_total := vs_total (tb_stakes s a) - n\<rparr>) (s\<lparr>tb_token := t\<rparr>)"
      "vs_active (tb_stakes s a) + n \<le> vs_total (tb_stakes s a)"
    by (auto simp: tb_call_def withdrawStake_def Let_def)
  with assms(1) show ?thesis by (auto simp: stakes_ok_def)
next
  case (OParameter p v)
  with assms(2) show ?thesis
    by (intro stakes_ok_same [OF assms(1)]; cases p) (auto simp: tb_call_def set_parameter_def)
next
  case (OPause b)
  with assms(2) show ?thesis
    by (intro stakes_ok_same [OF assms(1)]) (auto simp: tb_call_def set_paused_def)
qed

lemma reach_induct:
  assumes "tb_reach N s" "\<And>t. P (new_truth_bounty t)"
    and "\<And>s s' a now op. tb_reach N s \<Longrightarrow> P s \<Longrightarrow> tb_call N a now op s = (Inr (), s') \<Longrightarrow> P s'"
  shows "P s"
  using assms(1)
proof (induction rule: tb_reach.induct)
  case (reach_call s sender now op r s')
  then show ?case using assms(3) [of s sender now op s'] by (cases r) (auto dest: revert_changes_nothing)
qed (rule assms(2))

lemma stakes_ok_reach:
  assumes "tb_reach N s"
  shows "stakes_ok s"
  using assms
proof (rule reach_induct)
  show "stakes_ok (new_truth_bounty t)" for t
    by (simp add: stakes_ok_def new_truth_bounty_def locked_total_def locked_def no_vote_def no_claim_def)
qed (rule stakes_ok_call)

lemma active_fits_call:
  assumes "\<forall>a. fits256 (vs_active (tb_stakes s a))" "tb_call N b now op s = (Inr (), s')"
  shows "\<forall>a. fits256 (vs_active (tb_stakes s' a))"
proof (cases op)
  case (OClaim c)
  with assms(2) claim_ok [of N b c s s'] have "\<exists>t. s' = released b c True t s" by (auto simp: tb_call_def)
  with assms(1) show ?thesis by (auto simp: released_def Let_def fits256_def less_imp_diff_less)
next
  case (OWithdrawSettled c)
  with assms(2) withdrawSettled_ok [of N b c s s'] have "\<exists>t claimed. s' = released b c claimed t s" by (auto simp: tb_call_def)
  with assms(1) show ?thesis by (auto simp: released_def Let_def fits256_def less_imp_diff_less)
next
  case (OParameter p v)
  with assms show ?thesis by (cases p) (auto simp: tb_call_def set_parameter_def)
next
  case (OStake n)
  with assms show ?thesis by (auto simp: tb_call_def tb_stake_def fail_def split: option.splits)
next
  case (OCreate content)
  with assms show ?thesis
    by (auto simp: tb_call_def createClaim_def act_bind_def act_return_def Let_def split: prod.splits sum.splits)
qed (use assms in \<open>auto simp: tb_call_def tb_cast_def settleClaim_def withdrawStake_def set_paused_def Let_def\<close>)

lemma active_fits_reach:
  assumes "tb_reach N s"
  shows "\<forall>a. fits256 (vs_active (tb_stakes s a))"
  using assms
proof (rule reach_induct)
  show "\<forall>a. fits256 (vs_active (tb_stakes (new_truth_bounty t) a))" for t
    by (simp add: new_truth_bounty_def fits256_def)
qed (rule active_fits_call)

section \<open>Totals and results\<close>

definition voters :: "'t tb_state \<Rightarrow> nat \<Rightarrow> string set" where
  "voters s c = {a. vo_voted (tb_votes s c a)}"

definition side_total :: "'t tb_state \<Rightarrow> nat \<Rightarrow> bool \<Rightarrow> nat" where
  "side_total s c side = (\<Sum>a \<in> voters s c. if vo_support (tb_votes s c a) = side then vo_stake (tb_votes s c a) else 0)"

definition result_ok :: "tb_claim \<Rightarrow> tb_result \<Rightarrow> bool" where
  "result_ok cl r \<longleftrightarrow> (if is_tie (cl_for cl) (cl_against cl) then r = no_result
     else re_winner r = (if re_passed r then cl_for cl else cl_against cl) \<and>
       re_loser r = (if re_passed r then cl_against cl else cl_for cl) \<and>
       re_slashed r \<le> re_loser r \<and> re_rewards r \<le> re_slashed r)"

definition totals_ok :: "'t tb_state \<Rightarrow> bool" where
  "totals_ok s \<longleftrightarrow> (\<forall>c. finite (voters s c) \<and> cl_for (tb_claims s c) = side_total s c True \<and>
       cl_against (tb_claims s c) = side_total s c False \<and>
       cl_total (tb_claims s c) = cl_for (tb_claims s c) + cl_against (tb_claims s c))"

definition results_ok :: "'t tb_state \<Rightarrow> bool" where
  "results_ok s \<longleftrightarrow> tb_slashPercent s \<le> 100 \<and> tb_rewardPercent s \<le> 100 \<and>
     (\<forall>c. cl_settled (tb_claims s c) \<longrightarrow> result_ok (tb_claims s c) (tb_results s c))"

text \<open>Only voting changes the votes' sides and stakes.\<close>

definition same_ballots :: "'t tb_state \<Rightarrow> 't tb_state \<Rightarrow> bool" where
  "same_ballots s s' \<longleftrightarrow> (\<forall>c a. vo_voted (tb_votes s' c a) = vo_voted (tb_votes s c a) \<and>
     vo_support (tb_votes s' c a) = vo_support (tb_votes s c a) \<and> vo_stake (tb_votes s' c a) = vo_stake (tb_votes s c a))"

lemma same_ballots_totals: "same_ballots s s' \<Longrightarrow> voters s' c = voters s c \<and> side_total s' c side = side_total s c side"
  by (simp add: same_ballots_def voters_def side_total_def cong: if_cong)

lemma released_fields [simp]:
  "tb_claims (released a c claimed t s) = tb_claims s" "tb_results (released a c claimed t s) = tb_results s"
  "tb_slashPercent (released a c claimed t s) = tb_slashPercent s"
  "tb_rewardPercent (released a c claimed t s) = tb_rewardPercent s"
  by (simp_all add: released_def Let_def set_vote_def set_stake_def)

lemma same_ballots_released: "same_ballots s (released a c claimed t s)"
  by (simp add: same_ballots_def released_def Let_def set_vote_votes)

lemma totals_ok_same:
  "totals_ok s \<Longrightarrow> same_ballots s s' \<Longrightarrow>
   (\<And>c. cl_for (tb_claims s' c) = cl_for (tb_claims s c) \<and> cl_against (tb_claims s' c) = cl_against (tb_claims s c) \<and>
     cl_total (tb_claims s' c) = cl_total (tb_claims s c)) \<Longrightarrow> totals_ok s'"
  by (simp add: totals_ok_def same_ballots_totals)

lemma totals_ok_vote:
  assumes "totals_ok s" "\<not> vo_voted (tb_votes s c a)" "s' = set_claim c cl s''" "tb_claims s'' = tb_claims s"
    and "tb_votes s'' = (tb_votes s)(c := (tb_votes s c)(a := x))" "vo_voted x"
    and "cl_for cl = cl_for (tb_claims s c) + (if vo_support x then vo_stake x else 0)"
    and "cl_against cl = cl_against (tb_claims s c) + (if vo_support x then 0 else vo_stake x)"
    and "cl_total cl = cl_total (tb_claims s c) + vo_stake x"
  shows "totals_ok s'"
proof -
  have a: "a \<notin> voters s c" using assms(2) by (simp add: voters_def)
  have voters: "voters s' d = (if d = c then insert a (voters s c) else voters s d)" for d
    using assms(3,5,6) by (auto simp: voters_def)
  have "side_total s' c side = side_total s c side + (if vo_support x = side then vo_stake x else 0)" for side
  proof -
    have "(\<Sum>b \<in> voters s c. if vo_support (tb_votes s' c b) = side then vo_stake (tb_votes s' c b) else 0) = side_total s c side"
      unfolding side_total_def using a assms(3,5) by (intro sum.cong) auto
    moreover have "tb_votes s' c a = x" using assms(3,5) by simp
    ultimately show ?thesis
      using a assms(1) voters [of c] by (simp add: side_total_def totals_ok_def)
  qed
  moreover have "side_total s' d side = side_total s d side" if "d \<noteq> c" for d side
    using that voters [of d] assms(3,5) by (simp add: side_total_def cong: if_cong)
  ultimately show ?thesis
    using assms(1,3,4,7-9) voters unfolding totals_ok_def by auto
qed

lemma totals_ok_create:
  assumes "totals_ok s" "stakes_ok s" "cl_for x = 0" "cl_against x = 0" "cl_total x = 0"
  shows "totals_ok (set_claim (tb_counter s) x (s\<lparr>tb_counter := Suc (tb_counter s)\<rparr>))"
proof -
  have none: "\<not> vo_voted (tb_votes s (tb_counter s) a)" for a using assms(2) by (auto simp: stakes_ok_def)
  then have "voters s (tb_counter s) = {}" by (simp add: voters_def)
  then show ?thesis using assms(1,3-5) by (simp add: totals_ok_def voters_def side_total_def cong: if_cong)
qed

lemma totals_ok_call:
  assumes "totals_ok s" "stakes_ok s" "tb_call N a now op s = (Inr (), s')"
  shows "totals_ok s'"
proof (cases op)
  case (OCreate content)
  with assms(3) show ?thesis
    by (auto simp: tb_call_def createClaim_def act_bind_def act_return_def Let_def
        intro!: totals_ok_create [OF assms(1,2)] split: prod.splits sum.splits)
next
  case (OVote c support n)
  let ?x = "\<lparr>vo_voted = True, vo_support = support, vo_stake = n, vo_rewardClaimed = False, vo_stakeReturned = False\<rparr>"
  let ?cl = "(tb_claims s c)\<lparr>cl_for := (if support then cl_for (tb_claims s c) + n else cl_for (tb_claims s c)),
     cl_against := (if support then cl_against (tb_claims s c) else cl_against (tb_claims s c) + n),
     cl_total := cl_total (tb_claims s c) + n\<rparr>"
  let ?s = "set_vote c a ?x (set_stake a ((tb_stakes s a)\<lparr>vs_active := vs_active (tb_stakes s a) + n\<rparr>) s)"
  from assms(3) OVote have "s' = set_claim c ?cl ?s" "\<not> vo_voted (tb_votes s c a)"
    by (simp_all add: tb_call_def tb_cast_def Let_def)
  then show ?thesis
    by (intro totals_ok_vote [OF assms(1), of c a s' ?cl ?s ?x]) (simp_all add: set_vote_def)
next
  case (OClaim c)
  with assms(3) claim_ok [of N a c s s'] obtain t where "s' = released a c True t s" by (auto simp: tb_call_def)
  with same_ballots_released show ?thesis by (intro totals_ok_same [OF assms(1)]) simp_all
next
  case (OWithdrawSettled c)
  with assms(3) withdrawSettled_ok [of N a c s s'] obtain t claimed where "s' = released a c claimed t s"
    by (auto simp: tb_call_def)
  with same_ballots_released show ?thesis by (intro totals_ok_same [OF assms(1)]) simp_all
next
  case (OParameter p v)
  with assms(3) show ?thesis
    by (intro totals_ok_same [OF assms(1)]; cases p) (auto simp: tb_call_def set_parameter_def same_ballots_def)
next
  case (OStake n)
  with assms(3) show ?thesis
    by (intro totals_ok_same [OF assms(1)])
      (auto simp: tb_call_def tb_stake_def fail_def same_ballots_def split: option.splits)
next
  case (OSettle c)
  with assms(3) show ?thesis
    by (intro totals_ok_same [OF assms(1)]) (auto simp: tb_call_def settleClaim_def same_ballots_def Let_def)
next
  case (OWithdraw n)
  with assms(3) show ?thesis
    by (intro totals_ok_same [OF assms(1)]) (auto simp: tb_call_def withdrawStake_def same_ballots_def Let_def)
next
  case (OPause b)
  with assms(3) show ?thesis
    by (intro totals_ok_same [OF assms(1)]) (auto simp: tb_call_def set_paused_def same_ballots_def)
qed

lemma totals_ok_reach:
  assumes "tb_reach N s"
  shows "totals_ok s"
  using assms
proof (rule reach_induct)
  show "totals_ok (new_truth_bounty t)" for t
    by (simp add: totals_ok_def new_truth_bounty_def voters_def side_total_def no_claim_def no_vote_def)
qed (auto intro: totals_ok_call stakes_ok_reach)

lemma percentOf_le: "p \<le> 100 \<Longrightarrow> percentOf v p \<le> v"
proof -
  assume "p \<le> 100"
  then have "v * p \<le> v * 100" by (rule mult_left_mono) simp
  then have "v * p div 100 \<le> v * 100 div 100" by (rule div_le_mono)
  then show ?thesis by (simp add: percentOf_def)
qed

lemma settlement_ok:
  "tb_slashPercent s \<le> 100 \<Longrightarrow> tb_rewardPercent s \<le> 100 \<Longrightarrow> result_ok (cl\<lparr>cl_settled := True\<rparr>) (settlement s cl)"
  by (auto simp: result_ok_def settlement_def Let_def percentOf_le)

lemma results_ok_same:
  assumes "results_ok s" "tb_slashPercent s' \<le> 100" "tb_rewardPercent s' \<le> 100"
    and "\<And>c. cl_settled (tb_claims s' c) \<Longrightarrow> tb_claims s' c = tb_claims s c \<and> tb_results s' c = tb_results s c"
  shows "results_ok s'"
  using assms by (metis results_ok_def)

lemma results_ok_call:
  assumes "results_ok s" "tb_call N a now op s = (Inr (), s')"
  shows "results_ok s'"
proof -
  have percents: "tb_slashPercent s \<le> 100" "tb_rewardPercent s \<le> 100" using assms(1) by (auto simp: results_ok_def)
  show ?thesis
  proof (cases op)
    case (OCreate content)
    with assms(2) percents show ?thesis
      by (intro results_ok_same [OF assms(1)])
        (auto simp: tb_call_def createClaim_def act_bind_def act_return_def Let_def set_claim_def split: prod.splits sum.splits if_splits)
  next
    case (OSettle c)
    with assms percents settlement_ok [OF percents, of "tb_claims s c"] show ?thesis
      by (auto simp: tb_call_def settleClaim_def Let_def results_ok_def set_claim_def)
  next
    case (OVote c support n)
    with assms(2) percents show ?thesis
      by (intro results_ok_same [OF assms(1)])
        (auto simp: tb_call_def tb_cast_def Let_def set_claim_def set_vote_def set_stake_def split: if_splits)
  next
    case (OClaim c)
    with assms(2) claim_ok [of N a c s s'] obtain t where "s' = released a c True t s" by (auto simp: tb_call_def)
    with percents show ?thesis
      by (intro results_ok_same [OF assms(1)]) (auto simp: released_def Let_def set_vote_def set_stake_def)
  next
    case (OWithdrawSettled c)
    with assms(2) withdrawSettled_ok [of N a c s s'] obtain t claimed where "s' = released a c claimed t s"
      by (auto simp: tb_call_def)
    with percents show ?thesis
      by (intro results_ok_same [OF assms(1)]) (auto simp: released_def Let_def set_vote_def set_stake_def)
  next
    case (OParameter p v)
    with assms(2) percents show ?thesis
      by (intro results_ok_same [OF assms(1)]; cases p) (auto simp: tb_call_def set_parameter_def)
  next
    case (OStake n)
    with assms(2) percents show ?thesis
      by (intro results_ok_same [OF assms(1)])
        (auto simp: tb_call_def tb_stake_def fail_def set_stake_def split: option.splits)
  next
    case (OWithdraw n)
    with assms(2) percents show ?thesis
      by (intro results_ok_same [OF assms(1)]) (auto simp: tb_call_def withdrawStake_def Let_def set_stake_def)
  next
    case (OPause b)
    with assms(2) percents show ?thesis
      by (intro results_ok_same [OF assms(1)]) (auto simp: tb_call_def set_paused_def)
  qed
qed

lemma results_ok_reach:
  assumes "tb_reach N s"
  shows "results_ok s"
  using assms
proof (rule reach_induct)
  show "results_ok (new_truth_bounty t)" for t
    by (simp add: results_ok_def new_truth_bounty_def no_claim_def)
qed (rule results_ok_call)

definition claims_exist :: "'t tb_state \<Rightarrow> bool" where
  "claims_exist s \<longleftrightarrow> (\<forall>c. cl_submitter (tb_claims s c) = None \<longrightarrow> cl_total (tb_claims s c) = 0)"

lemma claims_exist_same:
  "claims_exist s \<Longrightarrow> tb_claims s' = tb_claims s \<Longrightarrow> claims_exist s'"
  by (simp add: claims_exist_def)

lemma claims_exist_call:
  assumes "claims_exist s" "tb_call N a now op s = (Inr (), s')"
  shows "claims_exist s'"
proof (cases op)
  case (OCreate content)
  with assms show ?thesis
    by (auto simp: tb_call_def createClaim_def act_bind_def act_return_def Let_def claims_exist_def set_claim_def
        split: prod.splits sum.splits)
next
  case (OVote c support n)
  with assms show ?thesis by (auto simp: tb_call_def tb_cast_def Let_def claims_exist_def)
next
  case (OSettle c)
  with assms show ?thesis by (auto simp: tb_call_def settleClaim_def Let_def claims_exist_def)
next
  case (OClaim c)
  with assms(2) claim_ok [of N a c s s'] show ?thesis
    by (intro claims_exist_same [OF assms(1)]) (auto simp: tb_call_def)
next
  case (OWithdrawSettled c)
  with assms(2) withdrawSettled_ok [of N a c s s'] show ?thesis
    by (intro claims_exist_same [OF assms(1)]) (auto simp: tb_call_def)
next
  case (OParameter p v)
  with assms(2) show ?thesis
    by (intro claims_exist_same [OF assms(1)]; cases p) (auto simp: tb_call_def set_parameter_def)
next
  case (OStake n)
  with assms(2) show ?thesis
    by (intro claims_exist_same [OF assms(1)]) (auto simp: tb_call_def tb_stake_def fail_def split: option.splits)
next
  case (OWithdraw n)
  with assms(2) show ?thesis
    by (intro claims_exist_same [OF assms(1)]) (auto simp: tb_call_def withdrawStake_def Let_def)
next
  case (OPause b)
  with assms(2) show ?thesis
    by (intro claims_exist_same [OF assms(1)]) (auto simp: tb_call_def set_paused_def)
qed

lemma claims_exist_reach:
  assumes "tb_reach N s"
  shows "claims_exist s"
  using assms
proof (rule reach_induct)
  show "claims_exist (new_truth_bounty t)" for t
    by (simp add: claims_exist_def new_truth_bounty_def no_claim_def)
qed (rule claims_exist_call)

section \<open>Properties\<close>

lemma sum_div_le:
  fixes f :: "'a \<Rightarrow> nat"
  assumes "finite A" "0 < w" "(\<Sum>x \<in> A. f x) \<le> w"
  shows "(\<Sum>x \<in> A. f x * r div w) \<le> r"
proof -
  have "(\<Sum>x \<in> A. f x * r div w) * w \<le> (\<Sum>x \<in> A. f x * r)"
    unfolding sum_distrib_right by (rule sum_mono) (simp add: div_times_less_eq_dividend)
  also have "\<dots> \<le> w * r" using assms(3) by (simp add: sum_distrib_right [symmetric])
  finally show ?thesis using assms(2) by (simp add: mult.commute [of w])
qed

text \<open>C20: in every reachable state the active stake of a verifier is exactly the stake of its votes that
  was not returned, never more than it deposited; a claim's totals are the stakes of its voters on
  each side.\<close>

theorem books_balance:
  assumes "tb_reach N s"
  shows "vs_active (tb_stakes s a) = (\<Sum>c < tb_counter s. locked (tb_votes s c a)) \<and>
    vs_active (tb_stakes s a) \<le> vs_total (tb_stakes s a) \<and>
    cl_for (tb_claims s c) = side_total s c True \<and> cl_against (tb_claims s c) = side_total s c False \<and>
    cl_total (tb_claims s c) = cl_for (tb_claims s c) + cl_against (tb_claims s c)"
  using stakes_ok_reach [OF assms] totals_ok_reach [OF assms]
  by (auto simp: stakes_ok_def totals_ok_def locked_total_def)


lemma pay_gains:
  assumes "erc20_laws (te_token N)" "a \<noteq> te_self N" "tk_transfer (te_token N) (te_self N) a n t = Some t'"
  shows "tk_balance (te_token N) t' a = tk_balance (te_token N) t a + n"
  using erc20_laws.transfer_moves [OF assms(1,3)] assms(2) by simp

lemma claim_pays_stake:
  assumes "erc20_laws (te_token N)" "a \<noteq> te_self N" "claimSettlementRewards N a c s = (Inr (), s')"
    and "\<not> vo_stakeReturned (tb_votes s c a)"
  shows "tk_balance (te_token N) (tb_token s) a + vo_stake (tb_votes s c a) \<le> tk_balance (te_token N) (tb_token s') a"
proof -
  have tok: "tb_token (set_vote c a x (set_stake a y (s\<lparr>tb_token := t\<rparr>))) = t" for x y t
    by (simp add: set_vote_def set_stake_def)
  let ?v = "tb_votes s c a" and ?r = "tb_results s c"
  let ?reward = "vo_stake ?v * re_rewards ?r div re_winner ?r"
  show ?thesis
  proof (cases "\<not> tie_result ?r \<and> 0 < ?reward")
    case True
    with assms(3,4) obtain t t' where "tk_transfer (te_token N) (te_self N) a ?reward (tb_token s) = Some t"
        "tk_transfer (te_token N) (te_self N) a (vo_stake ?v) t = Some t'" "tb_token s' = t'"
      by (auto simp: claimSettlementRewards_def Let_def return_stake_ok set_vote_def set_stake_def)
    with pay_gains [OF assms(1,2)] show ?thesis by fastforce
  next
    case False
    with assms(3,4) obtain t where "tk_transfer (te_token N) (te_self N) a (vo_stake ?v) (tb_token s) = Some t" "tb_token s' = t"
      by (auto simp: claimSettlementRewards_def Let_def return_stake_ok set_vote_def set_stake_def split: if_splits)
    with pay_gains [OF assms(1,2)] show ?thesis by fastforce
  qed
qed

text \<open>C22: a stake is paid out twice. Claiming the rewards of a settled claim transfers the stake of
  the vote back but leaves the verifier's deposit as it was, so the same amount can be withdrawn
  again at once, as long as the contract holds it, at the expense of the other verifiers.\<close>

theorem stake_paid_twice:
  assumes "erc20_laws (te_token N)" "tb_reach N s" "a \<noteq> te_self N"
    and "claimSettlementRewards N a c s = (Inr (), s1)" "\<not> vo_stakeReturned (tb_votes s c a)"
    and "vo_stake (tb_votes s c a) \<le> tk_balance (te_token N) (tb_token s1) (te_self N)"
  shows "\<exists>s2. withdrawStake N a (vo_stake (tb_votes s c a)) s1 = (Inr (), s2) \<and>
    tk_balance (te_token N) (tb_token s) a + 2 * vo_stake (tb_votes s c a) \<le> tk_balance (te_token N) (tb_token s2) a"
proof -
  let ?n = "vo_stake (tb_votes s c a)"
  from claim_ok [OF assms(4)] assms(5) obtain t where s1: "s1 = released a c True t s" and
      ok: "\<not> tb_paused s" "?n \<le> vs_active (tb_stakes s a)" by auto
  have bound: "vs_active (tb_stakes s a) \<le> vs_total (tb_stakes s a)" "fits256 (vs_active (tb_stakes s a))"
    using stakes_ok_reach [OF assms(2)] active_fits_reach [OF assms(2)] by (auto simp: stakes_ok_def)
  have stakes: "vs_active (tb_stakes s1 a) + ?n = vs_active (tb_stakes s a)" "vs_total (tb_stakes s1 a) = vs_total (tb_stakes s a)"
      "\<not> tb_paused s1"
    using ok assms(5) by (simp_all add: s1 released_def Let_def set_vote_def set_stake_def)
  obtain t2 where t2: "tk_transfer (te_token N) (te_self N) a ?n (tb_token s1) = Some t2"
    using erc20_laws.transfer_succeeds [OF assms(1,6)] by blast
  then have "withdrawStake N a ?n s1 = (Inr (), set_stake a ((tb_stakes s1 a)\<lparr>vs_total := vs_total (tb_stakes s1 a) - ?n\<rparr>)
      (s1\<lparr>tb_token := t2\<rparr>))"
    using stakes bound by (simp add: withdrawStake_def Let_def)
  moreover have "tk_balance (te_token N) (tb_token s) a + 2 * ?n \<le> tk_balance (te_token N) t2 a"
    using pay_gains [OF assms(1,3) t2] claim_pays_stake [OF assms(1,3,4,5)] by simp
  ultimately show ?thesis by (intro exI) (auto simp: set_stake_def)
qed

section \<open>A run\<close>

fun tb_run :: "'t tb_env \<Rightarrow> (string \<times> nat \<times> tb_op) list \<Rightarrow> 't tb_state \<Rightarrow> 't tb_state" where
  "tb_run N [] s = s"
| "tb_run N ((a, now, op) # calls) s = tb_run N calls (snd (tb_call N a now op s))"

lemma tb_run_reach: "tb_reach N s \<Longrightarrow> tb_reach N (tb_run N calls s)"
proof (induction calls arbitrary: s)
  case (Cons call calls)
  obtain a now op where call: "call = (a, now, op)" by (cases call)
  obtain r s' where "tb_call N a now op s = (r, s')" by fastforce
  with Cons call show ?case by (auto intro: reach_call)
qed simp

definition demo_bounty_env :: "(string \<Rightarrow> nat) tb_env" where
  "demo_bounty_env = \<lparr>te_token = plain_token, te_self = ''bounty'', te_governor = (\<lambda>a. a = ''gov''), te_pauser = (\<lambda>a. False)\<rparr>"

definition demo_calls :: "(string \<times> nat \<times> tb_op) list" where
  "demo_calls = [(''gov'', 0, OParameter PMinStake 1), (''gov'', 0, OParameter PWindow 86400),
     (''alice'', 1, OStake 100), (''bob'', 1, OStake 100), (''alice'', 2, OCreate ''claim''),
     (''alice'', 3, OVote 0 True 60), (''bob'', 4, OVote 0 False 40), (''bob'', 90000, OSettle 0)]"

definition demo_settled :: "(string \<Rightarrow> nat) tb_state" where
  "demo_settled = tb_run demo_bounty_env demo_calls (new_truth_bounty (\<lambda>a. if a = ''bounty'' then 0 else 100))"

lemma demo_reach: "tb_reach demo_bounty_env demo_settled"
  unfolding demo_settled_def by (intro tb_run_reach reach_new)

lemma demo_settled_facts:
  "tb_votes demo_settled 0 ''alice'' = \<lparr>vo_voted = True, vo_support = True, vo_stake = 60, vo_rewardClaimed = False, vo_stakeReturned = False\<rparr>"
  "tb_results demo_settled 0 = \<lparr>re_passed = True, re_rewards = 6, re_slashed = 8, re_winner = 60, re_loser = 40\<rparr>"
  "cl_settled (tb_claims demo_settled 0)" "\<not> tb_paused demo_settled" "tb_token demo_settled ''bounty'' = 200"
  "vs_active (tb_stakes demo_settled ''alice'') = 60" "tb_token demo_settled ''alice'' = 0"
  by (simp_all add: demo_settled_def demo_calls_def demo_bounty_env_def tb_call_def set_parameter_def tb_stake_def createClaim_def
      tb_cast_def settleClaim_def settlement_def is_tie_def determineOutcome_def percentOf_def new_truth_bounty_def need_def
      plain_token_def moved_def act_bind_def act_return_def set_stake_def set_claim_def set_vote_def no_vote_def no_claim_def
      no_result_def fits256_def Let_def)

definition demo_claimed :: "(string \<Rightarrow> nat) tb_state" where
  "demo_claimed = snd (claimSettlementRewards demo_bounty_env ''alice'' 0 demo_settled)"

lemma demo_claims: "claimSettlementRewards demo_bounty_env ''alice'' 0 demo_settled = (Inr (), demo_claimed)"
    "tb_token demo_claimed ''bounty'' = 134"
  using demo_settled_facts
  by (simp_all add: demo_claimed_def claimSettlementRewards_def atomically_def Let_def need_def tie_result_def return_stake_def
      pay_def demo_bounty_env_def plain_token_def moved_def fits256_def set_vote_def set_stake_def)

lemma books_balance_witness:
  "vs_active (tb_stakes demo_settled ''alice'') \<le> vs_total (tb_stakes demo_settled ''alice'') \<and>
   cl_for (tb_claims demo_settled 0) = side_total demo_settled 0 True \<and> vs_active (tb_stakes demo_settled ''alice'') = 60"
  using books_balance [OF demo_reach, of "''alice''" 0] demo_settled_facts by blast


lemma stake_paid_twice_witness:
  "\<exists>s2 :: (string \<Rightarrow> nat) tb_state. withdrawStake demo_bounty_env ''alice'' 60 demo_claimed = (Inr (), s2) \<and> 120 \<le> tb_token s2 ''alice''"
proof -
  have laws: "erc20_laws (te_token demo_bounty_env)"
    using plain.erc20_laws_axioms by (simp add: demo_bounty_env_def)
  have "tk_balance (te_token demo_bounty_env) t b = t b" for t b by (simp add: demo_bounty_env_def plain_token_def)
  then show ?thesis
    using stake_paid_twice [OF laws demo_reach _ demo_claims(1)] demo_settled_facts demo_claims(2)
    by (simp add: demo_bounty_env_def)
qed

end
