(* ===== verification/ClaimScripts.thy ===== *)
theory ClaimScripts
  imports JsNumber TruthBountyBooks
begin

text \<open>
  The operator scripts \<open>scripts/resolveClaim.ts\<close>, \<open>scripts/claimRewards.ts\<close> and \<open>scripts/stake.ts\<close>
  against the contracts they call. A script ends with an exit code and the state it leaves on the
  chain. \<open>script_host\<close>: the environment, the signer, the local clock and the time of the block that
  takes the transaction, and which remote reads fail (gas and the node are always there). Window ends
  are below \<open>2 ^ 53\<close>, where \<open>Number()\<close> is exact. Console output is left out except the
  predicted outcome.
\<close>

record script_host =
  sh_env :: "string \<Rightarrow> string option"
  sh_signer :: string
  sh_now :: int                               \<comment> \<open>\<open>Math.floor(Date.now() / 1000)\<close>\<close>
  sh_blockTime :: nat
  sh_readFails :: "string \<Rightarrow> bool"

datatype prediction = PTie | PPassed | PFailed

text \<open>\<open>BigInt(process.env.CLAIM_ID)\<close> as a \<open>uint256\<close> argument; outside the range ethers throws.\<close>

definition uint_arg :: "int \<Rightarrow> nat option" where
  "uint_arg n = (if 0 \<le> n \<and> n < 2 ^ 256 then Some (nat n) else None)"

definition claim_arg :: "script_host \<Rightarrow> nat option" where
  "claim_arg H = (if \<not> truthy_str (sh_env H ''TRUTH_BOUNTY_CONTRACT_ADDRESS'') \<or> \<not> truthy_str (sh_env H ''CLAIM_ID'') then None
     else case parse_bigint (the (sh_env H ''CLAIM_ID'')) of None \<Rightarrow> None | Some n \<Rightarrow> uint_arg n)"

section \<open>Settling a claim\<close>

text \<open>The outcome the script announces, with its hard-wired threshold; none where the division fails.\<close>

definition predicted :: "tb_claim \<Rightarrow> prediction option" where
  "predicted claim = (let totalStake = cl_for claim + cl_against claim in
     if totalStake = 0 then None
     else let forPercent = cl_for claim * 100 div totalStake; isTie = (cl_for claim = cl_against claim \<and> 0 < totalStake) in
       Some (if isTie then PTie else if 60 \<le> forPercent then PPassed else PFailed))"

definition resolveClaim :: "script_host \<Rightarrow> 't tb_state \<Rightarrow> nat \<times> prediction option \<times> 't tb_state" where
  "resolveClaim H s = (case claim_arg H of
     None \<Rightarrow> (1, None, s)
   | Some claimId \<Rightarrow> (let claim = tb_claims s claimId in
       if sh_readFails H ''getBalance'' \<or> sh_readFails H ''claims'' then (1, None, s)
       else if cl_settled claim then (1, None, s)
       else if sh_now H < int (cl_windowEnd claim) then (1, None, s)
       else if cl_total claim = 0 then (1, None, s)
       else case predicted claim of
         None \<Rightarrow> (1, None, s)
       | Some p \<Rightarrow> (case settleClaim (sh_blockTime H) claimId s of
           (Inl e, s') \<Rightarrow> (1, Some p, s')
         | (Inr u, s') \<Rightarrow> if sh_readFails H ''updatedClaim'' \<or> sh_readFails H ''settlementResults'' then (1, Some p, s') else (0, Some p, s'))))"

section \<open>Claiming rewards\<close>

definition claimRewards :: "'t tb_env \<Rightarrow> script_host \<Rightarrow> 't tb_state \<Rightarrow> nat \<times> 't tb_state" where
  "claimRewards N H s = (case claim_arg H of
     None \<Rightarrow> (1, s)
   | Some claimId \<Rightarrow>
       if sh_readFails H ''getBalance'' \<or> sh_readFails H ''votes'' then (1, s)
       else if \<not> vo_voted (tb_votes s claimId (sh_signer H)) then (1, s)
       else (case claimSettlementRewards N (sh_signer H) claimId s of
           (Inl e, s') \<Rightarrow> (1, s')
         | (Inr u, s') \<Rightarrow> if sh_readFails H ''updatedVote'' then (1, s') else (0, s')))"

section \<open>Staking tokens\<close>

text \<open>\<open>TruthBountyToken.stake\<close>: the token contract holds the stakes itself.\<close>

record 't token_state =
  ts_token :: 't
  ts_verifierStake :: "string \<Rightarrow> nat"

definition token_stake :: "'t erc20 \<Rightarrow> string \<Rightarrow> string \<Rightarrow> nat \<Rightarrow> ('t token_state, unit) action" where
  "token_stake T self sender amount s =
     (if amount = 0 then fail ''Invalid amount'' s
      else case tk_transfer T sender self amount (ts_token s) of
        None \<Rightarrow> fail ''ERC20InsufficientBalance'' s
      | Some t \<Rightarrow> if \<not> fits256 (ts_verifierStake s sender + amount) then fail ''Panic(0x11)'' s
          else (Inr (), s\<lparr>ts_token := t,
             ts_verifierStake := (ts_verifierStake s)(sender := ts_verifierStake s sender + amount)\<rparr>))"

text \<open>\<open>approve(tokenAddress, amount)\<close> only sets an allowance, which \<open>stake\<close> does not use; its argument
  must be a \<open>uint256\<close>.\<close>

definition stake_amount :: "script_host \<Rightarrow> int option" where
  "stake_amount H = (if truthy_str (sh_env H ''AMOUNT'') then parse_bigint (the (sh_env H ''AMOUNT'')) else Some 100)"

definition wei :: "int \<Rightarrow> int" where
  "wei n = n * 10 ^ 18"

definition stake_main :: "'t erc20 \<Rightarrow> script_host \<Rightarrow> 't token_state \<Rightarrow> nat \<times> 't token_state" where
  "stake_main T H s =
     (if \<not> truthy_str (sh_env H ''TRUTH_BOUNTY_TOKEN_ADDRESS'') then (1, s)
      else if sh_readFails H ''getBalance'' \<or> sh_readFails H ''balanceOf'' then (1, s)
      else case stake_amount H of
        None \<Rightarrow> (1, s)
      | Some n \<Rightarrow> (let stakeAmountWei = wei n in
          if int (tk_balance T (ts_token s) (sh_signer H)) < stakeAmountWei then (1, s)
          else case uint_arg stakeAmountWei of
            None \<Rightarrow> (1, s)
          | Some amount \<Rightarrow> (case token_stake T (the (sh_env H ''TRUTH_BOUNTY_TOKEN_ADDRESS'')) (sh_signer H) amount s of
              (Inl e, s') \<Rightarrow> (1, s')
            | (Inr u, s') \<Rightarrow> if sh_readFails H ''verifierStake'' then (1, s') else (0, s'))))"

section \<open>Properties\<close>

lemma predicted_tie: "predicted claim = Some p \<Longrightarrow> p = PTie \<longleftrightarrow> is_tie (cl_for claim) (cl_against claim)"
  by (auto simp: predicted_def is_tie_def Let_def split: if_splits)

lemma predicted_passed:
  "predicted claim = Some p \<Longrightarrow> p = PPassed \<longleftrightarrow> \<not> is_tie (cl_for claim) (cl_against claim) \<and>
     determineOutcome 60 (cl_for claim) (cl_against claim)"
  by (auto simp: predicted_def is_tie_def determineOutcome_def Let_def split: if_splits)

lemma settle_ok:
  "settleClaim now c s = (Inr (), s') \<longleftrightarrow> \<not> tb_paused s \<and> cl_submitter (tb_claims s c) \<noteq> None \<and>
     cl_windowEnd (tb_claims s c) \<le> now \<and> \<not> cl_settled (tb_claims s c) \<and> 0 < cl_total (tb_claims s c) \<and>
     (is_tie (cl_for (tb_claims s c)) (cl_against (tb_claims s c)) \<or> fits256 (cl_for (tb_claims s c) * 100)) \<and>
     fits256 (re_slashed (settlement s (tb_claims s c))) \<and> fits256 (re_rewards (settlement s (tb_claims s c))) \<and>
     (is_tie (cl_for (tb_claims s c)) (cl_against (tb_claims s c)) \<or>
       fits256 (tb_totalSlashed s + re_slashed (settlement s (tb_claims s c))) \<and>
       fits256 (tb_totalRewarded s + re_rewards (settlement s (tb_claims s c)))) \<and>
     s' = set_claim c ((tb_claims s c)\<lparr>cl_settled := True\<rparr>)
        (s\<lparr>tb_results := (tb_results s)(c := settlement s (tb_claims s c)),
           tb_totalSlashed := tb_totalSlashed s + re_slashed (settlement s (tb_claims s c)),
           tb_totalRewarded := tb_totalRewarded s + re_rewards (settlement s (tb_claims s c))\<rparr>)"
  by (auto simp: settleClaim_def Let_def)


text \<open>Over the contract's reachable states the script ends with code 0 exactly when both variables
  are set to a valid id, the claim has votes and is not settled, and its window is over on the local
  clock and on the chain; otherwise nothing changes. (Reads succeed, the contract is not paused, and
  the amounts are far from overflow.)\<close>

theorem resolve_exit_iff:
  assumes "tb_reach N s" "\<And>k. \<not> sh_readFails H k" "\<not> tb_paused s"
    and "\<And>c. fits256 (cl_for (tb_claims s c) * 100) \<and> fits256 (tb_totalSlashed s + cl_total (tb_claims s c)) \<and>
          fits256 (tb_totalRewarded s + cl_total (tb_claims s c))"
  shows "case resolveClaim H s of (code, p, s') \<Rightarrow>
    (code = 0 \<longleftrightarrow> (case claim_arg H of None \<Rightarrow> False | Some c \<Rightarrow>
       0 < cl_total (tb_claims s c) \<and> \<not> cl_settled (tb_claims s c) \<and>
       int (cl_windowEnd (tb_claims s c)) \<le> sh_now H \<and> cl_windowEnd (tb_claims s c) \<le> sh_blockTime H)) \<and>
    (code = 0 \<or> s' = s)"
proof (cases "claim_arg H")
  case (Some c)
  let ?cl = "tb_claims s c" and ?r = "settlement s (tb_claims s c)"
  have tot: "cl_total ?cl = cl_for ?cl + cl_against ?cl"
    using totals_ok_reach [OF assms(1)] by (simp add: totals_ok_def)
  have percents: "tb_slashPercent s \<le> 100" "tb_rewardPercent s \<le> 100"
    using results_ok_reach [OF assms(1)] by (auto simp: results_ok_def)
  have slashed: "re_slashed ?r \<le> cl_total ?cl" "re_rewards ?r \<le> re_slashed ?r"
    using percentOf_le [OF percents(1)] percentOf_le [OF percents(2)] tot
    by (auto simp: settlement_def Let_def no_result_def intro: le_trans trans_le_add1 trans_le_add2)
  have mono: "fits256 m" if "fits256 n" "m \<le> n" for m n using that by (simp add: fits256_def)
  have small: "fits256 (re_slashed ?r)" "fits256 (re_rewards ?r)" "fits256 (tb_totalSlashed s + re_slashed ?r)"
      "fits256 (tb_totalRewarded s + re_rewards ?r)"
    using assms(4) [of c] slashed
    by (auto intro: mono [of "tb_totalSlashed s + cl_total ?cl"] mono [of "tb_totalRewarded s + cl_total ?cl"])
  have exists: "cl_submitter ?cl \<noteq> None" if "0 < cl_total ?cl"
    using claims_exist_reach [OF assms(1)] that by (auto simp: claims_exist_def)
  show ?thesis
  proof (cases "0 < cl_total ?cl \<and> \<not> cl_settled ?cl \<and> int (cl_windowEnd ?cl) \<le> sh_now H \<and> cl_windowEnd ?cl \<le> sh_blockTime H")
    case True
    then obtain s' where "settleClaim (sh_blockTime H) c s = (Inr (), s')"
      using exists assms(3,4) small by (auto simp: settle_ok)
    moreover obtain p where "predicted ?cl = Some p" using True tot by (auto simp: predicted_def Let_def)
    ultimately show ?thesis using True Some assms(2) by (simp add: resolveClaim_def Let_def)
  next
    case False
    show ?thesis
    proof (cases "settleClaim (sh_blockTime H) c s")
      case (Pair r s')
      have "clean (settleClaim (sh_blockTime H) c)"
        using clean_call [of undefined undefined "sh_blockTime H" "OSettle c"] by (simp add: tb_call_def)
      with Pair have "s' = s" if "isl r" using that unfolding clean_def by (cases r) auto
      moreover have "isl r" if "sh_now H \<ge> int (cl_windowEnd ?cl)" "cl_total ?cl \<noteq> 0" "\<not> cl_settled ?cl"
        using that False Pair by (cases r) (auto simp: settle_ok)
      ultimately show ?thesis
        using False Some Pair assms(2) by (auto simp: resolveClaim_def Let_def split: option.splits sum.splits)
    qed
  qed
qed (simp add: resolveClaim_def)

lemma claim_reverts: "clean (claimSettlementRewards N a c)"
  using clean_call [of N a undefined "OClaim c"] by (simp add: tb_call_def)

text \<open>The reward script ends with code 0 exactly when the contract pays the signer's rewards for
  the claim, and leaves the chain as it was otherwise.\<close>

theorem claimRewards_exit_iff:
  assumes "\<And>k. \<not> sh_readFails H k"
  shows "case claimRewards N H s of (code, s') \<Rightarrow>
    (code = 0 \<longleftrightarrow> (case claim_arg H of None \<Rightarrow> False | Some c \<Rightarrow>
       claimSettlementRewards N (sh_signer H) c s = (Inr (), s'))) \<and> (code = 0 \<or> s' = s)"
proof (cases "claim_arg H")
  case (Some c)
  show ?thesis
  proof (cases "claimSettlementRewards N (sh_signer H) c s")
    case (Pair r s')
    have "s' = s" if "isl r"
      using claim_reverts [of N "sh_signer H" c] that Pair unfolding clean_def by (cases r) auto
    moreover have "vo_voted (tb_votes s c (sh_signer H))" if "\<not> isl r"
      using that Pair claim_ok [of N "sh_signer H" c s s'] by (cases r) auto
    ultimately show ?thesis
      using Some Pair assms by (cases r) (auto simp: claimRewards_def)
  qed
qed (simp add: claimRewards_def)

lemma wei_sign: "0 \<le> wei n \<longleftrightarrow> 0 \<le> n" "0 < wei n \<longleftrightarrow> 0 < n" "wei n = 0 \<longleftrightarrow> n = 0"
  by (auto simp: wei_def zero_le_mult_iff zero_less_mult_iff)

lemma uint_arg_small: "0 \<le> n \<Longrightarrow> n \<le> int b \<Longrightarrow> fits256 (a + b) \<Longrightarrow> uint_arg n = Some (nat n)"
  by (simp add: uint_arg_def fits256_def)

text \<open>The staking script stakes exactly the whole number of tokens asked for (a hundred without a
  request), and succeeds iff that number is positive and covered by the signer's balance.\<close>

theorem stake_exit_iff:
  assumes "erc20_laws T" "\<And>k. \<not> sh_readFails H k" "sh_signer H \<noteq> the (sh_env H ''TRUTH_BOUNTY_TOKEN_ADDRESS'')"
    and "\<And>n. n \<le> tk_balance T (ts_token s) (sh_signer H) \<Longrightarrow> fits256 (ts_verifierStake s (sh_signer H) + n)"
  shows "case stake_main T H s of (code, s') \<Rightarrow>
    (code = 0 \<longleftrightarrow> truthy_str (sh_env H ''TRUTH_BOUNTY_TOKEN_ADDRESS'') \<and> (case stake_amount H of None \<Rightarrow> False
       | Some n \<Rightarrow> 0 < n \<and> wei n \<le> int (tk_balance T (ts_token s) (sh_signer H)))) \<and>
    (if code = 0 then ts_verifierStake s' (sh_signer H) =
        ts_verifierStake s (sh_signer H) + nat (wei (the (stake_amount H))) else s' = s)"
proof (cases "stake_amount H")
  case (Some n)
  let ?bal = "tk_balance T (ts_token s) (sh_signer H)" and ?self = "the (sh_env H ''TRUTH_BOUNTY_TOKEN_ADDRESS'')"
  have fits: "uint_arg (wei n) = Some (nat (wei n))" if "0 \<le> n" "wei n \<le> int ?bal"
    using assms(4) [of ?bal] that wei_sign [of n] by (simp add: uint_arg_small)
  show ?thesis
  proof (cases "0 < n \<and> wei n \<le> int ?bal")
    case True
    then have amount: "nat (wei n) \<noteq> 0" "nat (wei n) \<le> ?bal" using wei_sign [of n] by auto
    obtain t where "tk_transfer T (sh_signer H) ?self (nat (wei n)) (ts_token s) = Some t"
      using erc20_laws.transfer_succeeds [OF assms(1) amount(2)] by blast
    then have "\<exists>s'. token_stake T ?self (sh_signer H) (nat (wei n)) s = (Inr (), s') \<and>
        ts_verifierStake s' (sh_signer H) = ts_verifierStake s (sh_signer H) + nat (wei n)"
      using amount(1) assms(4) [OF amount(2)] by (simp add: token_stake_def)
    then show ?thesis
      using True Some fits assms(2) by (auto simp: stake_main_def Let_def)
  next
    case False
    have "n = 0" if "wei n \<le> int ?bal" "uint_arg (wei n) \<noteq> None"
      using that False wei_sign [of n] by (auto simp: uint_arg_def split: if_splits)
    moreover have "token_stake T ?self (sh_signer H) 0 s = (Inl (JsError ''Revert'' ''Invalid amount''), s)"
      by (simp add: token_stake_def fail_def)
    moreover have "uint_arg (wei 0) = Some 0" by (simp add: uint_arg_def wei_def)
    ultimately show ?thesis
      using False Some assms(2) by (cases "uint_arg (wei n)") (auto simp: stake_main_def Let_def not_less)
  qed
qed (simp add: stake_main_def)

section \<open>Runs\<close>

definition demo_open :: "(string \<Rightarrow> nat) tb_state" where
  "demo_open = tb_run demo_bounty_env (butlast demo_calls) (new_truth_bounty (\<lambda>a. if a = ''bounty'' then 0 else 100))"

definition demo_script_host :: script_host where
  "demo_script_host = \<lparr>sh_env = [''TRUTH_BOUNTY_CONTRACT_ADDRESS'' \<mapsto> ''0x01'', ''CLAIM_ID'' \<mapsto> ''0'',
       ''TRUTH_BOUNTY_TOKEN_ADDRESS'' \<mapsto> ''0x02'', ''AMOUNT'' \<mapsto> ''7''],
     sh_signer = ''alice'', sh_now = 100000, sh_blockTime = 100000, sh_readFails = (\<lambda>k. False)\<rparr>"

lemma parsed: "parse_bigint ''0'' = Some 0" "parse_bigint ''7'' = Some 7"
  by code_simp+

lemma demo_claim_arg: "claim_arg demo_script_host = Some 0"
  by (simp add: claim_arg_def demo_script_host_def truthy_str_def parsed uint_arg_def)

lemma demo_amount: "stake_amount demo_script_host = Some 7"
  by (simp add: stake_amount_def demo_script_host_def truthy_str_def parsed)

lemma demo_open_reach: "tb_reach demo_bounty_env demo_open"
  unfolding demo_open_def by (intro tb_run_reach reach_new)

lemma demo_open_facts:
  "tb_claims demo_open = (\<lambda>c. no_claim)(0 := \<lparr>cl_submitter = Some ''alice'', cl_content = ''claim'', cl_createdAt = 2,
     cl_windowEnd = 86402, cl_settled = False, cl_for = 60, cl_against = 40, cl_total = 100\<rparr>)"
  "\<not> tb_paused demo_open" "tb_threshold demo_open = 60" "tb_totalSlashed demo_open = 0" "tb_totalRewarded demo_open = 0"
  "tb_slashPercent demo_open = 20" "tb_rewardPercent demo_open = 80"
  by (simp_all add: demo_open_def demo_calls_def demo_bounty_env_def tb_call_def set_parameter_def tb_stake_def createClaim_def
      tb_cast_def new_truth_bounty_def need_def plain_token_def moved_def act_bind_def act_return_def set_stake_def
      set_claim_def set_vote_def no_vote_def no_claim_def fits256_def Let_def)

lemma demo_resolves: "resolveClaim demo_script_host demo_open = (0, Some PPassed, snd (snd (resolveClaim demo_script_host demo_open)))"
  unfolding resolveClaim_def demo_claim_arg
  by (simp add: demo_open_facts Let_def demo_script_host_def predicted_def settleClaim_def need_def settlement_def is_tie_def
      determineOutcome_def percentOf_def fits256_def)


lemma resolve_exit_iff_witness: "fst (resolveClaim demo_script_host demo_open) = 0"
proof -
  have host: "\<not> sh_readFails demo_script_host k" "sh_now demo_script_host = 100000" "sh_blockTime demo_script_host = 100000" for k
    by (simp_all add: demo_script_host_def)
  have "fits256 (cl_for (tb_claims demo_open c) * 100) \<and> fits256 (tb_totalSlashed demo_open + cl_total (tb_claims demo_open c)) \<and>
      fits256 (tb_totalRewarded demo_open + cl_total (tb_claims demo_open c))" for c
    by (simp add: demo_open_facts no_claim_def fits256_def)
  from resolve_exit_iff [OF demo_open_reach host(1) demo_open_facts(2) this] show ?thesis
    by (simp add: host demo_claim_arg demo_open_facts split: prod.splits)
qed

lemma claimRewards_exit_iff_witness: "claimRewards demo_bounty_env demo_script_host demo_settled = (0, demo_claimed)"
proof -
  have host: "sh_signer demo_script_host = ''alice''" "\<And>k. \<not> sh_readFails demo_script_host k" by (simp_all add: demo_script_host_def)
  have "snd (claimRewards demo_bounty_env demo_script_host demo_settled) = demo_claimed"
    using demo_settled_facts(1) by (simp add: claimRewards_def demo_claim_arg host demo_claims(1))
  with claimRewards_exit_iff [OF host(2), of demo_bounty_env demo_settled] show ?thesis
    by (simp add: demo_claim_arg host(1) demo_claims(1) split: prod.splits)
qed

definition demo_stakes :: "(string \<Rightarrow> nat) token_state" where
  "demo_stakes = \<lparr>ts_token = (\<lambda>a. 10 ^ 19), ts_verifierStake = (\<lambda>a. 5)\<rparr>"

lemma stake_exit_iff_witness:
  "fst (stake_main plain_token demo_script_host demo_stakes) = 0 \<and>
   ts_verifierStake (snd (stake_main plain_token demo_script_host demo_stakes)) ''alice'' = 5 + 7 * 10 ^ 18"
proof -
  have bal: "tk_balance plain_token (ts_token demo_stakes) a = 10 ^ 19" "ts_verifierStake demo_stakes a = 5" for a
    by (simp_all add: plain_token_def demo_stakes_def)
  have host: "\<not> sh_readFails demo_script_host k" "sh_signer demo_script_host \<noteq> the (sh_env demo_script_host ''TRUTH_BOUNTY_TOKEN_ADDRESS'')"
      "truthy_str (sh_env demo_script_host ''TRUTH_BOUNTY_TOKEN_ADDRESS'')" "sh_signer demo_script_host = ''alice''" for k
    by (simp_all add: demo_script_host_def truthy_str_def)
  have "fits256 (5 + n)" if "n \<le> 10 ^ 19" for n using that by (simp add: fits256_def)
  then show ?thesis
    using stake_exit_iff [OF plain.erc20_laws_axioms host(1,2), of demo_stakes]
    by (simp add: bal host(3,4) demo_amount wei_def split: prod.splits)
qed

end
