(* ===== verification/EventSchema.thy ===== *)
theory EventSchema
  imports JsCollections
begin

text \<open>
  \<open>scripts/generate-event-schema.ts\<close>: the canonical event schema built from the compiled
  interface \<open>ITruthBountyEvents\<close>. Parameters: the fragments that \<open>ethers.Interface\<close> gives for
  the artifact (\<open>None\<close>: the artifact is not on disk), the host's \<open>localeCompare\<close> as the relation
  "not after", and the checksum, Keccak over the JSON text of the schema. The tables are the
  source's, entry by entry.
\<close>

section \<open>Data\<close>

record event_param =
  ep_name :: string
  ep_type :: string
  ep_indexed :: bool

record schema_fragment =
  fr_type :: string
  fr_name :: string
  fr_full :: string
  fr_topicHash :: string
  fr_inputs :: "event_param list"

record schema_entry =
  se_name :: string
  se_family :: string
  se_signature :: string
  se_topic0 :: string
  se_version :: int
  se_indexedFieldsCount :: nat
  se_parameters :: "event_param list"
  se_stateReplayRole :: string
  se_financialImpact :: bool
  se_description :: string

record family_metadata =
  fm_name :: string
  fm_description :: string

record family_group =
  fg_id :: string
  fg_name :: string
  fg_description :: string
  fg_eventNames :: "string list"

record event_schema =
  es_schemaVersion :: int
  es_protocol :: string
  es_releaseVersion :: string
  es_standard :: string
  es_families :: "family_group list"
  es_events :: "schema_entry list"
  es_checksum :: "string option" \<comment> \<open>\<open>None\<close> in \<open>rawSchema\<close>\<close>

definition FAMILIES_METADATA :: "(string \<times> family_metadata) list" where
  "FAMILIES_METADATA =
   [(''claims'', \<lparr>fm_name = ''Claims Lifecycle'',
      fm_description = ''Reconstructs claim registration, updates, status transitions, resolution outcomes, and finalization.''\<rparr>),
    (''evidence'', \<lparr>fm_name = ''Evidence Management'',
      fm_description = ''Tracks content-addressed evidence commitments, revocations, and claim evidence window closures.''\<rparr>),
    (''staking'', \<lparr>fm_name = ''Staking & Collateral Accounting'',
      fm_description = ''Reconciles verifier collateral deposits, round locking, unlocking, and withdrawals.''\<rparr>),
    (''verification'', \<lparr>fm_name = ''Verification & Voting'',
      fm_description = ''Records individual verifier submissions, support verdicts, committed stakes, and challenges.''\<rparr>),
    (''rounds'', \<lparr>fm_name = ''Rounds Management'',
      fm_description = ''Defines round lifecycle windows, participant counts, and weighted vote totals.''\<rparr>),
    (''outcomes'', \<lparr>fm_name = ''Outcomes & Consensus Aggregation'',
      fm_description = ''Tracks deterministic aggregation of weighted verifications, consensus verdict, and confidence scores.''\<rparr>),
    (''disputes'', \<lparr>fm_name = ''Dispute Resolution'',
      fm_description = ''Reconstructs dispute challenges, escalation bonds, rulings, and resulting outcome overrides.''\<rparr>),
    (''rewards'', \<lparr>fm_name = ''Reward Calculation & Distribution'',
      fm_description = ''Reconciles deterministic reward calculations, escrow reservations, claims, and batch payouts.''\<rparr>),
    (''slashing'', \<lparr>fm_name = ''Slashing Penalties'',
      fm_description = ''Reconciles collateral slashing for losing votes or Byzantine behaviour across individual and batch flows.''\<rparr>),
    (''withdrawals'', \<lparr>fm_name = ''Withdrawal Queue & Timelocks'',
      fm_description = ''Tracks queueing, cooldown expiry, cancellations, and execution of large verifier withdrawals.''\<rparr>),
    (''treasury'', \<lparr>fm_name = ''Treasury Accounting & Solvency'',
      fm_description = ''Maintains full double-entry reconciliation of deposits, internal bucket transfers, withdrawals, and snapshots.''\<rparr>),
    (''parameters'', \<lparr>fm_name = ''Protocol Parameters & Schedules'',
      fm_description = ''Tracks versioned governance parameter updates, address reconfigurations, and fee schedule updates.''\<rparr>),
    (''reputation'', \<lparr>fm_name = ''Reputation Roots & Snapshots'',
      fm_description = ''Publishes cross-chain Merkle roots, individual score adjustments, and decay updates.''\<rparr>),
    (''roles'', \<lparr>fm_name = ''Access Control & Roles'',
      fm_description = ''Tracks role granting, revocation, and admin role hierarchy changes across protocol modules.''\<rparr>),
    (''emergency'', \<lparr>fm_name = ''Emergency Controls & Pauses'',
      fm_description = ''Reconstructs protocol emergency pause activation and recovery events.''\<rparr>),
    (''upgrades'', \<lparr>fm_name = ''Upgrades & Version Management'',
      fm_description = ''Reconstructs module registrations, upgrade proposals, approvals, executions, and rollbacks.''\<rparr>)]"

definition EVENT_FAMILY_MAP :: "(string \<times> string) list" where
  "EVENT_FAMILY_MAP =
   [(''ClaimCreatedV1'', ''claims''),
    (''ClaimUpdatedV1'', ''claims''),
    (''ClaimStatusTransitionedV1'', ''claims''),
    (''ClaimResolvedV1'', ''claims''),
    (''ClaimFinalizedV1'', ''claims''),
    (''EvidenceSubmittedV1'', ''evidence''),
    (''EvidenceRevokedV1'', ''evidence''),
    (''ClaimClosedForEvidenceV1'', ''evidence''),
    (''StakeDepositedV1'', ''staking''),
    (''StakeLockedV1'', ''staking''),
    (''StakeUnlockedV1'', ''staking''),
    (''StakeWithdrawnV1'', ''staking''),
    (''VerificationSubmittedV1'', ''verification''),
    (''VerificationChallengedV1'', ''verification''),
    (''RoundStartedV1'', ''rounds''),
    (''RoundEndedV1'', ''rounds''),
    (''OutcomeAggregatedV1'', ''outcomes''),
    (''DisputeOpenedV1'', ''disputes''),
    (''DisputeRaisedV1'', ''disputes''),
    (''DisputeResolvedV1'', ''disputes''),
    (''RewardCalculatedV1'', ''rewards''),
    (''RewardEscrowedV1'', ''rewards''),
    (''RewardClaimedV1'', ''rewards''),
    (''BatchRewardClaimedV1'', ''rewards''),
    (''SlashExecutedV1'', ''slashing''),
    (''BatchSlashExecutedV1'', ''slashing''),
    (''WithdrawalQueuedV1'', ''withdrawals''),
    (''WithdrawalExecutedV1'', ''withdrawals''),
    (''WithdrawalCancelledV1'', ''withdrawals''),
    (''TreasuryDepositV1'', ''treasury''),
    (''TreasuryTransferV1'', ''treasury''),
    (''TreasuryWithdrawalV1'', ''treasury''),
    (''TreasurySnapshotRecordedV1'', ''treasury''),
    (''ParameterUpdatedV1'', ''parameters''),
    (''AddressParameterUpdatedV1'', ''parameters''),
    (''FeeScheduleUpdatedV1'', ''parameters''),
    (''ReputationRootPublishedV1'', ''reputation''),
    (''ReputationScoreUpdatedV1'', ''reputation''),
    (''ReputationDecayedV1'', ''reputation''),
    (''RoleGrantedV1'', ''roles''),
    (''RoleRevokedV1'', ''roles''),
    (''RoleAdminChangedV1'', ''roles''),
    (''EmergencyPauseActivatedV1'', ''emergency''),
    (''EmergencyPauseRecoveredV1'', ''emergency''),
    (''GovernanceProposalCreatedV1'', ''upgrades''),
    (''GovernanceProposalExecutedV1'', ''upgrades''),
    (''ModuleRegisteredV1'', ''upgrades''),
    (''UpgradeProposedV1'', ''upgrades''),
    (''UpgradeApprovedV1'', ''upgrades''),
    (''UpgradeExecutedV1'', ''upgrades''),
    (''UpgradeRolledBackV1'', ''upgrades'')]"

definition FINANCIAL_EVENTS :: "string list" where
  "FINANCIAL_EVENTS =
   [''StakeDepositedV1'',
    ''StakeLockedV1'',
    ''StakeUnlockedV1'',
    ''StakeWithdrawnV1'',
    ''RewardCalculatedV1'',
    ''RewardEscrowedV1'',
    ''RewardClaimedV1'',
    ''BatchRewardClaimedV1'',
    ''SlashExecutedV1'',
    ''BatchSlashExecutedV1'',
    ''TreasuryDepositV1'',
    ''TreasuryTransferV1'',
    ''TreasuryWithdrawalV1'',
    ''WithdrawalQueuedV1'',
    ''WithdrawalExecutedV1'']"

section \<open>The generator\<close>

text \<open>\<open>EVENT_FAMILY_MAP[name] || "uncategorized"\<close>\<close>

definition event_family :: "string \<Rightarrow> string" where
  "event_family name = (case map_of EVENT_FAMILY_MAP name of None \<Rightarrow> ''uncategorized'' | Some f \<Rightarrow> f)"

definition schema_entry_of :: "schema_fragment \<Rightarrow> schema_entry" where
  "schema_entry_of fr = (let name = fr_name fr; family = event_family name in
     \<lparr>se_name = name, se_family = family, se_signature = fr_full fr, se_topic0 = fr_topicHash fr,
      se_version = 1, se_indexedFieldsCount = length (filter ep_indexed (fr_inputs fr)),
      se_parameters = fr_inputs fr,
      se_stateReplayRole = ''Reconstructs '' @ family @ '' state transitions for indexer projection.'',
      se_financialImpact = (name \<in> set FINANCIAL_EVENTS),
      se_description = ''Canonical V1 event for '' @ name @ ''.''\<rparr>)"

text \<open>The loop over the fragments: the family buckets and the entries collected so far.\<close>

definition schema_step :: "(string \<times> string list) list \<times> schema_entry list \<Rightarrow> schema_fragment \<Rightarrow>
    (string \<times> string list) list \<times> schema_entry list" where
  "schema_step st fr = (case st of (familyBuckets, events) \<Rightarrow>
     if fr_type fr \<noteq> ''event'' then (familyBuckets, events)
     else let name = fr_name fr; family = event_family name in
       ((case map_of familyBuckets family of None \<Rightarrow> familyBuckets
         | Some names \<Rightarrow> kv_set family (names @ [name]) familyBuckets),
        events @ [schema_entry_of fr]))"

definition empty_buckets :: "(string \<times> string list) list" where
  "empty_buckets = map (\<lambda>(familyId, meta). (familyId, [])) FAMILIES_METADATA"

definition schema_groups :: "(string \<times> string list) list \<Rightarrow> family_group list" where
  "schema_groups buckets = map (\<lambda>(familyId, meta).
     \<lparr>fg_id = familyId, fg_name = fm_name meta, fg_description = fm_description meta,
      fg_eventNames = sort_strings (case map_of buckets familyId of None \<Rightarrow> [] | Some names \<Rightarrow> names)\<rparr>)
     FAMILIES_METADATA"

definition generateEventSchema :: "(string \<Rightarrow> string \<Rightarrow> bool) \<Rightarrow> (event_schema \<Rightarrow> string) \<Rightarrow>
    string \<Rightarrow> schema_fragment list option \<Rightarrow> event_schema res" where
  "generateEventSchema localeLe checksum artifactPath artifact =
     (case artifact of
        None \<Rightarrow> throw_error (''Artifact not found at '' @ artifactPath @ ''. Please compile first.'')
      | Some fragments \<Rightarrow>
          (let (buckets, events) = foldl schema_step (empty_buckets, []) fragments;
               raw = \<lparr>es_schemaVersion = 1, es_protocol = ''TruthBounty'', es_releaseVersion = ''2.0.0'',
                 es_standard = ''TruthBounty Canonical Event Schema Specification '' @ [char_of (167 :: nat)] @ ''20'',
                 es_families = schema_groups buckets,
                 es_events = sort_by (\<lambda>a b. localeLe (se_name a) (se_name b)) events,
                 es_checksum = None\<rparr>
           in Inr (raw\<lparr>es_checksum := Some (checksum raw)\<rparr>)))"

section \<open>The buckets\<close>

definition event_fragments :: "schema_fragment list \<Rightarrow> schema_fragment list" where
  "event_fragments frs = filter (\<lambda>fr. fr_type fr = ''event'') frs"

definition names_in :: "string \<Rightarrow> schema_fragment list \<Rightarrow> string list" where
  "names_in family frs = filter (\<lambda>n. event_family n = family) (map fr_name (event_fragments frs))"

lemma foldl_schema_step:
  "foldl schema_step (buckets, events) frs = (buckets', events') \<Longrightarrow>
     events' = events @ map schema_entry_of (event_fragments frs) \<and>
     map_of buckets' family = map_option (\<lambda>names. names @ names_in family frs) (map_of buckets family)"
proof (induction frs arbitrary: buckets events)
  case Nil
  then show ?case by (cases "map_of buckets family") (simp_all add: event_fragments_def names_in_def)
next
  case (Cons fr frs)
  obtain b1 e1 where step: "schema_step (buckets, events) fr = (b1, e1)" by fastforce
  with Cons.prems have "foldl schema_step (b1, e1) frs = (buckets', events')" by simp
  from Cons.IH [OF this] have IH: "events' = e1 @ map schema_entry_of (event_fragments frs)"
    "map_of buckets' family = map_option (\<lambda>names. names @ names_in family frs) (map_of b1 family)" by auto
  show ?case
  proof (cases "fr_type fr = ''event''")
    case False
    with step IH show ?thesis by (simp add: schema_step_def event_fragments_def names_in_def)
  next
    case True
    with step IH show ?thesis
      by (auto simp: schema_step_def event_fragments_def names_in_def Let_def split: option.splits)
  qed
qed

lemma map_of_empty_buckets:
  "map_of empty_buckets family = (if family \<in> fst ` set FAMILIES_METADATA then Some [] else None)"
proof -
  have "map_of (map (\<lambda>(k, meta). (k, [])) ms) family = (if family \<in> fst ` set ms then Some [] else None)"
    for ms :: "(string \<times> family_metadata) list"
    by (induction ms) auto
  from this [of FAMILIES_METADATA] show ?thesis by (simp only: empty_buckets_def)
qed

lemma generate_eq:
  "generateEventSchema le ck path (Some frs) = Inr s \<longleftrightarrow>
     (\<exists>raw. s = raw\<lparr>es_checksum := Some (ck raw)\<rparr> \<and>
       raw = \<lparr>es_schemaVersion = 1, es_protocol = ''TruthBounty'', es_releaseVersion = ''2.0.0'',
         es_standard = ''TruthBounty Canonical Event Schema Specification '' @ [char_of (167 :: nat)] @ ''20'',
         es_families = map (\<lambda>(familyId, meta). \<lparr>fg_id = familyId, fg_name = fm_name meta,
            fg_description = fm_description meta, fg_eventNames = sort_strings (names_in familyId frs)\<rparr>)
            FAMILIES_METADATA,
         es_events = sort_by (\<lambda>a b. le (se_name a) (se_name b)) (map schema_entry_of (event_fragments frs)),
         es_checksum = None\<rparr>)"
proof -
  obtain buckets events where f: "foldl schema_step (empty_buckets, []) frs = (buckets, events)" by fastforce
  have events: "events = map schema_entry_of (event_fragments frs)"
    using foldl_schema_step [OF f] by auto
  have groups: "schema_groups buckets = map (\<lambda>(familyId, meta). \<lparr>fg_id = familyId, fg_name = fm_name meta,
      fg_description = fm_description meta, fg_eventNames = sort_strings (names_in familyId frs)\<rparr>) FAMILIES_METADATA"
    unfolding schema_groups_def
    using foldl_schema_step [OF f] by (force simp: map_of_empty_buckets)
  show ?thesis
    unfolding generateEventSchema_def by (auto simp: f events groups Let_def)
qed

section \<open>The tables and the schema\<close>

lemma tables_checked:
  "distinct (map fst FAMILIES_METADATA) \<and> distinct (map fst EVENT_FAMILY_MAP) \<and>
   list_all (\<lambda>(n, f). f \<in> set (map fst FAMILIES_METADATA)) EVENT_FAMILY_MAP \<and>
   ''uncategorized'' \<notin> set (map fst FAMILIES_METADATA)"
  by code_simp

lemma event_family_known: "event_family n \<in> fst ` set FAMILIES_METADATA \<longleftrightarrow> n \<in> fst ` set EVENT_FAMILY_MAP"
proof (cases "map_of EVENT_FAMILY_MAP n")
  case None
  then have "n \<notin> fst ` set EVENT_FAMILY_MAP" by (simp add: map_of_eq_None_iff)
  with None tables_checked show ?thesis by (auto simp: event_family_def)
next
  case (Some f)
  then have "(n, f) \<in> set EVENT_FAMILY_MAP" by (rule map_of_SomeD)
  with tables_checked Some show ?thesis by (force simp: event_family_def list_all_iff)
qed

lemma buckets_partition:
  assumes "distinct ids"
  shows "mset (concat (map (\<lambda>i. sort_strings (filter (\<lambda>n. g n = i) xs)) ids)) =
    mset (filter (\<lambda>n. g n \<in> set ids) xs)"
  using assms
proof (induction ids)
  case (Cons i ids)
  then have "i \<notin> set ids" by simp
  then have "mset (filter (\<lambda>n. g n \<in> set (i # ids)) ys) =
      mset (filter (\<lambda>n. g n = i) ys) + mset (filter (\<lambda>n. g n \<in> set ids) ys)" for ys
    by (induction ys) auto
  with Cons show ?case by (simp add: sort_strings_def)
qed simp

text \<open>Every event of the interface is an entry of the schema, exactly once, and every event with a
  family in the table is listed exactly once, under that family; the events without one are the
  only ones the families leave out.\<close>

theorem schema_families_partition:
  assumes "generateEventSchema le ck path (Some frs) = Inr s"
  shows "mset (map se_name (es_events s)) = mset (map fr_name (event_fragments frs)) \<and>
    mset (concat (map fg_eventNames (es_families s))) =
      mset (filter (\<lambda>n. n \<in> fst ` set EVENT_FAMILY_MAP) (map fr_name (event_fragments frs))) \<and>
    \<not> (\<exists>g \<in> set (es_families s). \<exists>n \<in> set (fg_eventNames g). event_family n \<noteq> fg_id g)"
proof -
  let ?names = "map fr_name (event_fragments frs)"
  from assms have ev: "es_events s = sort_by (\<lambda>a b. le (se_name a) (se_name b)) (map schema_entry_of (event_fragments frs))"
    and fam: "es_families s = map (\<lambda>(familyId, meta). \<lparr>fg_id = familyId, fg_name = fm_name meta,
        fg_description = fm_description meta, fg_eventNames = sort_strings (names_in familyId frs)\<rparr>) FAMILIES_METADATA"
    by (auto simp: generate_eq)
  have "mset (map se_name (es_events s)) = image_mset se_name (mset (map schema_entry_of (event_fragments frs)))"
    by (simp only: ev mset_map mset_sort_by)
  then have 1: "mset (map se_name (es_events s)) = mset ?names"
    by (simp add: schema_entry_of_def Let_def multiset.map_comp comp_def)
  have "map fg_eventNames (es_families s) =
      map (\<lambda>i. sort_strings (filter (\<lambda>n. event_family n = i) ?names)) (map fst FAMILIES_METADATA)"
    by (auto simp: fam names_in_def)
  then have 2: "mset (concat (map fg_eventNames (es_families s))) =
      mset (filter (\<lambda>n. n \<in> fst ` set EVENT_FAMILY_MAP) ?names)"
    using buckets_partition [of "map fst FAMILIES_METADATA" event_family ?names] tables_checked
    by (simp only: set_map event_family_known)
  have 3: "\<not> (\<exists>g \<in> set (es_families s). \<exists>n \<in> set (fg_eventNames g). event_family n \<noteq> fg_id g)"
    by (auto simp: fam names_in_def)
  from 1 2 3 show ?thesis by blast
qed

definition demo_fragments :: "schema_fragment list" where
  "demo_fragments =
     [\<lparr>fr_type = ''event'', fr_name = ''StakeLockedV1'', fr_full = ''event StakeLockedV1()'', fr_topicHash = ''0x1'', fr_inputs = []\<rparr>,
      \<lparr>fr_type = ''error'', fr_name = ''Denied'', fr_full = ''error Denied()'', fr_topicHash = [], fr_inputs = []\<rparr>,
      \<lparr>fr_type = ''event'', fr_name = ''ClaimCreatedV1'', fr_full = ''event ClaimCreatedV1()'', fr_topicHash = ''0x2'', fr_inputs = []\<rparr>]"

lemma demo_schema_ok: "\<exists>s. generateEventSchema str_le (\<lambda>r. ''0x'') ''p'' (Some frs) = Inr s"
  by (simp add: generate_eq)

theorem schema_families_partition_witness:
  "\<exists>s. generateEventSchema str_le (\<lambda>r. ''0x'') ''p'' (Some demo_fragments) = Inr s \<and>
    mset (concat (map fg_eventNames (es_families s))) = {# ''StakeLockedV1'', ''ClaimCreatedV1'' #}"
proof -
  obtain s where s: "generateEventSchema str_le (\<lambda>r. ''0x'') ''p'' (Some demo_fragments) = Inr s"
    using demo_schema_ok by blast
  have "filter (\<lambda>n. n \<in> fst ` set EVENT_FAMILY_MAP) (map fr_name (event_fragments demo_fragments)) =
      [''StakeLockedV1'', ''ClaimCreatedV1'']" by code_simp
  with schema_families_partition [OF s] s show ?thesis by auto
qed

text \<open>The schema does not depend on the order of the declarations in the interface, where event
  names differ and \<open>localeCompare\<close> is a total order on them.\<close>

theorem schema_order_independent:
  assumes "total_preorder le"
    and "\<forall>a \<in> set (event_fragments frs). \<forall>b \<in> set (event_fragments frs).
      le (fr_name a) (fr_name b) \<longrightarrow> le (fr_name b) (fr_name a) \<longrightarrow> a = b"
    and "mset frs = mset frs'"
  shows "generateEventSchema le ck path (Some frs) = generateEventSchema le ck path (Some frs')"
proof -
  have ms: "mset (event_fragments frs) = mset (event_fragments frs')"
    using assms(3) by (simp add: event_fragments_def)
  have names: "sort_strings (names_in i frs) = sort_strings (names_in i frs')" for i
    by (rule sort_strings_perm) (use ms in \<open>simp add: names_in_def\<close>)
  have same: "a = b" if "a \<in> set (event_fragments frs)" "b \<in> set (event_fragments frs)"
    "le (se_name (schema_entry_of a)) (se_name (schema_entry_of b))"
    "le (se_name (schema_entry_of b)) (se_name (schema_entry_of a))" for a b
    using that assms(2) by (simp add: schema_entry_of_def Let_def)
  have "sort_by (\<lambda>a b. le (se_name a) (se_name b)) (map schema_entry_of (event_fragments frs)) =
      sort_by (\<lambda>a b. le (se_name a) (se_name b)) (map schema_entry_of (event_fragments frs'))"
    by (rule sort_by_mset_cong)
      (use assms(1) ms same in \<open>auto intro: key_total_preorder\<close>)
  moreover obtain s where s: "generateEventSchema le ck path (Some frs) = Inr s"
    by (simp add: generate_eq)
  ultimately have "generateEventSchema le ck path (Some frs') = Inr s"
    by (simp add: generate_eq names)
  with s show ?thesis by simp
qed

theorem schema_order_independent_witness:
  "generateEventSchema str_le (\<lambda>r. ''0x'') ''p'' (Some demo_fragments) =
   generateEventSchema str_le (\<lambda>r. ''0x'') ''p'' (Some (rev demo_fragments))"
  by (rule schema_order_independent) (auto simp: demo_fragments_def event_fragments_def dest: str_le_antisym)

text \<open>The tables agree: the families of the events are declared families, every financial event
  has a family, and financial impact is claimed for events of the staking, rewards, slashing,
  treasury and withdrawals families only.\<close>

theorem schema_tables_consistent:
  "length EVENT_FAMILY_MAP = 51 \<and> distinct (map fst EVENT_FAMILY_MAP) \<and>
   set (map snd EVENT_FAMILY_MAP) = set (map fst FAMILIES_METADATA) \<and>
   distinct FINANCIAL_EVENTS \<and>
   set (map event_family FINANCIAL_EVENTS) =
     {''staking'', ''rewards'', ''slashing'', ''treasury'', ''withdrawals''}"
  by (intro conjI; code_simp)

end
