(* ===== verification/CoverageGate.thy ===== *)
theory CoverageGate
  imports JsCollections
begin

text \<open>
  \<open>scripts/coverage-quality-gate.ts\<close>: the gate over an LCOV report. Parameters (\<open>gate_env\<close>): whether
  \<open>forge coverage\<close> succeeds, the report it leaves, which test paths exist and which test runs
  pass. Percentages are exact rationals; for thresholds such as the default ones the
  comparison with rounded doubles agrees for reports of any realistic size.
\<close>

section \<open>Data\<close>

record gate_config =
  gc_line :: rat
  gc_branch :: rat
  gc_function :: rat
  gc_criticalPaths :: "string list"
  gc_excludedPaths :: "string list"
  gc_invariantTestPaths :: "string list"
  gc_eventTestPaths :: "string list"

definition DEFAULT_CONFIG :: gate_config where
  "DEFAULT_CONFIG =
     \<lparr>gc_line = 85, gc_branch = 80, gc_function = 90,
      gc_criticalPaths =
      [''contracts/TruthBounty.sol'',
       ''contracts/TruthBountyWeighted.sol'',
       ''contracts/TruthBountyClaims.sol'',
       ''contracts/WeightedStaking.sol'',
       ''contracts/staking.sol'',
       ''contracts/ReputationUpdateEngine.sol'',
       ''contracts/ReputationEngine.sol'',
       ''contracts/ReputationSnapshot.sol'',
       ''contracts/ReputationSnapshotEngine.sol'',
       ''contracts/RewardEngine.sol'',
       ''contracts/TreasuryAccounting.sol'',
       ''contracts/TreasuryManagement.sol'',
       ''contracts/ClaimRegistry.sol'',
       ''contracts/ClaimLifecycle.sol'',
       ''contracts/DisputeResolution.sol'',
       ''contracts/VerificationRoundManager.sol'',
       ''contracts/VerificationSubmission.sol'',
       ''contracts/VerificationAggregator.sol'',
       ''contracts/VerificationAggregation.sol'',
       ''contracts/EvidenceManager.sol'',
       ''contracts/FeeManager.sol'',
       ''contracts/ProvisionalSettlementEngine.sol'',
       ''contracts/VerifierSlashing.sol'',
       ''contracts/GovernanceController.sol'',
       ''contracts/EmergencyController.sol'',
       ''contracts/GovernanceOwnable.sol'',
       ''contracts/ParameterVersionRegistry.sol'',
       ''contracts/ResolverRoleTimelock.sol''],
      gc_excludedPaths =
      [''test/**'',
       ''script/**'',
       ''contracts/mocks/**'',
       ''contracts/test/**'',
       ''contracts/bootstrap/**'',
       ''contracts/upgrade/**'',
       ''contracts/performance/**'',
       ''lib/**'',
       ''@openzeppelin/**''],
      gc_invariantTestPaths =
      [''test/invariant/**''],
      gc_eventTestPaths =
      [''test/**/*Event*.test.ts'',
       ''test/**/*Event*.t.sol'',
       ''test/CanonicalEvents.test.ts'',
       ''test/EventArchitecture.test.ts'',
       ''test/EventSchemaConsistency.test.ts'']\<rparr>"

record coverage_report =
  cv_line :: rat
  cv_branch :: rat
  cv_function :: rat
  cv_invariantState :: rat
  cv_eventTransition :: rat

record gate_env =
  ge_config :: "gate_config option"     \<comment> \<open>the parsed \<open>config/coverage-quality-gate.json\<close>, if it exists\<close>
  ge_forgeError :: "string option"      \<comment> \<open>output of a failing \<open>forge coverage\<close>\<close>
  ge_lcov :: "string option"
  ge_exists :: "string \<Rightarrow> bool"
  ge_testPasses :: "string \<Rightarrow> bool"

definition load_gate_config :: "gate_env \<Rightarrow> gate_config" where
  "load_gate_config env = (case ge_config env of None \<Rightarrow> DEFAULT_CONFIG | Some c \<Rightarrow> c)"

section \<open>The LCOV report\<close>

text \<open>\<open>parseInt(line.split(",")[i], 10) > 0\<close>; a missing field is \<open>NaN\<close>.\<close>

definition field_positive :: "nat \<Rightarrow> string list \<Rightarrow> bool" where
  "field_positive i parts = (if i < length parts
     then (case parse_int10 (parts ! i) of None \<Rightarrow> False | Some n \<Rightarrow> 0 < n) else False)"

record lcov_totals =
  lt_lines :: nat
  lt_coveredLines :: nat
  lt_branches :: nat
  lt_coveredBranches :: nat
  lt_functions :: nat
  lt_coveredFunctions :: nat

definition lcov_line :: "lcov_totals \<Rightarrow> string \<Rightarrow> lcov_totals" where
  "lcov_line t line =
     (if starts_with ''DA:'' line then
        t\<lparr>lt_lines := lt_lines t + 1,
          lt_coveredLines := lt_coveredLines t + of_bool (field_positive 1 (split_on (CHR '','') line))\<rparr>
      else if starts_with ''BRDA:'' line then
        t\<lparr>lt_branches := lt_branches t + 1,
          lt_coveredBranches := lt_coveredBranches t + of_bool (field_positive 3 (split_on (CHR '','') line))\<rparr>
      else if starts_with ''FN:'' line then t\<lparr>lt_functions := lt_functions t + 1\<rparr>
      else if starts_with ''FNDA:'' line then
        t\<lparr>lt_coveredFunctions := lt_coveredFunctions t +
            of_bool (field_positive 1 (split_on (CHR '':'') (hd (split_on (CHR '','') line))))\<rparr>
      else t)"

definition percent :: "nat \<Rightarrow> nat \<Rightarrow> rat" where
  "percent c n = (if n > 0 then of_nat c / of_nat n * 100 else 0)"

definition newline :: char where
  "newline = char_of (10 :: nat)"

definition lcov_totals_of :: "string \<Rightarrow> lcov_totals" where
  "lcov_totals_of content = foldl lcov_line
     \<lparr>lt_lines = 0, lt_coveredLines = 0, lt_branches = 0, lt_coveredBranches = 0, lt_functions = 0, lt_coveredFunctions = 0\<rparr>
     (split_on newline content)"

definition parseLcovCoverage :: "string \<Rightarrow> string option \<Rightarrow> coverage_report res" where
  "parseLcovCoverage lcovPath report = (case report of
     None \<Rightarrow> throw_error (''LCOV report not found at '' @ lcovPath)
   | Some content \<Rightarrow> (let t = lcov_totals_of content in
       Inr \<lparr>cv_line = percent (lt_coveredLines t) (lt_lines t),
            cv_branch = percent (lt_coveredBranches t) (lt_branches t),
            cv_function = percent (lt_coveredFunctions t) (lt_functions t),
            cv_invariantState = 0, cv_eventTransition = 0\<rparr>))"

text \<open>\<open>content.split("end_of_record")\<close>\<close>

function split_str :: "string \<Rightarrow> string \<Rightarrow> string \<Rightarrow> string list" where
  "split_str sep cur [] = [cur]"
| "split_str sep cur (c # s) =
     (if sep \<noteq> [] \<and> starts_with sep (c # s) then cur # split_str sep [] (drop (length sep) (c # s))
      else split_str sep (cur @ [c]) s)"
  by pat_completeness auto
termination by (relation "measure (\<lambda>(sep, cur, s). length s)") auto

text \<open>One record: its last source file, its lines and its covered lines.\<close>

definition record_line :: "string \<times> nat \<times> nat \<Rightarrow> string \<Rightarrow> string \<times> nat \<times> nat" where
  "record_line st line = (case st of (sourceFile, linesTotal, linesCovered) \<Rightarrow>
     if starts_with ''SF:'' line then (drop 3 line, linesTotal, linesCovered)
     else if starts_with ''DA:'' line then
       (sourceFile, linesTotal + 1, linesCovered + of_bool (field_positive 1 (split_on (CHR '','') line)))
     else st)"

definition lcov_record :: "string \<Rightarrow> string \<times> nat \<times> nat" where
  "lcov_record rec = foldl record_line ([], 0, 0) (split_on newline rec)"

text \<open>The critical records with their percentages, covered and uncovered.\<close>

definition critical_records :: "string \<Rightarrow> gate_config \<Rightarrow> (string \<times> rat) list" where
  "critical_records content config = concat (map (\<lambda>rec.
     if trim rec = [] then []
     else (case lcov_record rec of (sourceFile, linesTotal, linesCovered) \<Rightarrow>
       if sourceFile \<noteq> [] \<and> list_ex (\<lambda>cp. includes_str cp sourceFile) (gc_criticalPaths config)
       then [(sourceFile, percent linesCovered linesTotal)] else [])) (split_str ''end_of_record'' [] content))"

definition checkCriticalPathCoverage :: "string \<Rightarrow> gate_config \<Rightarrow> (string \<times> rat) list \<times> (string \<times> rat) list" where
  "checkCriticalPathCoverage content config =
     (let rs = critical_records content config in
      (filter (\<lambda>(f, p). p \<ge> gc_line config) rs, filter (\<lambda>(f, p). \<not> p \<ge> gc_line config) rs))"

section \<open>Test coverage\<close>

text \<open>\<open>testPath.replace("**", "")\<close>: the first occurrence only.\<close>

fun drop_globstar :: "string \<Rightarrow> string" where
  "drop_globstar (c # d # s) = (if c = CHR ''*'' \<and> d = CHR ''*'' then s else c # drop_globstar (d # s))"
| "drop_globstar s = s"

definition test_coverage :: "gate_env \<Rightarrow> string list \<Rightarrow> rat" where
  "test_coverage env paths = (let found = filter (\<lambda>p. ge_exists env (drop_globstar p)) paths in
     if found = [] then 0 else percent (length (filter (ge_testPasses env) found)) (length found))"

definition checkInvariantCoverage :: "gate_env \<Rightarrow> gate_config \<Rightarrow> rat" where
  "checkInvariantCoverage env config = test_coverage env (gc_invariantTestPaths config)"

definition checkEventTransitionCoverage :: "gate_env \<Rightarrow> gate_config \<Rightarrow> rat" where
  "checkEventTransitionCoverage env config = test_coverage env (gc_eventTestPaths config)"

section \<open>The gate\<close>

text \<open>\<open>main\<close>: the exit code, or the exception it ends with. Low invariant or event coverage only
  prints a warning; the warnings are the second component.\<close>

definition gate_main :: "gate_env \<Rightarrow> (int \<times> string list) res" where
  "gate_main env = (let config = load_gate_config env in
     case ge_forgeError env of
       Some out \<Rightarrow> throw_error (''Command failed: forge coverage --report lcov --report summary --skip script'' @ [newline] @ out)
     | None \<Rightarrow> res_bind (parseLcovCoverage ''lcov.info'' (ge_lcov env)) (\<lambda>coverage.
         let criticalPathResults = checkCriticalPathCoverage (the (ge_lcov env)) config;
             allPassed = (\<not> cv_line coverage < gc_line config \<and> \<not> cv_branch coverage < gc_branch config \<and>
               \<not> cv_function coverage < gc_function config \<and> snd criticalPathResults = []);
             warnings = (if checkInvariantCoverage env config < 100 then [''Some invariant tests are failing''] else []) @
               (if checkEventTransitionCoverage env config < 100 then [''Some event transition tests are failing''] else []) in
         Inr (if allPassed then 0 else 1, warnings)))"

section \<open>What the gate decides\<close>

lemma critical_records_source:
  "(f, p) \<in> set (critical_records content config) \<Longrightarrow>
     list_ex (\<lambda>cp. includes_str cp f) (gc_criticalPaths config)"
  by (auto simp: critical_records_def split: if_splits prod.splits)


lemma critical_records_no_record:
  assumes "\<not> list_ex (\<lambda>rec. includes_str cp (fst (lcov_record rec))) (split_str ''end_of_record'' [] content)"
  shows "critical_records content (config\<lparr>gc_criticalPaths := cp # gc_criticalPaths config\<rparr>) =
    critical_records content config"
proof -
  have "\<not> includes_str cp f" if "rec \<in> set (split_str ''end_of_record'' [] content)" "lcov_record rec = (f, t, c)" for rec f t c
    using assms that by (force simp: list_ex_iff)
  then show ?thesis
    unfolding critical_records_def
    by (intro arg_cong [where f = concat] map_cong refl) (auto split: prod.splits)
qed

text \<open>A critical contract that the report has no record for is not missed: adding its path to the
  configuration changes nothing, so a gate that passed still passes with a critical file
  that no test ever loads.\<close>

theorem unreported_critical_path_ignored:
  assumes "ge_lcov env = Some content" "ge_config env = Some config"
    and "\<not> list_ex (\<lambda>rec. includes_str cp (fst (lcov_record rec))) (split_str ''end_of_record'' [] content)"
  shows "gate_main (env\<lparr>ge_config := Some (config\<lparr>gc_criticalPaths := cp # gc_criticalPaths config\<rparr>)\<rparr>) = gate_main env"
  using critical_records_no_record [OF assms(3)] assms(1,2)
  by (cases "ge_forgeError env"; cases "parseLcovCoverage ''lcov.info'' (ge_lcov env)")
    (simp_all add: gate_main_def load_gate_config_def checkCriticalPathCoverage_def checkInvariantCoverage_def
      checkEventTransitionCoverage_def test_coverage_def Let_def)

definition demo_lcov :: string where
  "demo_lcov = concat (map (\<lambda>l. l @ [newline])
     [''SF:contracts/staking.sol'', ''FN:3,stake'', ''FNDA:2,stake'', ''DA:4,2'', ''BRDA:4,0,0,1'', ''end_of_record''])"

definition demo_gate_config :: gate_config where
  "demo_gate_config = \<lparr>gc_line = 85, gc_branch = 80, gc_function = 90, gc_criticalPaths = [''contracts/staking.sol''],
     gc_excludedPaths = [], gc_invariantTestPaths = [], gc_eventTestPaths = []\<rparr>"

definition demo_gate :: gate_env where
  "demo_gate = \<lparr>ge_config = Some demo_gate_config,
     ge_forgeError = None, ge_lcov = Some demo_lcov, ge_exists = (\<lambda>p. False), ge_testPasses = (\<lambda>p. False)\<rparr>"

theorem unreported_critical_path_ignored_witness:
  "\<exists>w. gate_main (demo_gate\<lparr>ge_config := Some (demo_gate_config\<lparr>gc_criticalPaths :=
       ''contracts/RewardEngine.sol'' # gc_criticalPaths demo_gate_config\<rparr>)\<rparr>) = Inr (0, w)"
proof -
  have "\<not> list_ex (\<lambda>rec. includes_str ''contracts/RewardEngine.sol'' (fst (lcov_record rec))) (split_str ''end_of_record'' [] demo_lcov)"
    by code_simp
  then have "gate_main (demo_gate\<lparr>ge_config := Some (demo_gate_config\<lparr>gc_criticalPaths :=
       ''contracts/RewardEngine.sol'' # gc_criticalPaths demo_gate_config\<rparr>)\<rparr>) = gate_main demo_gate"
    by (intro unreported_critical_path_ignored) (simp_all add: demo_gate_def)
  moreover have "(case gate_main demo_gate of Inl e \<Rightarrow> False | Inr (code, w) \<Rightarrow> code = 0)" by code_simp
  ultimately show ?thesis by (auto split: sum.splits)
qed

end
