(* ===== verification/Boundaries.thy ===== *)
theory Boundaries
  imports JsRegex FilePaths
begin

text \<open>
  \<open>scripts/check-dependency-boundaries.mjs\<close>: which imports a contract may have. The regular
  expressions of the script are terms of \<open>JsRegex\<close>; the file system is a directory tree, and absolute
  paths are segment lists. Reports are kept as values, their printing is left out.
\<close>

section \<open>Rules\<close>

definition APPROVED_VENDOR_PREFIXES :: "string list" where
  "APPROVED_VENDOR_PREFIXES = [''@openzeppelin/contracts/'', ''@openzeppelin/contracts-upgradeable/'']"

record boundary_rule =
  br_regex :: re
  br_rule :: string
  br_reason :: string

text \<open>\<open>/(?:^|\/)(?:w1|w2|...)(?:\/|$)/i\<close> and \<open>/(?:stellar|soroban|freighter)/i\<close>.\<close>

definition path_word :: "string list \<Rightarrow> re" where
  "path_word ws = RSeq (RAlt RStart (re_str ''/'')) (RSeq (re_any (map re_stri ws)) (RAlt (re_str ''/'') REnd))"

definition other_chains :: "string list" where
  "other_chains = [''stellar'', ''soroban'', ''freighter'']"

definition FORBIDDEN_IMPORT_PATTERNS :: "boundary_rule list" where
  "FORBIDDEN_IMPORT_PATTERNS =
    [\<lparr>br_regex = path_word [''frontend'', ''api'', ''web'', ''client'', ''ui'', ''components''],
      br_rule = ''rule-no-frontend-api'', br_reason = ''Contracts must not import API, web, or frontend dependencies.''\<rparr>,
     \<lparr>br_regex = RSeq RStart (RAlt (re_str ''@/'') (re_str ''~/'')),
      br_rule = ''rule-no-frontend-api'', br_reason = ''Contracts must not use frontend path aliases (@/ or ~/).''\<rparr>,
     \<lparr>br_regex = path_word [''artifacts'', ''typechain'', ''typechain-types'', ''schemas'', ''deployments''],
      br_rule = ''rule-no-generated-artifacts'', br_reason = ''Contracts must not import generated consumer artifacts, schemas, or TypeChain output.''\<rparr>,
     \<lparr>br_regex = RSeq (re_str ''.'') (RSeq (re_any (map re_stri [''json'', ''abi''])) REnd),
      br_rule = ''rule-no-generated-artifacts'', br_reason = ''Contracts must not import JSON or ABI files directly.''\<rparr>,
     \<lparr>br_regex = re_any (map re_stri other_chains),
      br_rule = ''rule-no-alternate-chain'', br_reason = ''TruthBounty contracts are Optimism/EVM-only and must not import Stellar, Soroban, or Freighter dependencies.''\<rparr>]"

definition FORBIDDEN_CONTENT_PATTERNS :: "boundary_rule list" where
  "FORBIDDEN_CONTENT_PATTERNS =
    [\<lparr>br_regex = re_any (map re_stri other_chains), br_rule = ''rule-no-alternate-chain-runtime'',
      br_reason = ''TruthBounty V2 is Optimism/EVM-only; alternate-chain runtime references are forbidden in contract code.''\<rparr>]"

section \<open>Comments and imports\<close>

definition is_newline :: "char \<Rightarrow> bool" where
  "is_newline c \<longleftrightarrow> c = CHR 0x0D \<or> c = CHR 0x0A"

definition block_comment :: re where
  "block_comment = RSeq (re_str ''/*'') (RSeq (RStar False (RChar (\<lambda>c. True))) (re_str ''*/''))"

definition line_comment :: re where
  "line_comment = RSeq (re_str ''//'') (RStar True (RChar (\<lambda>c. \<not> is_newline c)))"

definition blank :: "string \<Rightarrow> string" where
  "blank m = map (\<lambda>c. if is_newline c then c else CHR 0x20) m"

definition stripCommentsPreservingLines :: "string \<Rightarrow> string" where
  "stripCommentsPreservingLines source =
     (let cleaned = replace_all block_comment blank None source in
      replace_all line_comment (\<lambda>m. replicate (length m) (CHR 0x20)) None cleaned)"

text \<open>\<open>split(/\r\n|\r|\n/)\<close>.\<close>

fun split_lines :: "string \<Rightarrow> string list" where
  "split_lines [] = [[]]"
| "split_lines (c # s) =
     (if c = CHR 0x0D then [] # (if s \<noteq> [] \<and> hd s = CHR 0x0A then split_lines (tl s) else split_lines s)
      else if c = CHR 0x0A then [] # split_lines s
      else (case split_lines s of w # ws \<Rightarrow> (c # w) # ws | [] \<Rightarrow> [[c]]))"

definition spaces :: re where
  "spaces = re_plus (RChar is_ws)"

definition id_start :: "char \<Rightarrow> bool" where
  "id_start c \<longleftrightarrow> is_lower c \<or> is_upper c \<or> c = CHR ''_'' \<or> c = CHR ''$''"

definition import_quote :: "char \<Rightarrow> bool" where
  "import_quote c \<longleftrightarrow> c = CHR 0x22 \<or> c = CHR 0x27"

definition quoted_group :: "nat \<Rightarrow> re" where
  "quoted_group n = RSeq (RChar import_quote) (RSeq (RGroup n (re_plus (RChar (\<lambda>c. \<not> import_quote c)))) (RChar import_quote))"

definition as_alias :: re where
  "as_alias = RSeq spaces (RSeq (re_str ''as'') (RSeq spaces
     (RSeq (RChar id_start) (RStar True (RChar (\<lambda>c. is_word_char c \<or> c = CHR ''$''))))))"

definition imported_names :: re where
  "imported_names = re_any
    [RSeq (re_str ''*'') (re_opt as_alias),
     RSeq (re_str ''{'') (RSeq (RStar True (RChar (\<lambda>c. c \<noteq> CHR ''}''))) (re_str ''}'')),
     RSeq (RChar id_start) (RStar True (RChar (\<lambda>c. is_word_char c \<or> c = CHR ''$'' \<or> c = CHR '','' \<or> is_ws c)))]"

definition import_regex :: re where
  "import_regex = RSeq (re_str ''import'') (RSeq spaces (RSeq
     (RAlt (RSeq imported_names (RSeq spaces (RSeq (re_str ''from'') (RSeq spaces (quoted_group 1)))))
           (RSeq (quoted_group 2) (re_opt as_alias)))
     (RSeq (RStar True (RChar is_ws)) (re_str '';''))))"

text \<open>\<open>match[1] || match[2]\<close>, and the number of lines up to the match.\<close>

definition import_path :: "re_match \<Rightarrow> string" where
  "import_path m = or_str (rx_group 1 m) (or_str (rx_group 2 m) [])"

definition extractImports :: "string \<Rightarrow> (string \<times> nat) list" where
  "extractImports source =
     map (\<lambda>(index, m). (import_path m, length (split_lines (take index source))))
       (match_all import_regex 0 None (stripCommentsPreservingLines source))"

section \<open>Checking a file\<close>

record violation =
  vi_file :: "string list"
  vi_line :: nat
  vi_importPath :: "string option"
  vi_rule :: string
  vi_reason :: string

definition show_abs :: "string list \<Rightarrow> string" where
  "show_abs segs = ''/'' @ join_with ''/'' segs"

definition with_sol :: "string list \<Rightarrow> string list" where
  "with_sol segs = (if segs = [] then [''.sol''] else butlast segs @ [last segs @ ''.sol''])"

definition is_relative :: "string \<Rightarrow> bool" where
  "is_relative p \<longleftrightarrow> starts_with ''./'' p \<or> starts_with ''../'' p"

definition resolve_import :: "string list \<Rightarrow> string \<Rightarrow> string list" where
  "resolve_import file importPath = path_resolve (butlast file) (split_on (CHR ''/'') importPath)"

definition location_violations :: "(string list \<Rightarrow> bool) \<Rightarrow> string list \<Rightarrow> string list list \<Rightarrow> string \<Rightarrow> nat \<Rightarrow> violation list" where
  "location_violations existsSync file allowedRoots importPath lineNumber =
     (let report = (\<lambda>rule reason. [\<lparr>vi_file = file, vi_line = lineNumber, vi_importPath = Some importPath, vi_rule = rule, vi_reason = reason\<rparr>]) in
      if is_relative importPath then
        (let resolvedTarget = resolve_import file importPath in
         if \<not> list_ex (\<lambda>base. confined base resolvedTarget) allowedRoots
         then report ''rule-path-traversal-boundary''
           (''Relative import escapes allowed contract roots ('' @ importPath @ '' -> '' @ show_abs resolvedTarget @ '').'')
         else if \<not> existsSync resolvedTarget \<and> \<not> existsSync (with_sol resolvedTarget)
         then report ''rule-unresolved-import'' (''Relative import targets a non-existent file: '' @ importPath)
         else [])
      else if list_ex (\<lambda>prefix. starts_with prefix importPath) APPROVED_VENDOR_PREFIXES then []
      else report ''rule-unapproved-vendor-boundary''
        (''External import '' @ [CHR 0x22] @ importPath @ [CHR 0x22] @ '' is not in the approved vendor whitelist ('' @
          join_with '', '' APPROVED_VENDOR_PREFIXES @ '').''))"

definition import_violations :: "(string list \<Rightarrow> bool) \<Rightarrow> string list \<Rightarrow> string list list \<Rightarrow> string \<times> nat \<Rightarrow> violation list" where
  "import_violations existsSync file allowedRoots = (\<lambda>(importPath, lineNumber).
     map (\<lambda>r. \<lparr>vi_file = file, vi_line = lineNumber, vi_importPath = Some importPath, vi_rule = br_rule r, vi_reason = br_reason r\<rparr>)
       (filter (\<lambda>r. re_test (br_regex r) importPath) FORBIDDEN_IMPORT_PATTERNS) @
     location_violations existsSync file allowedRoots importPath lineNumber)"

definition line_violations :: "string list \<Rightarrow> nat \<times> string \<Rightarrow> violation list" where
  "line_violations file = (\<lambda>(idx, lineText).
     map (\<lambda>r. \<lparr>vi_file = file, vi_line = idx + 1, vi_importPath = None, vi_rule = br_rule r,
         vi_reason = br_reason r @ '' Found: '' @ [CHR 0x22] @ trim lineText @ [CHR 0x22]\<rparr>)
       (filter (\<lambda>r. re_test (br_regex r) lineText) FORBIDDEN_CONTENT_PATTERNS))"

definition checkFileBoundaries :: "(string list \<Rightarrow> bool) \<Rightarrow> string list \<Rightarrow> string \<Rightarrow> string list list \<Rightarrow> violation list" where
  "checkFileBoundaries existsSync file content allowedRoots =
     concat (map (import_violations existsSync file allowedRoots) (extractImports content)) @
     concat (map (line_violations file) (List.enumerate 0 (split_lines (stripCommentsPreservingLines content))))"

section \<open>The repository\<close>

text \<open>The files below a directory, depth first; links are neither files nor directories.\<close>

fun sol_files :: "string list \<Rightarrow> fs_entry \<Rightarrow> (string list \<times> string) list" where
  "sol_files dir (FsDir n entries) = concat (map (\<lambda>e. case e of
       FsDir m es \<Rightarrow> sol_files (dir @ [m]) e
     | FsFile m content \<Rightarrow> if ends_with ''.sol'' m then [(dir @ [m], content)] else []
     | FsOther m \<Rightarrow> []) entries)"
| "sol_files dir (FsFile n c) = []"
| "sol_files dir (FsOther n) = []"

definition findSolidityFiles :: "fs_entry \<Rightarrow> string list \<Rightarrow> (string list \<times> string) list res" where
  "findSolidityFiles disk dir = (case fs_lookup disk dir of
     None \<Rightarrow> Inr []
   | Some (FsDir n es) \<Rightarrow> Inr (sol_files dir (FsDir n es))
   | Some e \<Rightarrow> throw_error (''ENOTDIR: not a directory, scandir '' @ show_abs dir))"

record boundary_result =
  bo_passed :: bool
  bo_filesChecked :: nat
  bo_violations :: "violation list"

definition root_files :: "fs_entry \<Rightarrow> string list \<Rightarrow> (string list \<times> string) list res" where
  "root_files disk base = (if fs_lookup disk base = None
     then throw_error (''Configured contract root does not exist: '' @ show_abs base)
     else findSolidityFiles disk base)"

definition checkRepositoryBoundaries :: "fs_entry \<Rightarrow> string list \<Rightarrow> string list \<Rightarrow> boundary_result res" where
  "checkRepositoryBoundaries disk rootDir contractDirs =
     (let allowedRoots = map (\<lambda>dir. path_resolve rootDir (split_on (CHR ''/'') dir)) contractDirs in
      res_bind (traverse (root_files disk) allowedRoots) (\<lambda>found.
        let allFiles = concat found;
            allViolations = concat (map (\<lambda>(file, content).
              checkFileBoundaries (\<lambda>p. fs_lookup disk p \<noteq> None) file content allowedRoots) allFiles) in
        Inr \<lparr>bo_passed = (allViolations = []), bo_filesChecked = length allFiles, bo_violations = allViolations\<rparr>))"

text \<open>The command: its exit code.\<close>

definition boundaries_main :: "fs_entry \<Rightarrow> string list \<Rightarrow> nat" where
  "boundaries_main disk repoRoot = (case checkRepositoryBoundaries disk repoRoot [''contracts'', ''contracts-vrm''] of
     Inl e \<Rightarrow> 1 | Inr r \<Rightarrow> if bo_passed r then 0 else 1)"

end
