(* ===== verification/BoundaryText.thy ===== *)
theory BoundaryText
  imports Boundaries
begin

text \<open>
  What the textual passes of the boundary check do: the two replacements that remove comments are a
  scanner, lines keep their numbers, and the expressions of the import rules speak of path segments
  and substrings.
\<close>

section \<open>Comments as a scanner\<close>

fun close_at :: "string \<Rightarrow> nat option" where
  "close_at [] = None"
| "close_at (x # s) = (if starts_with ''*/'' (x # s) then Some 0 else map_option Suc (close_at s))"

fun scan_blocks :: "string \<Rightarrow> string" where
  "scan_blocks [] = []"
| "scan_blocks (x # s) = (case (if starts_with ''/*'' (x # s) then close_at (tl s) else None) of
     Some k \<Rightarrow> blank (take (k + 4) (x # s)) @ scan_blocks (drop (k + 3) s)
   | None \<Rightarrow> x # scan_blocks s)"

fun scan_lines :: "bool \<Rightarrow> string \<Rightarrow> string" where
  "scan_lines comment [] = []"
| "scan_lines comment (x # s) =
     (if comment \<and> \<not> is_newline x then CHR 0x20 # scan_lines True s
      else if starts_with ''//'' (x # s) then CHR 0x20 # scan_lines True s
      else x # scan_lines False s)"

lemma close_at_bound: "close_at s = Some k \<Longrightarrow> k + 2 \<le> length s"
proof (induction s arbitrary: k)
  case (Cons x s)
  then show ?case by (cases s) (auto simp: starts_with_def split: if_splits)
qed simp

lemma first_close:
  "case close_at s of
     None \<Rightarrow> concat (map (\<lambda>k. if starts_with ''*/'' (drop k s) then [f k] else []) [0..<Suc (length s)]) = []
   | Some k \<Rightarrow> \<exists>more. concat (map (\<lambda>k. if starts_with ''*/'' (drop k s) then [f k] else []) [0..<Suc (length s)]) = f k # more"
proof (induction s arbitrary: f)
  case Nil
  show ?case by (simp add: starts_with_def)
next
  case (Cons x s)
  have "[0..<Suc (length (x # s))] = 0 # map Suc [0..<Suc (length s)]"
    by (simp add: map_Suc_upt upt_conv_Cons del: upt_Suc)
  then show ?case
    using Cons [of "\<lambda>k. f (Suc k)"] by (simp add: o_def del: upt_Suc split: option.splits)
qed

lemma takeWhile_True: "takeWhile (\<lambda>c. True) s = s"
  by (induction s) auto

lemma two: "Suc (Suc 0) = 2"
  by simp

lemma drop_2_Cons: "drop 2 (x # s) = tl s" "drop (Suc 0) s = tl s"
  by (cases s; simp)+

lemma mt_block_comment:
  "case (if starts_with ''/*'' s then close_at (drop 2 s) else None) of
     None \<Rightarrow> mt block_comment ((p, s), c) = []
   | Some k \<Rightarrow> \<exists>q more. mt block_comment ((p, s), c) = ((q, drop (k + 4) s), c) # more"
proof (cases "starts_with ''/*'' s")
  case True
  let ?t = "drop 2 s" and ?q = "prev_char p ''/*''"
  have "mt block_comment ((p, s), c) = concat (map (\<lambda>k. if starts_with ''*/'' (drop k ?t)
      then [((prev_char (prev_char ?q (take k ?t)) ''*/'', drop 2 (drop k ?t)), c)] else []) [0..<Suc (length ?t)])"
    using True unfolding block_comment_def mt.simps(3) mt_str
    by (simp add: mt_star_chars mt_str o_def takeWhile_True two del: mt.simps upt_Suc drop_drop cong: if_cong)
  note run = this first_close [of ?t "\<lambda>k. ((prev_char (prev_char ?q (take k ?t)) ''*/'', drop 2 (drop k ?t)), c)"]
  show ?thesis
  proof (cases "close_at ?t")
    case (Some k)
    moreover have "drop 2 (drop k ?t) = drop (k + 4) s" by (simp add: eval_nat_numeral)
    ultimately show ?thesis using run True by (simp del: upt_Suc drop_drop) blast
  qed (use run True in simp)
qed (simp add: block_comment_def mt_str)

lemma mt_line_comment:
  "if starts_with ''//'' s then \<exists>q more. mt line_comment ((p, s), c) = ((q, dropWhile (\<lambda>c. \<not> is_newline c) (drop 2 s)), c) # more
   else mt line_comment ((p, s), c) = []"
  unfolding line_comment_def mt.simps(3) mt_str
  by (simp add: mt_star_chars dropWhile_eq_drop two del: mt.simps drop_drop)

lemma replace_blocks: "replace_all block_comment blank p s = scan_blocks s"
proof (induction "length s" arbitrary: p s rule: less_induct)
  case less
  show ?case
  proof (cases s)
    case Nil
    then show ?thesis using mt_block_comment [of p s "[]"] by (simp add: replace_all_Nil starts_with_def)
  next
    case (Cons x xs)
    show ?thesis
    proof (cases "if starts_with ''/*'' s then close_at (drop 2 s) else None")
      case None
      with mt_block_comment [of p s "[]"] have "mt block_comment ((p, x # xs), []) = []" by (simp add: Cons)
      then show ?thesis using less [of xs "Some x"] None Cons by (simp add: replace_all_skip drop_2_Cons split: if_splits)
    next
      case (Some k)
      with mt_block_comment [of p s "[]"] obtain q more where
        hit: "mt block_comment ((p, s), []) = ((q, drop (k + 4) s), []) # more" by auto
      have "k + 4 \<le> length s" using Some close_at_bound [of "drop 2 s" k] by (auto split: if_splits)
      then have "matched s (drop (k + 4) s) = take (k + 4) s" "take (k + 4) s \<noteq> []" by (auto simp: matched_def)
      then have "replace_all block_comment blank p s = blank (take (k + 4) s) @ scan_blocks (drop (k + 4) s)"
        using replace_all_hit [OF hit] less [of "drop (k + 4) s" q] Cons by simp
      moreover have "scan_blocks s = blank (take (k + 4) s) @ scan_blocks (drop (k + 4) s)"
        using Some by (simp add: Cons drop_2_Cons eval_nat_numeral split: if_splits)
      ultimately show ?thesis by simp
    qed
  qed
qed

lemma scan_lines_run:
  "scan_lines True s = replicate (length (takeWhile (\<lambda>c. \<not> is_newline c) s)) (CHR 0x20) @
     scan_lines False (dropWhile (\<lambda>c. \<not> is_newline c) s)"
  by (induction s) (auto simp: is_newline_def starts_with_def)

lemma replace_lines: "replace_all line_comment (\<lambda>m. replicate (length m) (CHR 0x20)) p s = scan_lines False s"
proof (induction "length s" arbitrary: p s rule: less_induct)
  case less
  show ?case
  proof (cases s)
    case Nil
    then show ?thesis using mt_line_comment [of s p "[]"] by (simp add: replace_all_Nil starts_with_def)
  next
    case (Cons x xs)
    show ?thesis
    proof (cases "starts_with ''//'' s")
      case False
      with mt_line_comment [of s p "[]"] have "mt line_comment ((p, x # xs), []) = []" by (simp add: Cons)
      then show ?thesis using less [of xs "Some x"] False Cons by (simp add: replace_all_skip)
    next
      case True
      define t where "t = drop 2 s"
      let ?w = "takeWhile (\<lambda>c. \<not> is_newline c) t" and ?rest = "dropWhile (\<lambda>c. \<not> is_newline c) t"
      from True mt_line_comment [of s p "[]"] obtain q more where
        hit: "mt line_comment ((p, s), []) = ((q, ?rest), []) # more" unfolding t_def by auto
      have s: "s = ''//'' @ t" using True append_take_drop_id [of 2 s] by (simp add: starts_with_def two t_def)
      have "length t = length ?w + length ?rest" by (metis length_append takeWhile_dropWhile_id)
      then have len: "length s = 2 + length ?w + length ?rest" by (simp add: s)
      have m: "length (matched s ?rest) = 2 + length ?w" using len by (simp add: matched_def)
      then have nonempty: "matched s ?rest \<noteq> []" by (cases "matched s ?rest") auto
      have "length ?rest < length s" using len by linarith
      then have rest: "replace_all line_comment (\<lambda>m. replicate (length m) (CHR 0x20)) q ?rest = scan_lines False ?rest"
        by (rule less)
      have "replace_all line_comment (\<lambda>m. replicate (length m) (CHR 0x20)) p s =
          replicate (2 + length ?w) (CHR 0x20) @ scan_lines False ?rest"
        unfolding replace_all_hit [OF hit nonempty, of "\<lambda>m. replicate (length m) (CHR 0x20)"] m rest ..
      also have "\<dots> = CHR 0x20 # CHR 0x20 # scan_lines True t"
        by (simp add: scan_lines_run)
      also have "\<dots> = scan_lines False (''//'' @ t)"
        by (simp add: starts_with_def is_newline_def)
      finally show ?thesis by (simp only: s [symmetric])
    qed
  qed
qed

text \<open>C24: the two regular-expression passes that remove comments are a scanner that knows no string
  literals: block comments are blanked first, wherever they start, then the rest of a line after \<open>//\<close>.\<close>

theorem strip_is_scanner: "stripCommentsPreservingLines source = scan_lines False (scan_blocks source)"
  by (simp add: stripCommentsPreservingLines_def replace_blocks replace_lines)

section \<open>Lines keep their numbers\<close>

definition blanked :: "string \<Rightarrow> string \<Rightarrow> bool" where
  "blanked s t \<longleftrightarrow> list_all2 (\<lambda>a b. b = a \<or> b = CHR 0x20 \<and> \<not> is_newline a) s t"

lemma blanked_refl: "blanked s s"
  by (simp add: blanked_def list_all2_refl)

lemma blanked_Cons [simp]: "blanked (a # s) (b # t) \<longleftrightarrow> (b = a \<or> b = CHR 0x20 \<and> \<not> is_newline a) \<and> blanked s t"
  by (simp add: blanked_def)

lemma blanked_Nil [simp]: "blanked s [] \<longleftrightarrow> s = []" "blanked [] t \<longleftrightarrow> t = []"
  by (simp_all add: blanked_def)

lemma blanked_append: "blanked s t \<Longrightarrow> blanked u v \<Longrightarrow> blanked (s @ u) (t @ v)"
  by (simp add: blanked_def list_all2_appendI)

lemma blanked_blank: "blanked s (blank s)"
  by (simp add: blanked_def blank_def list_all2_conv_all_nth)

lemma blanked_trans: "blanked s t \<Longrightarrow> blanked t u \<Longrightarrow> blanked s u"
  unfolding blanked_def by (erule (1) list_all2_trans [rotated]) (auto simp: is_newline_def)

lemma blanked_blocks: "blanked s (scan_blocks s)"
proof (induction s rule: scan_blocks.induct)
  case (2 x s)
  show ?case
  proof (cases "if starts_with ''/*'' (x # s) then close_at (tl s) else None")
    case (Some k)
    then have "blanked (take (k + 4) (x # s) @ drop (k + 3) s) (scan_blocks (x # s))"
      using blanked_append [OF blanked_blank 2(2) [OF Some]] by simp
    then show ?thesis by (simp add: eval_nat_numeral)
  qed (use 2 in \<open>auto simp: blanked_refl\<close>)
qed (simp add: blanked_def)

lemma blanked_lines: "blanked s (scan_lines c s)"
  by (induction c s rule: scan_lines.induct) (auto simp: starts_with_def is_newline_def blanked_def)

lemma split_lines_nonempty: "split_lines s \<noteq> []"
  by (cases s) (auto split: list.splits)

lemma blanked_split_lines: "blanked s t \<Longrightarrow> list_all2 blanked (split_lines s) (split_lines t)"
proof (induction s arbitrary: t rule: split_lines.induct)
  case 1
  then show ?case by (simp add: blanked_def)
next
  case (2 c s)
  from 2(5) obtain d u where t: "t = d # u" and d: "d = c \<or> d = CHR 0x20 \<and> \<not> is_newline c" and u: "blanked s u"
    by (auto simp: blanked_def list_all2_Cons1)
  show ?case
  proof (cases "c = CHR 0x0D")
    case True
    have "s \<noteq> [] \<and> hd s = CHR 0x0A \<longleftrightarrow> u \<noteq> [] \<and> hd u = CHR 0x0A" "blanked (tl s) (tl u)"
      using u by (cases s; cases u; auto simp: blanked_def is_newline_def)+
    moreover have "d = c" using True d by (auto simp: is_newline_def)
    ultimately have t': "split_lines t = [] # (if s \<noteq> [] \<and> hd s = CHR 0x0A then split_lines (tl u) else split_lines u)"
      and tls: "blanked (tl s) (tl u)" using True t by (simp_all del: blanked_Nil)
    show ?thesis
    proof (cases "s \<noteq> [] \<and> hd s = CHR 0x0A")
      case lf: True
      with True t' 2(1) [OF True lf tls] show ?thesis by simp
    next
      case lf: False
      with t' 2(2) [OF True lf u] show ?thesis
        by (simp only: split_lines.simps True lf if_True if_False list_all2_Cons blanked_refl simp_thms)
    qed
  next
    case False
    note notcr = this
    show ?thesis
    proof (cases "c = CHR 0x0A")
      case True
      with t d have "t = c # u" by (simp add: is_newline_def)
      with 2(3) [OF notcr True u] True show ?thesis by simp
    next
      case False
      then have "d \<noteq> CHR 0x0D" "d \<noteq> CHR 0x0A" using d notcr by auto
      moreover obtain w ws where s: "split_lines s = w # ws" by (cases "split_lines s") (auto simp: split_lines_nonempty)
      moreover with 2(4) [OF notcr False u] obtain v vs where "split_lines u = v # vs" "blanked w v" "list_all2 blanked ws vs"
        by (auto simp: list_all2_Cons1)
      ultimately show ?thesis using notcr False d t by simp
    qed
  qed
qed

text \<open>Removing comments keeps the length of the source and its lines, and changes only characters
  that are not line ends, to spaces: the line numbers of the reports are those of the source.\<close>

theorem strip_keeps_lines:
  "length (stripCommentsPreservingLines source) = length source \<and>
   list_all2 blanked (split_lines source) (split_lines (stripCommentsPreservingLines source)) \<and>
   length (split_lines (take i (stripCommentsPreservingLines source))) = length (split_lines (take i source))"
proof -
  let ?t = "stripCommentsPreservingLines source"
  have b: "blanked source ?t"
    using blanked_trans [OF blanked_blocks blanked_lines]
    by (simp add: stripCommentsPreservingLines_def replace_blocks replace_lines)
  then have "blanked (take i source) (take i ?t)" by (simp add: blanked_def list_all2_takeI)
  from list_all2_lengthD [OF blanked_split_lines [OF this]] list_all2_lengthD [OF b [unfolded blanked_def]]
    blanked_split_lines [OF b] show ?thesis by simp
qed

end
