(* ===== verification/BoundaryRules.thy ===== *)
theory BoundaryRules
  imports BoundaryText
begin

text \<open>
  The verdict of the boundary check in plain terms (\<open>boundaries_pass_iff\<close>), and what gets past it.
\<close>

section \<open>The expressions as conditions on paths\<close>

lemma split_on_append: "split_on c (u @ c # v) = split_on c u @ split_on c v"
proof (induction u)
  case (Cons x u)
  obtain w ws where "split_on c u = w # ws" by (metis list.exhaust split_on_nonempty)
  with Cons show ?case by simp
qed simp

lemma split_on_plain: "c \<notin> set w \<Longrightarrow> split_on c w = [w]"
  by (induction w) auto

lemma join_with_append: "xs \<noteq> [] \<Longrightarrow> ys \<noteq> [] \<Longrightarrow> join_with sep (xs @ ys) = join_with sep xs @ sep @ join_with sep ys"
proof (induction sep xs rule: join_with.induct)
  case (2 sep x)
  then show ?case by (cases ys) auto
qed auto

definition at_segment :: "char \<Rightarrow> string \<Rightarrow> string \<Rightarrow> bool" where
  "at_segment c x y \<longleftrightarrow> (x = [] \<or> last x = c) \<and> (y = [] \<or> hd y = c)"

lemma set_split_on:
  "w \<in> set (split_on c s) \<longleftrightarrow> c \<notin> set w \<and> (\<exists>x y. s = x @ w @ y \<and> at_segment c x y)"
proof
  assume w: "w \<in> set (split_on c s)"
  then obtain xs ys where split: "split_on c s = xs @ w # ys" by (meson split_list)
  have "s = join_with [c] (xs @ w # ys)" by (simp add: split [symmetric] join_split_on)
  also have "\<dots> = (if xs = [] then [] else join_with [c] xs @ [c]) @ w @ (if ys = [] then [] else c # join_with [c] ys)"
    by (cases ys; cases "xs = []") (simp_all add: join_with_append)
  finally show "c \<notin> set w \<and> (\<exists>x y. s = x @ w @ y \<and> at_segment c x y)"
    using split_on_no_sep [OF w] unfolding at_segment_def
    by (intro conjI exI [of _ "if xs = [] then [] else join_with [c] xs @ [c]"]
        exI [of _ "if ys = [] then [] else c # join_with [c] ys"]) simp_all
next
  assume "c \<notin> set w \<and> (\<exists>x y. s = x @ w @ y \<and> at_segment c x y)"
  then obtain x y where c: "c \<notin> set w" and s: "s = x @ w @ y" and seg: "at_segment c x y" by blast
  have "w \<in> set (split_on c (w @ y))"
    using seg split_on_append [of c w "tl y"] split_on_plain [OF c] by (cases y) (auto simp: at_segment_def)
  then show "w \<in> set (split_on c s)"
  proof (cases "x = []")
    case False
    with seg have "x = butlast x @ [c]" using append_butlast_last_id [of x] by (simp add: at_segment_def)
    then have "split_on c s = split_on c (butlast x) @ split_on c (w @ y)"
      using split_on_append [of c "butlast x" "w @ y"] by (metis append.assoc append_Cons append_Nil s)
    with \<open>w \<in> set (split_on c (w @ y))\<close> show ?thesis by simp
  qed (simp add: s)
qed

lemma lower_slash: "lower_char x = CHR ''/'' \<longleftrightarrow> x = CHR ''/''"
proof
  assume l: "lower_char x = CHR ''/''"
  show "x = CHR ''/''"
  proof (cases "is_upper x")
    case True
    then have "code_unit (lower_char x) = code_unit x + 32"
      by (simp add: lower_char_def code_unit_def is_upper_def of_char_of)
    with True l show ?thesis by (simp add: is_upper_def code_unit_def)
  qed (use l in \<open>simp add: lower_char_def\<close>)
qed (simp add: lower_char_def is_upper_def code_unit_def)

text \<open>A position in the subject of a search.\<close>

lemma rm_slash_or_start:
  "rm (RAlt RStart (re_str ''/'')) (prev_char None a, b) y \<longleftrightarrow>
     a = [] \<and> y = (None, b) \<or> b = CHR ''/'' # snd y \<and> fst y = Some (CHR ''/'')"
  by (cases y) (auto simp: rm_str prev_char_def)

lemma rm_slash_or_end:
  "(\<exists>z. rm (RAlt (re_str ''/'') REnd) y z) \<longleftrightarrow> snd y = [] \<or> hd (snd y) = CHR ''/''"
  by (cases y; cases "snd y") (auto simp: rm_str)

lemma rm_any_stri: "rm (re_any (map re_stri ws)) u y \<longleftrightarrow>
    (\<exists>v. snd u = v @ snd y \<and> fst y = prev_char (fst u) v \<and> to_lower v \<in> to_lower ` set ws)"
  unfolding rm_any by (auto simp: rm_stri)

lemma test_path_word_at:
  "re_test (path_word ws) p \<longleftrightarrow> (\<exists>x v y. p = x @ v @ y \<and> at_segment (CHR ''/'') x y \<and> to_lower v \<in> to_lower ` set ws)"
proof
  assume "re_test (path_word ws) p"
  then obtain a b z where p: "p = a @ b" and rm: "rm (path_word ws) (prev_char None a, b) z"
    unfolding re_test_iff by blast
  then obtain u y where u: "rm (RAlt RStart (re_str ''/'')) (prev_char None a, b) u"
      and v: "rm (re_any (map re_stri ws)) u y" and z: "rm (RAlt (re_str ''/'') REnd) y z"
    unfolding path_word_def by (elim rm_seqE) blast
  from z have close: "snd y = [] \<or> hd (snd y) = CHR ''/''" using rm_slash_or_end by blast
  from v obtain v where v: "snd u = v @ snd y" "to_lower v \<in> to_lower ` set ws" unfolding rm_any_stri by blast
  from u consider "a = []" "u = (None, b)" | "b = CHR ''/'' # snd u" unfolding rm_slash_or_start by blast
  then show "\<exists>x v y. p = x @ v @ y \<and> at_segment (CHR ''/'') x y \<and> to_lower v \<in> to_lower ` set ws"
  proof cases
    case 1
    with p v close have "p = [] @ v @ snd y" "at_segment (CHR ''/'') [] (snd y)" by (auto simp: at_segment_def)
    with v(2) show ?thesis by blast
  next
    case 2
    with p v close have "p = (a @ ''/'') @ v @ snd y" "at_segment (CHR ''/'') (a @ ''/'') (snd y)" by (auto simp: at_segment_def)
    with v(2) show ?thesis by blast
  qed
next
  assume "\<exists>x v y. p = x @ v @ y \<and> at_segment (CHR ''/'') x y \<and> to_lower v \<in> to_lower ` set ws"
  then obtain x v y where p: "p = x @ v @ y" and seg: "at_segment (CHR ''/'') x y" and v: "to_lower v \<in> to_lower ` set ws"
    by blast
  define a where "a = butlast x"
  define b where "b = (if x = [] then p else CHR ''/'' # v @ y)"
  define u where "u = (if x = [] then None else Some (CHR ''/''), v @ y)"
  have ab: "p = a @ b"
  proof (cases "x = []")
    case False
    with seg have "x = butlast x @ ''/''" using append_butlast_last_id [of x] by (simp add: at_segment_def)
    then have "x @ v @ y = butlast x @ ''/'' @ v @ y" by (metis append.assoc)
    with False show ?thesis by (simp add: p a_def b_def)
  qed (simp add: a_def b_def)
  have "rm (RAlt RStart (re_str ''/'')) (prev_char None a, b) u"
    unfolding rm_slash_or_start by (auto simp: a_def b_def u_def p)
  moreover have "rm (re_any (map re_stri ws)) u (prev_char (fst u) v, y)"
    unfolding rm_any_stri using v by (auto simp: u_def)
  moreover obtain z where "rm (RAlt (re_str ''/'') REnd) (prev_char (fst u) v, y) z"
    using rm_slash_or_end [of "(prev_char (fst u) v, y)"] seg by (auto simp: at_segment_def)
  ultimately have "rm (path_word ws) (prev_char None a, b) z"
    unfolding path_word_def by (blast intro: rm_seq)
  with ab show "re_test (path_word ws) p" unfolding re_test_iff by blast
qed

lemma at_segment_lower: "at_segment (CHR ''/'') (to_lower x) (to_lower y) \<longleftrightarrow> at_segment (CHR ''/'') x y"
  by (cases "x = []"; cases "y = []") (simp_all add: at_segment_def to_lower_def last_map hd_map lower_slash)

lemma map_infixE:
  assumes "map f p = x @ w @ y"
  obtains x' v y' where "p = x' @ v @ y'" "map f x' = x" "map f v = w" "map f y' = y"
proof (rule that)
  let ?r = "drop (length x) p"
  show "p = take (length x) p @ take (length w) ?r @ drop (length w) ?r"
    unfolding append_take_drop_id ..
  show "map f (take (length x) p) = x" "map f (take (length w) ?r) = w" "map f (drop (length w) ?r) = y"
    by (simp_all only: take_map [symmetric] drop_map [symmetric] assms) simp_all
qed

lemma test_path_word:
  assumes "\<forall>w \<in> set ws. CHR ''/'' \<notin> set w \<and> to_lower w = w"
  shows "re_test (path_word ws) p \<longleftrightarrow> (\<exists>w \<in> set ws. w \<in> set (split_on (CHR ''/'') (to_lower p)))"
proof
  assume "re_test (path_word ws) p"
  then obtain x v y w where "p = x @ v @ y" "at_segment (CHR ''/'') x y" "w \<in> set ws" "to_lower v = to_lower w"
    unfolding test_path_word_at by blast
  with assms have "to_lower p = to_lower x @ w @ to_lower y" "at_segment (CHR ''/'') (to_lower x) (to_lower y)"
      "CHR ''/'' \<notin> set w" by (auto simp: at_segment_lower) (simp add: to_lower_def)
  with \<open>w \<in> set ws\<close> show "\<exists>w \<in> set ws. w \<in> set (split_on (CHR ''/'') (to_lower p))"
    unfolding set_split_on by blast
next
  assume "\<exists>w \<in> set ws. w \<in> set (split_on (CHR ''/'') (to_lower p))"
  then obtain w x y where w: "w \<in> set ws" and p: "map lower_char p = x @ w @ y" and seg: "at_segment (CHR ''/'') x y"
    unfolding set_split_on to_lower_def by blast
  then obtain x' v y' where parts: "p = x' @ v @ y'" "to_lower x' = x" "to_lower v = w" "to_lower y' = y"
    using map_infixE [OF p] unfolding to_lower_def by blast
  then have "at_segment (CHR ''/'') x' y'" using seg at_segment_lower [of x' y'] by simp
  moreover have "to_lower v \<in> to_lower ` set ws" using assms w parts(3) by (metis imageI)
  moreover note parts(1)
  ultimately show "re_test (path_word ws) p" unfolding test_path_word_at by blast
qed

section \<open>The verdict\<close>

definition mentions_other_chain :: "string \<Rightarrow> bool" where
  "mentions_other_chain s \<longleftrightarrow> (\<exists>w \<in> set other_chains. includes_str w (to_lower s))"

definition forbidden_segments :: "string list" where
  "forbidden_segments = [''frontend'', ''api'', ''web'', ''client'', ''ui'', ''components'', ''artifacts'', ''typechain'',
     ''typechain-types'', ''schemas'', ''deployments'']"

definition path_ok :: "string \<Rightarrow> bool" where
  "path_ok p \<longleftrightarrow> (\<forall>w \<in> set forbidden_segments. w \<notin> set (split_on (CHR ''/'') (to_lower p))) \<and>
     \<not> starts_with ''@/'' p \<and> \<not> starts_with ''~/'' p \<and>
     \<not> ends_with ''.json'' (to_lower p) \<and> \<not> ends_with ''.abi'' (to_lower p) \<and> \<not> mentions_other_chain p"

definition located :: "(string list \<Rightarrow> bool) \<Rightarrow> string list \<Rightarrow> string list list \<Rightarrow> string \<Rightarrow> bool" where
  "located existsSync file roots p \<longleftrightarrow>
     (if is_relative p then
        (\<exists>base \<in> set roots. \<exists>rest. resolve_import file p = base @ rest \<and> (rest = [] \<or> \<not> starts_with ''..'' (hd rest))) \<and>
        (existsSync (resolve_import file p) \<or> existsSync (with_sol (resolve_import file p)))
      else starts_with ''@openzeppelin/contracts/'' p \<or> starts_with ''@openzeppelin/contracts-upgradeable/'' p)"

definition file_ok :: "(string list \<Rightarrow> bool) \<Rightarrow> string list \<Rightarrow> string list list \<Rightarrow> string \<Rightarrow> bool" where
  "file_ok existsSync file roots content \<longleftrightarrow>
     (\<forall>(p, n) \<in> set (extractImports content). path_ok p \<and> located existsSync file roots p) \<and>
     (\<forall>l \<in> set (split_lines (stripCommentsPreservingLines content)). \<not> mentions_other_chain l)"

lemma test_other_chains: "re_test (re_any (map re_stri other_chains)) s \<longleftrightarrow> mentions_other_chain s"
proof -
  have "to_lower w = w" if "w \<in> set other_chains" for w
    using that by (auto simp: other_chains_def to_lower_def lower_char_def is_upper_def code_unit_def)
  then show ?thesis by (auto simp: mentions_other_chain_def test_any test_stri)
qed

lemma ends_with_iff: "ends_with q s \<longleftrightarrow> (\<exists>a. s = a @ q)"
  unfolding ends_with_def by (metis append_take_drop_id append_eq_conv_conj diff_add_inverse2 le_add2 length_append)

lemma lower_dot: "lower_char x = CHR ''.'' \<longleftrightarrow> x = CHR ''.''"
proof
  assume l: "lower_char x = CHR ''.''"
  show "x = CHR ''.''"
  proof (cases "is_upper x")
    case True
    then have "code_unit (lower_char x) = code_unit x + 32"
      by (simp add: lower_char_def code_unit_def is_upper_def of_char_of)
    with True l show ?thesis by (simp add: is_upper_def code_unit_def)
  qed (use l in \<open>simp add: lower_char_def\<close>)
qed (simp add: lower_char_def is_upper_def code_unit_def)

lemma test_extension:
  "re_test (RSeq (re_str ''.'') (RSeq (re_any (map re_stri ws)) REnd)) p \<longleftrightarrow>
     (\<exists>w \<in> set ws. ends_with (''.'' @ to_lower w) (to_lower p))" (is "re_test ?r p \<longleftrightarrow> _")
proof
  assume "re_test ?r p"
  then obtain a b z where p: "p = a @ b" and "rm ?r (prev_char None a, b) z" unfolding re_test_iff by blast
  then obtain u y where "rm (re_str ''.'') (prev_char None a, b) u" "rm (re_any (map re_stri ws)) u y" "rm REnd y z"
    by (elim rm_seqE) blast
  then obtain v where "b = ''.'' @ v" "to_lower v \<in> to_lower ` set ws"
    unfolding rm_str rm_any_stri by (cases y) auto
  then obtain w where w: "w \<in> set ws" and "b = ''.'' @ v" "to_lower v = to_lower w" by blast
  moreover have "lower_char (CHR ''.'') = CHR ''.''" using lower_dot by blast
  ultimately have "to_lower p = to_lower a @ ''.'' @ to_lower w" by (simp add: p to_lower_def)
  with w show "\<exists>w \<in> set ws. ends_with (''.'' @ to_lower w) (to_lower p)"
    unfolding ends_with_iff by blast
next
  assume "\<exists>w \<in> set ws. ends_with (''.'' @ to_lower w) (to_lower p)"
  then obtain w a where w: "w \<in> set ws" and lower: "map lower_char p = a @ ''.'' @ to_lower w"
    unfolding ends_with_iff to_lower_def by blast
  obtain a' d v where p: "p = a' @ d @ v" and d: "map lower_char d = ''.''" and v: "map lower_char v = to_lower w"
    by (rule map_infixE [OF lower])
  have "d = ''.''" using d lower_dot by (cases d) auto
  then have "rm (re_str ''.'') (prev_char None a', d @ v) (Some (CHR ''.''), v)" by (simp add: rm_str prev_char_def)
  moreover have "rm (re_any (map re_stri ws)) (Some (CHR ''.''), v) (prev_char (Some (CHR ''.'')) v, [])"
    unfolding rm_any_stri using v w by (auto simp: to_lower_def)
  ultimately have "rm ?r (prev_char None a', d @ v) (prev_char (Some (CHR ''.'')) v, [])"
    by (blast intro: rm_seq rm_end)
  with p show "re_test ?r p" unfolding re_test_iff by blast
qed

lemma test_either_prefix: "re_test (RSeq RStart (RAlt (re_str v) (re_str w))) s \<longleftrightarrow> starts_with v s \<or> starts_with w s"
  unfolding re_test_iff rm_anchored starts_with_iff by (auto simp: rm_str)

lemma segments_plain: "\<forall>w \<in> set forbidden_segments. CHR ''/'' \<notin> set w \<and> to_lower w = w"
  by (simp add: forbidden_segments_def to_lower_def lower_char_def is_upper_def code_unit_def)

lemma extensions_lower: "to_lower ''json'' = ''json''" "to_lower ''abi'' = ''abi''"
  by (simp_all add: to_lower_def lower_char_def is_upper_def code_unit_def)

lemma test_json_abi:
  "re_test (RSeq (re_str ''.'') (RSeq (RAlt (re_stri ''json'') (re_stri ''abi'')) REnd)) p \<longleftrightarrow>
     ends_with ''.json'' (to_lower p) \<or> ends_with ''.abi'' (to_lower p)"
  using test_extension [of "[''json'', ''abi'']" p] by (simp add: extensions_lower)

lemma path_ok_iff: "(\<forall>r \<in> set FORBIDDEN_IMPORT_PATTERNS. \<not> re_test (br_regex r) p) \<longleftrightarrow> path_ok p"
proof -
  have words: "re_test (path_word ws) p \<longleftrightarrow> (\<exists>w \<in> set ws. w \<in> set (split_on (CHR ''/'') (to_lower p)))"
    if "set ws \<subseteq> set forbidden_segments" for ws
    using segments_plain that by (intro test_path_word) blast
  show ?thesis
    unfolding FORBIDDEN_IMPORT_PATTERNS_def path_ok_def
    by (simp add: words test_either_prefix test_json_abi test_other_chains forbidden_segments_def)
      blast
qed

lemma located_iff: "location_violations existsSync file roots p n = [] \<longleftrightarrow> located existsSync file roots p"
  by (auto simp: location_violations_def located_def Let_def list_ex_iff confined_iff APPROVED_VENDOR_PREFIXES_def)

lemma file_ok_iff: "checkFileBoundaries existsSync file content roots = [] \<longleftrightarrow> file_ok existsSync file roots content"
proof -
  have "import_violations existsSync file roots (p, n) = [] \<longleftrightarrow> path_ok p \<and> located existsSync file roots p" for p n
    by (simp add: import_violations_def filter_empty_conv path_ok_iff located_iff)
  moreover have "line_violations file (i, l) = [] \<longleftrightarrow> \<not> mentions_other_chain l" for i l
    by (simp add: line_violations_def FORBIDDEN_CONTENT_PATTERNS_def test_other_chains)
  moreover have "set ls = snd ` set (List.enumerate 0 ls)" for ls :: "string list"
    by (metis list.set_map map_snd_enumerate)
  ultimately show ?thesis unfolding checkFileBoundaries_def file_ok_def
    by (auto simp: split_beta)
qed

lemma root_files_dir: "isl (root_files disk base) \<longleftrightarrow> \<not> (\<exists>n es. fs_lookup disk base = Some (FsDir n es))"
    "fs_lookup disk base = Some (FsDir n es) \<Longrightarrow> root_files disk base = Inr (sol_files base (FsDir n es))"
  by (auto simp: root_files_def findSolidityFiles_def throw_error_def split: option.splits fs_entry.splits)


section \<open>What gets past the check\<close>

lemma no_imports: "\<not> (\<exists>a b c. stripCommentsPreservingLines s = a @ ''import'' @ c # b \<and> is_ws c) \<Longrightarrow> extractImports s = []"
proof -
  let ?t = "stripCommentsPreservingLines s"
  assume none: "\<not> (\<exists>a b c. ?t = a @ ''import'' @ c # b \<and> is_ws c)"
  have "search import_regex None ?t = None"
  proof (rule ccontr)
    assume "search import_regex None ?t \<noteq> None"
    then obtain a b y where t: "?t = a @ b" and "rm import_regex (prev_char None a, b) y"
      unfolding search_iff matches_at_def by blast
    then obtain u w where u: "rm (re_str ''import'') (prev_char None a, b) u" and "rm spaces u w"
      unfolding import_regex_def by (elim rm_seqE) blast
    then obtain c r where "snd u = c # r" "is_ws c" unfolding spaces_def re_plus_def by auto
    with u have "b = ''import'' @ c # r" unfolding rm_str by simp
    with t none \<open>is_ws c\<close> show False by blast
  qed
  then show ?thesis unfolding extractImports_def by (simp add: match_all.simps)
qed

lemma no_pairs_kept: "\<not> includes_str ''//'' s \<Longrightarrow> \<not> includes_str ''/*'' s \<Longrightarrow> stripCommentsPreservingLines s = s"
proof -
  have "\<not> includes_str ''/*'' s \<Longrightarrow> scan_blocks s = s" by (induction s) simp_all
  moreover have "\<not> includes_str ''//'' s \<Longrightarrow> scan_lines False s = s" by (induction s) simp_all
  ultimately show "\<not> includes_str ''//'' s \<Longrightarrow> \<not> includes_str ''/*'' s \<Longrightarrow> stripCommentsPreservingLines s = s"
    by (simp add: stripCommentsPreservingLines_def replace_blocks replace_lines)
qed

lemma split_lines_plain: "\<forall>c \<in> set s. \<not> is_newline c \<Longrightarrow> split_lines s = [s]"
  by (induction s) (auto simp: is_newline_def)

text \<open>An import without a space after the keyword, as the compiler accepts it, is not seen, so that
  it may leave the contract directories or name any package.\<close>

theorem unspaced_import_unseen:
  assumes "content = ''import'' @ [CHR 0x22] @ p @ [CHR 0x22, CHR '';'']" "\<forall>c \<in> set p. \<not> is_ws c"
    and "\<not> includes_str ''//'' content" "\<not> includes_str ''/*'' content" "\<not> mentions_other_chain content"
  shows "checkFileBoundaries existsSync file content roots = []"
proof -
  have ws: "\<forall>c \<in> set content. \<not> is_ws c"
    using assms(1,2) by (auto simp: is_ws_def code_unit_def)
  have strip: "stripCommentsPreservingLines content = content" by (rule no_pairs_kept [OF assms(3,4)])
  have "\<not> (\<exists>a b c. content = a @ ''import'' @ c # b \<and> is_ws c)" using ws by auto
  then have "extractImports content = []" by (simp add: no_imports strip)
  moreover have "split_lines content = [content]"
    using ws by (intro split_lines_plain) (auto simp: is_ws_def is_newline_def code_unit_def)
  ultimately show ?thesis using assms(5) by (simp add: file_ok_iff file_ok_def strip)
qed

lemma set_split_lines: "\<Union> (set ` set (split_lines s)) \<subseteq> set s"
proof (induction s rule: split_lines.induct)
  case (2 c s)
  let ?lf = "s \<noteq> [] \<and> hd s = CHR 0x0A"
  show ?case
  proof (cases "c = CHR 0x0D")
    case cr: True
    have "set (tl s) \<subseteq> set s" by (cases s) auto
    then show ?thesis
      using cr 2(1) [OF cr] 2(2) [OF cr] by (cases ?lf) (simp_all only: split_lines.simps if_True if_False, auto)
  next
    case cr: False
    obtain w ws where ws: "split_lines s = w # ws" by (cases "split_lines s") (auto simp: split_lines_nonempty)
    show ?thesis
      using cr ws 2(3) [OF cr] 2(4) [OF cr] by (cases "c = CHR 0x0A") auto
  qed
qed simp

lemma white_no_chain:
  assumes "\<forall>c \<in> set l. c = CHR 0x20 \<or> is_newline c"
  shows "\<not> mentions_other_chain l"
proof
  have "lower_char c = c" if "c \<in> set l" for c
  proof -
    from assms that consider "c = CHR 0x20" | "c = CHR 0x0D" | "c = CHR 0x0A" unfolding is_newline_def by blast
    then show ?thesis by cases (simp_all add: lower_char_def is_upper_def code_unit_def)
  qed
  then have lower: "to_lower l = l" by (simp add: to_lower_def map_idI)
  assume "mentions_other_chain l"
  then obtain w a b where w: "w \<in> set other_chains" and l: "l = a @ w @ b"
    unfolding mentions_other_chain_def includes_str_iff lower by blast
  have "hd w \<in> set l" "hd w = CHR ''s'' \<or> hd w = CHR ''f''"
    using w l by (auto simp: other_chains_def)
  with assms have "hd w = CHR 0x20 \<or> is_newline (hd w)" "hd w = CHR ''s'' \<or> hd w = CHR ''f''" by blast+
  then show False unfolding is_newline_def by (elim disjE) simp_all
qed

text \<open>A line comment that contains \<open>/*\<close> hides the code up to the next \<open>*/\<close>, whatever it imports or
  mentions, though the compiler reads it.\<close>

theorem commented_code_unseen:
  assumes "close_at (t @ ''*/'') = Some (length t)"
  shows "checkFileBoundaries existsSync file (''// /*'' @ [CHR 0x0A] @ t @ ''*/'') roots = []"
proof -
  let ?s = "''// /*'' @ [CHR 0x0A] @ t @ ''*/''"
  define white where "white = (\<lambda>c. c = CHR 0x20 \<or> is_newline c)"
  have "scan_blocks ?s = ''// '' @ blank (''/*'' @ [CHR 0x0A] @ t @ ''*/'')"
    using assms by (simp add: starts_with_def)
  then have strip: "stripCommentsPreservingLines ?s = scan_lines False (''// '' @ blank (''/*'' @ [CHR 0x0A] @ t @ ''*/''))"
    by (simp only: stripCommentsPreservingLines_def replace_blocks replace_lines Let_def)
  have lines: "\<forall>c \<in> set (scan_lines b u). white c" if "\<forall>c \<in> set u. white c" for b u
    using that by (induction b u rule: scan_lines.induct) (auto simp: white_def)
  have "\<forall>c \<in> set (scan_lines True (''/ '' @ blank w)). white c" for w
    using lines [of "CHR 0x20 # blank w" True] by (auto simp: blank_def white_def is_newline_def)
  then have white: "\<forall>c \<in> set (stripCommentsPreservingLines ?s). white c"
    unfolding strip by (simp add: starts_with_def is_newline_def white_def)
  have "\<not> (\<exists>a b c. stripCommentsPreservingLines ?s = a @ ''import'' @ c # b \<and> is_ws c)"
  proof
    assume "\<exists>a b c. stripCommentsPreservingLines ?s = a @ ''import'' @ c # b \<and> is_ws c"
    then have "CHR ''i'' \<in> set (stripCommentsPreservingLines ?s)" by force
    with white have "white (CHR ''i'')" by blast
    then show False by (simp add: white_def is_newline_def)
  qed
  then have "extractImports ?s = []" by (rule no_imports)
  moreover have "\<not> mentions_other_chain l" if "l \<in> set (split_lines (stripCommentsPreservingLines ?s))" for l
    using that white set_split_lines [of "stripCommentsPreservingLines ?s"] by (intro white_no_chain) (auto simp: white_def)
  ultimately show ?thesis by (simp add: file_ok_iff file_ok_def)
qed

section \<open>Runs\<close>

definition quote_text :: "string \<Rightarrow> string" where
  "quote_text s = [CHR 0x22] @ s @ [CHR 0x22]"

definition demo_source :: string where
  "demo_source = ''import {A} from '' @ quote_text ''./b.sol'' @ '';''"

definition demo_disk :: fs_entry where
  "demo_disk = FsDir [] [FsDir ''contracts'' [FsFile ''a.sol'' demo_source, FsFile ''b.sol'' ''contract B {}'', FsFile ''c.md'' ''stellar''],
     FsDir ''contracts-vrm'' []]"

lemma demo_boundaries: "boundaries_main demo_disk [] = 0"
  by code_simp


lemma unspaced_import_unseen_witness:
  "checkFileBoundaries (\<lambda>p. False) [''contracts'', ''a.sol''] (''import'' @ quote_text ''../../secret.json'' @ '';'') [[''contracts'']] = []"
proof (rule unspaced_import_unseen [of _ "''../../secret.json''"])
  show "\<not> mentions_other_chain (''import'' @ quote_text ''../../secret.json'' @ '';'')" by code_simp
qed (simp_all add: quote_text_def is_ws_def code_unit_def starts_with_def)

lemma commented_code_unseen_witness:
  "checkFileBoundaries (\<lambda>p. False) [''a.sol'']
     (''// /*'' @ [CHR 0x0A] @ (''import '' @ quote_text ''stellar/x.json'' @ '';//'') @ ''*/'') [[''contracts'']] = []"
  by (rule commented_code_unseen) (simp add: quote_text_def starts_with_def)

end
