(* ===== verification/InvariantSeeds.thy ===== *)
theory InvariantSeeds
  imports JsonChecks
begin

text \<open>
  \<open>scripts/repro-invariant-seed.mjs\<close>: the manifest of invariant failure seeds, its validation, and the
  command that replays one. \<open>seed_host\<close> holds the repository as a directory tree whose root has the empty
  path, the parsed manifest, the outcome of running a command, and the number of stack frames that
  the recursion over the seed directory may use. Printing is left out.
\<close>

definition SEED_DIR :: string where
  "SEED_DIR = ''test/corpus/invariant/seeds/sequences''"

definition VALID_STATES :: "string list" where
  "VALID_STATES = [''open'', ''fixed'', ''rejected'']"

definition VALID_ORIGINS :: "string list" where
  "VALID_ORIGINS = [''recorded-counterexample'', ''authored-minimal-regression'']"

record invariant_seed =
  sd_id :: string
  sd_contract :: string
  sd_invariant :: string
  sd_summary :: string
  sd_sequenceFile :: string
  sd_sequenceDir :: string
  sd_state :: string
  sd_origin :: string
  sd_runs :: int
  sd_depth :: int
  sd_seed :: string
  sd_commit :: string
  sd_repro :: string

section \<open>The manifest\<close>

abbreviation seed_object :: "string \<Rightarrow> json \<Rightarrow> json res" where
  "seed_object \<equiv> require_object ''SeedManifestError''"

abbreviation seed_string :: "string \<Rightarrow> json \<Rightarrow> string res" where
  "seed_string \<equiv> require_string ''SeedManifestError''"

abbreviation seed_check :: "bool \<Rightarrow> string \<Rightarrow> unit res" where
  "seed_check \<equiv> check_that ''SeedManifestError''"

text \<open>\<open>/^0x[0-9a-fA-F]+$/\<close>.\<close>

definition hex_seed :: re where
  "hex_seed = RSeq RStart (RSeq (re_str ''0x'') (RSeq (re_plus (RChar is_hex)) REnd))"

definition load_seed :: "string list \<Rightarrow> nat \<Rightarrow> json \<Rightarrow> invariant_seed res" where
  "load_seed seen index raw =
     (let label = ''Invariant seed manifest.seeds['' @ show_nat index @ '']'' in
      res_bind (seed_object label raw) (\<lambda>seed.
      res_bind (seed_string (label @ ''.id'') (json_get ''id'' seed)) (\<lambda>id.
      res_bind (seed_check (id \<notin> set seen) (label @ ''.id duplicates an earlier seed: '' @ id)) (\<lambda>u.
      res_bind (seed_string (label @ ''.invariantContract'') (json_get ''invariantContract'' seed)) (\<lambda>invariantContract.
      res_bind (seed_string (label @ ''.invariant'') (json_get ''invariant'' seed)) (\<lambda>invariant.
      res_bind (seed_string (label @ ''.summary'') (json_get ''summary'' seed)) (\<lambda>summary.
      res_bind (seed_string (label @ ''.sequenceFile'') (json_get ''sequenceFile'' seed)) (\<lambda>sequenceFile.
      res_bind (seed_check (\<not> includes_str ''..'' sequenceFile \<and> \<not> starts_with ''/'' sequenceFile \<and> CHR 0x5C \<notin> set sequenceFile)
        (label @ ''.sequenceFile must be a relative path inside '' @ SEED_DIR @ '': '' @ sequenceFile)) (\<lambda>u.
      let sequenceDir = hd (split_on (CHR ''/'') sequenceFile) in
      res_bind (seed_check (sequenceDir = id)
        (label @ ''.sequenceFile must live in a directory named after the seed so that --corpus-dir replays exactly one sequence: expected '' @
          [CHR 0x22] @ id @ ''/...'' @ [CHR 0x22] @ '', got '' @ [CHR 0x22] @ sequenceFile @ [CHR 0x22])) (\<lambda>u.
      res_bind (seed_string (label @ ''.state'') (json_get ''state'' seed)) (\<lambda>state.
      res_bind (seed_check (state \<in> set VALID_STATES) (label @ ''.state must be one of '' @ join_with '', '' VALID_STATES)) (\<lambda>u.
      res_bind (seed_string (label @ ''.origin'') (json_get ''origin'' seed)) (\<lambda>origin.
      res_bind (seed_check (origin \<in> set VALID_ORIGINS) (label @ ''.origin must be one of '' @ join_with '', '' VALID_ORIGINS)) (\<lambda>u.
      res_bind (seed_object (label @ ''.campaign'') (json_get ''campaign'' seed)) (\<lambda>campaign.
      res_bind (require_positive ''SeedManifestError'' (label @ ''.campaign.runs'') (json_get ''runs'' campaign)) (\<lambda>runs.
      res_bind (require_positive ''SeedManifestError'' (label @ ''.campaign.depth'') (json_get ''depth'' campaign)) (\<lambda>depth.
      res_bind (seed_string (label @ ''.campaign.seed'') (json_get ''seed'' campaign)) (\<lambda>invariantSeed.
      res_bind (seed_check (re_test hex_seed invariantSeed) (label @ ''.campaign.seed must be a hex string: '' @ invariantSeed)) (\<lambda>u.
      res_bind (seed_string (label @ ''.commit'') (json_get ''commit'' seed)) (\<lambda>commit.
      res_bind (seed_string (label @ ''.repro'') (json_get ''repro'' seed)) (\<lambda>repro.
      res_bind (if state = ''fixed'' then seed_string (label @ ''.fixedIn'') (json_get ''fixedIn'' seed) else Inr []) (\<lambda>u.
      res_bind (if state = ''rejected'' then seed_string (label @ ''.rejectedBecause'') (json_get ''rejectedBecause'' seed) else Inr []) (\<lambda>u.
      Inr \<lparr>sd_id = id, sd_contract = invariantContract, sd_invariant = invariant, sd_summary = summary,
        sd_sequenceFile = sequenceFile, sd_sequenceDir = sequenceDir, sd_state = state, sd_origin = origin,
        sd_runs = runs, sd_depth = depth, sd_seed = invariantSeed, sd_commit = commit, sd_repro = repro\<rparr>)))))))))))))))))))))))"

fun load_seeds :: "string list \<Rightarrow> nat \<Rightarrow> json list \<Rightarrow> invariant_seed list res" where
  "load_seeds seen index [] = Inr []"
| "load_seeds seen index (raw # raws) =
     res_bind (load_seed seen index raw) (\<lambda>seed.
     res_bind (load_seeds (sd_id seed # seen) (Suc index) raws) (\<lambda>seeds. Inr (seed # seeds)))"

definition loadSeedManifest :: "json res option \<Rightarrow> invariant_seed list res" where
  "loadSeedManifest file =
     (let label = ''Invariant seed manifest'' in
      res_bind (parse_json_file ''SeedManifestError'' label ''test/corpus/invariant/seeds/manifest.json'' file) (\<lambda>parsed.
      res_bind (seed_object label parsed) (\<lambda>manifest.
      res_bind (require_positive ''SeedManifestError'' (label @ ''.schemaVersion'') (json_get ''schemaVersion'' manifest)) (\<lambda>u.
      res_bind (seed_string (label @ ''.protocolVersion'') (json_get ''protocolVersion'' manifest)) (\<lambda>u.
      res_bind (seed_object (label @ ''.toolchain'') (json_get ''toolchain'' manifest)) (\<lambda>toolchain.
      res_bind (seed_string (label @ ''.toolchain.name'') (json_get ''name'' toolchain)) (\<lambda>u.
      res_bind (seed_string (label @ ''.toolchain.version'') (json_get ''version'' toolchain)) (\<lambda>u.
      res_bind (require_array ''SeedManifestError'' (label @ ''.seeds'') (json_get ''seeds'' manifest)) (\<lambda>raws.
      load_seeds [] 0 raws)))))))))"

section \<open>The command\<close>

definition buildReproCommand :: "invariant_seed \<Rightarrow> string" where
  "buildReproCommand seed = join_with '' ''
     [''forge test'', ''--invariant-contract '' @ sd_contract seed,
      ''--match-test '' @ [CHR 0x22, CHR 0x5E] @ sd_invariant seed @ [CHR ''$'', CHR 0x22],
      ''--invariant-runs '' @ show_int (sd_runs seed), ''--invariant-depth '' @ show_int (sd_depth seed),
      ''--invariant-seed '' @ sd_seed seed, ''--fuzz-seed '' @ sd_seed seed, ''--corpus-dir '' @ sd_sequenceDir seed]"

text \<open>\<open>token.replace(/^["'](.*)["']$/, "$1")\<close> on a token without white space.\<close>

definition quote_mark :: "char \<Rightarrow> bool" where
  "quote_mark c \<longleftrightarrow> c = CHR 0x22 \<or> c = CHR 0x27"

definition unquote :: "string \<Rightarrow> string" where
  "unquote w = (if 2 \<le> length w \<and> quote_mark (hd w) \<and> quote_mark (last w) then butlast (tl w) else w)"

definition parseReproCommand :: "string \<Rightarrow> string list" where
  "parseReproCommand command = map unquote (command_words command)"

section \<open>Files\<close>

definition at_path :: "string \<Rightarrow> string list" where
  "at_path p = path_resolve [] (split_on (CHR ''/'') p)"

definition existsSync :: "fs_entry \<Rightarrow> string list \<Rightarrow> bool" where
  "existsSync disk p = (fs_lookup disk p \<noteq> None)"

definition sequence_path :: "string \<Rightarrow> string list" where
  "sequence_path file = path_resolve (at_path SEED_DIR) (split_on (CHR ''/'') file)"

definition validateSeedManifest :: "fs_entry \<Rightarrow> invariant_seed list \<Rightarrow> string list" where
  "validateSeedManifest disk seeds = concat (map (\<lambda>seed.
     (if sd_repro seed \<noteq> buildReproCommand seed
      then [sd_id seed @ '': repro command drifted; expected '' @ [CHR 0x22] @ buildReproCommand seed @ [CHR 0x22]] else []) @
     (if \<not> existsSync disk (sequence_path (sd_sequenceFile seed))
      then [sd_id seed @ '': sequence file missing at '' @ join_with ''/'' (sequence_path (sd_sequenceFile seed))] else [])) seeds)"

definition findSeed :: "invariant_seed list \<Rightarrow> string \<Rightarrow> invariant_seed res" where
  "findSeed seeds seedId = (case find (\<lambda>seed. sd_id seed = seedId) seeds of
     Some seed \<Rightarrow> Inr seed
   | None \<Rightarrow> Inl (JsError ''SeedManifestError'' (''Unknown invariant seed '' @ [CHR 0x22] @ seedId @ [CHR 0x22] @ ''. Known seeds: '' @
       or_str (Some (join_with '', '' (map sd_id seeds))) ''(none)'')))"

text \<open>The recursion of \<open>listSequenceFiles\<close> descends with a longer prefix but reads the same directory
  again; without stack it throws a \<open>RangeError\<close>.\<close>

fun listSequenceFiles :: "nat \<Rightarrow> fs_entry \<Rightarrow> string list \<Rightarrow> string \<Rightarrow> string list res" where
  "listSequenceFiles 0 disk dir prefix = Inl (JsError ''RangeError'' ''Maximum call stack size exceeded'')"
| "listSequenceFiles (Suc frames) disk dir prefix =
     (case fs_lookup disk dir of
        None \<Rightarrow> Inr []
      | Some (FsDir n entries) \<Rightarrow>
          res_bind (traverse (\<lambda>entry.
            let entryPath = (if prefix = [] then entry_name entry else prefix @ ''/'' @ entry_name entry) in
            (case entry of
               FsDir m es \<Rightarrow> listSequenceFiles frames disk dir entryPath
             | _ \<Rightarrow> Inr (if ends_with ''.json'' (entry_name entry) then [entryPath] else []))) entries)
          (\<lambda>parts. Inr (concat parts))
      | Some e \<Rightarrow> Inl (JsError ''Error'' ''ENOTDIR: not a directory, scandir''))"

definition findOrphanSequences :: "nat \<Rightarrow> fs_entry \<Rightarrow> invariant_seed list \<Rightarrow> string list res" where
  "findOrphanSequences frames disk seeds =
     res_bind (listSequenceFiles frames disk (at_path SEED_DIR) []) (\<lambda>files.
       Inr (filter (\<lambda>file. file \<notin> set (map sd_sequenceFile seeds)) files))"

section \<open>The script\<close>

record seed_host =
  sh_disk :: fs_entry
  sh_manifest :: "json res option"
  sh_runs :: "string list \<Rightarrow> bool"              \<comment> \<open>\<open>execFileSync\<close> returns\<close>
  sh_frames :: nat

text \<open>Exit code and the commands that were run.\<close>

definition resolveReproduction :: "seed_host \<Rightarrow> invariant_seed \<Rightarrow> bool \<Rightarrow> nat \<times> string list list" where
  "resolveReproduction H seed dryRun =
     (let argv = parseReproCommand (buildReproCommand seed) in
      if dryRun then (0, []) else (if sh_runs H argv then 0 else 1, [argv]))"

definition repro_main :: "seed_host \<Rightarrow> string list \<Rightarrow> nat \<times> string list list" where
  "repro_main H argv =
     (case loadSeedManifest (sh_manifest H) of
        Inl e \<Rightarrow> (1, [])
      | Inr seeds \<Rightarrow>
          (case findOrphanSequences (sh_frames H) (sh_disk H) seeds of
             Inl e \<Rightarrow> (1, [])
           | Inr orphans \<Rightarrow>
               if validateSeedManifest (sh_disk H) seeds \<noteq> [] \<or> orphans \<noteq> [] then (1, [])
               else if ''--list'' \<in> set argv then (0, [])
               else (case filter (\<lambda>token. \<not> starts_with ''--'' token) argv of
                 [] \<Rightarrow> (1, [])
               | seedId # others \<Rightarrow> if seedId = [] then (1, [])
                   else (case findSeed seeds seedId of
                     Inl e \<Rightarrow> (1, [])
                   | Inr seed \<Rightarrow> resolveReproduction H seed (''--dry-run'' \<in> set argv)))))"

section \<open>Properties\<close>

lemma traverse_only_error:
  "x \<in> set xs \<Longrightarrow> f x = Inl e \<Longrightarrow> (\<And>y e'. y \<in> set xs \<Longrightarrow> f y = Inl e' \<Longrightarrow> e' = e) \<Longrightarrow> traverse f xs = Inl e"
proof (induction xs)
  case (Cons y ys)
  show ?case
  proof (cases "f y")
    case (Inl e')
    with Cons.prems(3) [of y e'] show ?thesis by simp
  next
    case (Inr b)
    with Cons.prems(1,2) have "x \<in> set ys" by auto
    moreover have "\<And>z e'. z \<in> set ys \<Longrightarrow> f z = Inl e' \<Longrightarrow> e' = e" using Cons.prems(3) by auto
    ultimately have "traverse f ys = Inl e" by (rule Cons.IH [OF _ Cons.prems(2)])
    with Inr show ?thesis by simp
  qed
qed simp

abbreviation stack_overflow :: js_error where
  "stack_overflow \<equiv> JsError ''RangeError'' ''Maximum call stack size exceeded''"

lemma listing_overflows:
  assumes "fs_lookup disk dir = Some (FsDir n entries)" "FsDir m es \<in> set entries"
  shows "listSequenceFiles frames disk dir prefix = Inl stack_overflow"
proof (induction frames arbitrary: prefix)
  case (Suc frames)
  have "traverse (\<lambda>entry.
            let entryPath = (if prefix = [] then entry_name entry else prefix @ ''/'' @ entry_name entry) in
            (case entry of
               FsDir m es \<Rightarrow> listSequenceFiles frames disk dir entryPath
             | _ \<Rightarrow> Inr (if ends_with ''.json'' (entry_name entry) then [entryPath] else []))) entries = Inl stack_overflow"
    using Suc.IH by (intro traverse_only_error [OF assms(2)]) (auto simp: Let_def split: fs_entry.splits)
  with assms(1) show ?case by (simp add: res_bind_def)
qed simp

text \<open>C26: as soon as the seed directory has a subdirectory, as the manifest requires of every seed, the
  search for unlisted sequence files never ends: the script fails with every argument and however
  large the stack is, and replays nothing.\<close>

theorem seed_script_overflows:
  assumes "fs_lookup (sh_disk H) [''test'', ''corpus'', ''invariant'', ''seeds'', ''sequences''] = Some (FsDir n entries)"
    and "FsDir m es \<in> set entries"
  shows "repro_main H argv = (1, [])"
proof -
  have "at_path SEED_DIR = [''test'', ''corpus'', ''invariant'', ''seeds'', ''sequences'']" by code_simp
  with listing_overflows [OF assms] show ?thesis
    by (auto simp: repro_main_def findOrphanSequences_def res_bind_def split: sum.splits)
qed

definition seed_ok :: "invariant_seed \<Rightarrow> bool" where
  "seed_ok seed \<longleftrightarrow> trim (sd_id seed) \<noteq> [] \<and> trim (sd_contract seed) \<noteq> [] \<and> trim (sd_invariant seed) \<noteq> [] \<and>
     sd_state seed \<in> set VALID_STATES \<and> sd_origin seed \<in> set VALID_ORIGINS \<and> 1 \<le> sd_runs seed \<and> 1 \<le> sd_depth seed \<and>
     (\<exists>h. sd_seed seed = ''0x'' @ h \<and> h \<noteq> [] \<and> (\<forall>c \<in> set h. is_hex c)) \<and>
     sd_sequenceDir seed = sd_id seed \<and> \<not> includes_str ''..'' (sd_sequenceFile seed) \<and>
     hd (split_on (CHR ''/'') (sd_sequenceFile seed)) = sd_id seed"

lemma test_hex_seed: "re_test hex_seed s \<longleftrightarrow> (\<exists>h. s = ''0x'' @ h \<and> h \<noteq> [] \<and> (\<forall>c \<in> set h. is_hex c))"
proof -
  have end_plus: "(\<exists>y. rm (RSeq (re_plus (RChar is_hex)) REnd) (p, h) y) \<longleftrightarrow> h \<noteq> [] \<and> (\<forall>c \<in> set h. is_hex c)" for p h
    by (cases h) (auto simp: re_plus_def rm_star_chars)
  have "re_test hex_seed s \<longleftrightarrow> (\<exists>h. s = ''0x'' @ h \<and> (\<exists>y. rm (RSeq (re_plus (RChar is_hex)) REnd) (Some (CHR ''x''), h) y))"
    unfolding re_test_iff hex_seed_def rm_anchored by (auto simp: rm_str prev_char_def simp del: rm_simps(3)) (auto simp: rm_str prev_char_def)
  then show ?thesis unfolding end_plus .
qed

lemma load_seed_ok: "load_seed seen i raw = Inr seed \<Longrightarrow> seed_ok seed \<and> sd_id seed \<notin> set seen"
  by (auto simp: load_seed_def Let_def check_inv seed_ok_def test_hex_seed)

lemma load_seeds_ok:
  "load_seeds seen i raws = Inr seeds \<Longrightarrow> (\<forall>seed \<in> set seeds. seed_ok seed) \<and> distinct (map sd_id seeds) \<and>
     sd_id ` set seeds \<inter> set seen = {}"
proof (induction seen i raws arbitrary: seeds rule: load_seeds.induct)
  case (2 seen i raw raws)
  from 2(2) obtain seed rest where s: "load_seed seen i raw = Inr seed" "load_seeds (sd_id seed # seen) (Suc i) raws = Inr rest"
      "seeds = seed # rest" by (auto simp: check_inv)
  with 2(1) [OF s(2)] load_seed_ok [OF s(1)] show ?case by auto
qed simp

lemma load_manifest_ok:
  "loadSeedManifest file = Inr seeds \<Longrightarrow> (\<forall>seed \<in> set seeds. seed_ok seed) \<and> distinct (map sd_id seeds)"
  using load_seeds_ok by (auto simp: loadSeedManifest_def Let_def check_inv)

lemma validated: "validateSeedManifest disk seeds = [] \<longleftrightarrow>
    (\<forall>seed \<in> set seeds. sd_repro seed = buildReproCommand seed \<and> existsSync disk (sequence_path (sd_sequenceFile seed)))"
  by (auto simp: validateSeedManifest_def)

text \<open>C27: only a validated seed is ever replayed: at most one command runs, it is the recorded one of the
  seed that was asked for, the manifest is well formed with distinct ids, the sequence file exists, and
  the exit code is 0 exactly when the command succeeds.\<close>

theorem replayed_seed_validated:
  assumes "repro_main H argv = (code, [command])"
  shows "\<exists>seeds seed. loadSeedManifest (sh_manifest H) = Inr seeds \<and> distinct (map sd_id seeds) \<and> seed \<in> set seeds \<and>
    seed_ok seed \<and> command = parseReproCommand (sd_repro seed) \<and> sd_id seed \<in> set argv \<and>
    existsSync (sh_disk H) (sequence_path (sd_sequenceFile seed)) \<and> ''--dry-run'' \<notin> set argv \<and> (code = 0 \<longleftrightarrow> sh_runs H command)"
proof -
  from assms obtain seeds where load: "loadSeedManifest (sh_manifest H) = Inr seeds"
      and valid: "validateSeedManifest (sh_disk H) seeds = []"
    by (auto simp: repro_main_def split: sum.splits list.splits if_splits)
  from assms load valid obtain seedId others seed where pos: "filter (\<lambda>token. \<not> starts_with ''--'' token) argv = seedId # others"
      and find: "find (\<lambda>seed. sd_id seed = seedId) seeds = Some seed"
      and run: "resolveReproduction H seed (''--dry-run'' \<in> set argv) = (code, [command])"
    by (auto simp: repro_main_def findSeed_def split: sum.splits list.splits if_splits option.splits)
  have "seedId \<in> set argv" using pos by (metis filter_is_subset list.set_intros(1) subsetD)
  moreover from find have "seed \<in> set seeds" "sd_id seed = seedId" by (auto simp: find_Some_iff)
  moreover from run have "''--dry-run'' \<notin> set argv" "command = parseReproCommand (buildReproCommand seed)" "code = 0 \<longleftrightarrow> sh_runs H command"
    by (auto simp: resolveReproduction_def Let_def split: if_splits)
  ultimately show ?thesis
    using load load_manifest_ok [OF load] valid unfolding validated by metis
qed

definition plain_word :: "string \<Rightarrow> bool" where
  "plain_word w \<longleftrightarrow> w \<noteq> [] \<and> (\<forall>c \<in> set w. \<not> is_ws c) \<and> \<not> quote_mark (hd w)"

lemma show_int_plain: "plain_word (show_int n)"
proof -
  have "\<not> is_ws c \<and> \<not> quote_mark c" if "c \<in> set (show_nat k)" for c k
    using show_nat_digits [OF that] by (auto simp: is_digit_def is_ws_def quote_mark_def code_unit_def)
  then have "\<forall>c \<in> set (show_int n). \<not> is_ws c \<and> \<not> quote_mark c"
    by (auto simp: show_int_def is_ws_def quote_mark_def code_unit_def)
  then show ?thesis unfolding plain_word_def by (auto simp: show_int_def)
qed

lemma hex_seed_plain: "seed_ok seed \<Longrightarrow> plain_word (sd_seed seed)"
  using is_hex_not_ws by (auto simp: seed_ok_def plain_word_def is_ws_def quote_mark_def code_unit_def)

lemma unquote_plain: "plain_word w \<Longrightarrow> unquote w = w"
  by (simp add: plain_word_def unquote_def)

text \<open>The command that is run is the recorded one split into its arguments, with the quotes around
  the test pattern gone: the corpus directory is the bare id of the seed.\<close>

theorem repro_command_arguments:
  assumes "seed_ok seed" "plain_word (sd_contract seed)" "plain_word (sd_invariant seed)" "plain_word (sd_id seed)"
  shows "parseReproCommand (buildReproCommand seed) =
    [''forge'', ''test'', ''--invariant-contract'', sd_contract seed, ''--match-test'', [CHR 0x5E] @ sd_invariant seed @ ''$'',
     ''--invariant-runs'', show_int (sd_runs seed), ''--invariant-depth'', show_int (sd_depth seed),
     ''--invariant-seed'', sd_seed seed, ''--fuzz-seed'', sd_seed seed, ''--corpus-dir'', sd_id seed]"
proof -
  let ?quoted = "[CHR 0x22, CHR 0x5E] @ sd_invariant seed @ [CHR ''$'', CHR 0x22]"
  let ?words = "[''forge'', ''test'', ''--invariant-contract'', sd_contract seed, ''--match-test'', ?quoted,
     ''--invariant-runs'', show_int (sd_runs seed), ''--invariant-depth'', show_int (sd_depth seed),
     ''--invariant-seed'', sd_seed seed, ''--fuzz-seed'', sd_seed seed, ''--corpus-dir'', sd_id seed]"
  have dir: "sd_sequenceDir seed = sd_id seed" using assms(1) by (simp add: seed_ok_def)
  have "buildReproCommand seed = join_with '' '' ?words"
    by (simp add: buildReproCommand_def dir)
  moreover have "\<forall>w \<in> set ?words. w \<noteq> [] \<and> (\<forall>c \<in> set w. \<not> is_ws c)"
    using assms hex_seed_plain [OF assms(1)] show_int_plain [of "sd_runs seed"] show_int_plain [of "sd_depth seed"]
    by (simp add: plain_word_def is_ws_def code_unit_def)
  ultimately have "command_words (buildReproCommand seed) = ?words" by (simp only: command_words_join)
  moreover have "unquote ?quoted = [CHR 0x5E] @ sd_invariant seed @ ''$''" by (simp add: unquote_def quote_mark_def butlast_append)
  ultimately show ?thesis
    using assms(2,4) hex_seed_plain [OF assms(1)] show_int_plain
    by (simp add: parseReproCommand_def unquote_plain) (simp add: unquote_def quote_mark_def)
qed

section \<open>Runs\<close>

definition demo_seed :: "string \<Rightarrow> json" where
  "demo_seed name = JObj [(''id'', JStr name), (''invariantContract'', JStr ''Vault''), (''invariant'', JStr ''solvent''),
     (''summary'', JStr ''s''), (''sequenceFile'', JStr name), (''state'', JStr ''open''), (''origin'', JStr ''recorded-counterexample''),
     (''campaign'', JObj [(''runs'', JNum 5), (''depth'', JNum 2), (''seed'', JStr ''0x1f'')]), (''commit'', JStr ''c''),
     (''repro'', JStr (''forge test --invariant-contract Vault --match-test '' @ [CHR 0x22, CHR 0x5E] @ ''solvent$'' @ [CHR 0x22] @
        '' --invariant-runs 5 --invariant-depth 2 --invariant-seed 0x1f --fuzz-seed 0x1f --corpus-dir '' @ name))]"

definition demo_host :: seed_host where
  "demo_host = \<lparr>sh_disk = FsDir [] [FsDir ''test'' [FsDir ''corpus'' [FsDir ''invariant'' [FsDir ''seeds'' [FsDir ''sequences'' [FsFile ''a'' ''x'']]]]]],
     sh_manifest = Some (Inr (JObj [(''schemaVersion'', JNum 1), (''protocolVersion'', JStr ''2.0''),
       (''toolchain'', JObj [(''name'', JStr ''forge''), (''version'', JStr ''1'')]), (''seeds'', JArr [demo_seed ''a''])])),
     sh_runs = (\<lambda>argv. True), sh_frames = 1\<rparr>"

lemma demo_replays: "repro_main demo_host [''a''] = (0, [[''forge'', ''test'', ''--invariant-contract'', ''Vault'', ''--match-test'',
    [CHR 0x5E] @ ''solvent$'', ''--invariant-runs'', ''5'', ''--invariant-depth'', ''2'', ''--invariant-seed'', ''0x1f'',
    ''--fuzz-seed'', ''0x1f'', ''--corpus-dir'', ''a'']])"
  by code_simp

lemma replayed_seed_validated_witness:
  "\<exists>seeds seed. loadSeedManifest (sh_manifest demo_host) = Inr seeds \<and> seed \<in> set seeds \<and> seed_ok seed \<and> sd_id seed = ''a''"
  using replayed_seed_validated [OF demo_replays] by auto

lemma repro_command_arguments_witness:
  "parseReproCommand (buildReproCommand \<lparr>sd_id = ''s'', sd_contract = ''C'', sd_invariant = ''i'', sd_summary = ''x'',
     sd_sequenceFile = ''s/f'', sd_sequenceDir = ''s'', sd_state = ''open'', sd_origin = ''recorded-counterexample'',
     sd_runs = 12, sd_depth = 3, sd_seed = ''0xAb'', sd_commit = ''c'', sd_repro = ''r''\<rparr>) =
   [''forge'', ''test'', ''--invariant-contract'', ''C'', ''--match-test'', [CHR 0x5E] @ ''i'' @ ''$'',
     ''--invariant-runs'', show_int 12, ''--invariant-depth'', show_int 3, ''--invariant-seed'', ''0xAb'',
     ''--fuzz-seed'', ''0xAb'', ''--corpus-dir'', ''s'']"
  (is "parseReproCommand (buildReproCommand ?s) = _")
proof -
  have "seed_ok ?s"
    by (auto simp: seed_ok_def VALID_STATES_def VALID_ORIGINS_def trim_def is_ws_def code_unit_def is_hex_def is_hex_lower_def
        is_digit_def starts_with_def intro!: exI [of _ "''Ab''"])
  moreover have "plain_word ''C''" "plain_word ''i''" "plain_word ''s''"
    by (simp_all add: plain_word_def is_ws_def code_unit_def quote_mark_def)
  ultimately show ?thesis using repro_command_arguments [of ?s] by simp
qed

definition nested_host :: seed_host where
  "nested_host = demo_host\<lparr>sh_disk := FsDir [] [FsDir ''test'' [FsDir ''corpus'' [FsDir ''invariant'' [FsDir ''seeds''
     [FsDir ''sequences'' [FsDir ''a'' [FsFile ''sequence.json'' ''x'']]]]]]], sh_frames := 10000\<rparr>"

lemma seed_script_overflows_witness: "repro_main nested_host [''a''] = (1, []) \<and> repro_main nested_host [''--list''] = (1, [])"
proof -
  have "fs_lookup (sh_disk nested_host) [''test'', ''corpus'', ''invariant'', ''seeds'', ''sequences''] =
      Some (FsDir ''sequences'' [FsDir ''a'' [FsFile ''sequence.json'' ''x'']])" by code_simp
  from seed_script_overflows [OF this] show ?thesis by simp
qed

end
