(* ===== verification/FuzzCorpus.thy ===== *)
theory FuzzCorpus
  imports JsonChecks
begin

text \<open>
  \<open>scripts/replay-fuzz-corpus.mjs\<close>: the manifest of the committed fuzz corpus, its validation, and the
  replay of the selected entries in order. \<open>corpus_host\<close>: the repository as a directory tree whose root
  has the empty path, the parsed manifest, the outcome of running a command and \<open>String(n)\<close> of a finite
  number. Printing is left out.
\<close>

definition CORPUS_DIR :: string where
  "CORPUS_DIR = ''test/corpus/fuzz''"

definition SEQUENCE_DIR :: string where
  "SEQUENCE_DIR = ''test/corpus/fuzz/sequences''"

definition REQUIRED_CATEGORIES :: "string list" where
  "REQUIRED_CATEGORIES = [''parsing'', ''arithmetic'', ''lifecycle'', ''authorization'', ''custody'']"

record corpus_target =
  ct_contract :: string
  ct_test :: string
  ct_category :: string
  ct_property :: string

record corpus_entry =
  ce_id :: string
  ce_category :: string
  ce_contract :: string
  ce_test :: string
  ce_sequenceFile :: string
  ce_rationale :: string
  ce_expected :: string
  ce_discoveredBy :: string
  ce_inputs :: "(string \<times> string) list"
  ce_repro :: json

section \<open>The manifest\<close>

abbreviation corpus_object :: "string \<Rightarrow> json \<Rightarrow> json res" where
  "corpus_object \<equiv> require_object ''CorpusManifestError''"

abbreviation corpus_string :: "string \<Rightarrow> json \<Rightarrow> string res" where
  "corpus_string \<equiv> require_string ''CorpusManifestError''"

abbreviation corpus_check :: "bool \<Rightarrow> string \<Rightarrow> unit res" where
  "corpus_check \<equiv> check_that ''CorpusManifestError''"

definition requireIdentifier :: "string \<Rightarrow> json \<Rightarrow> string res" where
  "requireIdentifier label v = res_bind (corpus_string label v) (\<lambda>s.
     res_bind (corpus_check (re_test identifier_regex s) (label @ '' must be a Solidity identifier: '' @ s)) (\<lambda>u. Inr s))"

definition load_category :: "json \<Rightarrow> string \<Rightarrow> unit res" where
  "load_category categories category = (let label = ''Fuzz corpus manifest.categories.'' @ category in
     res_bind (corpus_string label (json_get category categories)) (\<lambda>described.
     corpus_check (40 \<le> length described) (label @ '' must document the risk it covers (>= 40 characters)'')))"

definition known_category :: "string \<Rightarrow> unit res" where
  "known_category key = corpus_check (key \<in> set REQUIRED_CATEGORIES)
     (''Fuzz corpus manifest.categories.'' @ key @ '' is not a required category; allowed: '' @ join_with '', '' REQUIRED_CATEGORIES)"

definition json_keys :: "json \<Rightarrow> string list" where
  "json_keys v = (case v of JObj kvs \<Rightarrow> map fst kvs | _ \<Rightarrow> [])"

definition load_target :: "nat \<times> json \<Rightarrow> corpus_target res" where
  "load_target = (\<lambda>(index, raw). let label = ''Fuzz corpus manifest.targets['' @ show_nat index @ '']'' in
     res_bind (corpus_object label raw) (\<lambda>target.
     res_bind (requireIdentifier (label @ ''.contract'') (json_get ''contract'' target)) (\<lambda>contract.
     res_bind (requireIdentifier (label @ ''.test'') (json_get ''test'' target)) (\<lambda>test.
     res_bind (corpus_string (label @ ''.category'') (json_get ''category'' target)) (\<lambda>category.
     res_bind (corpus_string (label @ ''.property'') (json_get ''property'' target)) (\<lambda>property.
     Inr \<lparr>ct_contract = contract, ct_test = test, ct_category = category, ct_property = property\<rparr>))))))"

definition load_input :: "string \<Rightarrow> nat \<times> json \<Rightarrow> (string \<times> string) res" where
  "load_input label = (\<lambda>(index, input). let inputLabel = label @ ''.inputs['' @ show_nat index @ '']'' in
     res_bind (corpus_object inputLabel input) (\<lambda>rec.
     res_bind (corpus_string (inputLabel @ ''.name'') (json_get ''name'' rec)) (\<lambda>name.
     res_bind (corpus_string (inputLabel @ ''.value'') (json_get ''value'' rec)) (\<lambda>val.
     Inr (name, val)))))"

text \<open>\<open>/^[a-z0-9][a-z0-9-]*$/\<close>.\<close>

definition kebab_regex :: re where
  "kebab_regex = RSeq RStart (RSeq (RChar (\<lambda>c. is_lower c \<or> is_digit c))
     (RSeq (RStar True (RChar (\<lambda>c. is_lower c \<or> is_digit c \<or> c = CHR ''-''))) REnd))"

definition inputs_of :: "string \<Rightarrow> json \<Rightarrow> json list res" where
  "inputs_of label v = (case v of JArr (x # xs) \<Rightarrow> Inr (x # xs)
     | _ \<Rightarrow> Inl (JsError ''CorpusManifestError'' (label @ ''.inputs must be a non-empty array of named argument values'')))"

definition load_entry :: "string list \<Rightarrow> nat \<Rightarrow> json \<Rightarrow> corpus_entry res" where
  "load_entry seen index raw =
     (let label = ''Fuzz corpus manifest.entries['' @ show_nat index @ '']'' in
      res_bind (corpus_object label raw) (\<lambda>entry.
      res_bind (corpus_string (label @ ''.id'') (json_get ''id'' entry)) (\<lambda>id.
      res_bind (corpus_check (re_test kebab_regex id) (label @ ''.id must be lowercase kebab-case: '' @ id)) (\<lambda>u.
      res_bind (corpus_check (id \<notin> set seen) (label @ ''.id duplicates an earlier entry: '' @ id)) (\<lambda>u.
      res_bind (corpus_string (label @ ''.category'') (json_get ''category'' entry)) (\<lambda>category.
      res_bind (corpus_check (category \<in> set REQUIRED_CATEGORIES) (label @ ''.category '' @ [CHR 0x22] @ category @ [CHR 0x22] @
        '' is not a required category; allowed: '' @ join_with '', '' REQUIRED_CATEGORIES)) (\<lambda>u.
      res_bind (requireIdentifier (label @ ''.contract'') (json_get ''contract'' entry)) (\<lambda>contract.
      res_bind (requireIdentifier (label @ ''.test'') (json_get ''test'' entry)) (\<lambda>test.
      res_bind (corpus_check (starts_with ''testFuzz_'' test \<or> starts_with ''test_'' test)
        (label @ ''.test must be a Foundry test entry point: '' @ test)) (\<lambda>u.
      res_bind (corpus_string (label @ ''.sequenceFile'') (json_get ''sequenceFile'' entry)) (\<lambda>sequenceFile.
      res_bind (corpus_check (\<not> includes_str ''..'' sequenceFile \<and> CHR ''/'' \<notin> set sequenceFile \<and> CHR 0x5C \<notin> set sequenceFile)
        (label @ ''.sequenceFile must be a bare file name inside '' @ SEQUENCE_DIR @ '': '' @ sequenceFile)) (\<lambda>u.
      res_bind (corpus_string (label @ ''.rationale'') (json_get ''rationale'' entry)) (\<lambda>rationale.
      res_bind (corpus_check (40 \<le> length rationale) (label @ ''.rationale must state why the case is retained (>= 40 characters)'')) (\<lambda>u.
      res_bind (corpus_string (label @ ''.expected'') (json_get ''expected'' entry)) (\<lambda>expected.
      res_bind (corpus_check (20 \<le> length expected) (label @ ''.expected must state the postcondition (>= 20 characters)'')) (\<lambda>u.
      res_bind (corpus_string (label @ ''.discoveredBy'') (json_get ''discoveredBy'' entry)) (\<lambda>discoveredBy.
      res_bind (inputs_of label (json_get ''inputs'' entry)) (\<lambda>rawInputs.
      res_bind (traverse (load_input label) (List.enumerate 0 rawInputs)) (\<lambda>inputs.
      Inr \<lparr>ce_id = id, ce_category = category, ce_contract = contract, ce_test = test, ce_sequenceFile = sequenceFile,
        ce_rationale = rationale, ce_expected = expected, ce_discoveredBy = discoveredBy, ce_inputs = inputs,
        ce_repro = json_get ''repro'' entry\<rparr>)))))))))))))))))))"

fun load_entries :: "string list \<Rightarrow> nat \<Rightarrow> json list \<Rightarrow> corpus_entry list res" where
  "load_entries seen index [] = Inr []"
| "load_entries seen index (raw # raws) =
     res_bind (load_entry seen index raw) (\<lambda>entry.
     res_bind (load_entries (ce_id entry # seen) (Suc index) raws) (\<lambda>entries. Inr (entry # entries)))"

text \<open>The targets are checked and otherwise unused.\<close>

definition loadCorpusManifest :: "json res option \<Rightarrow> corpus_entry list res" where
  "loadCorpusManifest file =
     (let label = ''Fuzz corpus manifest'' in
      res_bind (parse_json_file ''CorpusManifestError'' label ''test/corpus/fuzz/manifest.json'' file) (\<lambda>parsed.
      res_bind (corpus_object label parsed) (\<lambda>manifest.
      res_bind (require_positive ''CorpusManifestError'' (label @ ''.schemaVersion'') (json_get ''schemaVersion'' manifest)) (\<lambda>u.
      res_bind (corpus_string (label @ ''.protocolVersion'') (json_get ''protocolVersion'' manifest)) (\<lambda>u.
      res_bind (corpus_object (label @ ''.categories'') (json_get ''categories'' manifest)) (\<lambda>categories.
      res_bind (traverse (load_category categories) REQUIRED_CATEGORIES) (\<lambda>u.
      res_bind (traverse known_category (json_keys categories)) (\<lambda>u.
      res_bind (require_array ''CorpusManifestError'' (label @ ''.targets'') (json_get ''targets'' manifest)) (\<lambda>rawTargets.
      res_bind (traverse load_target (List.enumerate 0 rawTargets)) (\<lambda>targets.
      res_bind (require_array ''CorpusManifestError'' (label @ ''.entries'') (json_get ''entries'' manifest)) (\<lambda>raws.
      load_entries [] 0 raws)))))))))))"

section \<open>Commands and files\<close>

definition buildReplayCommand :: "string \<Rightarrow> corpus_entry \<Rightarrow> string" where
  "buildReplayCommand fuzzRuns entry = join_with '' ''
     [''forge test'', ''--match-contract '' @ [CHR 0x5E] @ ce_contract entry @ ''$'', ''--match-test '' @ [CHR 0x5E] @ ce_test entry @ ''$'',
      ''--fuzz-runs '' @ fuzzRuns, ''--fuzz-seed 0x5eed'', ''--corpus-dir '' @ CORPUS_DIR]"

definition parseReplayCommand :: "string \<Rightarrow> string list" where
  "parseReplayCommand command = command_words command"

definition hex_regex :: re where
  "hex_regex = RSeq RStart (RSeq (re_plus (RChar is_hex)) REnd)"

definition assertHexPayload :: "string \<Rightarrow> string \<Rightarrow> string res" where
  "assertHexPayload content label = (let trimmed = trim content in
     res_bind (corpus_check (trimmed \<noteq> []) (label @ '' is empty'')) (\<lambda>u.
     res_bind (corpus_check (even (length trimmed)) (label @ '' has an odd-length hex payload'')) (\<lambda>u.
     res_bind (corpus_check (re_test hex_regex trimmed) (label @ '' is not a hex payload'')) (\<lambda>u. Inr trimmed))))"

definition corpus_path :: "string \<Rightarrow> string list" where
  "corpus_path file = path_resolve [] (split_on (CHR ''/'') SEQUENCE_DIR @ split_on (CHR ''/'') file)"

definition entry_problems :: "fs_entry \<Rightarrow> corpus_entry \<Rightarrow> string list" where
  "entry_problems disk entry = (let p = corpus_path (ce_sequenceFile entry) in
     case fs_lookup disk p of
       None \<Rightarrow> [ce_id entry @ '': sequence file missing at '' @ join_with ''/'' p]
     | Some (FsFile n content) \<Rightarrow> (case assertHexPayload content (ce_id entry @ '': '' @ join_with ''/'' p) of
         Inl e \<Rightarrow> [err_message e] | Inr t \<Rightarrow> [])
     | Some e \<Rightarrow> [ce_id entry @ '': unreadable sequence file''])"

definition validateCorpus :: "fs_entry \<Rightarrow> corpus_entry list \<Rightarrow> string list" where
  "validateCorpus disk entries = concat (map (entry_problems disk) entries) @
     map (\<lambda>category. ''no committed regression case covers the '' @ [CHR 0x22] @ category @ [CHR 0x22] @ '' fuzz targets'')
       (filter (\<lambda>category. category \<notin> set (map ce_category entries)) REQUIRED_CATEGORIES)"

definition findOrphanFiles :: "fs_entry \<Rightarrow> corpus_entry list \<Rightarrow> string list res" where
  "findOrphanFiles disk entries = (case fs_lookup disk (corpus_path []) of
     None \<Rightarrow> Inr []
   | Some (FsDir n es) \<Rightarrow> Inr (filter (\<lambda>file. file \<notin> set (map ce_sequenceFile entries)) (map entry_name es))
   | Some e \<Rightarrow> throw_error ''ENOTDIR: not a directory, scandir'')"

definition selectEntries :: "corpus_entry list \<Rightarrow> string option \<Rightarrow> corpus_entry list res" where
  "selectEntries entries only = (if \<not> truthy_str only then Inr entries
     else res_bind (corpus_check (the only \<in> set REQUIRED_CATEGORIES) (''Unknown category '' @ [CHR 0x22] @ the only @ [CHR 0x22] @
         ''; allowed: '' @ join_with '', '' REQUIRED_CATEGORIES)) (\<lambda>u.
       Inr (filter (\<lambda>entry. ce_category entry = the only) entries)))"

section \<open>The script\<close>

record corpus_host =
  ch_disk :: fs_entry
  ch_manifest :: "json res option"
  ch_runs :: "string list \<Rightarrow> bool"
  ch_showNumber :: "rat \<Rightarrow> string"

text \<open>The commands run, in order; the first that fails is the last. Second: all succeeded.\<close>

fun runReplay :: "corpus_host \<Rightarrow> bool \<Rightarrow> string list \<Rightarrow> string list list \<times> bool" where
  "runReplay H dryRun [] = ([], True)"
| "runReplay H dryRun (command # commands) =
     (if dryRun then runReplay H dryRun commands
      else let argv = parseReplayCommand command in
        if ch_runs H argv then (case runReplay H dryRun commands of (done, ok) \<Rightarrow> (argv # done, ok))
        else ([argv], False))"

text \<open>\<open>argv[argv.indexOf(flag) + 1]\<close>.\<close>

fun arg_after :: "string \<Rightarrow> string list \<Rightarrow> string option" where
  "arg_after flag [] = None"
| "arg_after flag (a # as) = (if a = flag then (case as of [] \<Rightarrow> None | b # bs \<Rightarrow> Some b) else arg_after flag as)"

definition show_number :: "corpus_host \<Rightarrow> js_num \<Rightarrow> string" where
  "show_number H n = (case n of NaN \<Rightarrow> ''NaN'' | PosInfinity \<Rightarrow> ''Infinity'' | NegInfinity \<Rightarrow> ''-Infinity'' | Fin q \<Rightarrow> ch_showNumber H q)"

definition fuzz_runs :: "corpus_host \<Rightarrow> string list \<Rightarrow> string" where
  "fuzz_runs H argv = (if ''--fuzz-runs'' \<notin> set argv then show_number H (Fin 256)
     else show_number H (case arg_after ''--fuzz-runs'' argv of None \<Rightarrow> NaN | Some t \<Rightarrow> js_Number t))"

definition replay_main :: "corpus_host \<Rightarrow> string list \<Rightarrow> nat \<times> string list list" where
  "replay_main H argv =
     (case loadCorpusManifest (ch_manifest H) of
        Inl e \<Rightarrow> (1, [])
      | Inr entries \<Rightarrow>
          (case findOrphanFiles (ch_disk H) entries of
             Inl e \<Rightarrow> (1, [])
           | Inr orphans \<Rightarrow>
               if validateCorpus (ch_disk H) entries \<noteq> [] \<or> orphans \<noteq> [] then (1, [])
               else if ''--list'' \<in> set argv then (0, [])
               else (case selectEntries entries (arg_after ''--only'' argv) of
                 Inl e \<Rightarrow> (1, [])
               | Inr selected \<Rightarrow>
                   if selected = [] then (1, [])
                   else if ''--validate'' \<in> set argv then (0, [])
                   else (case runReplay H (''--dry-run'' \<in> set argv) (map (buildReplayCommand (fuzz_runs H argv)) selected) of
                     (done, ok) \<Rightarrow> (if ok then 0 else 1, done)))))"

section \<open>What an accepted manifest says\<close>

definition is_identifier :: "string \<Rightarrow> bool" where
  "is_identifier s \<longleftrightarrow> s \<noteq> [] \<and> is_letter (hd s) \<and> (\<forall>c \<in> set (tl s). is_letter c \<or> is_digit c)"

definition entry_ok :: "corpus_entry \<Rightarrow> bool" where
  "entry_ok e \<longleftrightarrow> ce_id e \<noteq> [] \<and> ce_category e \<in> set REQUIRED_CATEGORIES \<and> is_identifier (ce_contract e) \<and> is_identifier (ce_test e) \<and>
     (starts_with ''testFuzz_'' (ce_test e) \<or> starts_with ''test_'' (ce_test e)) \<and>
     CHR ''/'' \<notin> set (ce_sequenceFile e) \<and> \<not> includes_str ''..'' (ce_sequenceFile e) \<and>
     40 \<le> length (ce_rationale e) \<and> 20 \<le> length (ce_expected e) \<and> ce_inputs e \<noteq> []"

lemma requireIdentifier_inv [check_inv]: "requireIdentifier label v = Inr s \<longleftrightarrow> v = JStr s \<and> trim s \<noteq> [] \<and> is_identifier s"
  by (auto simp: requireIdentifier_def check_inv identifier_regex_def test_word is_identifier_def)

lemma inputs_of_inv [check_inv]: "inputs_of label v = Inr xs \<longleftrightarrow> v = JArr xs \<and> xs \<noteq> []"
  by (auto simp: inputs_of_def split: json.splits list.splits)

lemma load_entry_ok: "load_entry seen i raw = Inr e \<Longrightarrow> entry_ok e \<and> ce_id e \<notin> set seen"
  by (auto simp: load_entry_def Let_def check_inv entry_ok_def kebab_regex_def test_word dest: traverse_length)

lemma load_entries_ok:
  "load_entries seen i raws = Inr es \<Longrightarrow> (\<forall>e \<in> set es. entry_ok e) \<and> distinct (map ce_id es) \<and> ce_id ` set es \<inter> set seen = {}"
proof (induction seen i raws arbitrary: es rule: load_entries.induct)
  case (2 seen i raw raws)
  from 2(2) obtain e rest where s: "load_entry seen i raw = Inr e" "load_entries (ce_id e # seen) (Suc i) raws = Inr rest"
      "es = e # rest" by (auto simp: check_inv)
  with 2(1) [OF s(2)] load_entry_ok [OF s(1)] show ?case by auto
qed simp

lemma load_corpus_ok:
  "loadCorpusManifest file = Inr es \<Longrightarrow> (\<forall>e \<in> set es. entry_ok e) \<and> distinct (map ce_id es)"
  using load_entries_ok by (auto simp: loadCorpusManifest_def Let_def check_inv)

definition hex_payload :: "string \<Rightarrow> bool" where
  "hex_payload content \<longleftrightarrow> trim content \<noteq> [] \<and> even (length (trim content)) \<and> (\<forall>c \<in> set (trim content). is_hex c)"

lemma assert_hex: "(\<exists>t. assertHexPayload content label = Inr t) \<longleftrightarrow> hex_payload content"
proof -
  have "re_test hex_regex s \<longleftrightarrow> s \<noteq> [] \<and> (\<forall>c \<in> set s. is_hex c)" for s
  proof -
    have "re_test hex_regex s \<longleftrightarrow> (\<exists>y. rm (RSeq (re_plus (RChar is_hex)) REnd) (None, s) y)"
      unfolding re_test_iff hex_regex_def rm_anchored by auto
    also have "\<dots> \<longleftrightarrow> s \<noteq> [] \<and> (\<forall>c \<in> set s. is_hex c)"
      by (cases s) (auto simp: re_plus_def rm_star_chars)
    finally show ?thesis .
  qed
  then show ?thesis by (auto simp: assertHexPayload_def hex_payload_def Let_def check_inv)
qed

definition corpus_valid :: "fs_entry \<Rightarrow> corpus_entry list \<Rightarrow> bool" where
  "corpus_valid disk es \<longleftrightarrow> (\<forall>c \<in> set REQUIRED_CATEGORIES. \<exists>e \<in> set es. ce_category e = c) \<and>
     (\<forall>e \<in> set es. \<exists>n content. fs_lookup disk (corpus_path (ce_sequenceFile e)) = Some (FsFile n content) \<and> hex_payload content)"

lemma validate_iff: "validateCorpus disk es = [] \<longleftrightarrow> corpus_valid disk es"
proof -
  have "entry_problems disk e = [] \<longleftrightarrow>
      (\<exists>n content. fs_lookup disk (corpus_path (ce_sequenceFile e)) = Some (FsFile n content) \<and> hex_payload content)" for e
    unfolding entry_problems_def Let_def assert_hex [of _ "ce_id e @ '': '' @ join_with ''/'' (corpus_path (ce_sequenceFile e))", symmetric]
    by (auto split: option.splits fs_entry.splits sum.splits)
  then show ?thesis by (auto simp: validateCorpus_def corpus_valid_def filter_empty_conv)
qed

section \<open>Properties\<close>

text \<open>The replay ends with 0 only over a valid corpus: distinct well-formed entries, every category
  covered, every sequence file a non-empty hex payload of whole bytes, and no file in the sequence
  directory without an entry.\<close>

theorem replay_needs_valid_corpus:
  assumes "replay_main H argv = (0, commands)"
  shows "\<exists>entries. loadCorpusManifest (ch_manifest H) = Inr entries \<and> distinct (map ce_id entries) \<and>
    (\<forall>e \<in> set entries. entry_ok e) \<and> corpus_valid (ch_disk H) entries \<and>
    findOrphanFiles (ch_disk H) entries = Inr []"
proof -
  from assms obtain entries where "loadCorpusManifest (ch_manifest H) = Inr entries"
      "validateCorpus (ch_disk H) entries = []" "findOrphanFiles (ch_disk H) entries = Inr []"
    by (auto simp: replay_main_def split: sum.splits if_splits)
  with load_corpus_ok show ?thesis unfolding validate_iff by blast
qed

lemma runReplay_dry: "runReplay H True commands = ([], True)"
  by (induction commands) simp_all

lemma runReplay_eq:
  "runReplay H False commands = (let argvs = map parseReplayCommand commands; good = takeWhile (ch_runs H) argvs in
     if good = argvs then (argvs, True) else (take (Suc (length good)) argvs, False))"
  by (induction commands) (simp_all add: Let_def)

text \<open>C28: the replay runs the commands of the selected entries in manifest order up to the first that
  fails, and ends with 0 exactly when none fails; a category selects its entries, no category all.\<close>

theorem replay_in_order:
  assumes "loadCorpusManifest (ch_manifest H) = Inr entries" "corpus_valid (ch_disk H) entries"
    and "findOrphanFiles (ch_disk H) entries = Inr []" "set argv \<inter> {''--list'', ''--validate'', ''--dry-run''} = {}"
    and "selected = filter (\<lambda>e. only = None \<or> only = Some (ce_category e)) entries"
    and "only = arg_after ''--only'' argv" "only = None \<or> the only \<in> set REQUIRED_CATEGORIES"
  shows "let argvs = map (\<lambda>e. parseReplayCommand (buildReplayCommand (fuzz_runs H argv) e)) selected;
      good = takeWhile (ch_runs H) argvs in
    selected \<noteq> [] \<and> replay_main H argv = (if good = argvs then (0, argvs) else (1, take (Suc (length good)) argvs))"
proof -
  have flags: "''--list'' \<notin> set argv" "''--validate'' \<notin> set argv" "''--dry-run'' \<notin> set argv" using assms(4) by auto
  have select: "selectEntries entries only = Inr selected"
  proof (cases only)
    case (Some c)
    with assms(7) have "c \<noteq> []" "c \<in> set REQUIRED_CATEGORIES" by (auto simp: REQUIRED_CATEGORIES_def)
    with Some assms(5) show ?thesis by (auto simp: selectEntries_def truthy_str_def check_that_def intro!: filter_cong)
  qed (use assms(5) in \<open>simp add: selectEntries_def truthy_str_def\<close>)
  have "selected \<noteq> []"
  proof (cases only)
    case None
    with assms(2,5) show ?thesis by (auto simp: corpus_valid_def REQUIRED_CATEGORIES_def)
  next
    case (Some c)
    with assms(2,7) obtain e where "e \<in> set entries" "ce_category e = c" by (auto simp: corpus_valid_def)
    with Some assms(5) show ?thesis by (auto simp: filter_empty_conv)
  qed
  moreover from this have "replay_main H argv = (case runReplay H False (map (buildReplayCommand (fuzz_runs H argv)) selected) of
      (runs, ok) \<Rightarrow> (if ok then 0 else 1, runs))"
    using assms(1,2,3) flags select assms(6) by (simp add: replay_main_def validate_iff)
  ultimately show ?thesis by (simp add: runReplay_eq o_def Let_def)
qed

lemma is_identifier_plain: "is_identifier s \<Longrightarrow> \<forall>c \<in> set s. \<not> is_ws c"
  by (cases s) (auto simp: is_identifier_def is_letter_def is_upper_def is_lower_def is_digit_def is_ws_def code_unit_def)

text \<open>For an accepted entry the text of the command splits into exactly the intended arguments, so
  nothing in a manifest can add an argument.\<close>

theorem replay_command_arguments:
  assumes "loadCorpusManifest file = Inr entries" "e \<in> set entries" "runs \<noteq> []" "\<forall>c \<in> set runs. \<not> is_ws c"
  shows "parseReplayCommand (buildReplayCommand runs e) =
    [''forge'', ''test'', ''--match-contract'', [CHR 0x5E] @ ce_contract e @ ''$'', ''--match-test'', [CHR 0x5E] @ ce_test e @ ''$'',
     ''--fuzz-runs'', runs, ''--fuzz-seed'', ''0x5eed'', ''--corpus-dir'', ''test/corpus/fuzz'']" (is "_ = ?words")
proof -
  have ids: "\<forall>c \<in> set (ce_contract e). \<not> is_ws c" "\<forall>c \<in> set (ce_test e). \<not> is_ws c"
    using load_corpus_ok [OF assms(1)] assms(2) is_identifier_plain by (auto simp: entry_ok_def)
  have "buildReplayCommand runs e = join_with '' '' ?words"
    by (simp add: buildReplayCommand_def CORPUS_DIR_def)
  moreover have "\<forall>w \<in> set ?words. w \<noteq> [] \<and> (\<forall>c \<in> set w. \<not> is_ws c)"
    using ids assms(3,4) by (simp add: is_ws_def code_unit_def)
  ultimately show ?thesis by (simp only: parseReplayCommand_def command_words_join)
qed

definition with_repro :: "json \<Rightarrow> json \<Rightarrow> json" where
  "with_repro r raw = (case raw of JObj kvs \<Rightarrow> JObj (kv_set ''repro'' r kvs) | _ \<Rightarrow> raw)"

definition map_res :: "('a \<Rightarrow> 'b) \<Rightarrow> 'a res \<Rightarrow> 'b res" where
  "map_res f r = (case r of Inl e \<Rightarrow> Inl e | Inr a \<Rightarrow> Inr (f a))"

lemma map_res_bind: "map_res f (res_bind m g) = res_bind m (\<lambda>a. map_res f (g a))"
  by (cases m) (simp_all add: map_res_def)

lemma map_res_simps [simp]: "map_res f (Inl e) = Inl e" "map_res f (Inr a) = Inr (f a)"
  by (simp_all add: map_res_def)

abbreviation set_repro :: "json \<Rightarrow> corpus_entry \<Rightarrow> corpus_entry" where
  "set_repro r e \<equiv> e\<lparr>ce_repro := r\<rparr>"

lemma load_entry_repro: "load_entry seen i (with_repro r raw) = map_res (set_repro r) (load_entry seen i raw)"
proof (cases raw)
  case (JObj kvs)
  have "json_get k (JObj (kv_set ''repro'' r kvs)) = (if k = ''repro'' then r else json_get k (JObj kvs))" for k
    by (simp add: json_get_def)
  then show ?thesis
    by (simp add: JObj with_repro_def load_entry_def Let_def map_res_bind require_object_def)
qed (simp_all add: with_repro_def load_entry_def require_object_def)

lemma load_entries_repro:
  "load_entries seen i (map (with_repro r) raws) = map_res (map (set_repro r)) (load_entries seen i raws)"
proof (induction raws arbitrary: seen i)
  case (Cons raw raws)
  show ?case
    by (cases "load_entry seen i raw") (simp_all add: load_entry_repro Cons map_res_bind, simp add: map_res_def res_bind_def split: sum.splits)
qed simp

lemma unchanged_names: "map ce_sequenceFile (map (set_repro r) es) = map ce_sequenceFile es"
    "map ce_category (map (set_repro r) es) = map ce_category es"
  by simp_all

lemma unchanged_problems: "entry_problems disk (set_repro r e) = entry_problems disk e"
  by (simp add: entry_problems_def Let_def split: option.splits fs_entry.splits)

lemma unchanged_validation: "validateCorpus disk (map (set_repro r) es) = validateCorpus disk es"
  unfolding validateCorpus_def unchanged_names by (simp add: o_def unchanged_problems)

lemma unchanged_orphans: "findOrphanFiles disk (map (set_repro r) es) = findOrphanFiles disk es"
  unfolding findOrphanFiles_def unchanged_names ..

lemma unchanged_by_repro:
  "selectEntries (map (set_repro r) es) only = map_res (map (set_repro r)) (selectEntries es only)"
  "buildReplayCommand runs (set_repro r e) = buildReplayCommand runs e"
  by (simp_all add: selectEntries_def check_that_def filter_map buildReplayCommand_def o_def)

text \<open>The replay command that an entry records is never compared with the generated one: whatever is
  recorded for the entries, the script does the same.\<close>

theorem recorded_command_ignored:
  assumes "map_of manifest ''entries'' = Some (JArr raws)"
    and "manifest' = kv_set ''entries'' (JArr (map (with_repro r) raws)) manifest"
  shows "replay_main (H\<lparr>ch_manifest := Some (Inr (JObj manifest'))\<rparr>) argv = replay_main (H\<lparr>ch_manifest := Some (Inr (JObj manifest))\<rparr>) argv"
proof -
  have get: "json_get k (JObj manifest') = (if k = ''entries'' then JArr (map (with_repro r) raws) else json_get k (JObj manifest))" for k
    by (simp add: assms(2) json_get_def)
  have object: "corpus_object l (JObj kvs) = Inr (JObj kvs)" for l kvs by (simp add: require_object_def)
  have array: "require_array ''CorpusManifestError'' l (JArr vs) = Inr vs" for l vs by (simp add: require_array_def)
  have old: "json_get ''entries'' (JObj manifest) = JArr raws" by (simp add: json_get_def assms(1))
  have load: "loadCorpusManifest (Some (Inr (JObj manifest'))) = map_res (map (set_repro r)) (loadCorpusManifest (Some (Inr (JObj manifest))))"
    by (simp add: loadCorpusManifest_def Let_def parse_json_file_def object get old map_res_bind array load_entries_repro)
  have build: "buildReplayCommand n \<circ> set_repro r = buildReplayCommand n" for n
    by (simp add: fun_eq_iff unchanged_by_repro)
  have replay: "runReplay (H\<lparr>ch_manifest := m\<rparr>) b cs = runReplay (H\<lparr>ch_manifest := n\<rparr>) b cs" for m n b cs
    by (cases b; induction cs) (simp_all add: Let_def)
  have count: "fuzz_runs (H\<lparr>ch_manifest := m\<rparr>) argv = fuzz_runs (H\<lparr>ch_manifest := n\<rparr>) argv" for m n
    by (simp add: fuzz_runs_def show_number_def split: js_num.splits option.splits)
  note runs = replay count
  show ?thesis
  proof (cases "loadCorpusManifest (Some (Inr (JObj manifest)))")
    case (Inr es)
    then show ?thesis
      unfolding replay_main_def
      by (simp add: load build unchanged_by_repro unchanged_validation unchanged_orphans runs [where m = "Some (Inr (JObj manifest'))" and n = "Some (Inr (JObj manifest))"] split: sum.splits)
  qed (simp add: replay_main_def load)
qed

section \<open>A concrete corpus\<close>

definition long_text :: string where
  "long_text = ''A sentence that is longer than forty characters.''"

definition demo_case :: "string \<Rightarrow> json" where
  "demo_case category = JObj [(''id'', JStr (category @ ''-case'')), (''category'', JStr category), (''contract'', JStr ''CorpusTest''),
     (''test'', JStr (''test_'' @ category)), (''sequenceFile'', JStr (category @ ''.hex'')), (''rationale'', JStr long_text),
     (''expected'', JStr long_text), (''discoveredBy'', JStr ''review''),
     (''inputs'', JArr [JObj [(''name'', JStr ''data''), (''value'', JStr ''0x00'')]])]"

definition demo_manifest :: "(string \<times> json) list" where
  "demo_manifest = [(''schemaVersion'', JNum 1), (''protocolVersion'', JStr ''2''),
     (''categories'', JObj (map (\<lambda>c. (c, JStr long_text)) REQUIRED_CATEGORIES)), (''targets'', JArr []),
     (''entries'', JArr (map demo_case REQUIRED_CATEGORIES))]"

definition demo_corpus :: corpus_host where
  "demo_corpus = \<lparr>ch_disk = FsDir [] [FsDir ''test'' [FsDir ''corpus'' [FsDir ''fuzz'' [FsDir ''sequences''
       (map (\<lambda>c. FsFile (c @ ''.hex'') ''00ff'') REQUIRED_CATEGORIES)]]]],
     ch_manifest = Some (Inr (JObj demo_manifest)), ch_runs = (\<lambda>argv. True), ch_showNumber = (\<lambda>q. ''256'')\<rparr>"

definition demo_entries :: "corpus_entry list" where
  "demo_entries = map (\<lambda>c. \<lparr>ce_id = c @ ''-case'', ce_category = c, ce_contract = ''CorpusTest'', ce_test = ''test_'' @ c,
     ce_sequenceFile = c @ ''.hex'', ce_rationale = long_text, ce_expected = long_text, ce_discoveredBy = ''review'',
     ce_inputs = [(''data'', ''0x00'')], ce_repro = JUndefined\<rparr>) REQUIRED_CATEGORIES"

definition stops_at_arithmetic :: corpus_host where
  "stops_at_arithmetic = demo_corpus\<lparr>ch_runs := (\<lambda>argv. argv ! 5 \<noteq> [CHR 0x5E] @ ''test_arithmetic$'')\<rparr>"

lemma demo_loads: "loadCorpusManifest (ch_manifest demo_corpus) = Inr demo_entries"
  by code_simp

lemma demo_validated: "replay_main demo_corpus [''--validate''] = (0, [])"
  by code_simp

lemma demo_corpus_valid: "corpus_valid (ch_disk demo_corpus) demo_entries" "findOrphanFiles (ch_disk demo_corpus) demo_entries = Inr []"
  unfolding validate_iff [symmetric] by code_simp+

theorem replay_needs_valid_corpus_witness: "corpus_valid (ch_disk demo_corpus) demo_entries \<and> distinct (map ce_id demo_entries)"
  using replay_needs_valid_corpus [OF demo_validated] demo_loads by auto

theorem replay_in_order_witness:
  "fst (replay_main stops_at_arithmetic []) = 1 \<and> length (snd (replay_main stops_at_arithmetic [])) = 2"
proof -
  have stops: "loadCorpusManifest (ch_manifest stops_at_arithmetic) = Inr demo_entries" "corpus_valid (ch_disk stops_at_arithmetic) demo_entries"
    "findOrphanFiles (ch_disk stops_at_arithmetic) demo_entries = Inr []"
    using demo_loads demo_corpus_valid by (simp_all add: stops_at_arithmetic_def)
  let ?argvs = "map (\<lambda>e. parseReplayCommand (buildReplayCommand (fuzz_runs stops_at_arithmetic []) e)) demo_entries"
  have "length (takeWhile (ch_runs stops_at_arithmetic) ?argvs) = 1" "length ?argvs = 5"
    by code_simp+
  moreover from this have "takeWhile (ch_runs stops_at_arithmetic) ?argvs \<noteq> ?argvs"
    by (auto dest!: arg_cong [of _ _ length] simp del: takeWhile_eq_all_conv)
  ultimately show ?thesis
    using replay_in_order [OF stops, of "[]" demo_entries None] by (simp add: Let_def del: takeWhile_eq_all_conv)
qed

theorem replay_command_arguments_witness:
  "parseReplayCommand (buildReplayCommand ''256'' (hd demo_entries)) =
    [''forge'', ''test'', ''--match-contract'', [CHR 0x5E] @ ''CorpusTest$'', ''--match-test'', [CHR 0x5E] @ ''test_parsing$'',
     ''--fuzz-runs'', ''256'', ''--fuzz-seed'', ''0x5eed'', ''--corpus-dir'', ''test/corpus/fuzz'']"
  using replay_command_arguments [OF demo_loads, of "hd demo_entries" "''256''"]
  by (simp add: demo_entries_def REQUIRED_CATEGORIES_def is_ws_def code_unit_def)

theorem recorded_command_ignored_witness:
  "replay_main (demo_corpus\<lparr>ch_manifest := Some (Inr (JObj (kv_set ''entries''
     (JArr (map (with_repro (JStr ''rm -rf'')) (map demo_case REQUIRED_CATEGORIES))) demo_manifest)))\<rparr>) [''--validate''] = (0, [])"
proof -
  have "map_of demo_manifest ''entries'' = Some (JArr (map demo_case REQUIRED_CATEGORIES))"
    by (simp add: demo_manifest_def)
  moreover have "demo_corpus\<lparr>ch_manifest := Some (Inr (JObj demo_manifest))\<rparr> = demo_corpus"
    by (simp add: demo_corpus_def)
  ultimately show ?thesis
    using recorded_command_ignored [OF _ refl, of demo_manifest "map demo_case REQUIRED_CATEGORIES" "JStr ''rm -rf''" demo_corpus "[''--validate'']"]
      demo_validated by simp
qed

end
