(* ===== verification/IssueAudit.thy ===== *)
theory IssueAudit
  imports JsonChecks
begin

text \<open>
  \<open>.github/scripts/issue-audit.mjs\<close>, and what it shares with \<open>pr-guardian.mjs\<close>: the pages of a GitHub
  listing and the labels of an issue. \<open>github\<close>: the environment, the two listings by path and
  \<open>String(n)\<close> of a finite number. \<open>ISSUE_PREFIX\<close> is inserted into a regular expression; the model takes
  it for the literal text, as it is for prefixes of letters, digits, \<open>_\<close> and \<open>-\<close>. Issue bodies are the
  bytes of their UTF-8 form. The written files and the summary are left out.
\<close>

section \<open>The pages of a listing\<close>

text \<open>The loop that asks for pages until one has fewer than 100 entries; None: no page is short, the loop
  does not end.\<close>

partial_function (option) fetch_pages :: "('a \<Rightarrow> bool) \<Rightarrow> (nat \<Rightarrow> 'a list res) \<Rightarrow> nat \<Rightarrow> 'a list res option" where
  "fetch_pages keep api page = (case api page of
     Inl e \<Rightarrow> Some (Inl e)
   | Inr batch \<Rightarrow> if length batch < 100 then Some (Inr (filter keep batch))
       else Option.bind (fetch_pages keep api (Suc page))
         (\<lambda>r. Some (case r of Inl e \<Rightarrow> Inl e | Inr others \<Rightarrow> Inr (filter keep batch @ others))))"

datatype gh_label = LabelText string | LabelNamed string

definition label_name :: "gh_label \<Rightarrow> string" where
  "label_name l = (case l of LabelText s \<Rightarrow> s | LabelNamed s \<Rightarrow> s)"

record gh_issue =
  gi_number :: nat
  gi_title :: "string option"
  gi_body :: "string option"
  gi_state :: string
  gi_labels :: "gh_label list"
  gi_assignees :: "string list"
  gi_pull :: bool

record github =
  gh_env :: "string \<Rightarrow> string option"
  gh_issues :: "string \<Rightarrow> gh_issue list res"
  gh_showNumber :: "rat \<Rightarrow> string"

definition gh_number_text :: "github \<Rightarrow> js_num \<Rightarrow> string" where
  "gh_number_text H n = (case n of NaN \<Rightarrow> ''NaN'' | PosInfinity \<Rightarrow> ''Infinity'' | NegInfinity \<Rightarrow> ''-Infinity''
     | Fin q \<Rightarrow> gh_showNumber H q)"

definition repository_path :: "string \<Rightarrow> string" where
  "repository_path repository = (case split_on (CHR ''/'') repository of
     owner # repo # more_parts \<Rightarrow> ''/repos/'' @ owner @ ''/'' @ repo
   | owner # [] \<Rightarrow> ''/repos/'' @ owner @ ''/undefined'' | [] \<Rightarrow> [])"

definition issues_page :: "string \<Rightarrow> nat \<Rightarrow> string" where
  "issues_page repository page = repository_path repository @ ''/issues?state=all&per_page=100&page='' @ show_nat page"

section \<open>Tasks\<close>

text \<open>\<open>new RegExp(`^\s*(${expectedPrefix})-(\d{3})\b`, "i")\<close>.\<close>

definition digit_re :: re where
  "digit_re = RChar is_digit"

definition taskPattern :: "string \<Rightarrow> re" where
  "taskPattern expectedPrefix = RSeq RStart (RSeq (RStar True (RChar is_ws)) (RSeq (RGroup 1 (re_stri expectedPrefix))
     (RSeq (re_str ''-'') (RSeq (RGroup 2 (RSeq digit_re (RSeq digit_re digit_re))) RBound))))"

definition task_number :: "string \<Rightarrow> gh_issue \<Rightarrow> nat option" where
  "task_number expectedPrefix issue =
     map_option (\<lambda>m. radix_val 10 (the (rx_group 2 m))) (exec (taskPattern expectedPrefix) (or_str (gi_title issue) []))"

definition task_id :: "string \<Rightarrow> nat \<Rightarrow> string" where
  "task_id expectedPrefix number = expectedPrefix @ ''-'' @ pad_start 3 (CHR ''0'') (show_nat number)"

definition requiredHeadings :: "string list" where
  "requiredHeadings = [''## Overview'', ''## Problem Context'', ''## Technical Scope'', ''## Security and Architecture Requirements'',
     ''## Required Tests'', ''## Acceptance Criteria'', ''## Dependencies'', ''## Non-Goals'', ''## Complexity and Review'',
     ''# '' @ [CHR 0xF0, CHR 0x9F, CHR 0x8F, CHR 0xB7] @ '' Labels'']"

text \<open>\<open>/^complexity-(low|medium|high)$/\<close>.\<close>

definition complexity_pattern :: re where
  "complexity_pattern = RSeq RStart (RSeq (re_str ''complexity-'') (RSeq (RGroup 1 (re_any [re_str ''low'', re_str ''medium'', re_str ''high''])) REnd))"

record task_record =
  tr_id :: string
  tr_issueNumber :: nat
  tr_state :: string
  tr_labels :: "string list"
  tr_assignees :: "string list"
  tr_missingHeadings :: "string list"

record audit_finding =
  af_severity :: string
  af_code :: string
  af_id :: string
  af_message :: string

definition warning :: "string \<Rightarrow> string \<Rightarrow> string \<Rightarrow> audit_finding" where
  "warning rule taskId message = \<lparr>af_severity = ''warning'', af_code = rule, af_id = taskId, af_message = message\<rparr>"

definition missing_headings :: "gh_issue \<Rightarrow> string list" where
  "missing_headings issue = filter (\<lambda>heading. \<not> includes_str heading (or_str (gi_body issue) [])) requiredHeadings"

definition issue_labels :: "gh_issue \<Rightarrow> string list" where
  "issue_labels issue = map label_name (gi_labels issue)"

definition issue_record :: "string \<Rightarrow> nat \<Rightarrow> gh_issue \<Rightarrow> task_record" where
  "issue_record expectedPrefix number issue = \<lparr>tr_id = task_id expectedPrefix number, tr_issueNumber = gi_number issue,
     tr_state = gi_state issue, tr_labels = issue_labels issue, tr_assignees = gi_assignees issue,
     tr_missingHeadings = missing_headings issue\<rparr>"

text \<open>\<open>number > maxTask\<close>, false for NaN.\<close>

definition exceeds :: "nat \<Rightarrow> js_num \<Rightarrow> bool" where
  "exceeds number maxTask = (case maxTask of NaN \<Rightarrow> False | PosInfinity \<Rightarrow> False | NegInfinity \<Rightarrow> True | Fin q \<Rightarrow> q < of_nat number)"

definition only_if :: "bool \<Rightarrow> 'a \<Rightarrow> 'a list" where
  "only_if b x = (if b then [x] else [])"

definition issue_findings :: "string \<Rightarrow> string \<Rightarrow> js_num \<Rightarrow> nat \<Rightarrow> gh_issue \<Rightarrow> audit_finding list" where
  "issue_findings maxText expectedPrefix maxTask number issue =
     (let id = task_id expectedPrefix number; labels = issue_labels issue; missing = missing_headings issue;
        complexity = filter (re_test complexity_pattern) labels in
      only_if (number < 1 \<or> exceeds number maxTask)
        (warning ''range'' id (''Task number is outside 001-'' @ pad_start 3 (CHR ''0'') maxText @ ''.'')) @
      only_if (missing \<noteq> []) (warning ''structure'' id (''Missing headings: '' @ join_with '', '' missing)) @
      only_if (length complexity \<noteq> 1)
        (warning ''complexity'' id (''Expected one complexity label; found '' @ show_nat (length complexity) @ ''.'')) @
      only_if (''Stellar Wave'' \<in> set labels \<and> ''wave-candidate'' \<in> set labels)
        (warning ''label-state'' id ''Issue is simultaneously active and a candidate.'') @
      only_if (''Stellar Wave'' \<in> set labels \<and> gi_state issue = ''open'' \<and> gi_assignees issue = [])
        (warning ''active-unassigned'' id ''Active Wave issue has no assignee.''))"

text \<open>The issues whose title starts with a task id, with its number.\<close>

definition numbered_tasks :: "string \<Rightarrow> gh_issue list \<Rightarrow> (nat \<times> gh_issue) list" where
  "numbered_tasks expectedPrefix issues = concat (map (\<lambda>issue. case task_number expectedPrefix issue of
     None \<Rightarrow> [] | Some number \<Rightarrow> [(number, issue)]) issues)"

text \<open>\<open>byId\<close>: the ids in the order of their first task.\<close>

definition task_ids :: "task_record list \<Rightarrow> string list" where
  "task_ids tasks = map tr_id (dedupe_on tr_id {} tasks)"

definition duplicate_findings :: "task_record list \<Rightarrow> audit_finding list" where
  "duplicate_findings tasks = concat (map (\<lambda>id. let n = length (filter (\<lambda>t. tr_id t = id) tasks) in
     only_if (1 < n) (warning ''duplicate'' id (''Duplicate task ID appears '' @ show_nat n @ '' times.''))) (task_ids tasks))"

text \<open>The numbers of \<open>for (let number = 1; number <= maxTask; number += 1)\<close>; None: the loop does not end.\<close>

definition numbers_up_to :: "js_num \<Rightarrow> nat list option" where
  "numbers_up_to maxTask = (case maxTask of NaN \<Rightarrow> Some [] | NegInfinity \<Rightarrow> Some [] | PosInfinity \<Rightarrow> None
     | Fin q \<Rightarrow> Some [1..<Suc (nat \<lfloor>q\<rfloor>)])"

definition gap_findings :: "string \<Rightarrow> task_record list \<Rightarrow> nat list \<Rightarrow> audit_finding list" where
  "gap_findings expectedPrefix tasks numbers = concat (map (\<lambda>number. let id = task_id expectedPrefix number in
     only_if (id \<notin> set (task_ids tasks)) (warning ''gap'' id ''Expected task ID is missing.'')) numbers)"

section \<open>The report\<close>

record audit_report =
  ar_active :: nat
  ar_candidates :: nat
  ar_findings :: "audit_finding list"
  ar_tasks :: "task_record list"

definition open_with :: "string \<Rightarrow> task_record \<Rightarrow> bool" where
  "open_with label task \<longleftrightarrow> tr_state task = ''open'' \<and> label \<in> set (tr_labels task)"

definition task_records :: "string \<Rightarrow> gh_issue list \<Rightarrow> task_record list" where
  "task_records expectedPrefix issues = map (\<lambda>(number, issue). issue_record expectedPrefix number issue) (numbered_tasks expectedPrefix issues)"

definition audit :: "string \<Rightarrow> string \<Rightarrow> js_num \<Rightarrow> gh_issue list \<Rightarrow> audit_report option" where
  "audit maxText expectedPrefix maxTask issues =
     (let found = numbered_tasks expectedPrefix issues;
        tasks = task_records expectedPrefix issues in
      case numbers_up_to maxTask of None \<Rightarrow> None
      | Some numbers \<Rightarrow> Some
          \<lparr>ar_active = length (filter (open_with ''Stellar Wave'') tasks),
           ar_candidates = length (filter (open_with ''wave-candidate'') tasks),
           ar_findings = concat (map (\<lambda>(number, issue). issue_findings maxText expectedPrefix maxTask number issue) found) @
             duplicate_findings tasks @ gap_findings expectedPrefix tasks numbers,
           ar_tasks = tasks\<rparr>)"

definition audit_listing :: "string \<Rightarrow> string \<Rightarrow> js_num \<Rightarrow> gh_issue list res \<Rightarrow> audit_report res option" where
  "audit_listing maxText expectedPrefix maxTask listing = (case listing of Inl e \<Rightarrow> Some (Inl e)
     | Inr issues \<Rightarrow> map_option Inr (audit maxText expectedPrefix maxTask issues))"

definition issue_audit :: "github \<Rightarrow> audit_report res option" where
  "issue_audit H =
     (let token = gh_env H ''GITHUB_TOKEN''; repository = gh_env H ''GITHUB_REPOSITORY''; expectedPrefix = gh_env H ''ISSUE_PREFIX'';
        maxTask = js_Number (or_str (gh_env H ''MAX_TASK'') ''150'') in
      if \<not> truthy_str token \<or> \<not> truthy_str repository \<or> \<not> truthy_str expectedPrefix
      then Some (throw_error ''GITHUB_TOKEN, GITHUB_REPOSITORY, and ISSUE_PREFIX are required'')
      else Option.bind (fetch_pages (\<lambda>issue. \<not> gi_pull issue) (\<lambda>page. gh_issues H (issues_page (the repository) page)) 1)
        (audit_listing (gh_number_text H maxTask) (the expectedPrefix) maxTask))"

section \<open>Pages\<close>

lemma fetch_pages_short:
  assumes "\<And>i. i < k \<Longrightarrow> \<exists>batch. api (n + i) = Inr batch \<and> 100 \<le> length batch" "api (n + k) = Inr final" "length final < 100"
  shows "fetch_pages keep api n = Some (Inr (filter keep (concat (map (\<lambda>i. projr (api (n + i))) [0..<Suc k]))))"
  using assms
proof (induction k arbitrary: n)
  case 0
  then show ?case by (subst fetch_pages.simps) simp
next
  case (Suc k)
  obtain batch where batch: "api n = Inr batch" "100 \<le> length batch" using Suc.prems(1) [of 0] by auto
  have "\<exists>b. api (Suc n + i) = Inr b \<and> 100 \<le> length b" if "i < k" for i
    using Suc.prems(1) [of "Suc i"] that by simp
  moreover have "api (Suc n + k) = Inr final" using Suc.prems(2) by simp
  ultimately have "fetch_pages keep api (Suc n) = Some (Inr (filter keep (concat (map (\<lambda>i. projr (api (Suc n + i))) [0..<Suc k]))))"
    using Suc.IH [of "Suc n"] Suc.prems(3) by blast
  moreover have "concat (map (\<lambda>i. projr (api (n + i))) [0..<Suc (Suc k)]) = batch @ concat (map (\<lambda>i. projr (api (Suc n + i))) [0..<Suc k])"
    using batch(1) by (simp add: upt_conv_Cons [of 0] map_Suc_upt [symmetric] o_def del: upt_Suc)
  ultimately show ?case using batch by (subst fetch_pages.simps) (simp del: upt_Suc)
qed

section \<open>Ids\<close>

lemma task_id_inj [simp]: "task_id p m = task_id p n \<longleftrightarrow> m = n"
proof
  assume "task_id p m = task_id p n"
  then have "radix_val 10 (pad_start 3 (CHR ''0'') (show_nat m)) = radix_val 10 (pad_start 3 (CHR ''0'') (show_nat n))"
    by (simp add: task_id_def)
  then show "m = n" by (simp add: pad_start_def radix_val_replicate_zero)
qed simp

lemma task_ids_set: "set (task_ids tasks) = tr_id ` set tasks"
  by (simp add: task_ids_def dedupe_on_keys)

lemma numbered_task_iff: "(n, i) \<in> set (numbered_tasks p issues) \<longleftrightarrow> i \<in> set issues \<and> task_number p i = Some n"
  by (auto simp: numbered_tasks_def split: option.splits)

lemma numbered_count: "length (filter (\<lambda>x. fst x = n) (numbered_tasks p issues)) = length (filter (\<lambda>i. task_number p i = Some n) issues)"
  by (induction issues) (auto simp: numbered_tasks_def split: option.splits)

lemma record_id [simp]: "tr_id (issue_record p n i) = task_id p n"
  by (simp add: issue_record_def)

lemma only_if_Nil [simp]: "only_if b x = [] \<longleftrightarrow> \<not> b"
  by (simp add: only_if_def)

section \<open>Properties\<close>

text \<open>What a well-formed task issue is.\<close>

definition complexity_label :: "string \<Rightarrow> bool" where
  "complexity_label l \<longleftrightarrow> l \<in> {''complexity-low'', ''complexity-medium'', ''complexity-high''}"

definition task_well_formed :: "gh_issue \<Rightarrow> bool" where
  "task_well_formed issue \<longleftrightarrow> (\<forall>h \<in> set requiredHeadings. includes_str h (or_str (gi_body issue) [])) \<and>
     length (filter complexity_label (issue_labels issue)) = 1 \<and>
     (''Stellar Wave'' \<in> set (issue_labels issue) \<longrightarrow> ''wave-candidate'' \<notin> set (issue_labels issue) \<and>
        (gi_state issue = ''open'' \<longrightarrow> gi_assignees issue \<noteq> []))"

lemma test_complexity: "re_test complexity_pattern l \<longleftrightarrow> complexity_label l"
  unfolding re_test_iff complexity_pattern_def rm_anchored by (auto simp: rm_str rm_any complexity_label_def)

lemma test_complexity_fun: "re_test complexity_pattern = complexity_label"
  by (simp add: fun_eq_iff test_complexity)

lemma all_tasks: "(\<forall>x \<in> set (numbered_tasks p issues). P (fst x) (snd x)) \<longleftrightarrow>
    (\<forall>i \<in> set issues. \<forall>n. task_number p i = Some n \<longrightarrow> P n i)"
  by (simp add: Ball_def split_paired_All numbered_task_iff) blast

lemma no_issue_findings: "issue_findings t p (Fin (of_nat m)) n i = [] \<longleftrightarrow> 1 \<le> n \<and> n \<le> m \<and> task_well_formed i"
  by (auto simp: issue_findings_def Let_def exceeds_def task_well_formed_def missing_headings_def filter_empty_conv test_complexity_fun)

lemma audit_finite: "audit t p (Fin (of_nat m)) issues = Some report \<Longrightarrow>
    ar_findings report = concat (map (\<lambda>(n, i). issue_findings t p (Fin (of_nat m)) n i) (numbered_tasks p issues)) @
      duplicate_findings (task_records p issues) @
      gap_findings p (task_records p issues) [1..<Suc m]"
  by (auto simp: audit_def Let_def numbers_up_to_def)

lemma audit_returns: "\<exists>report. audit t p (Fin (of_nat m)) issues = Some report"
  by (simp add: audit_def Let_def numbers_up_to_def)

lemma records_of_number:
  "length (filter (\<lambda>t. tr_id t = task_id p n) (task_records p issues)) =
     length (filter (\<lambda>i. task_number p i = Some n) issues)"
  unfolding numbered_count [symmetric] by (simp add: task_records_def filter_map o_def split_beta)

lemma record_ids: "set (task_ids (task_records p issues)) =
    task_id p ` {n. \<exists>i \<in> set issues. task_number p i = Some n}"
  by (force simp: task_ids_set task_records_def numbered_task_iff image_iff)

lemma no_duplicates: "duplicate_findings (task_records p issues) = [] \<longleftrightarrow>
    (\<forall>n. length (filter (\<lambda>i. task_number p i = Some n) issues) \<le> 1)"
proof -
  have "duplicate_findings (task_records p issues) = [] \<longleftrightarrow>
      (\<forall>n. (\<exists>i \<in> set issues. task_number p i = Some n) \<longrightarrow> length (filter (\<lambda>i. task_number p i = Some n) issues) \<le> 1)"
    unfolding duplicate_findings_def by (simp add: record_ids records_of_number Let_def not_less)
  moreover have "length (filter (\<lambda>i. task_number p i = Some n) issues) = 0"
    if "\<not> (\<exists>i \<in> set issues. task_number p i = Some n)" for n
    using that by (simp add: filter_empty_conv)
  ultimately show ?thesis by (metis le_zero_eq nat_le_linear)
qed

lemma no_gaps: "gap_findings p (task_records p issues) [1..<Suc m] = [] \<longleftrightarrow>
    (\<forall>n \<in> {1..m}. 1 \<le> length (filter (\<lambda>i. task_number p i = Some n) issues))"
proof -
  have "1 \<le> length (filter (\<lambda>i. task_number p i = Some n) issues) \<longleftrightarrow> (\<exists>i \<in> set issues. task_number p i = Some n)" for n
    by (simp add: Suc_le_eq filter_empty_conv)
  moreover have "task_id p n \<in> task_id p ` S \<longleftrightarrow> n \<in> S" for n S by auto
  ultimately show ?thesis unfolding gap_findings_def by (auto simp: record_ids Let_def simp del: upt_Suc)
qed

text \<open>C30: the audit finds nothing exactly when every task issue is well formed and within the range, and
  every number of the range belongs to exactly one task issue.\<close>

theorem audit_clear_iff:
  "(\<exists>report. audit maxText prefix (Fin (of_nat m)) issues = Some report \<and> ar_findings report = []) \<longleftrightarrow>
   (\<forall>issue \<in> set issues. \<forall>n. task_number prefix issue = Some n \<longrightarrow> 1 \<le> n \<and> n \<le> m \<and> task_well_formed issue) \<and>
   (\<forall>n \<in> {1..m}. length (filter (\<lambda>issue. task_number prefix issue = Some n) issues) = 1)"
proof -
  obtain report where report: "audit maxText prefix (Fin (of_nat m)) issues = Some report" using audit_returns by blast
  let ?count = "\<lambda>n. length (filter (\<lambda>issue. task_number prefix issue = Some n) issues)"
  have "ar_findings report = [] \<longleftrightarrow>
      (\<forall>issue \<in> set issues. \<forall>n. task_number prefix issue = Some n \<longrightarrow> 1 \<le> n \<and> n \<le> m \<and> task_well_formed issue) \<and>
      (\<forall>n. ?count n \<le> 1) \<and> (\<forall>n \<in> {1..m}. 1 \<le> ?count n)"
    unfolding audit_finite [OF report] append_is_Nil_conv no_duplicates no_gaps
    using all_tasks [of prefix issues "\<lambda>n i. 1 \<le> n \<and> n \<le> m \<and> task_well_formed i"] by (simp add: split_beta no_issue_findings)
  also have "\<dots> \<longleftrightarrow> (\<forall>issue \<in> set issues. \<forall>n. task_number prefix issue = Some n \<longrightarrow> 1 \<le> n \<and> n \<le> m \<and> task_well_formed issue) \<and>
      (\<forall>n \<in> {1..m}. ?count n = 1)"
  proof (rule conj_cong [OF refl])
    assume "\<forall>issue \<in> set issues. \<forall>n. task_number prefix issue = Some n \<longrightarrow> 1 \<le> n \<and> n \<le> m \<and> task_well_formed issue"
    then have "?count n = 0" if "n \<notin> {1..m}" for n using that by (auto simp: filter_empty_conv)
    then have "(\<forall>n. ?count n \<le> 1) \<longleftrightarrow> (\<forall>n \<in> {1..m}. ?count n \<le> 1)" by (metis zero_le)
    then show "(\<forall>n. ?count n \<le> 1) \<and> (\<forall>n \<in> {1..m}. 1 \<le> ?count n) \<longleftrightarrow> (\<forall>n \<in> {1..m}. ?count n = 1)"
      by (auto simp: le_antisym simp del: One_nat_def)
  qed
  finally show ?thesis using report by simp
qed

text \<open>With a \<open>MAX_TASK\<close> that is not a number the audit still reports, but no missing task, and no
  task out of range except the number 000.\<close>

theorem bad_limit_disables_rules:
  assumes "gh_env H ''MAX_TASK'' = Some limit" "limit \<noteq> []" "js_Number limit = NaN" "issue_audit H = Some (Inr report)"
    and "f \<in> set (ar_findings report)"
  shows "af_code f \<noteq> ''gap'' \<and> (af_code f = ''range'' \<longrightarrow> af_id f = task_id (the (gh_env H ''ISSUE_PREFIX'')) 0)"
proof -
  let ?p = "the (gh_env H ''ISSUE_PREFIX'')"
  have limit: "js_Number (or_str (gh_env H ''MAX_TASK'') ''150'') = NaN" using assms(1,2,3) by (simp add: or_str_def)
  obtain r where "audit_listing (gh_number_text H NaN) ?p NaN r = Some (Inr report)"
    using assms(4) unfolding issue_audit_def Let_def limit
    by (auto simp: throw_error_def Option.bind_eq_Some_conv split: if_split_asm)
  then obtain t issues where "audit t ?p NaN issues = Some report" by (cases r) (auto simp: audit_listing_def)
  then have "ar_findings report = concat (map (\<lambda>(n, i). issue_findings t ?p NaN n i) (numbered_tasks ?p issues)) @
      duplicate_findings (task_records ?p issues)"
    by (auto simp: audit_def Let_def numbers_up_to_def gap_findings_def)
  moreover have "af_code g \<noteq> ''gap'' \<and> (af_code g = ''range'' \<longrightarrow> af_id g = task_id ?p 0)" if "g \<in> set (issue_findings t ?p NaN n i)" for g n i
    using that by (auto simp: issue_findings_def Let_def exceeds_def only_if_def warning_def split: if_splits)
  moreover have "af_code g = ''duplicate''" if "g \<in> set (duplicate_findings ts)" for g ts
    using that by (auto simp: duplicate_findings_def Let_def only_if_def warning_def split: if_splits)
  ultimately show ?thesis using assms(5) by fastforce
qed

text \<open>C31: the audit ends once a page has fewer than 100 entries, and then reports on exactly the issues of
  all pages up to it that are not pull requests.\<close>

theorem audit_reads_all_pages:
  assumes "truthy_str (gh_env H ''GITHUB_TOKEN'')" "gh_env H ''GITHUB_REPOSITORY'' = Some repository" "repository \<noteq> []"
    and "gh_env H ''ISSUE_PREFIX'' = Some prefix" "prefix \<noteq> []" "js_Number (or_str (gh_env H ''MAX_TASK'') ''150'') = Fin q"
    and "\<And>i. i < k \<Longrightarrow> \<exists>batch. gh_issues H (issues_page repository (1 + i)) = Inr batch \<and> 100 \<le> length batch"
    and "gh_issues H (issues_page repository (1 + k)) = Inr final" "length final < 100"
  shows "\<exists>report. issue_audit H = Some (Inr report) \<and>
    audit (gh_showNumber H q) prefix (Fin q) (filter (\<lambda>issue. \<not> gi_pull issue)
      (concat (map (\<lambda>i. projr (gh_issues H (issues_page repository (1 + i)))) [0..<Suc k]))) = Some report"
proof -
  let ?issues = "filter (\<lambda>issue. \<not> gi_pull issue) (concat (map (\<lambda>i. projr (gh_issues H (issues_page repository (1 + i)))) [0..<Suc k]))"
  have "fetch_pages (\<lambda>issue. \<not> gi_pull issue) (\<lambda>page. gh_issues H (issues_page repository page)) 1 = Some (Inr ?issues)"
    using assms(7,8,9) by (rule fetch_pages_short)
  moreover obtain report where "audit (gh_showNumber H q) prefix (Fin q) ?issues = Some report"
    by (simp add: audit_def Let_def numbers_up_to_def)
  ultimately have "issue_audit H = Some (Inr report)"
    using assms(1-6) by (simp add: issue_audit_def truthy_str_def audit_listing_def gh_number_text_def del: upt_Suc)
  with \<open>audit (gh_showNumber H q) prefix (Fin q) ?issues = Some report\<close> show ?thesis by blast
qed

section \<open>A concrete repository\<close>

definition demo_task :: "string \<Rightarrow> gh_issue" where
  "demo_task title = \<lparr>gi_number = 7, gi_title = Some title, gi_body = Some (join_with [CHR 0x0A] requiredHeadings), gi_state = ''open'',
     gi_labels = [LabelNamed ''complexity-low'', LabelText ''Stellar Wave''], gi_assignees = [''dev''], gi_pull = False\<rparr>"

definition demo_github :: "string \<Rightarrow> gh_issue list \<Rightarrow> github" where
  "demo_github limit issues = \<lparr>gh_env = map_of [(''GITHUB_TOKEN'', ''t''), (''GITHUB_REPOSITORY'', ''o/r''), (''ISSUE_PREFIX'', ''V2-SC''), (''MAX_TASK'', limit)],
     gh_issues = (\<lambda>path. Inr issues), gh_showNumber = (\<lambda>q. ''2'')\<rparr>"

lemma includes_joined: "h \<in> set hs \<Longrightarrow> includes_str h (join_with sep hs)"
proof (induction hs rule: induct_list012)
  case (3 x y hs)
  show ?case
  proof (cases "h = x")
    case False
    with 3 obtain a b where "join_with sep (y # hs) = a @ h @ b" by (auto simp: includes_str_iff)
    then have "join_with sep (x # y # hs) = (x @ sep @ a) @ h @ b" by simp
    then show ?thesis unfolding includes_str_iff by blast
  qed (auto simp: includes_str_iff)
next
  case (2 x)
  then show ?case unfolding includes_str_iff by (intro exI [of _ "[]"]) simp
qed simp

lemma demo_well_formed: "task_well_formed (demo_task title)"
  by (simp add: task_well_formed_def demo_task_def or_str_def includes_joined issue_labels_def label_name_def complexity_label_def)

lemma demo_numbers: "task_number ''V2-SC'' (demo_task ''V2-SC-001 Registry'') = Some 1" "task_number ''V2-SC'' (demo_task ''v2-sc-002: vault'') = Some 2"
  by code_simp+

theorem audit_clear_iff_witness: "\<exists>report. audit ''2'' ''V2-SC'' (Fin (of_nat 2)) [demo_task ''V2-SC-001 Registry'', demo_task ''v2-sc-002: vault''] = Some report \<and>
    ar_findings report = []"
proof -
  have two: "{1..2} = {1, 2 :: nat}" by auto
  show ?thesis unfolding audit_clear_iff two by (simp add: demo_numbers demo_well_formed)
qed

definition demo_empty :: gh_issue where
  "demo_empty = \<lparr>gi_number = 8, gi_title = Some ''V2-SC-900'', gi_body = None, gi_state = ''open'', gi_labels = [], gi_assignees = [], gi_pull = False\<rparr>"

theorem bad_limit_disables_rules_witness:
  "\<exists>report f. issue_audit (demo_github ''off'' [demo_empty]) = Some (Inr report) \<and> f \<in> set (ar_findings report) \<and> af_code f \<noteq> ''gap''"
proof -
  define H where "H = demo_github ''off'' [demo_empty]"
  have "fetch_pages (\<lambda>issue. \<not> gi_pull issue) (\<lambda>page. gh_issues H (issues_page ''o/r'' page)) 1 = Some (Inr [demo_empty])"
    by (subst fetch_pages.simps) (simp add: H_def demo_github_def demo_empty_def)
  moreover have limit: "js_Number ''off'' = NaN" by code_simp
  ultimately obtain report where report: "issue_audit H = Some (Inr report)" "audit ''NaN'' ''V2-SC'' NaN [demo_empty] = Some report"
    by (simp add: H_def demo_github_def issue_audit_def or_str_def truthy_str_def audit_listing_def audit_def Let_def numbers_up_to_def gh_number_text_def)
  have "map_option (\<lambda>r. map af_code (ar_findings r)) (audit ''NaN'' ''V2-SC'' NaN [demo_empty]) = Some [''structure'', ''complexity'']"
    by code_simp
  then have "ar_findings report \<noteq> []" by (auto simp: report(2))
  then obtain f where "f \<in> set (ar_findings report)" by (cases "ar_findings report") auto
  moreover from bad_limit_disables_rules [OF _ _ limit report(1) this] have "af_code f \<noteq> ''gap''"
    by (simp add: H_def demo_github_def)
  ultimately show ?thesis using report(1) unfolding H_def by blast
qed

theorem audit_reads_all_pages_witness:
  "\<exists>report. issue_audit (demo_github ''2'' [demo_empty]) = Some (Inr report) \<and> length (ar_tasks report) = 1"
proof -
  have "js_Number ''2'' = Fin 2" by code_simp
  moreover have "length (ar_tasks report) = 1" if "audit ''2'' ''V2-SC'' (Fin 2) [demo_empty] = Some report" for report
  proof -
    have "map_option (\<lambda>r. length (ar_tasks r)) (audit ''2'' ''V2-SC'' (Fin 2) [demo_empty]) = Some 1" by code_simp
    with that show ?thesis by simp
  qed
  ultimately show ?thesis
    using audit_reads_all_pages [of "demo_github ''2'' [demo_empty]" "''o/r''" "''V2-SC''" 2 0 "[demo_empty]"]
    by (auto simp: demo_github_def demo_empty_def truthy_str_def or_str_def)
qed

end
