(* ===== verification/PrGuardian.thy ===== *)
theory PrGuardian
  imports IssueAudit
begin

text \<open>
  \<open>.github/scripts/pr-guardian.mjs\<close>: the issue a pull request closes, the checks on it, and the files
  that ask for a human review. \<open>guardian_host\<close>: the environment and the three GitHub resources by path.
  Issue numbers are below \<open>2^53\<close>; the written report and the summary are left out.
\<close>

record pull_request =
  pq_body :: "string option"
  pq_headSha :: string
  pq_author :: string
  pq_draft :: bool

record guardian_host =
  gu_env :: "string \<Rightarrow> string option"
  gu_pull :: "string \<Rightarrow> pull_request res"
  gu_issue :: "string \<Rightarrow> gh_issue res"
  gu_files :: "string \<Rightarrow> string list res"
  gu_showNumber :: "rat \<Rightarrow> string"

section \<open>Closing references\<close>

text \<open>\<open>/\b(?:close[sd]?|fix(?:e[sd])?|resolve[sd]?)\s*:?[ \t]*(?:https:\/\/github\.com\/[^/]+\/[^/]+\/issues\/)?#?(\d+)\b/gi\<close>.\<close>

definition s_or_d :: re where
  "s_or_d = RChar (\<lambda>c. lower_char c = CHR ''s'' \<or> lower_char c = CHR ''d'')"

definition closing_word :: re where
  "closing_word = re_any [RSeq (re_stri ''close'') (re_opt s_or_d), RSeq (re_stri ''fix'') (re_opt (RSeq (re_stri ''e'') s_or_d)),
     RSeq (re_stri ''resolve'') (re_opt s_or_d)]"

definition not_slash :: re where
  "not_slash = re_plus (RChar (\<lambda>c. c \<noteq> CHR ''/''))"

definition issue_url :: re where
  "issue_url = RSeq (re_stri ''https://github.com/'') (RSeq not_slash (RSeq (re_str ''/'') (RSeq not_slash (re_stri ''/issues/''))))"

definition closingPattern :: re where
  "closingPattern = RSeq RBound (RSeq closing_word (RSeq (RStar True (RChar is_ws)) (RSeq (re_opt (re_str '':''))
     (RSeq (RStar True (RChar (\<lambda>c. c = CHR 0x20 \<or> c = CHR 0x09))) (RSeq (re_opt issue_url) (RSeq (re_opt (re_str ''#''))
     (RSeq (RGroup 1 (re_plus digit_re)) RBound)))))))"

definition linkedNumbers :: "string option \<Rightarrow> nat list" where
  "linkedNumbers body = dedupe_on (\<lambda>n. n) {}
     (map (\<lambda>(index, m). radix_val 10 (the (rx_group 1 m))) (match_all closingPattern 0 None (or_str body [])))"

section \<open>The linked issue\<close>

record pr_finding =
  pf_severity :: string
  pf_code :: string
  pf_message :: string

definition pr_finding_of :: "string \<Rightarrow> string \<Rightarrow> string \<Rightarrow> pr_finding" where
  "pr_finding_of severity rule message = \<lparr>pf_severity = severity, pf_code = rule, pf_message = message\<rparr>"

text \<open>\<open>new RegExp(`^\s*(${expectedPrefix}-\d{3})\b`, "i")\<close>.\<close>

definition title_pattern :: "string \<Rightarrow> re" where
  "title_pattern expectedPrefix = RSeq RStart (RSeq (RStar True (RChar is_ws))
     (RSeq (RGroup 1 (RSeq (re_stri expectedPrefix) (RSeq (re_str ''-'') (RSeq digit_re (RSeq digit_re digit_re))))) RBound))"

definition title_match :: "string \<Rightarrow> gh_issue \<Rightarrow> re_match option" where
  "title_match expectedPrefix issue = exec (title_pattern expectedPrefix) (or_str (gi_title issue) [])"

definition upper_char :: "char \<Rightarrow> char" where
  "upper_char c = (if is_lower c then char_of (code_unit c - 32) else c)"

record linked_facts =
  lf_issueNumber :: nat
  lf_issueState :: string
  lf_taskId :: "string option"
  lf_labels :: "string list"
  lf_assignees :: "string list"

definition linked_facts_of :: "string \<Rightarrow> gh_issue \<Rightarrow> linked_facts" where
  "linked_facts_of expectedPrefix issue = \<lparr>lf_issueNumber = gi_number issue, lf_issueState = gi_state issue,
     lf_taskId = (case title_match expectedPrefix issue of None \<Rightarrow> None
       | Some m \<Rightarrow> (let t = map upper_char (the (rx_group 1 m)) in if t = [] then None else Some t)),
     lf_labels = issue_labels issue, lf_assignees = gi_assignees issue\<rparr>"

definition linked_findings :: "string \<Rightarrow> string \<Rightarrow> gh_issue \<Rightarrow> pr_finding list" where
  "linked_findings expectedPrefix author issue =
     (let labels = issue_labels issue in
      only_if (title_match expectedPrefix issue = None)
        (pr_finding_of ''warning'' ''task-id'' (''Linked issue title must begin with '' @ expectedPrefix @ ''-NNN.'')) @
      only_if (gi_state issue \<noteq> ''open'') (pr_finding_of ''warning'' ''issue-state'' ''Linked issue is not open.'') @
      only_if (''Stellar Wave'' \<notin> set labels) (pr_finding_of ''warning'' ''activation''
        (''Linked issue lacks the exact '' @ [CHR 0x22] @ ''Stellar Wave'' @ [CHR 0x22] @ '' activation label.'')) @
      only_if (''wave-candidate'' \<in> set labels \<and> ''Stellar Wave'' \<in> set labels)
        (pr_finding_of ''warning'' ''label-state'' ''Issue cannot be both wave-candidate and Stellar Wave.'') @
      only_if (author \<notin> set (gi_assignees issue)) (pr_finding_of ''warning'' ''assignment''
        (''PR author @'' @ author @ '' is not assigned to the linked issue; maintainer approval must be recorded.'')))"

section \<open>Sensitive files\<close>

definition sensitive_words :: "string list" where
  "sensitive_words = [''auth'', ''siwe'', ''wallet'', ''signature'', ''settlement'', ''reward'', ''treasury'', ''governance'',
     ''migration'', ''indexer'', ''reorg'', ''deploy'']"

definition sensitiveFiles :: "re list" where
  "sensitiveFiles = [RSeq RStart (re_str ''.github/workflows/''), re_any (map re_stri sensitive_words), RSeq (re_stri ''.sol'') REnd]"

definition sensitive :: "string \<Rightarrow> bool" where
  "sensitive file \<longleftrightarrow> list_ex (\<lambda>pattern. re_test pattern file) sensitiveFiles"

section \<open>The report\<close>

record guardian_report =
  gr_author :: string
  gr_headSha :: string
  gr_draft :: bool
  gr_linkedIssues :: "nat list"
  gr_linked :: "linked_facts option"
  gr_changedFiles :: "string list"
  gr_securitySensitive :: bool
  gr_guardianFindings :: "pr_finding list"

definition pr_findings :: "pull_request \<Rightarrow> nat list \<Rightarrow> pr_finding list" where
  "pr_findings pr linked =
     only_if (pq_draft pr) (pr_finding_of ''notice'' ''draft'' ''Draft PRs are not merge candidates.'') @
     only_if (length linked \<noteq> 1) (pr_finding_of ''warning'' ''one-task-one-pr''
       (''Expected exactly one closing issue reference; found '' @ show_nat (length linked) @ ''.''))"

text \<open>The issue that is fetched when exactly one is linked.\<close>

definition linked_issue :: "guardian_host \<Rightarrow> string \<Rightarrow> nat list \<Rightarrow> gh_issue option res" where
  "linked_issue G repository linked = (case linked of
     [n] \<Rightarrow> res_bind (gu_issue G (repository_path repository @ ''/issues/'' @ show_nat n)) (\<lambda>issue. Inr (Some issue))
   | _ \<Rightarrow> Inr None)"

definition guardian_report_of :: "string \<Rightarrow> pull_request \<Rightarrow> gh_issue option \<Rightarrow> string list \<Rightarrow> guardian_report" where
  "guardian_report_of expectedPrefix pr issue files =
     (let linked = linkedNumbers (pq_body pr); risky = list_ex sensitive files in
      \<lparr>gr_author = pq_author pr, gr_headSha = pq_headSha pr, gr_draft = pq_draft pr, gr_linkedIssues = linked,
       gr_linked = map_option (linked_facts_of expectedPrefix) issue, gr_changedFiles = files, gr_securitySensitive = risky,
       gr_guardianFindings = pr_findings pr linked @
         (case issue of None \<Rightarrow> [] | Some i \<Rightarrow> linked_findings expectedPrefix (pq_author pr) i) @
         only_if risky (pr_finding_of ''notice'' ''human-review''
           ''Security-sensitive paths changed; exact-head human maintainer approval is mandatory.'')\<rparr>)"

definition pr_path :: "guardian_host \<Rightarrow> string \<Rightarrow> js_num \<Rightarrow> string" where
  "pr_path G repository prNumber = repository_path repository @ ''/pulls/'' @
     (case prNumber of NaN \<Rightarrow> ''NaN'' | PosInfinity \<Rightarrow> ''Infinity'' | NegInfinity \<Rightarrow> ''-Infinity'' | Fin q \<Rightarrow> gu_showNumber G q)"

definition guardian :: "guardian_host \<Rightarrow> guardian_report res option" where
  "guardian G =
     (let token = gu_env G ''GITHUB_TOKEN''; repository = gu_env G ''GITHUB_REPOSITORY''; expectedPrefix = gu_env G ''ISSUE_PREFIX'';
        prNumber = (case gu_env G ''PR_NUMBER'' of None \<Rightarrow> NaN | Some t \<Rightarrow> js_Number t) in
      if \<not> truthy_str token \<or> \<not> truthy_str repository \<or> prNumber = NaN \<or> prNumber = Fin 0 \<or> \<not> truthy_str expectedPrefix
      then Some (throw_error ''GITHUB_TOKEN, GITHUB_REPOSITORY, PR_NUMBER, and ISSUE_PREFIX are required'')
      else let path = pr_path G (the repository) prNumber in
        case res_bind (gu_pull G path) (\<lambda>pr. res_bind (linked_issue G (the repository) (linkedNumbers (pq_body pr))) (\<lambda>issue. Inr (pr, issue))) of
          Inl e \<Rightarrow> Some (Inl e)
        | Inr (pr, issue) \<Rightarrow>
            map_option (\<lambda>listing. res_bind listing (\<lambda>files. Inr (guardian_report_of (the expectedPrefix) pr issue files)))
              (fetch_pages (\<lambda>file. True) (\<lambda>page. gu_files G (path @ ''/files?per_page=100&page='' @ show_nat page)) 1))"

section \<open>Properties\<close>

lemma sensitive_iff: "sensitive file \<longleftrightarrow> starts_with ''.github/workflows/'' file \<or>
    (\<exists>w \<in> set sensitive_words. includes_str w (to_lower file)) \<or> (\<exists>a. to_lower file = a @ ''.sol'')"
proof -
  have "\<forall>w \<in> set (''.sol'' # sensitive_words). to_lower w = w"
    by (simp add: sensitive_words_def to_lower_def lower_char_def is_upper_def code_unit_def)
  then show ?thesis by (auto simp: sensitive_def sensitiveFiles_def test_prefix test_any test_stri test_stri_end)
qed

definition linked_ok :: "string \<Rightarrow> string \<Rightarrow> gh_issue \<Rightarrow> bool" where
  "linked_ok prefix author issue \<longleftrightarrow> title_match prefix issue \<noteq> None \<and> gi_state issue = ''open'' \<and>
     ''Stellar Wave'' \<in> set (issue_labels issue) \<and> ''wave-candidate'' \<notin> set (issue_labels issue) \<and> author \<in> set (gi_assignees issue)"

lemma no_linked_findings: "linked_findings prefix author issue = [] \<longleftrightarrow> linked_ok prefix author issue"
  by (auto simp: linked_findings_def Let_def linked_ok_def)

lemma linked_issue_fetched: "linked_issue G repository linked = Inr issue \<Longrightarrow> (issue \<noteq> None) = (length linked = 1)"
  by (auto simp: linked_issue_def res_bind_def split: list.splits sum.splits)

text \<open>A successful run: what the report is made of.\<close>

lemma guardian_run:
  assumes "guardian G = Some (Inr report)" "gu_env G ''GITHUB_REPOSITORY'' = Some repository" "gu_env G ''ISSUE_PREFIX'' = Some prefix"
  obtains pr issue files path where "gu_pull G path = Inr pr" "linked_issue G repository (linkedNumbers (pq_body pr)) = Inr issue"
    "fetch_pages (\<lambda>file. True) (\<lambda>page. gu_files G (path @ ''/files?per_page=100&page='' @ show_nat page)) 1 = Some (Inr files)"
    "report = guardian_report_of prefix pr issue files"
proof -
  let ?n = "case gu_env G ''PR_NUMBER'' of None \<Rightarrow> NaN | Some t \<Rightarrow> js_Number t"
  let ?path = "pr_path G repository ?n"
  let ?start = "res_bind (gu_pull G ?path) (\<lambda>pr. res_bind (linked_issue G repository (linkedNumbers (pq_body pr))) (\<lambda>issue. Inr (pr, issue)))"
  let ?files = "fetch_pages (\<lambda>file. True) (\<lambda>page. gu_files G (?path @ ''/files?per_page=100&page='' @ show_nat page)) 1"
  have run: "(case ?start of Inl e \<Rightarrow> Some (Inl e) | Inr (pr, issue) \<Rightarrow>
      map_option (\<lambda>listing. res_bind listing (\<lambda>files. Inr (guardian_report_of prefix pr issue files))) ?files) = Some (Inr report)"
    using assms(1) unfolding guardian_def Let_def assms(2,3) option.sel by (simp add: throw_error_def split: if_split_asm)
  obtain pr issue where start: "?start = Inr (pr, issue)" using run by (cases ?start) auto
  with run obtain files where "?files = Some (Inr files)" "report = guardian_report_of prefix pr issue files"
    by (auto simp: res_bind_Inr_iff)
  moreover from start have "gu_pull G ?path = Inr pr" "linked_issue G repository (linkedNumbers (pq_body pr)) = Inr issue"
    by (auto simp: res_bind_Inr_iff)
  ultimately show thesis using that by blast
qed


lemma linked_from_first:
  assumes "first_match closingPattern ((None, s), []) (cur, [(1, digits)])"
  shows "radix_val 10 digits \<in> set (linkedNumbers (Some s))"
proof -
  obtain q rest where cur: "cur = (q, rest)" by (cases cur)
  have "or_str (Some s) [] = s" by (simp add: or_str_def)
  moreover have "\<exists>m others. match_all closingPattern 0 None s = (0, m) # others \<and> rx_group 1 m = Some digits"
    using first_search [OF assms [unfolded cur]] by (subst match_all.simps) (simp add: rx_group_def)
  moreover have "set (dedupe_on (\<lambda>n. n) {} ns) = set ns" for ns :: "nat list" using dedupe_on_keys [of "\<lambda>n. n" "{}" ns] by simp
  ultimately show ?thesis by (auto simp: linkedNumbers_def)
qed

lemma digit_facts: "is_digit c \<Longrightarrow> \<not> is_ws c \<and> is_word_char c \<and> c \<noteq> CHR '':'' \<and> c \<noteq> CHR ''#'' \<and> c \<noteq> CHR 0x20 \<and> c \<noteq> CHR 0x09 \<and> lower_char c \<noteq> CHR ''h''"
  by (auto simp: is_word_char_def is_digit_not_ws lower_char_def is_upper_def is_digit_def code_unit_def)

lemma number_first:
  assumes "digits \<noteq> []" "\<forall>c \<in> set digits. is_digit c" "rest = [] \<or> \<not> is_word_char (hd rest)"
  shows "first_match (RSeq (re_opt (re_str ''#'')) (RSeq (RGroup 1 (re_plus digit_re)) RBound)) ((p, digits @ rest), [])
    ((Some (last digits), rest), [(1, digits)])"
proof -
  have hash: "mt (re_str ''#'') ((p, digits @ rest), []) = []"
    using assms(1,2) digit_facts by (cases digits) (auto simp: mt_str starts_with_def)
  have "rest = [] \<or> \<not> is_digit (hd rest)" using assms(3) by (auto simp: is_word_char_def)
  then have "first_match (re_plus digit_re) ((p, digits @ rest), []) ((Some (last digits), rest), [])"
    unfolding digit_re_def by (rule first_plus_chars [OF assms(1,2)])
  from first_group [OF this, of 1]
  have group: "first_match (RGroup 1 (re_plus digit_re)) ((p, digits @ rest), []) ((Some (last digits), rest), [(1, digits)])"
    by (simp add: matched_def)
  have "is_digit (last digits)" using assms(1,2) by simp
  then have "word_at (Some (last digits))" using digit_facts by (simp add: word_at_def)
  moreover have "\<not> word_at (first_char rest)" using assms(3) by (cases rest) (simp_all add: word_at_def first_char_def)
  ultimately have bound: "first_match RBound ((Some (last digits), rest), c) ((Some (last digits), rest), c)" for c
    by (simp add: first_match_def)
  show ?thesis by (rule first_seq [OF first_opt_skip [OF hash] first_seq [OF group bound]])
qed

lemma lower_C: "lower_char (CHR ''C'') = CHR ''c''"
  by code_simp

lemma lower_plain: "\<not> is_upper c \<Longrightarrow> lower_char c = c"
  by (simp add: lower_char_def)

lemma closing_words_first:
  "first_match closing_word ((None, ''fixes '' @ s), []) ((Some (CHR ''s''), CHR '' '' # s), [])"
  "first_match closing_word ((None, ''Closes '' @ s), []) ((Some (CHR ''s''), CHR '' '' # s), [])"
  by (simp_all add: first_match_def closing_word_def re_stri_def s_or_d_def re_opt_def lower_C lower_plain is_upper_def code_unit_def)

lemma start_bound: "s \<noteq> [] \<Longrightarrow> is_word_char (hd s) \<Longrightarrow> first_match RBound ((None, s), []) ((None, s), [])"
  by (cases s) (simp_all add: first_match_def word_at_def first_char_def)

text \<open>After the closing word: one space, no colon, no tab.\<close>

lemma space_first:
  assumes "s \<noteq> []" "\<not> is_ws (hd s)" "hd s \<noteq> CHR '':''"
    and "first_match r ((Some (CHR 0x20), s), []) x"
  shows "first_match (RSeq (RStar True (RChar is_ws)) (RSeq (re_opt (re_str '':''))
     (RSeq (RStar True (RChar (\<lambda>c. c = CHR 0x20 \<or> c = CHR 0x09))) r))) ((p, CHR '' '' # s), []) x"
proof -
  have "first_match (RStar True (RChar is_ws)) ((p, '' '' @ s), []) ((prev_char p '' '', s), [])"
    using assms(1,2) by (intro first_star_chars) (auto simp: is_ws_def code_unit_def)
  then have one: "first_match (RStar True (RChar is_ws)) ((p, CHR '' '' # s), []) ((Some (CHR 0x20), s), [])"
    by (simp add: prev_char_def)
  have colon: "mt (re_str '':'') ((Some (CHR 0x20), s), []) = []"
    using assms(1,3) by (cases s) (auto simp: mt_str starts_with_def)
  have "\<not> (hd s = CHR 0x20 \<or> hd s = CHR 0x09)" using assms(2) by (auto simp: is_ws_def code_unit_def)
  then have "first_match (RStar True (RChar (\<lambda>c. c = CHR 0x20 \<or> c = CHR 0x09))) ((Some (CHR 0x20), [] @ s), []) ((prev_char (Some (CHR 0x20)) [], s), [])"
    by (intro first_star_chars) auto
  then have none: "first_match (RStar True (RChar (\<lambda>c. c = CHR 0x20 \<or> c = CHR 0x09))) ((Some (CHR 0x20), s), []) ((Some (CHR 0x20), s), [])"
    by (simp add: prev_char_def)
  show ?thesis by (rule first_seq [OF one first_seq [OF first_opt_skip [OF colon] first_seq [OF none assms(4)]]])
qed

text \<open>A number after a closing word counts as a closing reference without the \<open>#\<close> that GitHub asks for,
  so a description like \<open>fixes 12 typos\<close> links issue 12.\<close>

theorem bare_number_links:
  assumes "digits \<noteq> []" "\<forall>c \<in> set digits. is_digit c" "rest = [] \<or> \<not> is_word_char (hd rest)"
  shows "radix_val 10 digits \<in> set (linkedNumbers (Some (''fixes '' @ digits @ rest)))"
proof -
  obtain d ds where d: "digits = d # ds" "is_digit d" using assms(1,2) by (cases digits) auto
  have no_url: "mt issue_url ((Some (CHR 0x20), digits @ rest), []) = []"
    using digit_facts [OF d(2)] d(1) by (simp add: issue_url_def re_stri_def lower_char_def is_upper_def code_unit_def)
  have "first_match closingPattern ((None, ''fixes '' @ digits @ rest), []) ((Some (last digits), rest), [(1, digits)])"
    unfolding closingPattern_def using digit_facts [OF d(2)] d(1)
    by (intro first_seq [OF start_bound] first_seq [OF closing_words_first(1)] space_first first_seq [OF first_opt_skip [OF no_url] number_first [OF assms]])
      (auto simp: is_word_char_def is_lower_def code_unit_def)
  then show ?thesis by (rule linked_from_first)
qed

lemma url_first:
  assumes "owner \<noteq> []" "CHR ''/'' \<notin> set owner" "repo \<noteq> []" "CHR ''/'' \<notin> set repo"
  shows "first_match issue_url ((p, ''https://github.com/'' @ owner @ ''/'' @ repo @ ''/issues/'' @ s), []) ((Some (CHR ''/''), s), [])"
proof -
  note site = first_stri [of "''https://github.com/''" p "owner @ ''/'' @ repo @ ''/issues/'' @ s" "[]"]
  have owner: "first_match not_slash ((q, owner @ ''/'' @ repo @ ''/issues/'' @ s), []) ((Some (last owner), ''/'' @ repo @ ''/issues/'' @ s), [])" for q
    unfolding not_slash_def using assms(1,2) by (intro first_plus_chars) auto
  have repo: "first_match not_slash ((q, repo @ ''/issues/'' @ s), []) ((Some (last repo), ''/issues/'' @ s), [])" for q
    unfolding not_slash_def using assms(3,4) by (intro first_plus_chars) auto
  note slash = first_str [of "''/''" _ "repo @ ''/issues/'' @ s" "[]"]
  have issues: "first_match (re_stri ''/issues/'') ((q, ''/issues/'' @ s), []) ((Some (CHR ''/''), s), [])" for q
    using first_stri [of "''/issues/''" q s "[]"] by (simp add: prev_char_def)
  show ?thesis unfolding issue_url_def
    by (rule first_seq [OF site first_seq [OF owner first_seq [OF slash first_seq [OF repo issues]]]])
qed

text \<open>The address of an issue of any other repository counts as the issue of this repository with the
  same number.\<close>

theorem foreign_issue_links:
  assumes "digits \<noteq> []" "\<forall>c \<in> set digits. is_digit c" "rest = [] \<or> \<not> is_word_char (hd rest)"
    and "owner \<noteq> []" "CHR ''/'' \<notin> set owner" "repo \<noteq> []" "CHR ''/'' \<notin> set repo"
  shows "radix_val 10 digits \<in> set (linkedNumbers (Some (''Closes https://github.com/'' @ owner @ ''/'' @ repo @ ''/issues/'' @ digits @ rest)))"
proof -
  let ?url = "''https://github.com/'' @ owner @ ''/'' @ repo @ ''/issues/'' @ digits @ rest"
  have "first_match closingPattern ((None, ''Closes '' @ ?url), []) ((Some (last digits), rest), [(1, digits)])"
    unfolding closingPattern_def re_opt_def [of issue_url]
    by (intro first_seq [OF start_bound] first_seq [OF closing_words_first(2)] space_first
        first_seq [OF first_alt(1) [OF url_first [OF assms(4-7)]] number_first [OF assms(1-3)]])
      (simp_all add: is_word_char_def is_upper_def is_ws_def code_unit_def)
  then have "radix_val 10 digits \<in> set (linkedNumbers (Some (''Closes '' @ ?url)))" by (rule linked_from_first)
  then show ?thesis by simp
qed

section \<open>Concrete pull requests\<close>

theorem bare_number_links_witness: "12 \<in> set (linkedNumbers (Some ''fixes 12 typos''))"
  using bare_number_links [of "''12''" "'' typos''"]
  by (simp add: is_digit_def is_word_char_def is_upper_def is_lower_def code_unit_def radix_val_def digit_val_def)

theorem foreign_issue_links_witness: "7 \<in> set (linkedNumbers (Some ''Closes https://github.com/other/project/issues/7''))"
  using foreign_issue_links [of "''7''" "[]" "''other''" "''project''"]
  by (simp add: is_digit_def code_unit_def radix_val_def digit_val_def)

definition demo_pull :: guardian_host where
  "demo_pull = \<lparr>gu_env = map_of [(''GITHUB_TOKEN'', ''t''), (''GITHUB_REPOSITORY'', ''o/r''), (''ISSUE_PREFIX'', ''V2-SC''), (''PR_NUMBER'', ''5'')],
     gu_pull = (\<lambda>path. Inr \<lparr>pq_body = Some ''Fixes #7'', pq_headSha = ''abc'', pq_author = ''dev'', pq_draft = False\<rparr>),
     gu_issue = (\<lambda>path. Inr (demo_task ''V2-SC-001 Registry'')), gu_files = (\<lambda>path. Inr [''contracts/A.sol'']), gu_showNumber = (\<lambda>q. ''5'')\<rparr>"


end
