(* ===== verification/ReleaseAudit.thy ===== *)
theory ReleaseAudit
  imports FilePaths
begin

text \<open>
  \<open>scripts/auditReleaseReadiness.ts\<close>: the classification of the contracts and the search for the legacy
  contract in the interfaces. The repository is a directory tree; a path is a list of names from its root.
\<close>

record audit_result =
  au_passed :: bool
  au_legacyCheck :: bool
  au_canonicalCheck :: bool
  au_contractClassification :: "(string \<times> string) list"
  au_issues :: "string list"

definition classification :: "(string \<times> string) list" where
  "classification = [(''ClaimRegistry.sol'', ''CANONICAL''), (''VerificationSubmission.sol'', ''CANONICAL''), (''TruthBounty.sol'', ''CANONICAL''),
     (''TruthBountyClaims.sol'', ''DEPRECATED''), (''TruthBountyWeighted.sol'', ''TRANSITIONAL_NON_CANONICAL''),
     (''WeightedStaking.sol'', ''CANONICAL''), (''EvidenceManager.sol'', ''CANONICAL''), (''ProtocolUpgradeManager.sol'', ''CANONICAL'')]"

text \<open>The issues of one entry of the interface directory; reading a directory throws.\<close>

definition interface_issues :: "fs_entry \<Rightarrow> string list res" where
  "interface_issues entry = (case entry of
     FsFile file content \<Rightarrow> Inr (if includes_str ''TruthBountyClaims'' content
       then [''Legacy contract TruthBountyClaims referenced in interface '' @ file] else [])
   | FsDir file es \<Rightarrow> throw_error ''EISDIR: illegal operation on a directory, read''
   | FsOther file \<Rightarrow> throw_error ''ENOENT: no such file or directory'')"

definition legacy_issues :: "fs_entry \<Rightarrow> string list \<Rightarrow> string list res" where
  "legacy_issues disk interfacesDir = (case fs_lookup disk interfacesDir of
     None \<Rightarrow> Inr []
   | Some (FsDir n entries) \<Rightarrow> res_bind (traverse interface_issues entries) (\<lambda>found. Inr (concat found))
   | Some e \<Rightarrow> throw_error ''ENOTDIR: not a directory, scandir'')"

definition auditReleaseReadiness :: "fs_entry \<Rightarrow> string list \<Rightarrow> audit_result res" where
  "auditReleaseReadiness disk repo = res_bind (legacy_issues disk (repo @ [''contracts'', ''interfaces''])) (\<lambda>issues.
     let legacyCheck = (issues = []); canonicalCheck = True in
     Inr \<lparr>au_passed = (legacyCheck \<and> canonicalCheck \<and> issues = []), au_legacyCheck = legacyCheck, au_canonicalCheck = canonicalCheck,
       au_contractClassification = classification, au_issues = issues\<rparr>)"

definition release_main :: "fs_entry \<Rightarrow> string list \<Rightarrow> nat" where
  "release_main disk repo = (case auditReleaseReadiness disk repo of Inl e \<Rightarrow> 1 | Inr result \<Rightarrow> if au_passed result then 0 else 1)"

section \<open>Properties\<close>

text \<open>The audit passes exactly when the interface directory is missing or holds only files that do not
  mention the legacy contract; nothing outside that directory, in particular none of the classified
  contracts, has any influence.\<close>

theorem release_audit_iff:
  "release_main disk repo = 0 \<longleftrightarrow> fs_lookup disk (repo @ [''contracts'', ''interfaces'']) = None \<or>
     (\<exists>n entries. fs_lookup disk (repo @ [''contracts'', ''interfaces'']) = Some (FsDir n entries) \<and>
       (\<forall>e \<in> set entries. \<exists>file content. e = FsFile file content \<and> \<not> includes_str ''TruthBountyClaims'' content))"
proof -
  have one: "interface_issues e = Inr [] \<longleftrightarrow> (\<exists>file content. e = FsFile file content \<and> \<not> includes_str ''TruthBountyClaims'' content)" for e
    by (cases e) (auto simp: interface_issues_def throw_error_def)
  have all: "(\<exists>found. traverse interface_issues es = Inr found \<and> (\<forall>is \<in> set found. is = [])) \<longleftrightarrow> (\<forall>e \<in> set es. interface_issues e = Inr [])" for es
  proof (induction es)
    case (Cons e es)
    then show ?case by (cases "interface_issues e"; cases "traverse interface_issues es") auto
  qed simp
  have "release_main disk repo = 0 \<longleftrightarrow> legacy_issues disk (repo @ [''contracts'', ''interfaces'']) = Inr []"
    by (auto simp: release_main_def auditReleaseReadiness_def res_bind_def Let_def split: sum.splits)
  then show ?thesis
    by (cases "fs_lookup disk (repo @ [''contracts'', ''interfaces''])"; cases "the (fs_lookup disk (repo @ [''contracts'', ''interfaces'']))")
      (simp_all add: legacy_issues_def res_bind_Inr_iff throw_error_def all one)
qed

definition demo_release :: fs_entry where
  "demo_release = FsDir [] [FsDir ''contracts'' [FsFile ''TruthBounty.sol'' ''import TruthBountyClaims'', FsDir ''interfaces'' [FsFile ''IClaim.sol'' ''interface IClaim {}'']]]"

theorem release_audit_iff_witness: "release_main demo_release [] = 0"
  unfolding release_audit_iff by (simp add: demo_release_def entry_name_def starts_with_def)

end
