(* ===== verification/Spec2Isabelle.thy ===== *)
theory Spec2Isabelle
  imports SbomFile AbiFreeze LayoutUpdate AnalysisReport IndexerProcess IndexerLive Overlap MetaTxController
    Ignition LegacyScripts StakingContract TokenContract ClaimScripts
    EventSchema CoverageGate BoundaryRules InvariantSeeds FuzzCorpus PrGuardian ReleaseAudit
begin

text \<open>
  A verification library for the TypeScript code of the TruthBounty contracts repository: the event
  indexer, the meta-transaction relay, the deployment and operator scripts with the contract code they
  run, and the release and quality gates. The definitions follow the source function by function; the
  theory of a component opens with what it models and what its parameters are.

  \<^bold>\<open>How the program is put together.\<close> Four groups of programs share the repository.

  \<^item> The indexer (\<open>indexer/src\<close>) is one long-running process: \<open>index.ts\<close> reads the environment and builds an
    \<open>Indexer\<close>, which owns a \<open>StorageAdapter\<close>, a \<open>CheckpointManager\<close> and an \<open>EventPipeline\<close> over that storage, and a
    \<open>ProviderManager\<close> that turns socket events into block numbers. Timer and socket callbacks call
    \<open>onNewBlock\<close>; storage and checkpoint are the state they share.
  \<^item> The relay (\<open>meta-tx\<close>) is an HTTP controller over a service, over the contract \<open>MetaTxExample\<close>.
  \<^item> The deployment and operator scripts (\<open>scripts/*.ts\<close>, \<open>ignition/modules\<close>) call contracts; they communicate
    with each other through what is deployed and through address files.
  \<^item> The gates (\<open>scripts/*.ts\<close>, \<open>scripts/*.mjs\<close>, \<open>.github/scripts\<close>) read the repository, reports and the GitHub
    API, and end with an exit code.

  \<^bold>\<open>Foundations.\<close> \<open>JsPrelude\<close>: exceptions as the left side of a sum (\<open>'a res\<close>), fallible state passing
  (\<open>action\<close>, \<open>act_bind\<close>, \<open>preserves\<close>), strings as code units and the string methods in use. \<open>JsNumber\<close>:
  numerals. \<open>JsCollections\<close>: stable sorting, insertion-ordered maps, JSON values. \<open>JsRegex\<close>: a backtracking
  matcher for regular expressions and its declarative meaning (\<open>mt_rm\<close>). \<open>FilePaths\<close>: POSIX paths and directory
  trees. \<open>JsonChecks\<close>: the validators the \<open>.mjs\<close> gates share.

  \<^bold>\<open>Indexer.\<close>
  \<^item> \<open>Storage\<close> (\<open>types.ts\<close>, \<open>storage.ts\<close>): the adapter interface as a locale, interpreted on \<open>InMemoryStorage\<close>.
  \<^item> \<open>Checkpoint\<close> (\<open>checkpoint.ts\<close>): the cached checkpoint in front of the storage.
  \<^item> \<open>Pipeline\<close> (\<open>pipeline.ts\<close>): fetching, decoding, storing, the reorganisation check.
  \<^item> \<open>Provider\<close> (\<open>provider.ts\<close>): a step relation, one rule per callback; bounds on reconnects.
  \<^item> \<open>Indexer\<close> (\<open>indexer.ts\<close>): every method as an action; \<open>sync_outcome\<close> lists all results of a batch.
  \<^item> \<open>IndexerRuns\<close>: sequences of calls; nothing is stored or delivered twice, and the historical sync is
    complete. \<open>IndexerLive\<close>: the checkpoint, and where the live phase departs from its intention.
    \<open>Overlap\<close>: calls that interleave at each \<open>await\<close>; a call run alone refines to the method, two overlapping
    calls may store one log twice.
  \<^item> \<open>IndexerConfig\<close> (\<open>events.ts\<close>, \<open>index.ts\<close>) and \<open>IndexerProcess\<close> (\<open>index.ts\<close>): the configuration, and the process with
    its exit codes as a run of the indexer.

  \<^bold>\<open>Relay.\<close> \<open>MetaTxContract\<close> (\<open>contracts/MetaTxExample.sol\<close>): the contract, no replay over all call sequences.
  \<open>MetaTx\<close> (\<open>meta-tx.service.ts\<close>): the service; its client interface is a locale that the contract model
  provides. \<open>MetaTxController\<close> (\<open>meta-tx.controller.ts\<close>): the handlers, composed with service and contract.

  \<^bold>\<open>Deployment and operation.\<close>
  \<^item> \<open>Chain\<close>: constructors of the deployed contracts, access control as a locale interpreted on role lists.
    \<open>Deployments\<close> (\<open>deployCanonicalV2.ts\<close>): every step, and the wiring after a successful run. \<open>Ignition\<close>
    (\<open>ignition/modules\<close>): the modules as plans of futures, validation, and which of them can run.
    \<open>LegacyScripts\<close> (\<open>deploy-weighted-staking.ts\<close>, \<open>deplot.ts\<close>) and \<open>VerifyScript\<close> (\<open>verify.ts\<close>).
  \<^item> \<open>ResolverTimelock\<close> (\<open>contracts/utils/ResolverRoleTimelock.sol\<close>): the role timelock as a state machine.
    \<open>SlashingDeployment\<close> (\<open>deploySlashing.ts\<close>, parts of \<open>VerifierSlashing.sol\<close>) and
    \<open>StakingContract\<close> (\<open>contracts/staking.sol\<close>) run on it: stakes are covered, and shrink only as authorised.
    \<open>TokenContract\<close> is \<open>TruthBountyToken\<close> of \<open>TruthBounty.sol\<close>; \<open>Deposits\<close> holds what the two share.
  \<^item> \<open>TruthBountyContract\<close> (\<open>contracts/TruthBounty.sol\<close>): claims, votes, settlement, withdrawals over an ERC20 token
    given by a locale. \<open>TruthBountyBooks\<close>: what every reachable state keeps. \<open>ClaimScripts\<close> (\<open>resolveClaim.ts\<close>,
    \<open>claimRewards.ts\<close>, \<open>stake.ts\<close>): the operator scripts against the contracts.

  \<^bold>\<open>Gates.\<close>
  \<^item> \<open>AbiText\<close>, \<open>AbiExport\<close>, \<open>AbiCorrect\<close>, \<open>AbiFreeze\<close> (\<open>exportVersionedAbiArtifacts.ts\<close>): scanners, the bundle, its properties,
    the command line. \<open>EventSchema\<close> (\<open>generate-event-schema.ts\<close>).
  \<^item> \<open>StorageLayout\<close>, \<open>LayoutUpdate\<close> (\<open>validateStorageLayouts.ts\<close>); \<open>Sbom\<close>, \<open>SbomFile\<close> (\<open>generateContractReleaseSbom.ts\<close>);
    \<open>CoverageGate\<close> (\<open>coverage-quality-gate.ts\<close>); \<open>ReleaseAudit\<close> (\<open>auditReleaseReadiness.ts\<close>).
  \<^item> \<open>Boundaries\<close>, \<open>BoundaryText\<close>, \<open>BoundaryRules\<close> (\<open>check-dependency-boundaries.mjs\<close>); \<open>InvariantSeeds\<close>
    (\<open>repro-invariant-seed.mjs\<close>); \<open>FuzzCorpus\<close> (\<open>replay-fuzz-corpus.mjs\<close>); \<open>StaticAnalysis\<close>, \<open>AnalysisReport\<close>
    (\<open>static-analysis-gate.mjs\<close>).
  \<^item> \<open>IssueAudit\<close>, \<open>PrGuardian\<close> (\<open>.github/scripts\<close>).

  \<^bold>\<open>What the lemmas show.\<close> For each stateful component: an invariant over all sequences of operations
  (deduplication, nonces, reconnect bounds, the books of the claim contract, delayed role changes). For each
  gate: its verdict as an equivalence with a condition on the repository in plain terms (names ending in
  \<open>_iff\<close>), and inputs that get past it. For scripts: what a successful run leaves behind, and where it stops.
  Round trips for prepared transfers, replay commands, the ABI freeze and the layout manifest; refinement
  for interleaved calls and for the process of the indexer.

  \<^bold>\<open>Termination and bounds.\<close> Loops with a measure are total functions. A type canonicalisation that recurses
  on a struct is given the depth of the call stack; \<open>canonical_type_total\<close> shows that every depth above the nesting
  of the structs gives the same result. The directory listing of \<open>repro-invariant-seed.mjs\<close> is given the stack
  frames it may use, because it does not end on a tree with a directory; a theorem says that every
  number of frames overflows. The paging loop of the GitHub scripts is a partial function with values in
  \<open>option\<close>, with a theorem for when it ends. Repetition in a regular expression is bounded by the length of the
  subject, which loses no match since an iteration that consumes nothing is not repeated. A task of \<open>Overlap\<close> needs eight
  steps to finish, which is proved. Solidity amounts carry their overflow checks; words of 160, 256 and 32
  bits are used where the code computes with them.

  \<^bold>\<open>Assumptions.\<close> Third-party code is a parameter: the JSON-RPC provider and ABI decoder of \<open>ethers\<close>, Keccak,
  SHA-256, signature recovery, \<open>JSON.parse\<close>, \<open>localeCompare\<close>, OpenZeppelin's \<open>AccessControl\<close>, ERC20 and upgrade checks,
  slither, forge, Hardhat's tasks and the Ignition engine beyond its documented order. Where a proof
  relies on one of them, the law is an assumption of a locale with an interpretation, or a named
  hypothesis with a witness. The provider answers consistently during one call. A code unit is a character
  below 256 (issue bodies are UTF-8 bytes); numbers the code uses as integers are integers, percentages are
  exact rationals. The hash of a timelock operation is taken to be injective. \<open>ISSUE_PREFIX\<close> is taken
  literally inside its regular expression.

  \<^bold>\<open>Not modelled.\<close> Console output, apart from the reports whose content is a claim of the gate; rounding of doubles;
  dashes and pictographs in messages; failing file writes. ERC-2771 sender resolution, events of the
  contracts, reentrancy (the token does not call back), \<open>Claim.id\<close> and the counter of verifier rewards of
  \<open>TruthBounty\<close>, upgrades of the token contract, the genesis parameters of the parameter registry, the offences and penalties of
  \<open>VerifierSlashing\<close>, and the many contracts that no modelled script runs. \<open>upgrade.ts\<close> and \<open>deployUpgradeable.ts\<close> are one
  call of a plugin each (the former with a placeholder for the proxy address), the Hardhat configurations
  are settings; tests, documents and shell scripts are left out.
\<close>

end
